(* ===== verification/Prelude.thy ===== *)
theory Prelude
  imports Main "HOL-Library.Word"
begin

text \<open>
  Prelude of the development: the machine integers of the Rust sources as words, Rust's
  \<open>Result\<close> together with the \<open>?\<close> operator over an explicit state, frame
  reasoning for such computations, and the accumulation \<open>*map.entry(k).or_default() += v\<close>
  on hash maps. Everything here is shared by the component theories.
\<close>

section \<open>Machine integers and byte strings\<close>

type_synonym u8 = "8 word"
type_synonym u64 = "64 word"
type_synonym u128 = "128 word"
type_synonym u256 = "256 word"
type_synonym b256 = "256 word"
type_synonym address = "160 word"
type_synonym bytes = "u8 list"

text \<open>
  \<open>U256::saturating_to::<u64>()\<close>: the value when it fits, the largest value otherwise.
  Plain \<open>+\<close>, \<open>-\<close> and \<open>*\<close> of the sources are the word operations: the workspace sets
  no \<open>overflow-checks\<close>, so a release build wraps. Lemmas state where no wrap occurs.
\<close>

definition saturating_to_u64 :: "u256 \<Rightarrow> u64" where
  "saturating_to_u64 x = (if uint x < 2 ^ 64 then word_of_int (uint x) else - 1)"

definition saturating_sub :: "('a::len) word \<Rightarrow> 'a word \<Rightarrow> 'a word" where
  "saturating_sub a b = (if b \<le> a then a - b else 0)"

lemma saturating_to_u64_fits:
  assumes "uint x < 2 ^ 64"
  shows "uint (saturating_to_u64 x) = uint x"
proof -
  have "uint (word_of_int (uint x) :: u64) = uint x"
    using assms by (simp add: unsigned_ucast_eq take_bit_int_eq_self)
  then show ?thesis
    using assms by (simp add: saturating_to_u64_def)
qed

lemma saturating_to_u64_zero [simp]: "saturating_to_u64 0 = 0"
  by (simp add: saturating_to_u64_def)

lemma saturating_to_u64_max: "\<not> uint x < 2 ^ 64 \<Longrightarrow> saturating_to_u64 x = - 1"
  by (simp add: saturating_to_u64_def)

lemma saturating_to_u64_eq_0: "saturating_to_u64 x = 0 \<longleftrightarrow> x = 0"
proof (cases "uint x < 2 ^ 64")
  case True
  then show ?thesis
    using saturating_to_u64_fits [OF True] by (metis uint_0_iff)
next
  case False
  then have "x \<noteq> 0" by auto
  then show ?thesis
    using False by (simp add: saturating_to_u64_max)
qed

lemma u64_sub_no_wrap:
  fixes a b :: u64
  assumes "b \<le> a"
  shows "unat (a - b) = unat a - unat b"
  using assms by (rule unat_sub)

lemma u64_add_no_wrap:
  fixes a b c :: u64
  assumes "b \<le> c" "a \<le> c - b"
  shows "unat (b + a) = unat b + unat a" and "b + a \<le> c"
proof -
  have le: "unat b + unat a \<le> unat c"
    using assms by (simp add: word_le_nat_alt unat_sub)
  moreover have "unat c < 2 ^ 64"
    using unsigned_less [of c] by simp
  ultimately have "unat b + unat a < 2 ^ 64" by simp
  then show sum: "unat (b + a) = unat b + unat a"
    by (simp add: unat_add_lem [THEN iffD1])
  with le show "b + a \<le> c" by (simp add: word_le_nat_alt)
qed

lemma u64_sub_wraps:
  fixes a b :: u64
  assumes "a < b"
  shows "unat (a - b) = 2 ^ 64 - (unat b - unat a)"
proof -
  have le: "unat a < unat b" using assms by (simp add: word_less_nat_alt)
  have "unat b < 2 ^ 64" using unsigned_less [of b] by simp
  then show ?thesis
    using le by (simp add: unat_sub_if_size word_size word_le_nat_alt)
qed

section \<open>Results, panics and the question-mark operator\<close>

text \<open>
  A \<open>&mut self\<close> method that returns \<open>Result<T, E>\<close> is a function from the state to a
  sum (\<open>Inl\<close> the error, \<open>Inr\<close> the value) and the state it leaves, which persists when the
  method returns an error. A method that may also panic has errors in \<open>'e abort\<close>.
\<close>

type_synonym ('s, 'e, 'a) step = "'s \<Rightarrow> ('e + 'a) \<times> 's"

datatype 'e abort = Error 'e | Panic

definition ret :: "'a \<Rightarrow> ('s, 'e, 'a) step" where
  "ret x s = (Inr x, s)"

definition fail :: "'e \<Rightarrow> ('s, 'e, 'a) step" where
  "fail e s = (Inl e, s)"

text \<open>\<open>let x = m?; k(x)\<close>\<close>

definition try_bind :: "('s, 'e, 'a) step \<Rightarrow> ('a \<Rightarrow> ('s, 'e, 'b) step) \<Rightarrow> ('s, 'e, 'b) step" where
  "try_bind m k s = (case m s of (Inl e, s') \<Rightarrow> (Inl e, s') | (Inr x, s') \<Rightarrow> k x s')"

definition map_err :: "('e \<Rightarrow> 'f) \<Rightarrow> ('s, 'e, 'a) step \<Rightarrow> ('s, 'f, 'a) step" where
  "map_err f m s = (case m s of (Inl e, s') \<Rightarrow> (Inl (f e), s') | (Inr x, s') \<Rightarrow> (Inr x, s'))"

definition map_ok :: "('a \<Rightarrow> 'b) \<Rightarrow> ('s, 'e, 'a) step \<Rightarrow> ('s, 'e, 'b) step" where
  "map_ok f m s = (case m s of (Inl e, s') \<Rightarrow> (Inl e, s') | (Inr x, s') \<Rightarrow> (Inr (f x), s'))"

text \<open>A pure state change in the middle of a method body.\<close>

definition modify :: "('s \<Rightarrow> 's) \<Rightarrow> ('s, 'e, unit) step" where
  "modify f s = (Inr (), f s)"

text \<open>Reading the state in the middle of a method body.\<close>

definition with_state :: "('s \<Rightarrow> ('s, 'e, 'a) step) \<Rightarrow> ('s, 'e, 'a) step" where
  "with_state m s = m s s"

text \<open>Running a method on a part of the state reached by a getter and a setter.\<close>

definition zoom :: "('s \<Rightarrow> 't) \<Rightarrow> ('t \<Rightarrow> 's \<Rightarrow> 's) \<Rightarrow> ('t, 'e, 'a) step \<Rightarrow> ('s, 'e, 'a) step" where
  "zoom get put m s = (case m (get s) of (r, t) \<Rightarrow> (r, put t s))"

text \<open>A fallible loop over an iterator: \<open>for x in xs { body(x)?; }\<close>, keeping the results.\<close>

fun try_each :: "('x \<Rightarrow> ('s, 'e, 'a) step) \<Rightarrow> 'x list \<Rightarrow> ('s, 'e, 'a list) step" where
  "try_each body [] s = (Inr [], s)"
| "try_each body (x # xs) s =
     (case body x s of
        (Inl e, s') \<Rightarrow> (Inl e, s')
      | (Inr y, s') \<Rightarrow>
          (case try_each body xs s' of
             (Inl e, s'') \<Rightarrow> (Inl e, s'')
           | (Inr ys, s'') \<Rightarrow> (Inr (y # ys), s'')))"

named_theorems step_defs \<open>the combinators of methods that return a result\<close>

declare ret_def [step_defs] fail_def [step_defs] try_bind_def [step_defs]
  map_err_def [step_defs] map_ok_def [step_defs] modify_def [step_defs] zoom_def [step_defs]
  with_state_def [step_defs]

lemma try_bind_Inr:
  "try_bind m k s = (Inr y, t) \<longleftrightarrow> (\<exists>x s'. m s = (Inr x, s') \<and> k x s' = (Inr y, t))"
  by (auto simp: try_bind_def split: prod.splits sum.splits)

lemma try_bind_Inl:
  "try_bind m k s = (Inl e, t) \<longleftrightarrow>
     m s = (Inl e, t) \<or> (\<exists>x s'. m s = (Inr x, s') \<and> k x s' = (Inl e, t))"
  by (auto simp: try_bind_def split: prod.splits sum.splits)

lemma map_err_Inr [simp]: "map_err f m s = (Inr x, t) \<longleftrightarrow> m s = (Inr x, t)"
  by (auto simp: map_err_def split: prod.splits sum.splits)

lemma map_err_Inl: "map_err f m s = (Inl e, t) \<longleftrightarrow> (\<exists>e'. m s = (Inl e', t) \<and> e = f e')"
  by (auto simp: map_err_def split: prod.splits sum.splits)

lemma map_ok_Inr: "map_ok f m s = (Inr y, t) \<longleftrightarrow> (\<exists>x. m s = (Inr x, t) \<and> y = f x)"
  by (auto simp: map_ok_def split: prod.splits sum.splits)

lemma map_ok_Inl [simp]: "map_ok f m s = (Inl e, t) \<longleftrightarrow> m s = (Inl e, t)"
  by (auto simp: map_ok_def split: prod.splits sum.splits)

lemma try_bind_ret [simp]: "try_bind (ret x) k = k x"
  by (rule ext) (simp add: try_bind_def ret_def)

lemma try_bind_assoc: "try_bind (try_bind m k) h = try_bind m (\<lambda>x. try_bind (k x) h)"
  by (rule ext) (simp add: try_bind_def split: prod.splits sum.splits)

lemma try_each_Nil_iff [simp]: "try_each body [] s = (r, t) \<longleftrightarrow> r = Inr [] \<and> t = s"
  by auto

lemma try_each_Cons_Inr:
  "try_each body (x # xs) s = (Inr zs, t) \<longleftrightarrow>
     (\<exists>y s' ys. body x s = (Inr y, s') \<and> try_each body xs s' = (Inr ys, t) \<and> zs = y # ys)"
  by (auto split: prod.splits sum.splits)

lemma try_each_append:
  "try_each body (xs @ ys) s =
     (case try_each body xs s of
        (Inl e, t) \<Rightarrow> (Inl e, t)
      | (Inr as, t) \<Rightarrow> (case try_each body ys t of (Inl e, u) \<Rightarrow> (Inl e, u) | (Inr bs, u) \<Rightarrow> (Inr (as @ bs), u)))"
  by (induction xs arbitrary: s) (auto split: prod.splits sum.splits)

lemma try_each_length: "try_each body xs s = (Inr ys, t) \<Longrightarrow> length ys = length xs"
  by (induction xs arbitrary: s ys) (auto split: prod.splits sum.splits)

lemma try_each_Inl:
  assumes "try_each body xs s = (Inl e, t)"
  shows "\<exists>ys x zs rs u. xs = ys @ x # zs \<and> try_each body ys s = (Inr rs, u) \<and> body x u = (Inl e, t)"
  using assms
proof (induction xs arbitrary: s)
  case Nil
  then show ?case by simp
next
  case (Cons x xs)
  show ?case
  proof (cases "body x s")
    case (Pair r u)
    show ?thesis
    proof (cases r)
      case (Inl e')
      then show ?thesis
        using Cons.prems Pair by (intro exI [of _ "[]"]) auto
    next
      case (Inr y)
      then have "try_each body xs u = (Inl e, t)"
        using Cons.prems Pair by (auto split: prod.splits sum.splits)
      from Cons.IH [OF this] obtain ys x' zs rs v where
        "xs = ys @ x' # zs" "try_each body ys u = (Inr rs, v)" "body x' v = (Inl e, t)"
        by blast
      then show ?thesis
        using Pair Inr by (intro exI [of _ "x # ys"] exI [of _ x'] exI [of _ zs] exI [of _ "y # rs"]) auto
    qed
  qed
qed

lemma try_each_all:
  assumes "try_each body xs s = (Inr ys, t)"
  shows "list_all2 (\<lambda>x y. \<exists>u u'. body x u = (Inr y, u')) xs ys"
  using assms
  by (induction xs arbitrary: s ys) (auto simp: try_each_Cons_Inr simp del: try_each.simps(2))

lemma try_each_fold: "try_each body xs s = (Inr ys, t) \<Longrightarrow> t = fold (\<lambda>x s. snd (body x s)) xs s"
proof (induction xs arbitrary: s ys)
  case Nil
  then show ?case by simp
next
  case (Cons x xs)
  from Cons.prems obtain y u zs where "body x s = (Inr y, u)" "try_each body xs u = (Inr zs, t)"
    unfolding try_each_Cons_Inr by blast
  then show ?case using Cons.IH by simp
qed

lemma list_all2_left: "list_all2 P xs ys \<Longrightarrow> x \<in> set xs \<Longrightarrow> \<exists>y \<in> set ys. P x y"
  by (induction rule: list_all2_induct) auto

lemma list_all2_right: "list_all2 P xs ys \<Longrightarrow> y \<in> set ys \<Longrightarrow> \<exists>x \<in> set xs. P x y"
  by (induction rule: list_all2_induct) auto

section \<open>Frames: what a method leaves unchanged\<close>

definition keeps :: "('s \<Rightarrow> 'v) \<Rightarrow> ('s, 'e, 'a) step \<Rightarrow> bool" where
  "keeps v m \<longleftrightarrow> (\<forall>s. v (snd (m s)) = v s)"

named_theorems frame \<open>frame rules: methods that keep an observation of the state\<close>

lemma keepsD: "keeps v m \<Longrightarrow> m s = (r, t) \<Longrightarrow> v t = v s"
  unfolding keeps_def by (metis snd_conv)

lemma keepsI: "(\<And>s r t. m s = (r, t) \<Longrightarrow> v t = v s) \<Longrightarrow> keeps v m"
  by (simp add: keeps_def) (metis prod.collapse)

lemma keeps_ret [frame]: "keeps v (ret x)"
  by (simp add: keeps_def ret_def)

lemma keeps_fail [frame]: "keeps v (fail e)"
  by (simp add: keeps_def fail_def)

lemma keeps_try_bind [frame]:
  assumes "keeps v m" "\<And>x. keeps v (k x)"
  shows "keeps v (try_bind m k)"
proof (rule keepsI)
  fix s r t
  assume "try_bind m k s = (r, t)"
  then show "v t = v s"
    using keepsD [OF assms(1)] keepsD [OF assms(2)]
    by (fastforce simp: try_bind_def split: prod.splits sum.splits)
qed

lemma keeps_map_err [frame]: "keeps v m \<Longrightarrow> keeps v (map_err f m)"
  by (auto simp: keeps_def map_err_def split: prod.splits sum.splits) (metis snd_conv)+

lemma keeps_map_ok [frame]: "keeps v m \<Longrightarrow> keeps v (map_ok f m)"
  by (auto simp: keeps_def map_ok_def split: prod.splits sum.splits) (metis snd_conv)+

lemma keeps_modify [frame]: "(\<And>s. v (f s) = v s) \<Longrightarrow> keeps v (modify f)"
  by (simp add: keeps_def modify_def)

lemma keeps_with_state [frame]: "(\<And>y. keeps v (m y)) \<Longrightarrow> keeps v (with_state m)"
  by (simp add: keeps_def with_state_def)

lemma keeps_zoom [frame]: "(\<And>t s. v (put t s) = v s) \<Longrightarrow> keeps v (zoom get put m)"
  by (simp add: keeps_def zoom_def split: prod.splits)

lemma keeps_if [frame]: "keeps v m \<Longrightarrow> keeps v n \<Longrightarrow> keeps v (if b then m else n)"
  by simp

lemma keeps_try_each [frame]:
  assumes "\<And>x. keeps v (body x)"
  shows "keeps v (try_each body xs)"
proof (rule keepsI)
  fix s r t
  show "try_each body xs s = (r, t) \<Longrightarrow> v t = v s"
  proof (induction xs arbitrary: s r)
    case Nil
    then show ?case by simp
  next
    case (Cons x xs)
    then show ?case
      by (fastforce split: prod.splits sum.splits dest: keepsD [OF assms])
  qed
qed

section \<open>Hash maps with accumulated values\<close>

text \<open>\<open>*map.entry(k).or_default() += v\<close> on a map of \<open>u128\<close> values.\<close>

definition entry_add :: "address \<Rightarrow> u128 \<Rightarrow> (address \<rightharpoonup> u128) \<Rightarrow> (address \<rightharpoonup> u128)" where
  "entry_add k v m = m(k \<mapsto> (case m k of None \<Rightarrow> 0 | Some x \<Rightarrow> x) + v)"

text \<open>What a map of increments adds to an address: 0 where it has no entry.\<close>

definition increment_of :: "(address \<rightharpoonup> u128) \<Rightarrow> address \<Rightarrow> u128" where
  "increment_of m k = (case m k of None \<Rightarrow> 0 | Some x \<Rightarrow> x)"

lemma increment_of_empty [simp]: "increment_of Map.empty k = 0"
  by (simp add: increment_of_def)

lemma increment_of_entry_add [simp]:
  "increment_of (entry_add k v m) a = increment_of m a + (if a = k then v else 0)"
  by (simp add: increment_of_def entry_add_def)

lemma dom_entry_add [simp]: "dom (entry_add k v m) = insert k (dom m)"
  by (simp add: entry_add_def)

lemma fold_entry_add:
  "increment_of (fold (\<lambda>x. entry_add (key x) (val x)) xs m) a =
     increment_of m a + sum_list (map val (filter (\<lambda>x. key x = a) xs))"
  by (induction xs arbitrary: m) (auto simp: algebra_simps)

lemma dom_fold_entry_add:
  "dom (fold (\<lambda>x. entry_add (key x) (val x)) xs m) = key ` set xs \<union> dom m"
  by (induction xs arbitrary: m) auto

section \<open>Iterating over hash maps\<close>

text \<open>
  Iteration over a \<open>HashMap\<close> visits every entry exactly once, in an order the standard library
  leaves open. Code that iterates takes the order as a parameter: a function from a map to the
  list of its entries, with this law.
\<close>

definition iterates :: "(('k \<rightharpoonup> 'v) \<Rightarrow> ('k \<times> 'v) list) \<Rightarrow> ('k \<rightharpoonup> 'v) \<Rightarrow> bool" where
  "iterates iter m \<longleftrightarrow> distinct (map fst (iter m)) \<and> map_of (iter m) = m"

text \<open>An iteration order that is right for every finite map.\<close>

definition hash_iter :: "(('k \<rightharpoonup> 'v) \<Rightarrow> ('k \<times> 'v) list) \<Rightarrow> bool" where
  "hash_iter iter \<longleftrightarrow> (\<forall>m. finite (dom m) \<longrightarrow> iterates iter m)"

lemma hash_iterD: "hash_iter iter \<Longrightarrow> finite (dom m) \<Longrightarrow> iterates iter m"
  by (simp add: hash_iter_def)

lemma iterates_finite: "iterates iter m \<Longrightarrow> finite (dom m)"
  unfolding iterates_def by (metis finite_dom_map_of)

lemma iterates_set:
  assumes "iterates iter m"
  shows "(k, v) \<in> set (iter m) \<longleftrightarrow> m k = Some v"
  using assms unfolding iterates_def by (metis map_of_eq_Some_iff)

text \<open>Inserting the transformed entries of an iteration one by one gives the transformed map.\<close>

lemma fold_map_upd:
  assumes "distinct (map fst xs)"
  shows "fold (\<lambda>(k, v) acc. acc(k \<mapsto> g k v)) xs acc =
    (\<lambda>k. case map_of xs k of Some v \<Rightarrow> Some (g k v) | None \<Rightarrow> acc k)"
  using assms
proof (induction xs arbitrary: acc)
  case Nil
  then show ?case by simp
next
  case (Cons x xs)
  obtain k v where x: "x = (k, v)" by (cases x)
  from Cons.prems have "k \<notin> fst ` set xs" and d: "distinct (map fst xs)"
    by (auto simp: x)
  then have "map_of xs k = None"
    by (simp add: map_of_eq_None_iff)
  then show ?case
    unfolding x fold.simps o_apply case_prod_conv Cons.IH [OF d]
    by (auto simp: fun_eq_iff split: option.splits)
qed

lemma fold_insert_fst: "fold (\<lambda>(k, v). insert k) xs S = fst ` set xs \<union> S"
  by (induction xs arbitrary: S) auto

text \<open>An iteration order for maps over words: ascending keys.\<close>

definition ascending :: "(('a::len) word \<rightharpoonup> 'v) \<Rightarrow> ('a word \<times> 'v) list" where
  "ascending m = map (\<lambda>k. (k, the (m k))) (sorted_list_of_set (dom m))"

lemma ascending_iterates: "finite (dom m) \<Longrightarrow> iterates ascending m"
  unfolding iterates_def ascending_def
  by (auto simp: o_def map_of_map_restrict restrict_map_def fun_eq_iff) (metis not_Some_eq)

lemma hash_iter_ascending: "hash_iter ascending"
  by (simp add: hash_iter_def ascending_iterates)

end
