(* ===== verification/EvmTypes.thy ===== *)
theory EvmTypes
  imports Prelude
begin

text \<open>
  The data that the components exchange, and \<open>crates/evm/src/env.rs\<close>. The records for types of
  revm and alloy (\<open>BlockEnv\<close>, \<open>CfgEnv\<close>, \<open>TxEnv\<close>, \<open>Account\<close>, \<open>ExecutionResult\<close>, \<open>Log\<close>, headers and
  withdrawals) carry the fields that the sources of this repository read, write or construct;
  they give data its shape and contain no behaviour. Operations of those libraries are
  parameters of the definitions that use them.
\<close>

section \<open>Block, configuration and transaction environments\<close>

record block_env =
  be_number :: u256
  be_beneficiary :: address
  be_timestamp :: u256
  be_gas_limit :: u64
  be_basefee :: u64
  be_difficulty :: u256
  be_prevrandao :: "b256 option"

record 'spec cfg_env =
  cfg_chain_id :: u64
  cfg_spec :: 'spec
  cfg_disable_nonce_check :: bool

datatype tx_kind = Create | Call address

type_synonym access_list = "(address \<times> b256 list) list"

text \<open>EIP-7702 authorizations: the signed tuple, and the tuple with its recovered authority.\<close>

record authorization =
  au_chain_id :: u256
  au_address :: address
  au_nonce :: u64

record signed_authorization =
  sa_inner :: authorization
  sa_y_parity :: u8
  sa_r :: u256
  sa_s :: u256

datatype recovered_authority = Valid address | Invalid

datatype recovered_authorization = RecoveredAuthorization authorization recovered_authority

record tx_env =
  te_tx_type :: u8
  te_caller :: address
  te_gas_limit :: u64
  te_gas_price :: u128
  te_kind :: tx_kind
  te_value :: u256
  te_data :: bytes
  te_nonce :: u64
  te_chain_id :: "u64 option"
  te_access_list :: access_list
  te_gas_priority_fee :: "u128 option"
  te_blob_hashes :: "b256 list"
  te_max_fee_per_blob_gas :: u128
  te_authorization_list :: "(signed_authorization + recovered_authorization) list"

section \<open>Accounts and changesets\<close>

text \<open>Account status is a set of flags (the bitflags of revm).\<close>

datatype status_flag = Created | SelfDestructed | Touched

datatype bytecode = Bytecode bytes

record account_info =
  ai_balance :: u256
  ai_nonce :: u64
  ai_code_hash :: b256
  ai_code :: "bytecode option"

text \<open>Storage values carry the confidentiality flag of the Seismic chain.\<close>

record flagged_storage =
  fs_value :: u256
  fs_is_private :: bool

record evm_storage_slot =
  ss_original_value :: flagged_storage
  ss_present_value :: flagged_storage
  ss_is_cold :: bool
  ss_transaction_id :: u64

record account =
  acc_info :: account_info
  acc_storage :: "u256 \<rightharpoonup> evm_storage_slot"
  acc_status :: "status_flag set"
  acc_transaction_id :: u64

text \<open>\<open>EvmState\<close>: the changeset of a transaction, \<open>HashMap<Address, Account>\<close>.\<close>

type_synonym evm_state = "address \<rightharpoonup> account"

section \<open>Execution results, logs, headers\<close>

record log =
  log_address :: address
  log_topics :: "b256 list"
  log_data :: bytes

text \<open>
  \<open>ExecutionResult\<close>: the three outcomes the sources match on. \<open>er_gas_used\<close> and \<open>er_logs\<close> are
  what \<open>gas_used()\<close> and \<open>into_logs()\<close> return; no constraint is put on them.
\<close>

datatype 'halt execution_result =
    Success (er_gas_used: u64) (er_logs: "log list") (er_output: bytes)
  | Revert (er_gas_used: u64) (er_logs: "log list") (er_output: bytes)
  | Halt (er_gas_used: u64) (er_logs: "log list") (er_reason: 'halt)

definition er_is_success :: "'halt execution_result \<Rightarrow> bool" where
  "er_is_success r = (case r of Success _ _ _ \<Rightarrow> True | _ \<Rightarrow> False)"

record 'halt result_and_state =
  rs_result :: "'halt execution_result"
  rs_state :: evm_state

record header =
  hd_beneficiary :: address
  hd_number :: u64
  hd_parent_hash :: b256
  hd_parent_beacon_block_root :: "b256 option"

record withdrawal =
  wd_address :: address
  wd_amount :: u64

section \<open>env.rs\<close>

record 'spec evm_env =
  ee_cfg_env :: "'spec cfg_env"
  ee_block_env :: block_env

definition evm_env_new :: "'spec cfg_env \<Rightarrow> block_env \<Rightarrow> 'spec evm_env" where
  "evm_env_new cfg block = \<lparr>ee_cfg_env = cfg, ee_block_env = block\<rparr>"

definition chainid :: "'spec evm_env \<Rightarrow> u64" where
  "chainid e = cfg_chain_id (ee_cfg_env e)"

definition spec_id :: "'spec evm_env \<Rightarrow> 'spec" where
  "spec_id e = cfg_spec (ee_cfg_env e)"

definition with_block_number :: "u256 \<Rightarrow> 'spec evm_env \<Rightarrow> 'spec evm_env" where
  "with_block_number n e = e\<lparr>ee_block_env := (ee_block_env e)\<lparr>be_number := n\<rparr>\<rparr>"

definition with_block_number_opt :: "u256 option \<Rightarrow> 'spec evm_env \<Rightarrow> 'spec evm_env" where
  "with_block_number_opt n e =
     (case n of Some x \<Rightarrow> e\<lparr>ee_block_env := (ee_block_env e)\<lparr>be_number := x\<rparr>\<rparr> | None \<Rightarrow> e)"

definition set_block_number_opt :: "u256 option \<Rightarrow> 'spec evm_env \<Rightarrow> 'spec evm_env" where
  "set_block_number_opt n e =
     (case n of Some x \<Rightarrow> e\<lparr>ee_block_env := (ee_block_env e)\<lparr>be_number := x\<rparr>\<rparr> | None \<Rightarrow> e)"

definition with_timestamp :: "u256 \<Rightarrow> 'spec evm_env \<Rightarrow> 'spec evm_env" where
  "with_timestamp t e = e\<lparr>ee_block_env := (ee_block_env e)\<lparr>be_timestamp := t\<rparr>\<rparr>"

definition with_timestamp_opt :: "u256 option \<Rightarrow> 'spec evm_env \<Rightarrow> 'spec evm_env" where
  "with_timestamp_opt t e =
     (case t of Some x \<Rightarrow> e\<lparr>ee_block_env := (ee_block_env e)\<lparr>be_timestamp := x\<rparr>\<rparr> | None \<Rightarrow> e)"

definition set_timestamp_opt :: "u256 option \<Rightarrow> 'spec evm_env \<Rightarrow> 'spec evm_env" where
  "set_timestamp_opt t e =
     (case t of Some x \<Rightarrow> e\<lparr>ee_block_env := (ee_block_env e)\<lparr>be_timestamp := x\<rparr>\<rparr> | None \<Rightarrow> e)"

definition with_base_fee :: "u64 \<Rightarrow> 'spec evm_env \<Rightarrow> 'spec evm_env" where
  "with_base_fee f e = e\<lparr>ee_block_env := (ee_block_env e)\<lparr>be_basefee := f\<rparr>\<rparr>"

definition with_base_fee_opt :: "u64 option \<Rightarrow> 'spec evm_env \<Rightarrow> 'spec evm_env" where
  "with_base_fee_opt f e =
     (case f of Some x \<Rightarrow> e\<lparr>ee_block_env := (ee_block_env e)\<lparr>be_basefee := x\<rparr>\<rparr> | None \<Rightarrow> e)"

definition set_base_fee_opt :: "u64 option \<Rightarrow> 'spec evm_env \<Rightarrow> 'spec evm_env" where
  "set_base_fee_opt f e =
     (case f of Some x \<Rightarrow> e\<lparr>ee_block_env := (ee_block_env e)\<lparr>be_basefee := x\<rparr>\<rparr> | None \<Rightarrow> e)"

named_theorems env_defs \<open>the operations of env.rs\<close>

declare evm_env_new_def [env_defs] chainid_def [env_defs] spec_id_def [env_defs]
  with_block_number_def [env_defs] with_block_number_opt_def [env_defs]
  set_block_number_opt_def [env_defs] with_timestamp_def [env_defs]
  with_timestamp_opt_def [env_defs] set_timestamp_opt_def [env_defs]
  with_base_fee_def [env_defs] with_base_fee_opt_def [env_defs] set_base_fee_opt_def [env_defs]

text \<open>Every override leaves the configuration, hence chain id and spec, alone.\<close>

lemma env_overrides_keep_cfg [simp]:
  "ee_cfg_env (with_block_number_opt n e) = ee_cfg_env e"
  "ee_cfg_env (with_timestamp_opt t e) = ee_cfg_env e"
  "ee_cfg_env (with_base_fee_opt f e) = ee_cfg_env e"
  by (simp_all add: env_defs split: option.splits)

text \<open>The builder, the in-place setter and the unconditional override agree.\<close>

lemma env_setters_agree:
  "set_block_number_opt n = with_block_number_opt n"
  "set_timestamp_opt t = with_timestamp_opt t"
  "set_base_fee_opt f = with_base_fee_opt f"
  by (simp_all add: env_defs fun_eq_iff)

lemma env_opt_Some:
  "with_block_number_opt (Some n) = with_block_number n"
  "with_timestamp_opt (Some t) = with_timestamp t"
  "with_base_fee_opt (Some f) = with_base_fee f"
  by (simp_all add: env_defs fun_eq_iff)

end
