(* ===== verification/ErrorModel.thy ===== *)
theory ErrorModel
  imports EvmTypes
begin

text \<open>
  Errors: \<open>crates/evm/src/error.rs\<close> (errors of an EVM, and which of them are invalid
  transactions) and \<open>crates/evm/src/block/error.rs\<close> (errors of block execution). Boxed
  \<open>dyn Error\<close> values are values of a type parameter; downcasting one is a partial projection
  given as an argument.
\<close>

section \<open>error.rs\<close>

text \<open>
  \<open>InvalidTransaction\<close> of revm: the variant the sources single out, and the rest. \<open>EVMError\<close>
  likewise: \<open>Transaction(err)\<close>, and the variants the sources match with a wildcard.
\<close>

datatype 'i invalid_transaction = NonceTooLow | OtherInvalid 'i

datatype ('i, 'o) op_transaction_error = Base "'i invalid_transaction" | OpOther 'o

datatype ('inv, 'rest) evm_error = TransactionError 'inv | OtherEvmError 'rest

text \<open>The trait \<open>InvalidTxError\<close> as a dictionary, and its two implementations.\<close>

record ('e, 'i) invalid_tx_error =
  is_nonce_too_low :: "'e \<Rightarrow> bool"
  ite_as_invalid_tx_err :: "'e \<Rightarrow> 'i invalid_transaction option"

definition invalid_transaction_dict :: "('i invalid_transaction, 'i) invalid_tx_error" where
  "invalid_transaction_dict =
     \<lparr>is_nonce_too_low = (\<lambda>e. case e of NonceTooLow \<Rightarrow> True | _ \<Rightarrow> False),
      ite_as_invalid_tx_err = Some\<rparr>"

definition op_transaction_error_dict :: "(('i, 'o) op_transaction_error, 'i) invalid_tx_error" where
  "op_transaction_error_dict =
     \<lparr>is_nonce_too_low =
        (\<lambda>e. case e of Base tx \<Rightarrow> is_nonce_too_low invalid_transaction_dict tx | _ \<Rightarrow> False),
      ite_as_invalid_tx_err = (\<lambda>e. case e of Base tx \<Rightarrow> Some tx | _ \<Rightarrow> None)\<rparr>"

text \<open>The trait \<open>EvmError\<close>, implemented for \<open>EVMError\<close>.\<close>

definition as_invalid_tx_err :: "('inv, 'rest) evm_error \<Rightarrow> 'inv option" where
  "as_invalid_tx_err e = (case e of TransactionError err \<Rightarrow> Some err | _ \<Rightarrow> None)"

definition try_into_invalid_tx_err ::
    "('inv, 'rest) evm_error \<Rightarrow> ('inv, 'rest) evm_error + 'inv" where
  "try_into_invalid_tx_err e = (case e of TransactionError err \<Rightarrow> Inr err | err \<Rightarrow> Inl err)"

definition is_invalid_tx_err :: "('inv, 'rest) evm_error \<Rightarrow> bool" where
  "is_invalid_tx_err e \<longleftrightarrow> as_invalid_tx_err e \<noteq> None"

section \<open>block/error.rs\<close>

datatype 'inv block_validation_error =
    InvalidTx b256 'inv
  | IncrementBalanceFailed
  | TransactionGasLimitMoreThanAvailableBlockGas u64 u64
  | MissingParentBeaconBlockRoot
  | CancunGenesisParentBeaconBlockRootNotZero b256
  | BeaconRootContractCall b256 string
  | BlockHashContractCall string
  | WithdrawalRequestsContractCall string
  | ConsolidationRequestsContractCall string
  | DepositRequestDecode string

text \<open>\<open>Box<dyn Error>\<close>: a boxed error value, or a message turned into an error.\<close>

datatype 'o boxed = Boxed 'o | Message string

datatype ('err, 'dec, 'o) internal_block_execution_error =
    EVM b256 'err
  | FailedToDecryptSeismicTx 'dec
  | Other "'o boxed"

datatype ('inv, 'rest, 'dec, 'o) block_execution_error =
    Validation "'inv block_validation_error"
  | Internal "(('inv, 'rest) evm_error, 'dec, 'o) internal_block_execution_error"

definition ibee_other :: "'o \<Rightarrow> ('err, 'dec, 'o) internal_block_execution_error" where
  "ibee_other e = Other (Boxed e)"

definition ibee_msg :: "string \<Rightarrow> ('err, 'dec, 'o) internal_block_execution_error" where
  "ibee_msg m = Other (Message m)"

definition as_other :: "('err, 'dec, 'o) internal_block_execution_error \<Rightarrow> 'o boxed option" where
  "as_other e = (case e of Other err \<Rightarrow> Some err | _ \<Rightarrow> None)"

definition downcast ::
    "('o boxed \<Rightarrow> 't option) \<Rightarrow> ('err, 'dec, 'o) internal_block_execution_error
      \<Rightarrow> ('err, 'dec, 'o) internal_block_execution_error + 't" where
  "downcast cast e =
     (case e of
        Other err \<Rightarrow> (case cast err of Some t \<Rightarrow> Inr t | None \<Rightarrow> Inl (Other err))
      | err \<Rightarrow> Inl err)"

definition downcast_other ::
    "('o boxed \<Rightarrow> 't option) \<Rightarrow> ('err, 'dec, 'o) internal_block_execution_error \<Rightarrow> 't option" where
  "downcast_other cast e = (case as_other e of None \<Rightarrow> None | Some other \<Rightarrow> cast other)"

definition is_other ::
    "('o boxed \<Rightarrow> 't option) \<Rightarrow> ('err, 'dec, 'o) internal_block_execution_error \<Rightarrow> bool" where
  "is_other cast e =
     (case map_option (\<lambda>err. cast err \<noteq> None) (as_other e) of Some b \<Rightarrow> b | None \<Rightarrow> False)"

definition bee_other :: "'o \<Rightarrow> ('inv, 'rest, 'dec, 'o) block_execution_error" where
  "bee_other e = Internal (ibee_other e)"

definition bee_msg :: "string \<Rightarrow> ('inv, 'rest, 'dec, 'o) block_execution_error" where
  "bee_msg m = Internal (ibee_msg m)"

definition as_validation ::
    "('inv, 'rest, 'dec, 'o) block_execution_error \<Rightarrow> 'inv block_validation_error option" where
  "as_validation e = (case e of Validation err \<Rightarrow> Some err | _ \<Rightarrow> None)"

text \<open>\<open>BlockExecutionError::evm\<close>: what becomes of an error of the EVM.\<close>

definition bee_evm ::
    "('inv, 'rest) evm_error \<Rightarrow> b256 \<Rightarrow> ('inv, 'rest, 'dec, 'o) block_execution_error" where
  "bee_evm error hash =
     (case try_into_invalid_tx_err error of
        Inr err \<Rightarrow> Validation (InvalidTx hash err)
      | Inl err \<Rightarrow> Internal (EVM hash err))"

named_theorems error_defs \<open>the operations on errors\<close>

declare as_invalid_tx_err_def [error_defs] try_into_invalid_tx_err_def [error_defs]
  is_invalid_tx_err_def [error_defs] ibee_other_def [error_defs] ibee_msg_def [error_defs]
  as_other_def [error_defs] downcast_def [error_defs] downcast_other_def [error_defs]
  is_other_def [error_defs] bee_other_def [error_defs] bee_msg_def [error_defs]
  as_validation_def [error_defs] bee_evm_def [error_defs]

lemma try_into_invalid_tx_err_iff:
  "try_into_invalid_tx_err e = Inr err \<longleftrightarrow> as_invalid_tx_err e = Some err"
  "try_into_invalid_tx_err e = Inl e' \<longleftrightarrow> as_invalid_tx_err e = None \<and> e' = e"
  by (auto simp: error_defs split: evm_error.splits)

text \<open>
  An EVM error is reported as a validation error exactly when it is an invalid transaction;
  the transaction hash and the error itself are kept either way.
\<close>

lemma bee_evm_validation_iff:
  "as_validation (bee_evm e h) = Some v \<longleftrightarrow> (\<exists>err. e = TransactionError err \<and> v = InvalidTx h err)"
  by (cases e) (auto simp: error_defs)

lemma bee_evm_classifies:
  "bee_evm e h =
     (case as_invalid_tx_err e of
        Some err \<Rightarrow> Validation (InvalidTx h err)
      | None \<Rightarrow> Internal (EVM h e))"
  by (cases e) (simp_all add: error_defs)

lemma bee_evm_inj: "bee_evm e h = bee_evm e' h' \<longleftrightarrow> e = e' \<and> h = h'"
  by (cases e; cases e') (auto simp: error_defs)

text \<open>The three views of a downcast agree.\<close>

lemma is_other_iff_downcast: "is_other cast e \<longleftrightarrow> (\<exists>t. downcast cast e = Inr t)"
  by (cases e) (auto simp: error_defs split: option.splits)

lemma downcast_other_iff: "downcast_other cast e = Some t \<longleftrightarrow> downcast cast e = Inr t"
  by (cases e) (auto simp: error_defs split: option.splits)

lemma downcast_keeps: "downcast cast e = Inl e' \<Longrightarrow> e' = e"
  by (cases e) (auto simp: error_defs split: option.splits)

end
