(* ===== verification/Evm.thy ===== *)
theory Evm
  imports ErrorModel
begin

text \<open>
  The trait \<open>Evm\<close> (\<open>crates/evm/src/evm.rs\<close>) as a dictionary of its required methods, its
  provided methods over that dictionary, the implementation for \<open>Either\<close>
  (\<open>crates/evm/src/either.rs\<close>), and the contract that the provided methods and the block
  executors rely on, as the locale \<open>evm_access\<close>.
\<close>

section \<open>The trait and its provided methods\<close>

text \<open>
  \<open>components\<close> reads the database, the inspector and the precompiles; \<open>components_mut\<close> hands
  out mutable references to them, which is a write back of all three.
\<close>

record ('evm, 'db, 'insp, 'pre, 'spec, 'tx, 'halt, 'err) evm_dict =
  ev_block :: "'evm \<Rightarrow> block_env"
  ev_chain_id :: "'evm \<Rightarrow> u64"
  ev_transact_raw :: "'tx \<Rightarrow> ('evm, 'err, 'halt result_and_state) step"
  ev_transact_system_call ::
    "address \<Rightarrow> address \<Rightarrow> bytes \<Rightarrow> ('evm, 'err, 'halt result_and_state) step"
  ev_finish :: "'evm \<Rightarrow> 'db \<times> 'spec evm_env"
  ev_set_inspector_enabled :: "bool \<Rightarrow> 'evm \<Rightarrow> 'evm"
  ev_components :: "'evm \<Rightarrow> 'db \<times> 'insp \<times> 'pre"
  ev_components_mut :: "'db \<times> 'insp \<times> 'pre \<Rightarrow> 'evm \<Rightarrow> 'evm"

definition evm_db ::
    "('evm, 'db, 'insp, 'pre, 'spec, 'tx, 'halt, 'err) evm_dict \<Rightarrow> 'evm \<Rightarrow> 'db" where
  "evm_db E e = fst (ev_components E e)"

definition evm_inspector ::
    "('evm, 'db, 'insp, 'pre, 'spec, 'tx, 'halt, 'err) evm_dict \<Rightarrow> 'evm \<Rightarrow> 'insp" where
  "evm_inspector E e = fst (snd (ev_components E e))"

definition evm_precompiles ::
    "('evm, 'db, 'insp, 'pre, 'spec, 'tx, 'halt, 'err) evm_dict \<Rightarrow> 'evm \<Rightarrow> 'pre" where
  "evm_precompiles E e = snd (snd (ev_components E e))"

text \<open>Writing through \<open>db_mut()\<close>, \<open>inspector_mut()\<close> and \<open>precompiles_mut()\<close>.\<close>

definition evm_set_db ::
    "('evm, 'db, 'insp, 'pre, 'spec, 'tx, 'halt, 'err) evm_dict \<Rightarrow> 'db \<Rightarrow> 'evm \<Rightarrow> 'evm" where
  "evm_set_db E d e = ev_components_mut E (d, snd (ev_components E e)) e"

definition evm_set_inspector ::
    "('evm, 'db, 'insp, 'pre, 'spec, 'tx, 'halt, 'err) evm_dict \<Rightarrow> 'insp \<Rightarrow> 'evm \<Rightarrow> 'evm" where
  "evm_set_inspector E i e =
     ev_components_mut E (evm_db E e, i, evm_precompiles E e) e"

definition evm_set_precompiles ::
    "('evm, 'db, 'insp, 'pre, 'spec, 'tx, 'halt, 'err) evm_dict \<Rightarrow> 'pre \<Rightarrow> 'evm \<Rightarrow> 'evm" where
  "evm_set_precompiles E p e =
     ev_components_mut E (evm_db E e, evm_inspector E e, p) e"

definition evm_transact ::
    "('evm, 'db, 'insp, 'pre, 'spec, 'tx, 'halt, 'err) evm_dict \<Rightarrow> ('x \<Rightarrow> 'tx) \<Rightarrow> 'x
      \<Rightarrow> ('evm, 'err, 'halt result_and_state) step" where
  "evm_transact E into_tx_env tx = ev_transact_raw E (into_tx_env tx)"

definition evm_transact_commit ::
    "('evm, 'db, 'insp, 'pre, 'spec, 'tx, 'halt, 'err) evm_dict \<Rightarrow> (evm_state \<Rightarrow> 'db \<Rightarrow> 'db)
      \<Rightarrow> ('x \<Rightarrow> 'tx) \<Rightarrow> 'x \<Rightarrow> ('evm, 'err, 'halt execution_result) step" where
  "evm_transact_commit E commit into_tx_env tx =
     try_bind (evm_transact E into_tx_env tx) (\<lambda>rs.
     try_bind (modify (\<lambda>e. evm_set_db E (commit (rs_state rs) (evm_db E e)) e)) (\<lambda>_.
     ret (rs_result rs)))"

definition evm_into_db ::
    "('evm, 'db, 'insp, 'pre, 'spec, 'tx, 'halt, 'err) evm_dict \<Rightarrow> 'evm \<Rightarrow> 'db" where
  "evm_into_db E e = fst (ev_finish E e)"

definition evm_into_env ::
    "('evm, 'db, 'insp, 'pre, 'spec, 'tx, 'halt, 'err) evm_dict \<Rightarrow> 'evm \<Rightarrow> 'spec evm_env" where
  "evm_into_env E e = snd (ev_finish E e)"

definition evm_enable_inspector ::
    "('evm, 'db, 'insp, 'pre, 'spec, 'tx, 'halt, 'err) evm_dict \<Rightarrow> 'evm \<Rightarrow> 'evm" where
  "evm_enable_inspector E = ev_set_inspector_enabled E True"

definition evm_disable_inspector ::
    "('evm, 'db, 'insp, 'pre, 'spec, 'tx, 'halt, 'err) evm_dict \<Rightarrow> 'evm \<Rightarrow> 'evm" where
  "evm_disable_inspector E = ev_set_inspector_enabled E False"

named_theorems evm_defs \<open>the provided methods of the trait Evm\<close>

declare evm_db_def [evm_defs] evm_inspector_def [evm_defs] evm_precompiles_def [evm_defs]
  evm_set_db_def [evm_defs] evm_set_inspector_def [evm_defs] evm_set_precompiles_def [evm_defs]
  evm_transact_def [evm_defs] evm_transact_commit_def [evm_defs] evm_into_db_def [evm_defs]
  evm_into_env_def [evm_defs] evm_enable_inspector_def [evm_defs]
  evm_disable_inspector_def [evm_defs]

section \<open>The contract of an EVM\<close>

text \<open>
  What the users of an EVM rely on: the mutable references reach the values the shared ones
  show, nothing else is behind them, and taking the EVM apart yields those same values.
\<close>

locale evm_access =
  fixes E :: "('evm, 'db, 'insp, 'pre, 'spec, 'tx, 'halt, 'err) evm_dict"
  assumes components_mut_get: "ev_components E (ev_components_mut E c e) = c"
    and components_mut_same: "ev_components_mut E (ev_components E e) e = e"
    and components_mut_twice: "ev_components_mut E c' (ev_components_mut E c e) = ev_components_mut E c' e"
    and block_components_mut: "ev_block E (ev_components_mut E c e) = ev_block E e"
    and chain_id_components_mut: "ev_chain_id E (ev_components_mut E c e) = ev_chain_id E e"
    and finish_db: "fst (ev_finish E e) = fst (ev_components E e)"
    and finish_block: "ee_block_env (snd (ev_finish E e)) = ev_block E e"
    and finish_chain_id: "chainid (snd (ev_finish E e)) = ev_chain_id E e"
    and components_inspector_enabled:
      "ev_components E (ev_set_inspector_enabled E b e) = ev_components E e"
    and block_inspector_enabled: "ev_block E (ev_set_inspector_enabled E b e) = ev_block E e"
begin

lemma db_set_db: "evm_db E (evm_set_db E d e) = d"
  by (simp add: evm_db_def evm_set_db_def components_mut_get)

lemma set_db_db: "evm_set_db E (evm_db E e) e = e"
  by (simp add: evm_db_def evm_set_db_def components_mut_same)

lemma set_db_set_db: "evm_set_db E d' (evm_set_db E d e) = evm_set_db E d' e"
  by (simp add: evm_set_db_def components_mut_get components_mut_twice)

lemma block_set_db: "ev_block E (evm_set_db E d e) = ev_block E e"
  by (simp add: evm_set_db_def block_components_mut)

lemma chain_id_set_db: "ev_chain_id E (evm_set_db E d e) = ev_chain_id E e"
  by (simp add: evm_set_db_def chain_id_components_mut)

lemma inspector_set_db: "evm_inspector E (evm_set_db E d e) = evm_inspector E e"
  by (simp add: evm_inspector_def evm_set_db_def components_mut_get)

lemma precompiles_set_db: "evm_precompiles E (evm_set_db E d e) = evm_precompiles E e"
  by (simp add: evm_precompiles_def evm_set_db_def components_mut_get)

lemma db_set_inspector: "evm_db E (evm_set_inspector E i e) = evm_db E e"
  by (simp add: evm_db_def evm_set_inspector_def components_mut_get)

lemma inspector_set_inspector: "evm_inspector E (evm_set_inspector E i e) = i"
  by (simp add: evm_inspector_def evm_set_inspector_def components_mut_get)

lemma block_set_inspector: "ev_block E (evm_set_inspector E i e) = ev_block E e"
  by (simp add: evm_set_inspector_def block_components_mut)

lemma into_db_set_db: "evm_into_db E (evm_set_db E d e) = d"
  by (simp add: evm_into_db_def finish_db) (metis evm_db_def db_set_db)

text \<open>
  \<open>transact_commit\<close>: the database of the resulting EVM is the one the transaction left, with
  the changeset committed exactly when the transaction succeeded.
\<close>

lemma transact_commit_ok:
  assumes "evm_transact_commit E commit into tx e = (Inr res, e'')"
  shows "\<exists>rs e'. evm_transact E into tx e = (Inr rs, e') \<and> res = rs_result rs
    \<and> evm_db E e'' = commit (rs_state rs) (evm_db E e')
    \<and> evm_inspector E e'' = evm_inspector E e' \<and> ev_block E e'' = ev_block E e'"
  using assms
  by (auto simp: evm_transact_commit_def try_bind_Inr modify_def ret_def db_set_db
      inspector_set_db block_set_db)

lemma transact_commit_err:
  assumes "evm_transact_commit E commit into tx e = (Inl err, e'')"
  shows "evm_transact E into tx e = (Inl err, e'')"
  using assms by (auto simp: evm_transact_commit_def try_bind_Inl modify_def ret_def)

end

section \<open>either.rs\<close>

text \<open>Both alternatives are EVMs with the same associated types; every method forwards.\<close>

definition either_dict ::
    "('l, 'db, 'insp, 'pre, 'spec, 'tx, 'halt, 'err) evm_dict
      \<Rightarrow> ('r, 'db, 'insp, 'pre, 'spec, 'tx, 'halt, 'err) evm_dict
      \<Rightarrow> ('l + 'r, 'db, 'insp, 'pre, 'spec, 'tx, 'halt, 'err) evm_dict" where
  "either_dict L R =
     \<lparr>ev_block = (\<lambda>e. case e of Inl l \<Rightarrow> ev_block L l | Inr r \<Rightarrow> ev_block R r),
      ev_chain_id = (\<lambda>e. case e of Inl l \<Rightarrow> ev_chain_id L l | Inr r \<Rightarrow> ev_chain_id R r),
      ev_transact_raw = (\<lambda>tx e. case e of
          Inl l \<Rightarrow> map_prod id Inl (ev_transact_raw L tx l)
        | Inr r \<Rightarrow> map_prod id Inr (ev_transact_raw R tx r)),
      ev_transact_system_call = (\<lambda>caller contract data e. case e of
          Inl l \<Rightarrow> map_prod id Inl (ev_transact_system_call L caller contract data l)
        | Inr r \<Rightarrow> map_prod id Inr (ev_transact_system_call R caller contract data r)),
      ev_finish = (\<lambda>e. case e of Inl l \<Rightarrow> ev_finish L l | Inr r \<Rightarrow> ev_finish R r),
      ev_set_inspector_enabled = (\<lambda>b e. case e of
          Inl l \<Rightarrow> Inl (ev_set_inspector_enabled L b l)
        | Inr r \<Rightarrow> Inr (ev_set_inspector_enabled R b r)),
      ev_components = (\<lambda>e. case e of Inl l \<Rightarrow> ev_components L l | Inr r \<Rightarrow> ev_components R r),
      ev_components_mut = (\<lambda>c e. case e of
          Inl l \<Rightarrow> Inl (ev_components_mut L c l)
        | Inr r \<Rightarrow> Inr (ev_components_mut R c r))\<rparr>"

definition either_transact_commit ::
    "('l, 'db, 'insp, 'pre, 'spec, 'tx, 'halt, 'err) evm_dict
      \<Rightarrow> ('r, 'db, 'insp, 'pre, 'spec, 'tx, 'halt, 'err) evm_dict
      \<Rightarrow> (evm_state \<Rightarrow> 'db \<Rightarrow> 'db) \<Rightarrow> ('x \<Rightarrow> 'tx) \<Rightarrow> 'x
      \<Rightarrow> ('l + 'r, 'err, 'halt execution_result) step" where
  "either_transact_commit L R commit into_tx_env tx e =
     (case e of
        Inl l \<Rightarrow> map_prod id Inl (evm_transact_commit L commit into_tx_env tx l)
      | Inr r \<Rightarrow> map_prod id Inr (evm_transact_commit R commit into_tx_env tx r))"

definition either_into_db ::
    "('l, 'db, 'insp, 'pre, 'spec, 'tx, 'halt, 'err) evm_dict
      \<Rightarrow> ('r, 'db, 'insp, 'pre, 'spec, 'tx, 'halt, 'err) evm_dict \<Rightarrow> 'l + 'r \<Rightarrow> 'db" where
  "either_into_db L R e = (case e of Inl l \<Rightarrow> evm_into_db L l | Inr r \<Rightarrow> evm_into_db R r)"

text \<open>Two EVMs with the contract give an \<open>Either\<close> with the contract.\<close>

locale evm_pair = left: evm_access L + right: evm_access R
  for L :: "('l, 'db, 'insp, 'pre, 'spec, 'tx, 'halt, 'err) evm_dict"
  and R :: "('r, 'db, 'insp, 'pre, 'spec, 'tx, 'halt, 'err) evm_dict"

sublocale evm_pair \<subseteq> both: evm_access "either_dict L R"
  by unfold_locales
    (simp_all add: either_dict_def left.components_mut_get left.components_mut_same
      left.components_mut_twice left.block_components_mut left.chain_id_components_mut
      left.finish_db left.finish_block left.finish_chain_id left.components_inspector_enabled
      left.block_inspector_enabled right.components_mut_get right.components_mut_same
      right.components_mut_twice right.block_components_mut right.chain_id_components_mut
      right.finish_db right.finish_block right.finish_chain_id
      right.components_inspector_enabled right.block_inspector_enabled split: sum.splits)

text \<open>The overridden provided methods of \<open>Either\<close> are the provided ones.\<close>

lemma either_transact_commit_default:
  "either_transact_commit L R commit into tx = evm_transact_commit (either_dict L R) commit into tx"
  by (rule ext)
    (simp add: either_transact_commit_def evm_defs step_defs either_dict_def
      split: sum.splits prod.splits)

lemma either_into_db_default: "either_into_db L R = evm_into_db (either_dict L R)"
  by (rule ext) (simp add: either_into_db_def evm_into_db_def either_dict_def split: sum.splits)

end
