(* ===== verification/BlockExecutor.thy ===== *)
theory BlockExecutor
  imports Evm ErrorModel
begin

text \<open>
  The trait \<open>BlockExecutor\<close> (\<open>crates/evm/src/block/mod.rs\<close>): its required methods as a dictionary,
  its provided methods over that dictionary, and the contract of a block executor, the locale
  \<open>block_executor\<close>, with what follows from it for a whole block.
\<close>

section \<open>The trait and its provided methods\<close>

record ('rcpt, 'rq) block_execution_result =
  ber_receipts :: "'rcpt list"
  ber_requests :: 'rq
  ber_gas_used :: u64

text \<open>
  \<open>ExecutableTx\<close>: the consensus transaction and its signer (\<open>RecoveredTx\<close>) and the transaction
  environment it converts to (\<open>ToTxEnv\<close>).
\<close>

record ('tx, 'env) executable_tx =
  xt_tx :: 'tx
  xt_signer :: address
  xt_to_tx_env :: 'env

datatype commit_changes = Yes | No

definition should_commit :: "commit_changes \<Rightarrow> bool" where
  "should_commit c = (case c of Yes \<Rightarrow> True | No \<Rightarrow> False)"

text \<open>
  Closures passed by a caller may change variables they have captured: \<open>'c\<close> is the caller's state,
  which sits beside the executor's. A method may panic.
\<close>

record ('x, 'c, 'tx, 'env, 'halt, 'hk, 'evm, 'rcpt, 'rq, 'e) block_executor_dict =
  bx_apply_pre_execution_changes :: "('x, 'e abort, unit) step"
  bx_execute_transaction_with_commit_condition ::
    "('tx, 'env) executable_tx \<Rightarrow> ('halt execution_result \<Rightarrow> 'c \<Rightarrow> commit_changes \<times> 'c)
      \<Rightarrow> ('x \<times> 'c, 'e abort, u64 option) step"
  bx_execute_transaction_with_result_closure ::
    "('tx, 'env) executable_tx \<Rightarrow> ('halt execution_result \<Rightarrow> 'c \<Rightarrow> 'c)
      \<Rightarrow> ('x \<times> 'c, 'e abort, u64) step"
  bx_finish :: "('x, 'e abort, 'evm \<times> ('rcpt, 'rq) block_execution_result) step"
  bx_set_state_hook :: "'hk option \<Rightarrow> 'x \<Rightarrow> 'x"
  bx_evm :: "'x \<Rightarrow> 'evm"
  bx_evm_mut :: "'evm \<Rightarrow> 'x \<Rightarrow> 'x"

text \<open>\<open>execute_transaction_with_result_closure\<close> as the trait provides it.\<close>

definition default_result_closure ::
    "(('tx, 'env) executable_tx \<Rightarrow> ('halt execution_result \<Rightarrow> 'c \<Rightarrow> commit_changes \<times> 'c)
        \<Rightarrow> ('x \<times> 'c, 'e abort, u64 option) step)
      \<Rightarrow> ('tx, 'env) executable_tx \<Rightarrow> ('halt execution_result \<Rightarrow> 'c \<Rightarrow> 'c)
      \<Rightarrow> ('x \<times> 'c, 'e abort, u64) step" where
  "default_result_closure commit_condition tx f =
     map_ok (\<lambda>g. case g of Some gas \<Rightarrow> gas | None \<Rightarrow> 0)
       (commit_condition tx (\<lambda>res c. (Yes, f res c)))"

definition execute_transaction ::
    "('x, 'c, 'tx, 'env, 'halt, 'hk, 'evm, 'rcpt, 'rq, 'e) block_executor_dict
      \<Rightarrow> ('tx, 'env) executable_tx \<Rightarrow> ('x \<times> 'c, 'e abort, u64) step" where
  "execute_transaction B tx = bx_execute_transaction_with_result_closure B tx (\<lambda>_ c. c)"

text \<open>A method of the executor alone, with the caller's state beside it.\<close>

definition on_executor :: "('x, 'e, 'a) step \<Rightarrow> ('x \<times> 'c, 'e, 'a) step" where
  "on_executor = zoom fst (\<lambda>x p. (x, snd p))"

definition bx_apply_post_execution_changes ::
    "('x, 'c, 'tx, 'env, 'halt, 'hk, 'evm, 'rcpt, 'rq, 'e) block_executor_dict
      \<Rightarrow> ('x, 'e abort, ('rcpt, 'rq) block_execution_result) step" where
  "bx_apply_post_execution_changes B = map_ok snd (bx_finish B)"

definition bx_with_state_hook ::
    "('x, 'c, 'tx, 'env, 'halt, 'hk, 'evm, 'rcpt, 'rq, 'e) block_executor_dict
      \<Rightarrow> 'hk option \<Rightarrow> 'x \<Rightarrow> 'x" where
  "bx_with_state_hook B hook x = bx_set_state_hook B hook x"

definition execute_block ::
    "('x, 'c, 'tx, 'env, 'halt, 'hk, 'evm, 'rcpt, 'rq, 'e) block_executor_dict
      \<Rightarrow> ('tx, 'env) executable_tx list
      \<Rightarrow> ('x \<times> 'c, 'e abort, ('rcpt, 'rq) block_execution_result) step" where
  "execute_block B transactions =
     try_bind (on_executor (bx_apply_pre_execution_changes B)) (\<lambda>_.
     try_bind (try_each (execute_transaction B) transactions) (\<lambda>_.
     on_executor (bx_apply_post_execution_changes B)))"

lemma on_executor_Inr:
  "on_executor m (x, c) = (Inr a, (x', c')) \<longleftrightarrow> m x = (Inr a, x') \<and> c' = c"
  by (auto simp: on_executor_def zoom_def split: prod.splits)

lemma should_commit_simps [simp]: "should_commit Yes" "\<not> should_commit No"
  by (simp_all add: should_commit_def)

lemma default_result_closure_Inr:
  "default_result_closure cc tx f s = (Inr g, t) \<longleftrightarrow>
     (\<exists>o'. cc tx (\<lambda>res c. (Yes, f res c)) s = (Inr o', t)
        \<and> g = (case o' of Some gas \<Rightarrow> gas | None \<Rightarrow> 0))"
  by (auto simp: default_result_closure_def map_ok_Inr)

section \<open>The contract of a block executor\<close>

text \<open>The counter after each of a list of gas amounts, starting at \<open>u\<close>.\<close>

fun running :: "u64 \<Rightarrow> u64 list \<Rightarrow> u64 list" where
  "running u [] = []"
| "running u (g # gs) = (u + g) # running (u + g) gs"

lemma length_running [simp]: "length (running u gs) = length gs"
  by (induction gs arbitrary: u) auto

lemma running_Nil [simp]: "running u gs = [] \<longleftrightarrow> gs = []"
  by (cases gs) auto

lemma running_last: "gs \<noteq> [] \<Longrightarrow> last (running u gs) = u + sum_list gs"
proof (induction gs arbitrary: u)
  case Nil
  then show ?case by simp
next
  case (Cons g gs)
  then show ?case by (cases "gs = []") (simp_all add: add.assoc)
qed

text \<open>
  An executor keeps a list of receipts and a gas counter. A committed transaction adds one receipt
  at the end and its gas to the counter; the closure saw the result it was charged for. A
  transaction that is not committed, or is rejected with an error, changes neither; after an error
  the closure has not run. Nothing else changes the two. \<open>built x r u\<close> says that the receipt builder
  of the executor \<open>x\<close> made the receipt \<open>r\<close> for the cumulative gas \<open>u\<close>.
\<close>

locale block_executor =
  fixes B :: "('x, 'c, 'tx, 'env, 'halt, 'hk, 'evm, 'rcpt, 'rq, 'e) block_executor_dict"
    and rcpts :: "'x \<Rightarrow> 'rcpt list"
    and used :: "'x \<Rightarrow> u64"
    and built :: "'x \<Rightarrow> 'rcpt \<Rightarrow> u64 \<Rightarrow> bool"
  assumes pre_rcpts: "keeps rcpts (bx_apply_pre_execution_changes B)"
    and pre_used: "keeps used (bx_apply_pre_execution_changes B)"
    and pre_built: "keeps built (bx_apply_pre_execution_changes B)"
    and commit_built: "keeps (\<lambda>p. built (fst p)) (bx_execute_transaction_with_commit_condition B tx f)"
    and commit_some: "bx_execute_transaction_with_commit_condition B tx f (x, c) = (Inr (Some g), (x', c'))
        \<Longrightarrow> (\<exists>r. rcpts x' = rcpts x @ [r] \<and> built x r (used x + g)) \<and> used x' = used x + g
          \<and> (\<exists>res. f res c = (Yes, c') \<and> er_gas_used res = g)"
    and commit_none: "bx_execute_transaction_with_commit_condition B tx f (x, c) = (Inr None, (x', c'))
        \<Longrightarrow> rcpts x' = rcpts x \<and> used x' = used x \<and> (\<exists>res. f res c = (No, c'))"
    and commit_error: "bx_execute_transaction_with_commit_condition B tx f (x, c) = (Inl (Error e), (x', c'))
        \<Longrightarrow> rcpts x' = rcpts x \<and> used x' = used x \<and> c' = c"
    and result_closure: "bx_execute_transaction_with_result_closure B =
        default_result_closure (bx_execute_transaction_with_commit_condition B)"
    and finish_rcpts: "bx_finish B x = (Inr (evm, res), x')
        \<Longrightarrow> ber_receipts res = rcpts x \<and> evm = bx_evm B x'"
begin

lemma result_closure_commits:
  assumes "bx_execute_transaction_with_result_closure B tx f (x, c) = (Inr g, (x', c'))"
  shows "bx_execute_transaction_with_commit_condition B tx (\<lambda>res c. (Yes, f res c)) (x, c) =
    (Inr (Some g), (x', c'))"
proof -
  from assms obtain o' where
    run: "bx_execute_transaction_with_commit_condition B tx (\<lambda>res c. (Yes, f res c)) (x, c)
      = (Inr o', (x', c'))"
    and g: "g = (case o' of Some gas \<Rightarrow> gas | None \<Rightarrow> 0)"
    unfolding result_closure default_result_closure_Inr by blast
  have "o' \<noteq> None"
    using commit_none [of tx "\<lambda>res c. (Yes, f res c)" x c x' c'] run by (cases o') auto
  then show ?thesis using run g by auto
qed

lemma result_closure_ok:
  assumes "bx_execute_transaction_with_result_closure B tx f (x, c) = (Inr g, (x', c'))"
  shows "\<exists>r. rcpts x' = rcpts x @ [r] \<and> built x r (used x + g)" and "used x' = used x + g"
    and "\<exists>res. c' = f res c \<and> er_gas_used res = g" and "built x' = built x"
  using commit_some [OF result_closure_commits [OF assms]]
    keepsD [OF commit_built result_closure_commits [OF assms]]
  by auto

lemma execute_transaction_ok:
  assumes "execute_transaction B tx (x, c) = (Inr g, (x', c'))"
  shows "\<exists>r. rcpts x' = rcpts x @ [r] \<and> built x r (used x + g)" and "used x' = used x + g"
    and "c' = c" and "built x' = built x"
  using result_closure_ok [OF assms [unfolded execute_transaction_def]] by auto

text \<open>Executing transactions one after the other.\<close>

lemma execute_transactions_ok:
  assumes "try_each (execute_transaction B) txs (x, c) = (Inr gs, (x', c'))"
  shows "(\<exists>rs. rcpts x' = rcpts x @ rs \<and> list_all2 (built x) rs (running (used x) gs))
    \<and> used x' = used x + sum_list gs \<and> c' = c"
  using assms
proof (induction txs arbitrary: x gs)
  case Nil
  then show ?case by auto
next
  case (Cons tx txs x gs)
  from Cons.prems obtain g p hs where
    one: "execute_transaction B tx (x, c) = (Inr g, p)"
    and rest: "try_each (execute_transaction B) txs p = (Inr hs, (x', c'))" and gs: "gs = g # hs"
    unfolding try_each_Cons_Inr by blast
  obtain x1 c1 where p: "p = (x1, c1)" by (cases p)
  note ok = execute_transaction_ok [OF one [unfolded p]]
  have "(\<exists>rs. rcpts x' = rcpts x1 @ rs \<and> list_all2 (built x1) rs (running (used x1) hs))
    \<and> used x' = used x1 + sum_list hs \<and> c' = c"
    using Cons.IH [of x1 hs] rest ok(3) by (simp add: p)
  then show ?case
    using ok(1,2,4) by (auto simp: gs add.assoc)
qed

text \<open>A block that executes has one receipt per transaction, after those there were before.\<close>

lemma execute_block_ok:
  assumes "execute_block B txs (x, c) = (Inr res, (x', c'))"
  shows "\<exists>x1 gs x2.
      bx_apply_pre_execution_changes B x = (Inr (), x1)
      \<and> try_each (execute_transaction B) txs (x1, c) = (Inr gs, (x2, c))
      \<and> bx_finish B x2 = (Inr (bx_evm B x', res), x')
      \<and> length gs = length txs \<and> used x2 = used x + sum_list gs
      \<and> ber_receipts res = rcpts x2
      \<and> (\<exists>rs. rcpts x2 = rcpts x @ rs \<and> list_all2 (built x) rs (running (used x) gs))"
proof -
  from assms obtain x1 gs x2 c2 where
    pre: "bx_apply_pre_execution_changes B x = (Inr (), x1)"
    and txs: "try_each (execute_transaction B) txs (x1, c) = (Inr gs, (x2, c2))"
    and post: "bx_apply_post_execution_changes B x2 = (Inr res, x')"
    by (auto simp: execute_block_def try_bind_Inr on_executor_Inr)
  from post obtain evm where fin: "bx_finish B x2 = (Inr (evm, res), x')"
    by (auto simp: bx_apply_post_execution_changes_def map_ok_Inr)
  have "rcpts x1 = rcpts x" "used x1 = used x" "built x1 = built x"
    using keepsD [OF pre_rcpts pre] keepsD [OF pre_used pre] keepsD [OF pre_built pre] by auto
  then show ?thesis
    using pre txs fin finish_rcpts [OF fin] execute_transactions_ok [OF txs] try_each_length [OF txs]
    by auto
qed

lemma execute_block_receipts:
  assumes "execute_block B txs (x, c) = (Inr res, (x', c'))"
  shows "\<exists>rs. ber_receipts res = rcpts x @ rs \<and> length rs = length txs"
  using execute_block_ok [OF assms] by (auto dest: list_all2_lengthD)

text \<open>
  Gas within a limit. When every transaction that succeeds from a state satisfying \<open>P\<close> uses no more
  than what is left below \<open>limit\<close>, the counter never passes the limit and never wraps.
\<close>

lemma execute_transactions_within:
  assumes step: "\<And>tx x c g x' c'. tx \<in> set txs \<Longrightarrow> P x \<Longrightarrow> used x \<le> limit x \<Longrightarrow>
      execute_transaction B tx (x, c) = (Inr g, (x', c'))
      \<Longrightarrow> P x' \<and> limit x' = limit x \<and> g \<le> limit x - used x"
    and "P x" and "used x \<le> limit x"
    and "try_each (execute_transaction B) txs (x, c) = (Inr gs, (x', c'))"
  shows "P x' \<and> limit x' = limit x \<and> used x' \<le> limit x
    \<and> unat (used x') = unat (used x) + sum_list (map unat gs)"
  using assms
proof (induction txs arbitrary: x gs c)
  case Nil
  then show ?case by auto
next
  case (Cons tx txs x gs c)
  from Cons.prems(4) obtain g p hs where
    one: "execute_transaction B tx (x, c) = (Inr g, p)"
    and rest: "try_each (execute_transaction B) txs p = (Inr hs, (x', c'))" and gs: "gs = g # hs"
    unfolding try_each_Cons_Inr by blast
  obtain x1 c1 where p: "p = (x1, c1)" by (cases p)
  have s: "P x1 \<and> limit x1 = limit x \<and> g \<le> limit x - used x"
    using Cons.prems(1) [of tx x c g x1 c1] Cons.prems(2,3) one by (simp add: p)
  have u: "used x1 = used x + g"
    using execute_transaction_ok(2) [OF one [unfolded p]] .
  have w: "unat (used x1) = unat (used x) + unat g" "used x1 \<le> limit x"
    using u64_add_no_wrap [OF Cons.prems(3), of g] s by (simp_all add: u)
  have "P x' \<and> limit x' = limit x1 \<and> used x' \<le> limit x1
      \<and> unat (used x') = unat (used x1) + sum_list (map unat hs)"
  proof (rule Cons.IH)
    show "P y' \<and> limit y' = limit y \<and> h \<le> limit y - used y"
      if "t \<in> set txs" "P y" "used y \<le> limit y" "execute_transaction B t (y, d) = (Inr h, (y', d'))"
      for t y d h y' d'
      using Cons.prems(1) [of t y d h y' d'] that by simp
  qed (use s w rest p in simp_all)
  then show ?case
    using s w by (simp add: gs)
qed

lemma execute_block_within:
  assumes pre: "\<And>x1. bx_apply_pre_execution_changes B x = (Inr (), x1) \<Longrightarrow> P x1 \<and> limit x1 = limit x"
    and step: "\<And>tx x c g x' c'. tx \<in> set txs \<Longrightarrow> P x \<Longrightarrow> used x \<le> limit x \<Longrightarrow>
      execute_transaction B tx (x, c) = (Inr g, (x', c'))
      \<Longrightarrow> P x' \<and> limit x' = limit x \<and> g \<le> limit x - used x"
    and room: "used x \<le> limit x"
    and run: "execute_block B txs (x, c) = (Inr res, (x', c'))"
  shows "\<exists>gs x2. bx_finish B x2 = (Inr (bx_evm B x', res), x') \<and> length gs = length txs
    \<and> used x2 \<le> limit x \<and> used x2 = used x + sum_list gs
    \<and> unat (used x2) = unat (used x) + sum_list (map unat gs)
    \<and> (\<exists>rs. rcpts x2 = rcpts x @ rs \<and> list_all2 (built x) rs (running (used x) gs))"
proof -
  from execute_block_ok [OF run] obtain x1 gs x2 where
    pre': "bx_apply_pre_execution_changes B x = (Inr (), x1)"
    and txs: "try_each (execute_transaction B) txs (x1, c) = (Inr gs, (x2, c))"
    and fin: "bx_finish B x2 = (Inr (bx_evm B x', res), x')"
    and len: "length gs = length txs" and sum: "used x2 = used x + sum_list gs"
    and rs: "\<exists>rs. rcpts x2 = rcpts x @ rs \<and> list_all2 (built x) rs (running (used x) gs)"
    by blast
  have P: "P x1" and l: "limit x1 = limit x"
    using pre [OF pre'] by auto
  have u: "used x1 = used x"
    using keepsD [OF pre_used pre'] .
  have "P x2 \<and> limit x2 = limit x1 \<and> used x2 \<le> limit x1
      \<and> unat (used x2) = unat (used x1) + sum_list (map unat gs)"
  proof (rule execute_transactions_within [where P = P and limit = limit, OF _ P _ txs])
    show "used x1 \<le> limit x1" using room by (simp add: u l)
  qed (rule step)
  then show ?thesis
    using fin len sum rs by (intro exI [of _ gs] exI [of _ x2]) (simp add: u l)
qed

end

text \<open>
  The documented behaviour of an EVM: a transaction never uses more gas than its limit. Here for the
  transactions of a block, whose limit the executor reads off the consensus transaction.
\<close>

definition gas_respecting ::
    "('evm, 'db, 'insp, 'pre, 'spec, 'env, 'halt, 'err) evm_dict \<Rightarrow> ('tx \<Rightarrow> u64)
      \<Rightarrow> ('tx, 'env) executable_tx list \<Rightarrow> bool" where
  "gas_respecting E gas_limit txs \<longleftrightarrow>
     (\<forall>tx \<in> set txs. \<forall>e rs e'. ev_transact_raw E (xt_to_tx_env tx) e = (Inr rs, e') \<longrightarrow>
        er_gas_used (rs_result rs) \<le> gas_limit (xt_tx tx))"

text \<open>An EVM with the errors that an executor can classify.\<close>

locale executor_evm = evm_access E
  for E :: "('evm, 'db, 'insp, 'pre, 'spec, 'env, 'halt, ('inv, 'rest) evm_error) evm_dict"
begin

text \<open>A transaction of such a block leaves the block alone and stays within its own limit.\<close>

lemma transact_within:
  assumes "\<And>env. keeps (ev_block E) (ev_transact_raw E env)"
    and "gas_respecting E gas_limit txs" and "tx \<in> set txs"
    and "evm_transact E xt_to_tx_env tx evm = (Inr rs, evm')"
  shows "ev_block E evm' = ev_block E evm" and "er_gas_used (rs_result rs) \<le> gas_limit (xt_tx tx)"
  using keepsD [OF assms(1) assms(4) [unfolded evm_transact_def]] assms(2-4)
  by (auto simp: gas_respecting_def evm_transact_def)

end

end
