(* ===== verification/Precompiles.thy ===== *)
theory Precompiles
  imports ErrorModel
begin

text \<open>
  \<open>crates/evm/src/precompiles.rs\<close>: the map of precompiled contracts in its static and its
  dynamic representation, the operations that change it, lookups through it and running a
  precompile. Precompiles may touch the journal they are given (\<open>EvmInternals\<close>); the journal is
  the state \<open>'j\<close> of a call.
\<close>

section \<open>Precompiles as dictionaries\<close>

datatype precompile_id = Custom string | LibraryId nat

record precompile_output =
  po_gas_used :: u64
  po_bytes :: bytes
  po_reverted :: bool

text \<open>\<open>PrecompileError\<close>: fatal with its message, or an error with the answer of \<open>is_oog()\<close>.\<close>

datatype precompile_error = Fatal string | NonFatal (is_oog: bool)

type_synonym precompile_result = "precompile_error + precompile_output"

text \<open>\<open>PrecompileInput\<close>; its field \<open>internals\<close> is the journal that a call takes and returns.\<close>

record precompile_input =
  pi_data :: bytes
  pi_gas :: u64
  pi_caller :: address
  pi_value :: u256
  pi_target_address :: address
  pi_bytecode_address :: address

definition is_direct_call :: "precompile_input \<Rightarrow> bool" where
  "is_direct_call i \<longleftrightarrow> pi_target_address i = pi_bytecode_address i"

record 'j precompile =
  precompile_id :: precompile_id
  precompile_call :: "precompile_input \<Rightarrow> 'j \<Rightarrow> precompile_result \<times> 'j"
  is_pure :: bool

text \<open>The impl for pairs of an id and a closure, with the default \<open>is_pure\<close>.\<close>

definition pair_precompile ::
    "precompile_id \<Rightarrow> (precompile_input \<Rightarrow> 'j \<Rightarrow> precompile_result \<times> 'j) \<Rightarrow> 'j precompile" where
  "pair_precompile i f = \<lparr>precompile_id = i, precompile_call = f, is_pure = True\<rparr>"

definition ref_pair_precompile ::
    "precompile_id \<Rightarrow> (precompile_input \<Rightarrow> 'j \<Rightarrow> precompile_result \<times> 'j) \<Rightarrow> 'j precompile" where
  "ref_pair_precompile i f = \<lparr>precompile_id = i, precompile_call = f, is_pure = True\<rparr>"

definition stateful_precompile :: "'j precompile \<Rightarrow> 'j precompile" where
  "stateful_precompile p =
     \<lparr>precompile_id = precompile_id p, precompile_call = precompile_call p, is_pure = False\<rparr>"

text \<open>The impl for \<open>Either\<close> of two precompiles.\<close>

definition either_precompile :: "'j precompile + 'j precompile \<Rightarrow> 'j precompile" where
  "either_precompile e =
     \<lparr>precompile_id = (case e of Inl p \<Rightarrow> precompile_id p | Inr p \<Rightarrow> precompile_id p),
      precompile_call = (case e of Inl p \<Rightarrow> precompile_call p | Inr p \<Rightarrow> precompile_call p),
      is_pure = (case e of Inl p \<Rightarrow> is_pure p | Inr p \<Rightarrow> is_pure p)\<rparr>"

lemma either_precompile_simps [simp]:
  "either_precompile (Inl p) = p" "either_precompile (Inr p) = p"
  by (simp_all add: either_precompile_def)

text \<open>\<open>DynPrecompile\<close>: its three constructors and the conversions into it.\<close>

definition dyn_new ::
    "precompile_id \<Rightarrow> (precompile_input \<Rightarrow> 'j \<Rightarrow> precompile_result \<times> 'j) \<Rightarrow> 'j precompile" where
  "dyn_new i f = pair_precompile i f"

definition dyn_new_stateful ::
    "precompile_id \<Rightarrow> (precompile_input \<Rightarrow> 'j \<Rightarrow> precompile_result \<times> 'j) \<Rightarrow> 'j precompile" where
  "dyn_new_stateful i f = stateful_precompile (pair_precompile i f)"

definition dyn_stateful :: "'j precompile \<Rightarrow> 'j precompile" where
  "dyn_stateful p = stateful_precompile p"

definition dyn_from_closure ::
    "(precompile_input \<Rightarrow> 'j \<Rightarrow> precompile_result \<times> 'j) \<Rightarrow> 'j precompile" where
  "dyn_from_closure f = dyn_new (Custom ''closure'') f"

definition dyn_from_fn :: "(bytes \<Rightarrow> u64 \<Rightarrow> precompile_result) \<Rightarrow> 'j precompile" where
  "dyn_from_fn f = dyn_from_closure (\<lambda>i j. (f (pi_data i) (pi_gas i), j))"

definition dyn_from_pair ::
    "precompile_id \<Rightarrow> (precompile_input \<Rightarrow> 'j \<Rightarrow> precompile_result \<times> 'j) \<Rightarrow> 'j precompile" where
  "dyn_from_pair i f = pair_precompile i f"

definition dyn_from_id_fn ::
    "precompile_id \<Rightarrow> (bytes \<Rightarrow> u64 \<Rightarrow> precompile_result) \<Rightarrow> 'j precompile" where
  "dyn_from_id_fn i f = dyn_from_pair i (\<lambda>inp j. (f (pi_data inp) (pi_gas inp), j))"

text \<open>A \<open>DynPrecompile\<close> is a precompile again, and the same one: every method forwards.\<close>

definition dyn_as_precompile :: "'j precompile \<Rightarrow> 'j precompile" where
  "dyn_as_precompile p =
     \<lparr>precompile_id = precompile_id p, precompile_call = precompile_call p, is_pure = is_pure p\<rparr>"

lemma dyn_as_precompile_same [simp]: "dyn_as_precompile p = p"
  by (simp add: dyn_as_precompile_def)

text \<open>A builtin precompile of revm: an id and a function of the data and the gas limit.\<close>

record static_precompile =
  sp_id :: precompile_id
  sp_fn :: "bytes \<Rightarrow> u64 \<Rightarrow> precompile_result"

definition static_as_precompile :: "static_precompile \<Rightarrow> 'j precompile" where
  "static_as_precompile p =
     \<lparr>precompile_id = sp_id p,
      precompile_call = (\<lambda>i j. (sp_fn p (pi_data i) (pi_gas i), j)),
      is_pure = True\<rparr>"

text \<open>
  revm's \<open>Precompiles\<close> through the three methods the sources call: \<open>inner()\<close>, \<open>get\<close> and
  \<open>addresses()\<close>; \<open>static_ok\<close> is what its documentation says of them.
\<close>

record static_precompiles =
  stp_inner :: "address \<rightharpoonup> static_precompile"
  stp_get :: "address \<Rightarrow> static_precompile option"
  stp_addresses :: "address set"

definition static_ok :: "static_precompiles \<Rightarrow> bool" where
  "static_ok p \<longleftrightarrow> stp_get p = stp_inner p \<and> stp_addresses p = dom (stp_inner p)"

section \<open>PrecompilesMap\<close>

record 'j dyn_precompiles =
  dp_inner :: "address \<rightharpoonup> 'j precompile"
  dp_addresses :: "address set"

datatype 'j precompiles_kind = Builtin static_precompiles | Dynamic "'j dyn_precompiles"

record 'j precompiles_map =
  pm_precompiles :: "'j precompiles_kind"
  pm_lookup :: "(address \<Rightarrow> 'j precompile option) option"

definition precompiles_map_new :: "static_precompiles \<Rightarrow> 'j precompiles_map" where
  "precompiles_map_new p = \<lparr>pm_precompiles = Builtin p, pm_lookup = None\<rparr>"

definition from_static :: "static_precompiles \<Rightarrow> 'j precompiles_map" where
  "from_static p = precompiles_map_new p"

text \<open>
  \<open>ensure_dynamic_precompiles\<close>, up to the reference it returns: a builtin map is copied entry
  by entry, in the iteration order \<open>iter\<close>, into a dynamic one.
\<close>

definition ensure_dynamic_precompiles ::
    "((address \<rightharpoonup> static_precompile) \<Rightarrow> (address \<times> static_precompile) list)
      \<Rightarrow> 'j precompiles_map \<Rightarrow> 'j precompiles_map" where
  "ensure_dynamic_precompiles iter m =
     (case pm_precompiles m of
        Builtin p \<Rightarrow>
          m\<lparr>pm_precompiles := Dynamic
              \<lparr>dp_inner = fold (\<lambda>(addr, pc) acc. acc(addr \<mapsto> dyn_from_fn (sp_fn pc)))
                 (iter (stp_inner p)) Map.empty,
               dp_addresses = fold (\<lambda>(addr, pc). insert addr) (iter (stp_inner p)) {}\<rparr>\<rparr>
      | Dynamic _ \<Rightarrow> m)"

text \<open>The reference it returns; the other arm is the source's \<open>unreachable!\<close>.\<close>

definition dynamic_of :: "'j precompiles_map \<Rightarrow> 'j dyn_precompiles option" where
  "dynamic_of m = (case pm_precompiles m of Dynamic d \<Rightarrow> Some d | _ \<Rightarrow> None)"

text \<open>
  A method that starts with \<open>self.ensure_dynamic_precompiles()\<close> and changes the dynamic map it
  gets. \<open>None\<close> is the panic of \<open>unreachable!\<close>.
\<close>

definition on_dynamic ::
    "((address \<rightharpoonup> static_precompile) \<Rightarrow> (address \<times> static_precompile) list)
      \<Rightarrow> ('j dyn_precompiles \<Rightarrow> 'j dyn_precompiles) \<Rightarrow> 'j precompiles_map \<Rightarrow> 'j precompiles_map option" where
  "on_dynamic iter g m =
     (let m' = ensure_dynamic_precompiles iter m
      in map_option (\<lambda>d. m'\<lparr>pm_precompiles := Dynamic (g d)\<rparr>) (dynamic_of m'))"

definition map_precompile ::
    "((address \<rightharpoonup> static_precompile) \<Rightarrow> (address \<times> static_precompile) list)
      \<Rightarrow> address \<Rightarrow> ('j precompile \<Rightarrow> 'j precompile) \<Rightarrow> 'j precompiles_map
      \<Rightarrow> 'j precompiles_map option" where
  "map_precompile iter address f =
     on_dynamic iter (\<lambda>d. case dp_inner d address of
        Some dyn_precompile \<Rightarrow>
          (let removed = (dp_inner d)(address := None)
           in d\<lparr>dp_inner := removed(address \<mapsto> f dyn_precompile)\<rparr>)
      | None \<Rightarrow> d)"

text \<open>
  The loop of \<open>map_precompiles_filtered\<close>: the drained entries go into a new map, those the
  filter selects through \<open>f\<close>. \<open>f\<close> is an \<open>FnMut\<close>, so it threads its captured state \<open>'c\<close>.
\<close>

fun map_entries ::
    "(address \<Rightarrow> 'p \<Rightarrow> 'c \<Rightarrow> 'p \<times> 'c) \<Rightarrow> (address \<Rightarrow> 'p \<Rightarrow> bool) \<Rightarrow> (address \<times> 'p) list
      \<Rightarrow> (address \<rightharpoonup> 'p) \<Rightarrow> 'c \<Rightarrow> (address \<rightharpoonup> 'p) \<times> 'c" where
  "map_entries f filt [] new_map c = (new_map, c)"
| "map_entries f filt ((addr, precompile) # entries) new_map c =
     (if filt addr precompile
      then (case f addr precompile c of (transformed, c') \<Rightarrow>
              map_entries f filt entries (new_map(addr \<mapsto> transformed)) c')
      else map_entries f filt entries (new_map(addr \<mapsto> precompile)) c)"

definition filtered_dyn ::
    "((address \<rightharpoonup> 'j precompile) \<Rightarrow> (address \<times> 'j precompile) list)
      \<Rightarrow> (address \<Rightarrow> 'j precompile \<Rightarrow> 'c \<Rightarrow> 'j precompile \<times> 'c)
      \<Rightarrow> (address \<Rightarrow> 'j precompile \<Rightarrow> bool) \<Rightarrow> 'c \<Rightarrow> 'j dyn_precompiles \<Rightarrow> 'j dyn_precompiles" where
  "filtered_dyn drain f filt c d =
     d\<lparr>dp_inner := fst (map_entries f filt (drain (dp_inner d)) Map.empty c)\<rparr>"

definition map_precompiles_filtered ::
    "((address \<rightharpoonup> static_precompile) \<Rightarrow> (address \<times> static_precompile) list)
      \<Rightarrow> ((address \<rightharpoonup> 'j precompile) \<Rightarrow> (address \<times> 'j precompile) list)
      \<Rightarrow> (address \<Rightarrow> 'j precompile \<Rightarrow> 'c \<Rightarrow> 'j precompile \<times> 'c)
      \<Rightarrow> (address \<Rightarrow> 'j precompile \<Rightarrow> bool) \<Rightarrow> 'c \<Rightarrow> 'j precompiles_map
      \<Rightarrow> 'j precompiles_map option" where
  "map_precompiles_filtered iter drain f filt c =
     on_dynamic iter (filtered_dyn drain f filt c)"

definition map_precompiles ::
    "((address \<rightharpoonup> static_precompile) \<Rightarrow> (address \<times> static_precompile) list)
      \<Rightarrow> ((address \<rightharpoonup> 'j precompile) \<Rightarrow> (address \<times> 'j precompile) list)
      \<Rightarrow> (address \<Rightarrow> 'j precompile \<Rightarrow> 'c \<Rightarrow> 'j precompile \<times> 'c) \<Rightarrow> 'c \<Rightarrow> 'j precompiles_map
      \<Rightarrow> 'j precompiles_map option" where
  "map_precompiles iter drain f = map_precompiles_filtered iter drain f (\<lambda>_ _. True)"

definition map_pure_precompiles ::
    "((address \<rightharpoonup> static_precompile) \<Rightarrow> (address \<times> static_precompile) list)
      \<Rightarrow> ((address \<rightharpoonup> 'j precompile) \<Rightarrow> (address \<times> 'j precompile) list)
      \<Rightarrow> (address \<Rightarrow> 'j precompile \<Rightarrow> 'c \<Rightarrow> 'j precompile \<times> 'c) \<Rightarrow> 'c \<Rightarrow> 'j precompiles_map
      \<Rightarrow> 'j precompiles_map option" where
  "map_pure_precompiles iter drain f = map_precompiles_filtered iter drain f (\<lambda>_ p. is_pure p)"

text \<open>\<open>apply_precompile\<close>: its change of the dynamic map, and the method.\<close>

definition apply_dyn ::
    "address \<Rightarrow> ('j precompile option \<Rightarrow> 'j precompile option) \<Rightarrow> 'j dyn_precompiles \<Rightarrow> 'j dyn_precompiles" where
  "apply_dyn address f d =
     (case f (dp_inner d address) of
        Some transformed \<Rightarrow>
          d\<lparr>dp_inner := (dp_inner d)(address \<mapsto> transformed),
            dp_addresses := insert address (dp_addresses d)\<rparr>
      | None \<Rightarrow>
          d\<lparr>dp_inner := (dp_inner d)(address := None),
            dp_addresses := dp_addresses d - {address}\<rparr>)"

definition apply_precompile ::
    "((address \<rightharpoonup> static_precompile) \<Rightarrow> (address \<times> static_precompile) list)
      \<Rightarrow> address \<Rightarrow> ('j precompile option \<Rightarrow> 'j precompile option) \<Rightarrow> 'j precompiles_map
      \<Rightarrow> 'j precompiles_map option" where
  "apply_precompile iter address f = on_dynamic iter (apply_dyn address f)"

definition set_precompile_lookup ::
    "(address \<Rightarrow> 'j precompile option) \<Rightarrow> 'j precompiles_map \<Rightarrow> 'j precompiles_map" where
  "set_precompile_lookup lookup m = m\<lparr>pm_lookup := Some lookup\<rparr>"

definition into_dyn_precompiles ::
    "((address \<rightharpoonup> static_precompile) \<Rightarrow> (address \<times> static_precompile) list)
      \<Rightarrow> 'j precompiles_map \<Rightarrow> 'j dyn_precompiles option" where
  "into_dyn_precompiles iter m = dynamic_of (ensure_dynamic_precompiles iter m)"

text \<open>\<open>into_precompiles\<close> of the dynamic map: its entries, in the order of the hash map.\<close>

definition into_precompiles ::
    "((address \<rightharpoonup> 'j precompile) \<Rightarrow> (address \<times> 'j precompile) list) \<Rightarrow> 'j dyn_precompiles
      \<Rightarrow> (address \<times> 'j precompile) list" where
  "into_precompiles drain d = drain (dp_inner d)"

text \<open>The builder-style variants, which take the map by value.\<close>

definition with_mapped_precompile ::
    "((address \<rightharpoonup> static_precompile) \<Rightarrow> (address \<times> static_precompile) list)
      \<Rightarrow> address \<Rightarrow> ('j precompile \<Rightarrow> 'j precompile) \<Rightarrow> 'j precompiles_map
      \<Rightarrow> 'j precompiles_map option" where
  "with_mapped_precompile iter address f m = map_precompile iter address f m"

definition with_mapped_precompiles ::
    "((address \<rightharpoonup> static_precompile) \<Rightarrow> (address \<times> static_precompile) list)
      \<Rightarrow> ((address \<rightharpoonup> 'j precompile) \<Rightarrow> (address \<times> 'j precompile) list)
      \<Rightarrow> (address \<Rightarrow> 'j precompile \<Rightarrow> 'c \<Rightarrow> 'j precompile \<times> 'c) \<Rightarrow> 'c \<Rightarrow> 'j precompiles_map
      \<Rightarrow> 'j precompiles_map option" where
  "with_mapped_precompiles iter drain f c m = map_precompiles iter drain f c m"

definition with_applied_precompile ::
    "((address \<rightharpoonup> static_precompile) \<Rightarrow> (address \<times> static_precompile) list)
      \<Rightarrow> address \<Rightarrow> ('j precompile option \<Rightarrow> 'j precompile option) \<Rightarrow> 'j precompiles_map
      \<Rightarrow> 'j precompiles_map option" where
  "with_applied_precompile iter address f m = apply_precompile iter address f m"

definition with_precompile_lookup ::
    "(address \<Rightarrow> 'j precompile option) \<Rightarrow> 'j precompiles_map \<Rightarrow> 'j precompiles_map" where
  "with_precompile_lookup lookup m = set_precompile_lookup lookup m"

definition pm_addresses :: "'j precompiles_map \<Rightarrow> address set" where
  "pm_addresses m = (case pm_precompiles m of
     Builtin p \<Rightarrow> stp_addresses p | Dynamic d \<Rightarrow> dp_addresses d)"

text \<open>\<open>get\<close>: the map first, then the lookup function if one is set.\<close>

definition pm_get :: "'j precompiles_map \<Rightarrow> address \<Rightarrow> 'j precompile option" where
  "pm_get m address =
     (let static_result = (case pm_precompiles m of
          Builtin p \<Rightarrow> map_option static_as_precompile (stp_get p address)
        | Dynamic d \<Rightarrow> dp_inner d address)
      in case static_result of
           Some precompile \<Rightarrow> Some precompile
         | None \<Rightarrow> (case pm_lookup m of None \<Rightarrow> None | Some lookup \<Rightarrow> lookup address))"

text \<open>The remaining methods of \<open>PrecompileProvider\<close> but \<open>run\<close>.\<close>

definition pm_set_spec :: "'spec \<Rightarrow> 'j precompiles_map \<Rightarrow> bool \<times> 'j precompiles_map" where
  "pm_set_spec spec m = (False, m)"

definition pm_warm_addresses :: "'j precompiles_map \<Rightarrow> address set" where
  "pm_warm_addresses m = pm_addresses m"

definition pm_contains :: "'j precompiles_map \<Rightarrow> address \<Rightarrow> bool" where
  "pm_contains m address \<longleftrightarrow> pm_get m address \<noteq> None"

section \<open>Running a precompile\<close>

datatype call_input = SharedBuffer nat nat | InputBytes bytes

datatype call_value = Apparent u256 | Transfer u256

record call_inputs =
  ci_input :: call_input
  ci_gas_limit :: u64
  ci_bytecode_address :: address
  ci_target_address :: address
  ci_caller :: address
  ci_value :: call_value

datatype instruction_result = IReturn | IRevert | IPrecompileOOG | IPrecompileError

record 'gas interpreter_result =
  ir_result :: instruction_result
  ir_gas :: 'gas
  ir_output :: bytes

text \<open>
  \<open>run\<close>. \<open>shared_slice\<close> is the context's \<open>shared_memory_buffer_slice\<close>, \<open>gas_new\<close> and \<open>record_cost\<close>
  are the gas meter of revm. A failed \<open>assert!\<close> is the panic.
\<close>

definition run_input_bytes :: "(nat \<Rightarrow> nat \<Rightarrow> bytes option) \<Rightarrow> call_inputs \<Rightarrow> bytes" where
  "run_input_bytes shared_slice inputs =
     (case ci_input inputs of
        SharedBuffer lo hi \<Rightarrow> (case shared_slice lo hi of Some s \<Rightarrow> s | None \<Rightarrow> [])
      | InputBytes b \<Rightarrow> b)"

definition run_precompile_input :: "(nat \<Rightarrow> nat \<Rightarrow> bytes option) \<Rightarrow> call_inputs \<Rightarrow> precompile_input" where
  "run_precompile_input shared_slice inputs =
     \<lparr>pi_data = run_input_bytes shared_slice inputs,
      pi_gas = ci_gas_limit inputs,
      pi_caller = ci_caller inputs,
      pi_value = (case ci_value inputs of Apparent v \<Rightarrow> v | Transfer v \<Rightarrow> v),
      pi_target_address = ci_target_address inputs,
      pi_bytecode_address = ci_bytecode_address inputs\<rparr>"

definition pm_run ::
    "(nat \<Rightarrow> nat \<Rightarrow> bytes option) \<Rightarrow> (u64 \<Rightarrow> 'gas) \<Rightarrow> (u64 \<Rightarrow> 'gas \<Rightarrow> bool \<times> 'gas)
      \<Rightarrow> 'j precompiles_map \<Rightarrow> call_inputs
      \<Rightarrow> ('j, string abort, 'gas interpreter_result option) step" where
  "pm_run shared_slice gas_new record_cost m inputs j =
     (case pm_get m (ci_bytecode_address inputs) of
        None \<Rightarrow> (Inr None, j)
      | Some precompile \<Rightarrow>
          (let result = \<lparr>ir_result = IReturn, ir_gas = gas_new (ci_gas_limit inputs), ir_output = []\<rparr>
           in case precompile_call precompile (run_precompile_input shared_slice inputs) j of
                (Inr output, j') \<Rightarrow>
                  (case record_cost (po_gas_used output) (ir_gas result) of (underflow, gas) \<Rightarrow>
                     if underflow
                     then (Inr (Some \<lparr>ir_result = (if po_reverted output then IRevert else IReturn),
                                      ir_gas = gas, ir_output = po_bytes output\<rparr>), j')
                     else (Inl Panic, j'))
              | (Inl (Fatal e), j') \<Rightarrow> (Inl (Error e), j')
              | (Inl e, j') \<Rightarrow>
                  (Inr (Some (result\<lparr>ir_result :=
                     (if is_oog e then IPrecompileOOG else IPrecompileError)\<rparr>)), j')))"

section \<open>Well-formed maps and their abstraction\<close>

text \<open>The entries of the map itself, without the lookup function.\<close>

definition pm_entry :: "'j precompiles_map \<Rightarrow> address \<Rightarrow> 'j precompile option" where
  "pm_entry m address =
     (case pm_precompiles m of
        Builtin p \<Rightarrow> map_option static_as_precompile (stp_get p address)
      | Dynamic d \<Rightarrow> dp_inner d address)"

text \<open>
  The entries as their dynamic copies show them: whatever id a builtin precompile had, its copy has
  the id of an anonymous closure.
\<close>

definition dynamic_view :: "'j precompiles_map \<Rightarrow> address \<Rightarrow> 'j precompile option" where
  "dynamic_view m address =
     (case pm_precompiles m of
        Builtin p \<Rightarrow> map_option (\<lambda>e. e\<lparr>precompile_id := Custom ''closure''\<rparr>) (pm_entry m address)
      | Dynamic d \<Rightarrow> pm_entry m address)"

definition pm_wf :: "'j precompiles_map \<Rightarrow> bool" where
  "pm_wf m = (case pm_precompiles m of
     Builtin p \<Rightarrow> static_ok p \<and> finite (dom (stp_inner p))
   | Dynamic d \<Rightarrow> dp_addresses d = dom (dp_inner d) \<and> finite (dom (dp_inner d)))"

named_theorems precompile_defs \<open>the operations on precompile maps\<close>

declare dyn_new_def [precompile_defs] dyn_from_closure_def [precompile_defs]
  dyn_from_fn_def [precompile_defs] pair_precompile_def [precompile_defs]
  static_as_precompile_def [precompile_defs] stateful_precompile_def [precompile_defs]
  dynamic_of_def [precompile_defs] on_dynamic_def [precompile_defs]
  pm_addresses_def [precompile_defs] pm_entry_def [precompile_defs] pm_wf_def [precompile_defs]

lemma pm_get_entry:
  "pm_get m a = (case pm_entry m a of Some p \<Rightarrow> Some p | None \<Rightarrow>
     (case pm_lookup m of None \<Rightarrow> None | Some lookup \<Rightarrow> lookup a))"
  by (simp add: pm_get_def pm_entry_def Let_def)

lemma pm_wf_finite: "pm_wf m \<Longrightarrow> finite (dom (pm_entry m))"
  by (auto simp: precompile_defs static_ok_def dom_def split: precompiles_kind.splits)

lemma pm_wf_addresses: "pm_wf m \<Longrightarrow> pm_addresses m = dom (pm_entry m)"
  by (auto simp: precompile_defs static_ok_def dom_def split: precompiles_kind.splits)

text \<open>Making a map dynamic: the entries are the builtin ones through \<open>DynPrecompile::from\<close>.\<close>

lemma ensure_dynamic_Builtin:
  assumes "iterates iter (stp_inner p)"
  shows "ensure_dynamic_precompiles iter \<lparr>pm_precompiles = Builtin p, pm_lookup = l\<rparr> =
    \<lparr>pm_precompiles = Dynamic
       \<lparr>dp_inner = (\<lambda>a. map_option (\<lambda>pc. dyn_from_fn (sp_fn pc)) (stp_inner p a)),
        dp_addresses = dom (stp_inner p)\<rparr>,
     pm_lookup = l\<rparr>"
proof -
  have inner: "fold (\<lambda>(addr, pc) acc. acc(addr \<mapsto> dyn_from_fn (sp_fn pc)))
      (iter (stp_inner p)) Map.empty =
      (\<lambda>a. map_option (\<lambda>pc. dyn_from_fn (sp_fn pc)) (stp_inner p a))"
    using assms by (auto simp: fold_map_upd iterates_def fun_eq_iff split: option.splits)
  have "fold (\<lambda>(addr, pc). insert addr) (iter (stp_inner p)) {} = dom (stp_inner p)"
    using assms unfolding iterates_def fold_insert_fst by (metis dom_map_of_conv_image_fst sup_bot_right)
  then show ?thesis
    by (simp add: ensure_dynamic_precompiles_def inner)
qed

lemma ensure_dynamic_Dynamic [simp]:
  "ensure_dynamic_precompiles iter \<lparr>pm_precompiles = Dynamic d, pm_lookup = l\<rparr> =
   \<lparr>pm_precompiles = Dynamic d, pm_lookup = l\<rparr>"
  by (simp add: ensure_dynamic_precompiles_def)

lemma pm_lookup_ensure [simp]: "pm_lookup (ensure_dynamic_precompiles iter m) = pm_lookup m"
  by (simp add: ensure_dynamic_precompiles_def split: precompiles_kind.splits)

lemma dynamic_of_ensure: "\<exists>d. dynamic_of (ensure_dynamic_precompiles iter m) = Some d"
  by (simp add: ensure_dynamic_precompiles_def dynamic_of_def split: precompiles_kind.splits)

lemma ensure_entry:
  assumes "pm_wf m" "hash_iter iter"
  shows "pm_entry (ensure_dynamic_precompiles iter m) a =
    (case pm_precompiles m of
       Builtin p \<Rightarrow> map_option (\<lambda>pc. dyn_from_fn (sp_fn pc)) (stp_get p a)
     | Dynamic d \<Rightarrow> dp_inner d a)"
proof (cases m)
  case (fields k l)
  then show ?thesis
    using assms
    by (cases k)
      (auto simp: ensure_dynamic_Builtin hash_iterD pm_entry_def pm_wf_def static_ok_def)
qed

lemma ensure_wf:
  assumes "hash_iter iter" "pm_wf m"
  shows "pm_wf (ensure_dynamic_precompiles iter m)"
proof (cases m)
  case (fields k l)
  then show ?thesis
    using assms
    by (cases k) (auto simp: ensure_dynamic_Builtin hash_iterD pm_wf_def dom_def static_ok_def)
qed

text \<open>The copy of a map holds its dynamic view, in full.\<close>

lemma ensure_view:
  assumes "pm_wf m" "hash_iter iter"
  shows "pm_entry (ensure_dynamic_precompiles iter m) = dynamic_view m"
proof
  fix a
  show "pm_entry (ensure_dynamic_precompiles iter m) a = dynamic_view m a"
    unfolding ensure_entry [OF assms]
    by (auto simp: dynamic_view_def pm_entry_def precompile_defs static_as_precompile_def option.map_comp o_def
        split: precompiles_kind.splits)
qed

lemma ensure_addresses:
  assumes "hash_iter iter" "pm_wf m"
  shows "pm_addresses (ensure_dynamic_precompiles iter m) = pm_addresses m"
proof (cases m)
  case (fields k l)
  then show ?thesis
    using assms
    by (cases k)
      (auto simp: ensure_dynamic_Builtin hash_iterD pm_addresses_def pm_wf_def static_ok_def)
qed

lemma on_dynamic_Some:
  assumes "on_dynamic iter g m = Some m'"
  obtains d where "pm_precompiles (ensure_dynamic_precompiles iter m) = Dynamic d"
    "m' = \<lparr>pm_precompiles = Dynamic (g d), pm_lookup = pm_lookup m\<rparr>"
proof -
  obtain d where d: "pm_precompiles (ensure_dynamic_precompiles iter m) = Dynamic d"
    using dynamic_of_ensure [of iter m]
    by (auto simp: dynamic_of_def split: precompiles_kind.splits)
  then have "m' = (ensure_dynamic_precompiles iter m)\<lparr>pm_precompiles := Dynamic (g d)\<rparr>"
    using assms by (simp add: on_dynamic_def Let_def dynamic_of_def)
  then have "m' = \<lparr>pm_precompiles = Dynamic (g d), pm_lookup = pm_lookup m\<rparr>"
    by (cases "ensure_dynamic_precompiles iter m") (metis pm_lookup_ensure precompiles_map.select_convs(2) precompiles_map.update_convs(1))
  with d that show thesis by blast
qed

lemma on_dynamic_total: "\<exists>m'. on_dynamic iter g m = Some m'"
  using dynamic_of_ensure [of iter m] by (auto simp: on_dynamic_def Let_def)

text \<open>A change of the dynamic map that keeps its address set in step keeps well-formedness.\<close>

lemma on_dynamic_wf:
  assumes "on_dynamic iter g m = Some m'" "hash_iter iter" "pm_wf m"
    and step: "\<And>d. dp_addresses d = dom (dp_inner d) \<Longrightarrow> finite (dom (dp_inner d)) \<Longrightarrow>
      dp_addresses (g d) = dom (dp_inner (g d)) \<and> finite (dom (dp_inner (g d)))"
  shows "pm_wf m'"
proof -
  obtain d where d: "pm_precompiles (ensure_dynamic_precompiles iter m) = Dynamic d"
    and m': "m' = \<lparr>pm_precompiles = Dynamic (g d), pm_lookup = pm_lookup m\<rparr>"
    using assms(1) by (rule on_dynamic_Some)
  have "dp_addresses d = dom (dp_inner d)" "finite (dom (dp_inner d))"
    using ensure_wf [OF assms(2,3)] d by (simp_all add: pm_wf_def)
  then show ?thesis
    using step by (simp add: m' pm_wf_def)
qed

lemma on_dynamic_entry:
  assumes "on_dynamic iter g m = Some m'"
  obtains d where "pm_entry (ensure_dynamic_precompiles iter m) = dp_inner d"
    "pm_entry m' = dp_inner (g d)" "pm_lookup m' = pm_lookup m"
    "pm_addresses (ensure_dynamic_precompiles iter m) = dp_addresses d"
    "pm_addresses m' = dp_addresses (g d)"
proof -
  obtain d where d: "pm_precompiles (ensure_dynamic_precompiles iter m) = Dynamic d"
    and m': "m' = \<lparr>pm_precompiles = Dynamic (g d), pm_lookup = pm_lookup m\<rparr>"
    using assms by (rule on_dynamic_Some)
  show thesis
    by (rule that [of d]) (simp_all add: m' pm_entry_def fun_eq_iff d pm_addresses_def)
qed

section \<open>Operations on a map, one by one and in any order\<close>

lemma map_entries_stateless:
  assumes "distinct (map fst xs)"
  shows "fst (map_entries (\<lambda>a p c. (f a p, c)) filt xs acc c) =
    (\<lambda>k. case map_of xs k of Some p \<Rightarrow> Some (if filt k p then f k p else p) | None \<Rightarrow> acc k)"
proof -
  have "fst (map_entries (\<lambda>a p c. (f a p, c)) filt xs acc c) =
      fold (\<lambda>(k, p) acc. acc(k \<mapsto> (if filt k p then f k p else p))) xs acc"
    by (induction xs arbitrary: acc) auto
  then show ?thesis
    by (simp add: fold_map_upd [OF assms])
qed

text \<open>Whatever state the mapping function threads, the mapped entries keep their addresses.\<close>

lemma dom_map_entries: "dom (fst (map_entries f filt xs acc c)) = fst ` set xs \<union> dom acc"
proof (induction xs arbitrary: acc c)
  case Nil
  then show ?case by simp
next
  case (Cons x xs)
  obtain a p where x: "x = (a, p)" by (cases x)
  have IH: "dom (fst (map_entries f filt xs (acc(a \<mapsto> y)) c)) = insert a (fst ` set xs \<union> dom acc)"
    for y c
  proof -
    have "dom (fst (map_entries f filt xs (acc(a \<mapsto> y)) c)) = fst ` set xs \<union> dom (acc(a \<mapsto> y))"
      by (rule Cons.IH)
    also have "dom (acc(a \<mapsto> y)) = insert a (dom acc)" by auto
    finally show ?thesis by (simp only: Un_insert_right)
  qed
  show ?case
    by (cases "f a p c") (simp add: x IH)
qed

lemma finite_map_entries:
  "finite (dom acc) \<Longrightarrow> finite (dom (fst (map_entries f filt xs acc c)))"
  by (simp add: dom_map_entries)

lemma map_precompiles_filtered_wf:
  assumes "map_precompiles_filtered iter drain f filt c m = Some m'"
    and "hash_iter iter" "hash_iter drain" "pm_wf m"
  shows "pm_wf m'"
  using assms(1) unfolding map_precompiles_filtered_def
proof (rule on_dynamic_wf [OF _ assms(2,4)])
  fix d :: "'a dyn_precompiles"
  assume d: "dp_addresses d = dom (dp_inner d)" "finite (dom (dp_inner d))"
  then have "iterates drain (dp_inner d)"
    using assms(3) by (simp add: hash_iterD)
  then have "fst ` set (drain (dp_inner d)) = dom (dp_inner d)"
    unfolding iterates_def by (metis dom_map_of_conv_image_fst)
  then show "dp_addresses (filtered_dyn drain f filt c d) = dom (dp_inner (filtered_dyn drain f filt c d))
      \<and> finite (dom (dp_inner (filtered_dyn drain f filt c d)))"
    using d by (simp add: dom_map_entries filtered_dyn_def)
qed

lemma map_precompile_wf:
  assumes "map_precompile iter a f m = Some m'" "hash_iter iter" "pm_wf m"
  shows "pm_wf m'"
  using assms(1) unfolding map_precompile_def
  by (rule on_dynamic_wf [OF _ assms(2,3)]) (auto simp: Let_def insert_absorb split: option.splits)

lemma apply_precompile_wf:
  assumes "apply_precompile iter a f m = Some m'" "hash_iter iter" "pm_wf m"
  shows "pm_wf m'"
  using assms(1) unfolding apply_precompile_def
  by (rule on_dynamic_wf [OF _ assms(2,3)]) (auto simp: apply_dyn_def split: option.splits)

lemma set_precompile_lookup_wf [simp]: "pm_wf (set_precompile_lookup l m) = pm_wf m"
  by (simp add: set_precompile_lookup_def pm_wf_def)

text \<open>The changes a program can make to a map, as steps; \<open>None\<close> is a panic.\<close>

datatype 'j pm_op =
    EnsureDynamic
  | MapPrecompile address "'j precompile \<Rightarrow> 'j precompile"
  | MapPrecompiles "address \<Rightarrow> 'j precompile \<Rightarrow> nat \<Rightarrow> 'j precompile \<times> nat" nat
  | MapPurePrecompiles "address \<Rightarrow> 'j precompile \<Rightarrow> nat \<Rightarrow> 'j precompile \<times> nat" nat
  | ApplyPrecompile address "'j precompile option \<Rightarrow> 'j precompile option"
  | SetLookup "address \<Rightarrow> 'j precompile option"

fun pm_exec ::
    "((address \<rightharpoonup> static_precompile) \<Rightarrow> (address \<times> static_precompile) list)
      \<Rightarrow> ((address \<rightharpoonup> 'j precompile) \<Rightarrow> (address \<times> 'j precompile) list)
      \<Rightarrow> 'j pm_op \<Rightarrow> 'j precompiles_map \<Rightarrow> 'j precompiles_map option" where
  "pm_exec iter drain EnsureDynamic m = Some (ensure_dynamic_precompiles iter m)"
| "pm_exec iter drain (MapPrecompile a f) m = map_precompile iter a f m"
| "pm_exec iter drain (MapPrecompiles f c) m = map_precompiles iter drain f c m"
| "pm_exec iter drain (MapPurePrecompiles f c) m = map_pure_precompiles iter drain f c m"
| "pm_exec iter drain (ApplyPrecompile a f) m = apply_precompile iter a f m"
| "pm_exec iter drain (SetLookup l) m = Some (set_precompile_lookup l m)"

fun pm_exec_all ::
    "((address \<rightharpoonup> static_precompile) \<Rightarrow> (address \<times> static_precompile) list)
      \<Rightarrow> ((address \<rightharpoonup> 'j precompile) \<Rightarrow> (address \<times> 'j precompile) list)
      \<Rightarrow> 'j pm_op list \<Rightarrow> 'j precompiles_map \<Rightarrow> 'j precompiles_map option" where
  "pm_exec_all iter drain [] m = Some m"
| "pm_exec_all iter drain (x # xs) m =
     (case pm_exec iter drain x m of None \<Rightarrow> None | Some m' \<Rightarrow> pm_exec_all iter drain xs m')"

lemma pm_exec_total: "\<exists>m'. pm_exec iter drain x m = Some m'"
  by (cases x)
    (simp_all add: map_precompile_def map_precompiles_def map_pure_precompiles_def
      map_precompiles_filtered_def apply_precompile_def on_dynamic_total)

lemma pm_exec_wf:
  assumes "pm_exec iter drain x m = Some m'" "hash_iter iter" "hash_iter drain" "pm_wf m"
  shows "pm_wf m'"
  using assms
  by (cases x)
    (auto simp: map_precompiles_def map_pure_precompiles_def ensure_wf
      intro: map_precompile_wf apply_precompile_wf map_precompiles_filtered_wf)

section \<open>Properties\<close>

text \<open>A concrete map for the witnesses: the identity precompile at address 4.\<close>

definition identity_static :: static_precompile where
  "identity_static = \<lparr>sp_id = LibraryId 4,
     sp_fn = (\<lambda>data gas. if gas < 15 then Inl (NonFatal True)
       else Inr \<lparr>po_gas_used = 15, po_bytes = data, po_reverted = False\<rparr>)\<rparr>"

definition one_builtin :: "unit precompiles_map" where
  "one_builtin = from_static
     \<lparr>stp_inner = [4 \<mapsto> identity_static], stp_get = [4 \<mapsto> identity_static], stp_addresses = {4}\<rparr>"

lemma one_builtin_wf: "pm_wf one_builtin"
  by (simp add: one_builtin_def from_static_def precompiles_map_new_def pm_wf_def static_ok_def)

text \<open>C34: Converting a well-formed map to the dynamic representation changes one thing that a caller can
  see, the ids of builtin precompiles, which become the id of an anonymous closure. Otherwise what
  \<open>get\<close> returns for an address is the same: the entry with its calls and its purity, or what the
  lookup function finds; entries of a dynamic map keep their ids as well, the same addresses are
  warm, the lookup function is kept, and the result is well formed.\<close>

theorem ensure_dynamic_refines:
  assumes "pm_wf m" "hash_iter iter"
  shows "pm_get (ensure_dynamic_precompiles iter m) a =
      (case (pm_precompiles m, pm_entry m a) of
         (Builtin _, Some p) \<Rightarrow> Some (p\<lparr>precompile_id := Custom ''closure''\<rparr>)
       | _ \<Rightarrow> pm_get m a)
    \<and> pm_addresses (ensure_dynamic_precompiles iter m) = pm_addresses m
    \<and> pm_lookup (ensure_dynamic_precompiles iter m) = pm_lookup m
    \<and> pm_wf (ensure_dynamic_precompiles iter m)"
  using assms
  by (auto simp: pm_get_entry ensure_view dynamic_view_def ensure_addresses ensure_wf
      split: precompiles_kind.splits option.splits)

theorem ensure_dynamic_refines_witness:
  "map_option precompile_id (pm_get one_builtin 4) = Some (LibraryId 4)
   \<and> map_option precompile_id (pm_get (ensure_dynamic_precompiles ascending one_builtin) 4) =
      Some (Custom ''closure'')
   \<and> pm_get (ensure_dynamic_precompiles ascending one_builtin) 5 = None"
  using ensure_dynamic_refines [OF one_builtin_wf hash_iter_ascending, of 4]
    ensure_dynamic_refines [OF one_builtin_wf hash_iter_ascending, of 5]
  by (simp add: one_builtin_def from_static_def precompiles_map_new_def pm_entry_def pm_get_def
      static_as_precompile_def identity_static_def)

text \<open>C35: No sequence of changes to a well-formed map panics (the \<open>unreachable!\<close> arms are
  unreachable), and the map stays well formed: the warm address set is the set of registered
  entries.\<close>

theorem pm_exec_all_safe:
  assumes "pm_wf m" "hash_iter iter" "hash_iter drain"
  shows "\<exists>m'. pm_exec_all iter drain ops m = Some m' \<and> pm_wf m' \<and> pm_addresses m' = dom (pm_entry m')"
  using assms(1)
proof (induction ops arbitrary: m)
  case Nil
  then show ?case by (simp add: pm_wf_addresses)
next
  case (Cons x xs)
  obtain m1 where m1: "pm_exec iter drain x m = Some m1"
    using pm_exec_total by blast
  then have "pm_wf m1"
    using Cons.prems assms(2,3) by (blast intro: pm_exec_wf)
  with Cons.IH m1 show ?case by simp
qed

theorem pm_exec_all_safe_witness:
  "\<exists>m'. pm_exec_all ascending ascending
      [ApplyPrecompile 7 (\<lambda>_. Some (dyn_from_fn (sp_fn identity_static))),
       MapPurePrecompiles (\<lambda>a p n. (dyn_stateful p, Suc n)) 0,
       ApplyPrecompile 4 (\<lambda>_. None)] one_builtin = Some m'
     \<and> pm_wf m' \<and> pm_addresses m' = dom (pm_entry m')"
  by (rule pm_exec_all_safe [OF one_builtin_wf hash_iter_ascending hash_iter_ascending])

text \<open>\<open>apply_precompile\<close> adds, replaces or removes exactly the entry at the given address, as
  the closure decides from the entry found there, and the warm addresses follow; every other
  entry is kept as the dynamic copy shows it.\<close>

theorem apply_precompile_spec:
  assumes "pm_wf m" "hash_iter iter"
  shows "\<exists>m'. apply_precompile iter a f m = Some m' \<and> pm_wf m' \<and> pm_lookup m' = pm_lookup m
    \<and> pm_entry m' = (dynamic_view m)(a := f (dynamic_view m a))
    \<and> pm_addresses m' =
        (if f (dynamic_view m a) = None then pm_addresses m - {a} else insert a (pm_addresses m))"
proof -
  obtain m' where m': "apply_precompile iter a f m = Some m'"
    using on_dynamic_total unfolding apply_precompile_def by blast
  then have wf: "pm_wf m'"
    using assms by (blast intro: apply_precompile_wf)
  let ?m = "ensure_dynamic_precompiles iter m"
  obtain d where d: "pm_entry ?m = dp_inner d" and new1: "pm_entry m' = dp_inner (apply_dyn a f d)"
    and l: "pm_lookup m' = pm_lookup m" and d': "pm_addresses ?m = dp_addresses d"
    and new2: "pm_addresses m' = dp_addresses (apply_dyn a f d)"
    using m' unfolding apply_precompile_def by (rule on_dynamic_entry) (rule that)
  have e: "pm_entry m' = (dp_inner d)(a := f (dp_inner d a))"
    by (simp add: new1 new2 apply_dyn_def split: option.splits)
  have w: "pm_addresses m' =
      (if f (dp_inner d a) = None then dp_addresses d - {a} else insert a (dp_addresses d))"
    by (simp add: new1 new2 apply_dyn_def split: option.splits)
  have view: "dp_inner d = dynamic_view m" and warm: "dp_addresses d = pm_addresses m"
    using d d' assms by (simp_all add: ensure_view ensure_addresses)
  show ?thesis
    using m' wf l w e by (simp add: view warm)
qed

theorem apply_precompile_spec_witness:
  "\<exists>m'. apply_precompile ascending 4 (\<lambda>_. None) one_builtin = Some m' \<and> pm_addresses m' = {}"
  using apply_precompile_spec [OF one_builtin_wf hash_iter_ascending, of 4 "\<lambda>_. None"]
  by (auto simp: one_builtin_def from_static_def precompiles_map_new_def pm_addresses_def)

text \<open>\<open>map_pure_precompiles\<close> with a stateless closure transforms exactly the pure entries; the
  others, the warm addresses and the lookup function are untouched.\<close>

theorem map_pure_precompiles_spec:
  assumes "pm_wf m" "hash_iter iter" "hash_iter drain"
  shows "\<exists>m'. map_pure_precompiles iter drain (\<lambda>a p c. (f a p, c)) c m = Some m'
    \<and> pm_lookup m' = pm_lookup m \<and> pm_addresses m' = pm_addresses m
    \<and> pm_entry m' = (\<lambda>a. map_option (\<lambda>p. if is_pure p then f a p else p)
        (pm_entry (ensure_dynamic_precompiles iter m) a))"
proof -
  obtain m' where m': "map_pure_precompiles iter drain (\<lambda>a p c. (f a p, c)) c m = Some m'"
    using on_dynamic_total
    unfolding map_pure_precompiles_def map_precompiles_filtered_def by blast
  let ?m = "ensure_dynamic_precompiles iter m"
  let ?g = "filtered_dyn drain (\<lambda>a p c. (f a p, c)) (\<lambda>_ p. is_pure p) c"
  obtain d where d: "pm_entry ?m = dp_inner d" and new: "pm_entry m' = dp_inner (?g d)"
    and l: "pm_lookup m' = pm_lookup m" and d': "pm_addresses ?m = dp_addresses d"
    and w': "pm_addresses m' = dp_addresses (?g d)"
    using m' unfolding map_pure_precompiles_def map_precompiles_filtered_def
    by (rule on_dynamic_entry) (rule that)
  have e: "pm_entry m' =
      fst (map_entries (\<lambda>a p c. (f a p, c)) (\<lambda>_ p. is_pure p) (drain (dp_inner d)) Map.empty c)"
    and w: "pm_addresses m' = dp_addresses d"
    using new w' by (simp_all add: filtered_dyn_def)
  have "pm_wf ?m"
    using assms by (simp add: ensure_wf)
  then have "finite (dom (dp_inner d))"
    using d by (metis pm_wf_finite)
  then have "iterates drain (dp_inner d)"
    using assms(3) by (simp add: hash_iterD)
  then have "pm_entry m' = (\<lambda>a. map_option (\<lambda>p. if is_pure p then f a p else p) (dp_inner d a))"
    unfolding e iterates_def
    by (auto simp: map_entries_stateless fun_eq_iff split: option.splits)
  then show ?thesis
    using m' l w d d' assms by (simp add: ensure_addresses [symmetric])
qed

theorem map_pure_precompiles_spec_witness:
  "\<exists>m'. map_pure_precompiles ascending ascending (\<lambda>a p c. (dyn_stateful p, c)) () one_builtin = Some m'
     \<and> pm_addresses m' = {4} \<and> map_option is_pure (pm_entry m' 4) = Some False"
proof -
  obtain m' where m': "map_pure_precompiles ascending ascending (\<lambda>a p c. (dyn_stateful p, c)) () one_builtin = Some m'"
    "pm_addresses m' = pm_addresses one_builtin"
    "pm_entry m' = (\<lambda>a. map_option (\<lambda>p. if is_pure p then dyn_stateful p else p)
        (pm_entry (ensure_dynamic_precompiles ascending one_builtin) a))"
    using map_pure_precompiles_spec [OF one_builtin_wf hash_iter_ascending hash_iter_ascending,
        of "\<lambda>a p. dyn_stateful p" "()"] by blast
  have e: "pm_entry (ensure_dynamic_precompiles ascending one_builtin) 4 =
      Some (dyn_from_fn (sp_fn identity_static))"
    unfolding ensure_entry [OF one_builtin_wf hash_iter_ascending]
    by (simp add: one_builtin_def from_static_def precompiles_map_new_def)
  have "pm_entry m' 4 = Some (dyn_stateful (dyn_from_fn (sp_fn identity_static)))"
    unfolding m'(3) e
    by (simp add: dyn_from_fn_def dyn_from_closure_def dyn_new_def pair_precompile_def)
  moreover have "pm_addresses one_builtin = {4}"
    by (simp add: one_builtin_def from_static_def precompiles_map_new_def pm_addresses_def)
  ultimately show ?thesis
    using m'(1,2) by (intro exI [of _ m']) (simp add: dyn_stateful_def stateful_precompile_def)
qed

text \<open>C36: Running a call panics exactly when the resolved precompile reports more gas than the call
  has; it answers \<open>None\<close> exactly when no precompile is found, static or looked up; it returns a
  message error exactly for a fatal precompile error; and it returns a result exactly in these cases:
  the precompile succeeded within the gas of the call, and the result has its output bytes, the gas
  it reported charged and its revert flag as the outcome; or it failed, and the result has the gas
  untouched, no output, and out-of-gas or error as the outcome.\<close>

theorem pm_run_outcome:
  assumes meter: "\<And>c l. fst (record_cost c (gas_new l)) = (c \<le> l)"
  shows "(fst (pm_run shared_slice gas_new record_cost m inputs j) = Inl Panic) =
      (\<exists>p out. pm_get m (ci_bytecode_address inputs) = Some p
        \<and> fst (precompile_call p (run_precompile_input shared_slice inputs) j) = Inr out
        \<and> ci_gas_limit inputs < po_gas_used out)
    \<and> (fst (pm_run shared_slice gas_new record_cost m inputs j) = Inr None) =
      (\<not> pm_contains m (ci_bytecode_address inputs))
    \<and> (fst (pm_run shared_slice gas_new record_cost m inputs j) = Inl (Error e)) =
      (\<exists>p. pm_get m (ci_bytecode_address inputs) = Some p
        \<and> fst (precompile_call p (run_precompile_input shared_slice inputs) j) = Inl (Fatal e))
    \<and> (fst (pm_run shared_slice gas_new record_cost m inputs j) = Inr (Some r)) =
      (\<exists>p. pm_get m (ci_bytecode_address inputs) = Some p \<and>
        (case fst (precompile_call p (run_precompile_input shared_slice inputs) j) of
           Inr out \<Rightarrow>
             po_gas_used out \<le> ci_gas_limit inputs
             \<and> ir_gas r = snd (record_cost (po_gas_used out) (gas_new (ci_gas_limit inputs)))
             \<and> ir_output r = po_bytes out
             \<and> ir_result r = (if po_reverted out then IRevert else IReturn)
         | Inl (Fatal e) \<Rightarrow> False
         | Inl (NonFatal oog) \<Rightarrow>
             ir_gas r = gas_new (ci_gas_limit inputs) \<and> ir_output r = []
             \<and> ir_result r = (if oog then IPrecompileOOG else IPrecompileError)))"
proof (cases "pm_get m (ci_bytecode_address inputs)")
  case None
  then show ?thesis by (simp add: pm_run_def pm_contains_def)
next
  case (Some p)
  obtain res j' where call: "precompile_call p (run_precompile_input shared_slice inputs) j = (res, j')"
    by (cases "precompile_call p (run_precompile_input shared_slice inputs) j")
  show ?thesis
  proof (cases res)
    case (Inl err)
    then show ?thesis
      by (cases r; cases err) (auto simp: pm_run_def pm_contains_def Let_def Some call)
  next
    case (Inr out)
    obtain ok g where rc: "record_cost (po_gas_used out) (gas_new (ci_gas_limit inputs)) = (ok, g)"
      by (cases "record_cost (po_gas_used out) (gas_new (ci_gas_limit inputs))")
    then have "ok = (po_gas_used out \<le> ci_gas_limit inputs)"
      using meter [of "po_gas_used out" "ci_gas_limit inputs"] by simp
    then show ?thesis
      by (cases r) (auto simp: pm_run_def pm_contains_def Let_def Some call Inr rc)
  qed
qed

definition call_identity :: "u64 \<Rightarrow> call_inputs" where
  "call_identity g = \<lparr>ci_input = InputBytes [1, 2], ci_gas_limit = g, ci_bytecode_address = 4,
     ci_target_address = 4, ci_caller = 9, ci_value = Apparent 0\<rparr>"

definition simple_meter :: "u64 \<Rightarrow> u64 \<Rightarrow> bool \<times> u64" where
  "simple_meter c l = (c \<le> l, l - c)"

lemma simple_meter_ok: "fst (simple_meter c (id l)) = (c \<le> l)"
  by (simp add: simple_meter_def)

text \<open>A dynamic precompile that ignores its gas limit makes the node panic.\<close>

theorem pm_run_outcome_witness:
  "fst (pm_run (\<lambda>_ _. None) id simple_meter
     (set_precompile_lookup
        (\<lambda>a. Some (dyn_from_closure (\<lambda>i j. (Inr \<lparr>po_gas_used = 10, po_bytes = [], po_reverted = False\<rparr>, j))))
        (from_static \<lparr>stp_inner = Map.empty, stp_get = Map.empty, stp_addresses = {}\<rparr>))
     (call_identity 5) ()) = Inl Panic"
  by (subst pm_run_outcome [of simple_meter id, OF simple_meter_ok, THEN conjunct1])
    (simp add: pm_get_def set_precompile_lookup_def from_static_def precompiles_map_new_def
      precompile_defs call_identity_def)

end
