(* ===== verification/EthEvm.thy ===== *)
theory EthEvm
  imports Evm Precompiles
begin

text \<open>
  \<open>crates/evm/src/eth/mod.rs\<close>: the Ethereum EVM, a wrapper around the one of revm, its builder
  and its factory. What revm does with a transaction is a parameter (\<open>revm_ops\<close>); the wrapper's
  own fields, and the fields of the revm context that the sources reach into, are the state.
\<close>

section \<open>The state of a wrapped revm EVM\<close>

text \<open>
  The revm context: block and configuration environment, the database inside the journal, and
  the rest (journal entries, the transaction environment, local memory, chain data).
\<close>

record ('db, 'spec, 'rest) evm_context =
  cx_block :: block_env
  cx_cfg :: "'spec cfg_env"
  cx_database :: 'db
  cx_rest :: 'rest

record ('db, 'spec, 'rest, 'insp, 'pre) inner_evm =
  in_ctx :: "('db, 'spec, 'rest) evm_context"
  in_inspector :: 'insp
  in_precompiles :: 'pre

text \<open>The struct \<open>{ inner, inspect }\<close> that the three EVMs of this repository share.\<close>

record ('db, 'spec, 'rest, 'insp, 'pre) evm_wrapper =
  we_inner :: "('db, 'spec, 'rest, 'insp, 'pre) inner_evm"
  we_inspect :: bool

text \<open>The operations of the inner EVM: \<open>transact\<close>, \<open>inspect_tx\<close>, \<open>system_call_with_caller\<close>.\<close>

record ('inner, 'tx, 'halt, 'err) revm_ops =
  rv_transact :: "'tx \<Rightarrow> ('inner, 'err, 'halt result_and_state) step"
  rv_inspect_tx :: "'tx \<Rightarrow> ('inner, 'err, 'halt result_and_state) step"
  rv_system_call_with_caller ::
    "address \<Rightarrow> address \<Rightarrow> bytes \<Rightarrow> ('inner, 'err, 'halt result_and_state) step"

definition on_inner ::
    "(('db, 'spec, 'rest, 'insp, 'pre) inner_evm, 'e, 'a) step
      \<Rightarrow> (('db, 'spec, 'rest, 'insp, 'pre) evm_wrapper, 'e, 'a) step" where
  "on_inner = zoom we_inner (\<lambda>i e. e\<lparr>we_inner := i\<rparr>)"

section \<open>EthEvm\<close>

type_synonym ('db, 'spec, 'rest, 'insp, 'pre) eth_evm =
  "('db, 'spec, 'rest, 'insp, 'pre) evm_wrapper"

definition eth_evm_new ::
    "('db, 'spec, 'rest, 'insp, 'pre) inner_evm \<Rightarrow> bool \<Rightarrow> ('db, 'spec, 'rest, 'insp, 'pre) eth_evm" where
  "eth_evm_new evm inspect = \<lparr>we_inner = evm, we_inspect = inspect\<rparr>"

definition eth_into_inner ::
    "('db, 'spec, 'rest, 'insp, 'pre) eth_evm \<Rightarrow> ('db, 'spec, 'rest, 'insp, 'pre) inner_evm" where
  "eth_into_inner e = we_inner e"

definition eth_ctx :: "('db, 'spec, 'rest, 'insp, 'pre) eth_evm \<Rightarrow> ('db, 'spec, 'rest) evm_context" where
  "eth_ctx e = in_ctx (we_inner e)"

definition eth_block :: "('db, 'spec, 'rest, 'insp, 'pre) eth_evm \<Rightarrow> block_env" where
  "eth_block e = cx_block (eth_ctx e)"

definition eth_chain_id :: "('db, 'spec, 'rest, 'insp, 'pre) eth_evm \<Rightarrow> u64" where
  "eth_chain_id e = cfg_chain_id (cx_cfg (eth_ctx e))"

definition eth_transact_raw ::
    "(('db, 'spec, 'rest, 'insp, 'pre) inner_evm, 'tx, 'halt, 'err) revm_ops \<Rightarrow> 'tx
      \<Rightarrow> (('db, 'spec, 'rest, 'insp, 'pre) eth_evm, 'err, 'halt result_and_state) step" where
  "eth_transact_raw R tx e =
     (if we_inspect e then on_inner (rv_inspect_tx R tx) e else on_inner (rv_transact R tx) e)"

definition eth_transact_system_call ::
    "(('db, 'spec, 'rest, 'insp, 'pre) inner_evm, 'tx, 'halt, 'err) revm_ops
      \<Rightarrow> address \<Rightarrow> address \<Rightarrow> bytes
      \<Rightarrow> (('db, 'spec, 'rest, 'insp, 'pre) eth_evm, 'err, 'halt result_and_state) step" where
  "eth_transact_system_call R caller contract data =
     on_inner (rv_system_call_with_caller R caller contract data)"

definition eth_finish :: "('db, 'spec, 'rest, 'insp, 'pre) eth_evm \<Rightarrow> 'db \<times> 'spec evm_env" where
  "eth_finish e =
     (let ctx = in_ctx (we_inner e)
      in (cx_database ctx, \<lparr>ee_cfg_env = cx_cfg ctx, ee_block_env = cx_block ctx\<rparr>))"

definition eth_set_inspector_enabled ::
    "bool \<Rightarrow> ('db, 'spec, 'rest, 'insp, 'pre) eth_evm \<Rightarrow> ('db, 'spec, 'rest, 'insp, 'pre) eth_evm" where
  "eth_set_inspector_enabled enabled e = e\<lparr>we_inspect := enabled\<rparr>"

definition eth_components ::
    "('db, 'spec, 'rest, 'insp, 'pre) eth_evm \<Rightarrow> 'db \<times> 'insp \<times> 'pre" where
  "eth_components e =
     (cx_database (in_ctx (we_inner e)), in_inspector (we_inner e), in_precompiles (we_inner e))"

definition eth_components_mut ::
    "'db \<times> 'insp \<times> 'pre \<Rightarrow> ('db, 'spec, 'rest, 'insp, 'pre) eth_evm
      \<Rightarrow> ('db, 'spec, 'rest, 'insp, 'pre) eth_evm" where
  "eth_components_mut c e =
     (case c of (d, i, p) \<Rightarrow>
        e\<lparr>we_inner := (we_inner e)
           \<lparr>in_ctx := (in_ctx (we_inner e))\<lparr>cx_database := d\<rparr>,
            in_inspector := i, in_precompiles := p\<rparr>\<rparr>)"

text \<open>The impl of \<open>Evm\<close> for \<open>EthEvm\<close>.\<close>

definition eth_evm_dict ::
    "(('db, 'spec, 'rest, 'insp, 'pre) inner_evm, 'tx, 'halt, 'err) revm_ops
      \<Rightarrow> (('db, 'spec, 'rest, 'insp, 'pre) eth_evm, 'db, 'insp, 'pre, 'spec, 'tx, 'halt, 'err) evm_dict" where
  "eth_evm_dict R =
     \<lparr>ev_block = eth_block, ev_chain_id = eth_chain_id,
      ev_transact_raw = eth_transact_raw R,
      ev_transact_system_call = eth_transact_system_call R,
      ev_finish = eth_finish, ev_set_inspector_enabled = eth_set_inspector_enabled,
      ev_components = eth_components, ev_components_mut = eth_components_mut\<rparr>"

lemmas eth_evm_defs = eth_evm_dict_def eth_block_def eth_chain_id_def eth_ctx_def
  eth_transact_raw_def eth_transact_system_call_def eth_finish_def
  eth_set_inspector_enabled_def eth_components_def eth_components_mut_def on_inner_def

text \<open>\<open>EthEvm\<close> meets the contract of an EVM.\<close>

interpretation eth_access: evm_access "eth_evm_dict R"
  for R :: "(('db, 'spec, 'rest, 'insp, 'pre) inner_evm, 'tx, 'halt, 'err) revm_ops"
  by unfold_locales (auto simp: eth_evm_defs chainid_def Let_def split: prod.splits)

section \<open>EthEvmBuilder\<close>

record ('db, 'spec, 'insp, 'j) eth_evm_builder =
  eb_db :: 'db
  eb_block_env :: block_env
  eb_cfg_env :: "'spec cfg_env"
  eb_inspector :: 'insp
  eb_inspect :: bool
  eb_precompiles :: "'j precompiles_map option"

text \<open>\<open>new\<close> starts with the no-op inspector, here \<open>()\<close>.\<close>

definition eth_builder_new :: "'db \<Rightarrow> 'spec evm_env \<Rightarrow> ('db, 'spec, unit, 'j) eth_evm_builder" where
  "eth_builder_new db env =
     \<lparr>eb_db = db, eb_block_env = ee_block_env env, eb_cfg_env = ee_cfg_env env,
      eb_inspector = (), eb_inspect = False, eb_precompiles = None\<rparr>"

definition eth_builder_inspector ::
    "'insp2 \<Rightarrow> ('db, 'spec, 'insp, 'j) eth_evm_builder \<Rightarrow> ('db, 'spec, 'insp2, 'j) eth_evm_builder" where
  "eth_builder_inspector inspector b =
     \<lparr>eb_db = eb_db b, eb_block_env = eb_block_env b, eb_cfg_env = eb_cfg_env b,
      eb_inspector = inspector, eb_inspect = eb_inspect b, eb_precompiles = eb_precompiles b\<rparr>"

definition eth_builder_set_inspect ::
    "bool \<Rightarrow> ('db, 'spec, 'insp, 'j) eth_evm_builder \<Rightarrow> ('db, 'spec, 'insp, 'j) eth_evm_builder" where
  "eth_builder_set_inspect inspect b = b\<lparr>eb_inspect := inspect\<rparr>"

definition eth_builder_inspect ::
    "('db, 'spec, 'insp, 'j) eth_evm_builder \<Rightarrow> ('db, 'spec, 'insp, 'j) eth_evm_builder" where
  "eth_builder_inspect b = eth_builder_set_inspect True b"

definition eth_builder_activate_inspector ::
    "'insp2 \<Rightarrow> ('db, 'spec, 'insp, 'j) eth_evm_builder \<Rightarrow> ('db, 'spec, 'insp2, 'j) eth_evm_builder" where
  "eth_builder_activate_inspector inspector b =
     eth_builder_inspect (eth_builder_inspector inspector b)"

definition eth_builder_precompiles ::
    "'j precompiles_map \<Rightarrow> ('db, 'spec, 'insp, 'j) eth_evm_builder
      \<Rightarrow> ('db, 'spec, 'insp, 'j) eth_evm_builder" where
  "eth_builder_precompiles p b = b\<lparr>eb_precompiles := Some p\<rparr>"

text \<open>
  \<open>build\<close>. \<open>precompiles_for\<close> is revm's table of builtin precompiles of a spec and \<open>rest0\<close> the
  rest of a fresh mainnet context.
\<close>

definition eth_builder_build ::
    "('spec \<Rightarrow> static_precompiles) \<Rightarrow> 'rest \<Rightarrow> ('db, 'spec, 'insp, 'j) eth_evm_builder
      \<Rightarrow> ('db, 'spec, 'rest, 'insp, 'j precompiles_map) eth_evm" where
  "eth_builder_build precompiles_for rest0 b =
     (let precompiles = (case eb_precompiles b of
            Some p \<Rightarrow> p
          | None \<Rightarrow> from_static (precompiles_for (cfg_spec (eb_cfg_env b))))
      in \<lparr>we_inner =
            \<lparr>in_ctx = \<lparr>cx_block = eb_block_env b, cx_cfg = eb_cfg_env b, cx_database = eb_db b,
                       cx_rest = rest0\<rparr>,
             in_inspector = eb_inspector b, in_precompiles = precompiles\<rparr>,
          we_inspect = eb_inspect b\<rparr>)"

definition eth_create_evm ::
    "('spec \<Rightarrow> static_precompiles) \<Rightarrow> 'rest \<Rightarrow> 'db \<Rightarrow> 'spec evm_env
      \<Rightarrow> ('db, 'spec, 'rest, unit, 'j precompiles_map) eth_evm" where
  "eth_create_evm precompiles_for rest0 db input =
     eth_builder_build precompiles_for rest0 (eth_builder_new db input)"

definition eth_create_evm_with_inspector ::
    "('spec \<Rightarrow> static_precompiles) \<Rightarrow> 'rest \<Rightarrow> 'db \<Rightarrow> 'spec evm_env \<Rightarrow> 'insp
      \<Rightarrow> ('db, 'spec, 'rest, 'insp, 'j precompiles_map) eth_evm" where
  "eth_create_evm_with_inspector precompiles_for rest0 db input inspector =
     eth_builder_build precompiles_for rest0
       (eth_builder_activate_inspector inspector (eth_builder_new db input))"

lemmas eth_builder_defs = eth_builder_new_def eth_builder_inspector_def
  eth_builder_set_inspect_def eth_builder_inspect_def eth_builder_activate_inspector_def
  eth_builder_precompiles_def eth_builder_build_def eth_create_evm_def
  eth_create_evm_with_inspector_def Let_def

text \<open>An EVM from the factory gives back, when taken apart, the database and environment it
  was created with; it carries the builtin precompiles of the configured spec with no lookup
  function, and runs its inspector exactly when it was created with one.\<close>

theorem eth_factory_roundtrip:
  "eth_finish (eth_create_evm pf r db env) = (db, env)
   \<and> eth_finish (eth_create_evm_with_inspector pf r db env i) = (db, env)
   \<and> eth_components (eth_create_evm pf r db env) = (db, (), from_static (pf (spec_id env)))
   \<and> eth_components (eth_create_evm_with_inspector pf r db env i) = (db, i, from_static (pf (spec_id env)))
   \<and> (eth_transact_raw R tx (eth_create_evm pf r db env) =
        on_inner (rv_transact R tx) (eth_create_evm pf r db env))
   \<and> (eth_transact_raw R' tx' (eth_create_evm_with_inspector pf r db env i) =
        on_inner (rv_inspect_tx R' tx') (eth_create_evm_with_inspector pf r db env i))"
  by (simp add: eth_builder_defs eth_finish_def eth_components_def eth_transact_raw_def spec_id_def)

lemma eth_builder_keeps_precompiles:
  "eth_components (eth_builder_build pf r (eth_builder_precompiles p b)) = (eb_db b, eb_inspector b, p)"
  by (simp add: eth_builder_defs eth_components_def)

end
