(* ===== verification/SeismicEvm.thy ===== *)
theory SeismicEvm
  imports EthEvm
begin

text \<open>
  \<open>crates/seismic-evm/src/lib.rs\<close>: the Seismic EVM. Unlike the other two wrappers it builds the
  system call itself, as a transaction with temporarily changed block and configuration fields,
  and it is created from the purpose keys of the enclave.
\<close>

section \<open>Seismic transactions\<close>

text \<open>\<open>RngMode\<close> of \<open>seismic_revm\<close>: the variant that the sources construct, the others by name.\<close>

datatype rng_mode = Execution | OtherRngMode string

record seismic_transaction =
  stx_base :: tx_env
  stx_tx_hash :: b256
  stx_rng_mode :: rng_mode

section \<open>The wrapper\<close>

type_synonym ('db, 'spec, 'rest, 'insp, 'pre) seismic_evm =
  "('db, 'spec, 'rest, 'insp, 'pre) evm_wrapper"

definition seismic_ctx ::
    "('db, 'spec, 'rest, 'insp, 'pre) seismic_evm \<Rightarrow> ('db, 'spec, 'rest) evm_context" where
  "seismic_ctx e = in_ctx (we_inner e)"

text \<open>Writing through \<open>ctx_mut()\<close>, which is also \<open>deref_mut\<close>.\<close>

definition seismic_ctx_mut ::
    "(('db, 'spec, 'rest) evm_context \<Rightarrow> ('db, 'spec, 'rest) evm_context)
      \<Rightarrow> ('db, 'spec, 'rest, 'insp, 'pre) seismic_evm \<Rightarrow> ('db, 'spec, 'rest, 'insp, 'pre) seismic_evm" where
  "seismic_ctx_mut f e = e\<lparr>we_inner := (we_inner e)\<lparr>in_ctx := f (in_ctx (we_inner e))\<rparr>\<rparr>"

definition seismic_evm_new ::
    "('db, 'spec, 'rest, 'insp, 'pre) inner_evm \<Rightarrow> bool \<Rightarrow> ('db, 'spec, 'rest, 'insp, 'pre) seismic_evm" where
  "seismic_evm_new inner inspect = \<lparr>we_inner = inner, we_inspect = inspect\<rparr>"

definition seismic_block :: "('db, 'spec, 'rest, 'insp, 'pre) seismic_evm \<Rightarrow> block_env" where
  "seismic_block e = cx_block (in_ctx (we_inner e))"

definition seismic_chain_id :: "('db, 'spec, 'rest, 'insp, 'pre) seismic_evm \<Rightarrow> u64" where
  "seismic_chain_id e = cfg_chain_id (cx_cfg (seismic_ctx e))"

definition seismic_transact_raw ::
    "(('db, 'spec, 'rest, 'insp, 'pre) inner_evm, seismic_transaction, 'halt, 'err) revm_ops
      \<Rightarrow> seismic_transaction
      \<Rightarrow> (('db, 'spec, 'rest, 'insp, 'pre) seismic_evm, 'err, 'halt result_and_state) step" where
  "seismic_transact_raw R tx e =
     (if we_inspect e then on_inner (rv_inspect_tx R tx) e else on_inner (rv_transact R tx) e)"

definition seismic_transact ::
    "(('db, 'spec, 'rest, 'insp, 'pre) inner_evm, seismic_transaction, 'halt, 'err) revm_ops
      \<Rightarrow> ('x \<Rightarrow> seismic_transaction) \<Rightarrow> 'x
      \<Rightarrow> (('db, 'spec, 'rest, 'insp, 'pre) seismic_evm, 'err, 'halt result_and_state) step" where
  "seismic_transact R into_tx_env tx = seismic_transact_raw R (into_tx_env tx)"

section \<open>System calls\<close>

text \<open>The transaction of a system call; empty collections, zero hash.\<close>

definition seismic_system_tx :: "address \<Rightarrow> address \<Rightarrow> bytes \<Rightarrow> seismic_transaction" where
  "seismic_system_tx caller contract data =
     \<lparr>stx_base =
        \<lparr>te_tx_type = 0, te_caller = caller, te_gas_limit = 30000000, te_gas_price = 0,
         te_kind = Call contract, te_value = 0, te_data = data, te_nonce = 0,
         te_chain_id = None, te_access_list = [], te_gas_priority_fee = None,
         te_blob_hashes = [], te_max_fee_per_blob_gas = 0, te_authorization_list = []\<rparr>,
      stx_tx_hash = 0, stx_rng_mode = Execution\<rparr>"

text \<open>\<open>core::mem::swap(&mut self.field, &mut x)\<close> for the three fields: the old field and the new state.\<close>

definition swap_gas_limit ::
    "u64 \<Rightarrow> ('db, 'spec, 'rest, 'insp, 'pre) seismic_evm
      \<Rightarrow> u64 \<times> ('db, 'spec, 'rest, 'insp, 'pre) seismic_evm" where
  "swap_gas_limit x e =
     (be_gas_limit (cx_block (seismic_ctx e)),
      seismic_ctx_mut (\<lambda>c. c\<lparr>cx_block := (cx_block c)\<lparr>be_gas_limit := x\<rparr>\<rparr>) e)"

definition swap_basefee ::
    "u64 \<Rightarrow> ('db, 'spec, 'rest, 'insp, 'pre) seismic_evm
      \<Rightarrow> u64 \<times> ('db, 'spec, 'rest, 'insp, 'pre) seismic_evm" where
  "swap_basefee x e =
     (be_basefee (cx_block (seismic_ctx e)),
      seismic_ctx_mut (\<lambda>c. c\<lparr>cx_block := (cx_block c)\<lparr>be_basefee := x\<rparr>\<rparr>) e)"

definition swap_disable_nonce_check ::
    "bool \<Rightarrow> ('db, 'spec, 'rest, 'insp, 'pre) seismic_evm
      \<Rightarrow> bool \<times> ('db, 'spec, 'rest, 'insp, 'pre) seismic_evm" where
  "swap_disable_nonce_check x e =
     (cfg_disable_nonce_check (cx_cfg (seismic_ctx e)),
      seismic_ctx_mut (\<lambda>c. c\<lparr>cx_cfg := (cx_cfg c)\<lparr>cfg_disable_nonce_check := x\<rparr>\<rparr>) e)"

text \<open>\<open>res.state.retain(|addr, _| *addr == contract)\<close>\<close>

definition retain_contract :: "address \<Rightarrow> 'halt result_and_state \<Rightarrow> 'halt result_and_state" where
  "retain_contract contract rs = rs\<lparr>rs_state := rs_state rs |` {a. a = contract}\<rparr>"

definition seismic_transact_system_call ::
    "(('db, 'spec, 'rest, 'insp, 'pre) inner_evm, seismic_transaction, 'halt, 'err) revm_ops
      \<Rightarrow> address \<Rightarrow> address \<Rightarrow> bytes
      \<Rightarrow> (('db, 'spec, 'rest, 'insp, 'pre) seismic_evm, 'err, 'halt result_and_state) step" where
  "seismic_transact_system_call R caller contract data e0 =
     (let tx = seismic_system_tx caller contract data;
          gas_limit = te_gas_limit (stx_base tx);
          basefee = 0;
          disable_nonce_check = True;
          (gas_limit, e1) = swap_gas_limit gas_limit e0;
          (basefee, e2) = swap_basefee basefee e1;
          (disable_nonce_check, e3) = swap_disable_nonce_check disable_nonce_check e2;
          (res, e4) = seismic_transact R id tx e3;
          (gas_limit, e5) = swap_gas_limit gas_limit e4;
          (basefee, e6) = swap_basefee basefee e5;
          (disable_nonce_check, e7) = swap_disable_nonce_check disable_nonce_check e6
      in (case res of
            Inl err \<Rightarrow> (Inl err, e7)
          | Inr rs \<Rightarrow> (Inr (retain_contract contract rs), e7)))"

definition seismic_finish ::
    "('db, 'spec, 'rest, 'insp, 'pre) seismic_evm \<Rightarrow> 'db \<times> 'spec evm_env" where
  "seismic_finish e =
     (let ctx = in_ctx (we_inner e)
      in (cx_database ctx, \<lparr>ee_cfg_env = cx_cfg ctx, ee_block_env = cx_block ctx\<rparr>))"

definition seismic_set_inspector_enabled ::
    "bool \<Rightarrow> ('db, 'spec, 'rest, 'insp, 'pre) seismic_evm
      \<Rightarrow> ('db, 'spec, 'rest, 'insp, 'pre) seismic_evm" where
  "seismic_set_inspector_enabled enabled e = e\<lparr>we_inspect := enabled\<rparr>"

definition seismic_components ::
    "('db, 'spec, 'rest, 'insp, 'pre) seismic_evm \<Rightarrow> 'db \<times> 'insp \<times> 'pre" where
  "seismic_components e =
     (cx_database (in_ctx (we_inner e)), in_inspector (we_inner e), in_precompiles (we_inner e))"

definition seismic_components_mut ::
    "'db \<times> 'insp \<times> 'pre \<Rightarrow> ('db, 'spec, 'rest, 'insp, 'pre) seismic_evm
      \<Rightarrow> ('db, 'spec, 'rest, 'insp, 'pre) seismic_evm" where
  "seismic_components_mut c e =
     (case c of (d, i, p) \<Rightarrow>
        e\<lparr>we_inner := (we_inner e)
           \<lparr>in_ctx := (in_ctx (we_inner e))\<lparr>cx_database := d\<rparr>,
            in_inspector := i, in_precompiles := p\<rparr>\<rparr>)"

definition seismic_evm_dict ::
    "(('db, 'spec, 'rest, 'insp, 'pre) inner_evm, seismic_transaction, 'halt, 'err) revm_ops
      \<Rightarrow> (('db, 'spec, 'rest, 'insp, 'pre) seismic_evm, 'db, 'insp, 'pre, 'spec,
          seismic_transaction, 'halt, 'err) evm_dict" where
  "seismic_evm_dict R =
     \<lparr>ev_block = seismic_block, ev_chain_id = seismic_chain_id,
      ev_transact_raw = seismic_transact_raw R,
      ev_transact_system_call = seismic_transact_system_call R,
      ev_finish = seismic_finish, ev_set_inspector_enabled = seismic_set_inspector_enabled,
      ev_components = seismic_components, ev_components_mut = seismic_components_mut\<rparr>"

lemmas seismic_evm_defs = seismic_evm_dict_def seismic_block_def seismic_chain_id_def
  seismic_ctx_def seismic_finish_def seismic_set_inspector_enabled_def seismic_components_def
  seismic_components_mut_def

interpretation seismic_access: evm_access "seismic_evm_dict R"
  for R :: "(('db, 'spec, 'rest, 'insp, 'pre) inner_evm, seismic_transaction, 'halt, 'err) revm_ops"
  by unfold_locales (auto simp: seismic_evm_defs chainid_def Let_def split: prod.splits)

text \<open>The methods that the impl of \<open>Evm\<close> overrides although the trait provides them.\<close>

definition seismic_db_mut ::
    "'db \<Rightarrow> ('db, 'spec, 'rest, 'insp, 'pre) seismic_evm \<Rightarrow> ('db, 'spec, 'rest, 'insp, 'pre) seismic_evm" where
  "seismic_db_mut d e = seismic_ctx_mut (\<lambda>c. c\<lparr>cx_database := d\<rparr>) e"

definition seismic_precompiles :: "('db, 'spec, 'rest, 'insp, 'pre) seismic_evm \<Rightarrow> 'pre" where
  "seismic_precompiles e = in_precompiles (we_inner e)"

definition seismic_precompiles_mut ::
    "'pre \<Rightarrow> ('db, 'spec, 'rest, 'insp, 'pre) seismic_evm \<Rightarrow> ('db, 'spec, 'rest, 'insp, 'pre) seismic_evm" where
  "seismic_precompiles_mut p e = e\<lparr>we_inner := (we_inner e)\<lparr>in_precompiles := p\<rparr>\<rparr>"

definition seismic_inspector :: "('db, 'spec, 'rest, 'insp, 'pre) seismic_evm \<Rightarrow> 'insp" where
  "seismic_inspector e = in_inspector (we_inner e)"

definition seismic_inspector_mut ::
    "'insp \<Rightarrow> ('db, 'spec, 'rest, 'insp, 'pre) seismic_evm \<Rightarrow> ('db, 'spec, 'rest, 'insp, 'pre) seismic_evm" where
  "seismic_inspector_mut i e = e\<lparr>we_inner := (we_inner e)\<lparr>in_inspector := i\<rparr>\<rparr>"

lemma seismic_overrides_default:
  "seismic_transact R into tx = evm_transact (seismic_evm_dict R) into tx"
  "seismic_db_mut d e = evm_set_db (seismic_evm_dict R) d e"
  "seismic_precompiles e = evm_precompiles (seismic_evm_dict R) e"
  "seismic_precompiles_mut p e = evm_set_precompiles (seismic_evm_dict R) p e"
  "seismic_inspector e = evm_inspector (seismic_evm_dict R) e"
  "seismic_inspector_mut i e = evm_set_inspector (seismic_evm_dict R) i e"
  by (simp_all add: seismic_transact_def seismic_db_mut_def seismic_precompiles_def
      seismic_precompiles_mut_def seismic_inspector_def seismic_inspector_mut_def
      evm_defs seismic_evm_defs seismic_ctx_mut_def)

section \<open>What a system call does\<close>

text \<open>The context during a system call.\<close>

definition system_call_ctx ::
    "('db, 'spec, 'rest) evm_context \<Rightarrow> ('db, 'spec, 'rest) evm_context" where
  "system_call_ctx c =
     c\<lparr>cx_block := (cx_block c)\<lparr>be_gas_limit := 30000000, be_basefee := 0\<rparr>,
       cx_cfg := (cx_cfg c)\<lparr>cfg_disable_nonce_check := True\<rparr>\<rparr>"

text \<open>Writing back the three fields of an earlier context.\<close>

definition restore_ctx ::
    "('db, 'spec, 'rest) evm_context \<Rightarrow> ('db, 'spec, 'rest) evm_context
      \<Rightarrow> ('db, 'spec, 'rest) evm_context" where
  "restore_ctx old c =
     c\<lparr>cx_block := (cx_block c)\<lparr>be_gas_limit := be_gas_limit (cx_block old),
                               be_basefee := be_basefee (cx_block old)\<rparr>,
       cx_cfg := (cx_cfg c)\<lparr>cfg_disable_nonce_check := cfg_disable_nonce_check (cx_cfg old)\<rparr>\<rparr>"

lemma seismic_system_call_eq:
  "seismic_transact_system_call R caller contract data e =
     (case seismic_transact_raw R (seismic_system_tx caller contract data)
             (seismic_ctx_mut system_call_ctx e) of
        (res, e') \<Rightarrow>
          (map_sum id (retain_contract contract) res,
           seismic_ctx_mut (restore_ctx (seismic_ctx e)) e'))"
  by (simp add: seismic_transact_system_call_def Let_def swap_gas_limit_def swap_basefee_def
      swap_disable_nonce_check_def seismic_transact_def seismic_ctx_mut_def seismic_ctx_def
      system_call_ctx_def restore_ctx_def seismic_system_tx_def
      split: prod.splits sum.splits)

lemma dom_retain_contract: "dom (rs_state (retain_contract c rs)) \<subseteq> {c}"
  by (auto simp: retain_contract_def restrict_map_def split: if_splits)

text \<open>C1: After a system call, whether it succeeds or fails, the block gas limit, the base fee and
  the nonce-check switch have the values they had before it, and on success the returned changes
  concern no account but the called contract, which has the changes the EVM computed for it.\<close>

theorem seismic_system_call_restores:
  assumes "seismic_transact_system_call R caller contract data e = (r, e')"
  shows "be_gas_limit (seismic_block e') = be_gas_limit (seismic_block e)
    \<and> be_basefee (seismic_block e') = be_basefee (seismic_block e)
    \<and> cfg_disable_nonce_check (cx_cfg (seismic_ctx e')) = cfg_disable_nonce_check (cx_cfg (seismic_ctx e))
    \<and> (\<forall>rs. r = Inr rs \<longrightarrow> dom (rs_state rs) \<subseteq> {contract}
        \<and> (\<exists>rs0. fst (seismic_transact_raw R (seismic_system_tx caller contract data)
                   (seismic_ctx_mut system_call_ctx e)) = Inr rs0
              \<and> rs_result rs = rs_result rs0
              \<and> rs_state rs contract = rs_state rs0 contract))"
proof -
  obtain res e1 where raw: "seismic_transact_raw R (seismic_system_tx caller contract data)
      (seismic_ctx_mut system_call_ctx e) = (res, e1)"
    by (cases "seismic_transact_raw R (seismic_system_tx caller contract data)
      (seismic_ctx_mut system_call_ctx e)")
  then have r: "r = map_sum id (retain_contract contract) res"
    and e': "e' = seismic_ctx_mut (restore_ctx (seismic_ctx e)) e1"
    using assms by (simp_all add: seismic_system_call_eq)
  have env: "be_gas_limit (seismic_block e') = be_gas_limit (seismic_block e)
    \<and> be_basefee (seismic_block e') = be_basefee (seismic_block e)
    \<and> cfg_disable_nonce_check (cx_cfg (seismic_ctx e')) = cfg_disable_nonce_check (cx_cfg (seismic_ctx e))"
    by (simp add: e' seismic_ctx_mut_def restore_ctx_def seismic_block_def seismic_ctx_def)
  show ?thesis
    using env dom_retain_contract [of contract]
    by (cases res) (auto simp: r raw retain_contract_def)
qed

text \<open>A revm that reports a change of the caller and of the contract, and disturbs the base fee.\<close>

definition touching_revm ::
    "((nat, nat, unit, unit, unit) inner_evm, seismic_transaction, unit, unit) revm_ops" where
  "touching_revm =
     \<lparr>rv_transact = (\<lambda>tx i. (Inr \<lparr>rs_result = Success 21000 [] [],
          rs_state = [te_caller (stx_base tx) \<mapsto>
             \<lparr>acc_info = \<lparr>ai_balance = 0, ai_nonce = 1, ai_code_hash = 0, ai_code = None\<rparr>,
              acc_storage = Map.empty, acc_status = {Touched}, acc_transaction_id = 0\<rparr>]\<rparr>,
          i\<lparr>in_ctx := (in_ctx i)\<lparr>cx_block := (cx_block (in_ctx i))\<lparr>be_basefee := 7\<rparr>\<rparr>\<rparr>)),
      rv_inspect_tx = (\<lambda>tx i. (Inl (), i)),
      rv_system_call_with_caller = (\<lambda>c1 c2 d i. (Inl (), i))\<rparr>"

definition sample_wrapper :: "(nat, nat, unit, unit, unit) evm_wrapper" where
  "sample_wrapper =
     \<lparr>we_inner = \<lparr>in_ctx = \<lparr>cx_block = \<lparr>be_number = 5, be_beneficiary = 1, be_timestamp = 12,
          be_gas_limit = 1000, be_basefee = 9, be_difficulty = 0, be_prevrandao = None\<rparr>,
        cx_cfg = \<lparr>cfg_chain_id = 1, cfg_spec = 0, cfg_disable_nonce_check = False\<rparr>,
        cx_database = 0, cx_rest = ()\<rparr>, in_inspector = (), in_precompiles = ()\<rparr>,
      we_inspect = False\<rparr>"

lemma seismic_system_call_restores_witness:
  "be_basefee (seismic_block (snd (seismic_transact_system_call touching_revm 3 4 [] sample_wrapper))) = 9"
  using seismic_system_call_restores [of touching_revm 3 4 "[]" sample_wrapper
      "fst (seismic_transact_system_call touching_revm 3 4 [] sample_wrapper)"
      "snd (seismic_transact_system_call touching_revm 3 4 [] sample_wrapper)"]
  by (simp add: sample_wrapper_def seismic_block_def)

text \<open>C2: The EVM runs a system call as a transaction with gas price 0, nonce 0, no chain id and
  30 million gas, in an environment whose block gas limit covers that gas, whose base fee does not
  exceed the gas price and whose nonce check is off; everything else of the environment and the
  database is what it was, and its outcome is the outcome reported.\<close>

theorem seismic_system_call_view:
  "let c = system_call_ctx (seismic_ctx e);
       tx = seismic_system_tx caller contract data;
       run = (if we_inspect e then rv_inspect_tx R else rv_transact R)
   in fst (seismic_transact_system_call R caller contract data e) =
        map_sum id (retain_contract contract) (fst (run tx ((we_inner e)\<lparr>in_ctx := c\<rparr>)))
      \<and> te_gas_limit (stx_base tx) = 30000000
      \<and> te_gas_limit (stx_base tx) \<le> be_gas_limit (cx_block c)
      \<and> ucast (be_basefee (cx_block c)) \<le> te_gas_price (stx_base tx) \<and> te_gas_price (stx_base tx) = 0
      \<and> te_nonce (stx_base tx) = 0 \<and> cfg_disable_nonce_check (cx_cfg c)
      \<and> te_chain_id (stx_base tx) = None \<and> te_kind (stx_base tx) = Call contract
      \<and> te_caller (stx_base tx) = caller \<and> te_data (stx_base tx) = data
      \<and> cx_database c = cx_database (seismic_ctx e) \<and> cx_rest c = cx_rest (seismic_ctx e)
      \<and> restore_ctx (seismic_ctx e) c = seismic_ctx e"
  by (simp add: seismic_system_call_eq seismic_transact_raw_def on_inner_def zoom_def Let_def
      seismic_system_tx_def system_call_ctx_def restore_ctx_def seismic_ctx_mut_def seismic_ctx_def
      split: prod.splits)

text \<open>
  When the inner EVM leaves block and configuration alone, a system call does so as well.
\<close>

lemma seismic_system_call_keeps_env:
  assumes "\<And>tx. keeps (\<lambda>i. cx_block (in_ctx i)) (rv_transact R tx)"
    and "\<And>tx. keeps (\<lambda>i. cx_block (in_ctx i)) (rv_inspect_tx R tx)"
  shows "keeps seismic_block (seismic_transact_system_call R caller contract data)"
proof (rule keepsI)
  fix e r e'
  assume "seismic_transact_system_call R caller contract data e = (r, e')"
  then show "seismic_block e' = seismic_block e"
    using keepsD [OF assms(1)] keepsD [OF assms(2)]
    by (auto simp: seismic_system_call_eq seismic_transact_raw_def on_inner_def zoom_def
        seismic_ctx_mut_def seismic_ctx_def seismic_block_def system_call_ctx_def restore_ctx_def
        split: prod.splits if_splits dest: sym)
qed

section \<open>SeismicEvmFactory\<close>

text \<open>The part of the purpose keys that the factory reads.\<close>

record 'key purpose_keys =
  rng_keypair :: 'key

record 'key seismic_evm_factory =
  sf_purpose_keys :: "'key purpose_keys"

definition new_with_purpose_keys :: "'key purpose_keys \<Rightarrow> 'key seismic_evm_factory" where
  "new_with_purpose_keys keys = \<lparr>sf_purpose_keys = keys\<rparr>"

text \<open>
  \<open>seismic_with_rng_key\<close> of \<open>seismic_revm\<close> makes the rest of a context out of a keypair;
  \<open>build_pre\<close> are the precompiles that \<open>build_seismic_evm_with_inspector\<close> installs.
\<close>

definition create_context_with_rng_key ::
    "('key \<Rightarrow> 'rest) \<Rightarrow> 'key seismic_evm_factory \<Rightarrow> 'rest" where
  "create_context_with_rng_key seismic_with_rng_key f =
     seismic_with_rng_key (rng_keypair (sf_purpose_keys f))"

definition create_evm_with_rng_key ::
    "('key \<Rightarrow> 'rest) \<Rightarrow> (('db, 'spec, 'rest) evm_context \<Rightarrow> 'pre) \<Rightarrow> 'key seismic_evm_factory
      \<Rightarrow> 'db \<Rightarrow> 'spec evm_env \<Rightarrow> ('db, 'spec, 'rest, unit, 'pre) seismic_evm" where
  "create_evm_with_rng_key seismic_with_rng_key build_pre f db input =
     (let ctx = \<lparr>cx_block = ee_block_env input, cx_cfg = ee_cfg_env input, cx_database = db,
                 cx_rest = create_context_with_rng_key seismic_with_rng_key f\<rparr>
      in \<lparr>we_inner = \<lparr>in_ctx = ctx, in_inspector = (), in_precompiles = build_pre ctx\<rparr>,
          we_inspect = False\<rparr>)"

definition create_evm_with_inspector_and_rng_key ::
    "('key \<Rightarrow> 'rest) \<Rightarrow> (('db, 'spec, 'rest) evm_context \<Rightarrow> 'pre) \<Rightarrow> 'key seismic_evm_factory
      \<Rightarrow> 'db \<Rightarrow> 'spec evm_env \<Rightarrow> 'insp \<Rightarrow> ('db, 'spec, 'rest, 'insp, 'pre) seismic_evm" where
  "create_evm_with_inspector_and_rng_key seismic_with_rng_key build_pre f db input inspector =
     (let ctx = \<lparr>cx_block = ee_block_env input, cx_cfg = ee_cfg_env input, cx_database = db,
                 cx_rest = create_context_with_rng_key seismic_with_rng_key f\<rparr>
      in \<lparr>we_inner = \<lparr>in_ctx = ctx, in_inspector = inspector, in_precompiles = build_pre ctx\<rparr>,
          we_inspect = True\<rparr>)"

definition seismic_create_evm ::
    "('key \<Rightarrow> 'rest) \<Rightarrow> (('db, 'spec, 'rest) evm_context \<Rightarrow> 'pre) \<Rightarrow> 'key seismic_evm_factory
      \<Rightarrow> 'db \<Rightarrow> 'spec evm_env \<Rightarrow> ('db, 'spec, 'rest, unit, 'pre) seismic_evm" where
  "seismic_create_evm = create_evm_with_rng_key"

definition seismic_create_evm_with_inspector ::
    "('key \<Rightarrow> 'rest) \<Rightarrow> (('db, 'spec, 'rest) evm_context \<Rightarrow> 'pre) \<Rightarrow> 'key seismic_evm_factory
      \<Rightarrow> 'db \<Rightarrow> 'spec evm_env \<Rightarrow> 'insp \<Rightarrow> ('db, 'spec, 'rest, 'insp, 'pre) seismic_evm" where
  "seismic_create_evm_with_inspector = create_evm_with_inspector_and_rng_key"

lemmas seismic_factory_defs = new_with_purpose_keys_def create_context_with_rng_key_def
  create_evm_with_rng_key_def create_evm_with_inspector_and_rng_key_def seismic_create_evm_def
  seismic_create_evm_with_inspector_def Let_def

lemma seismic_factory_roundtrip:
  "seismic_finish (seismic_create_evm k b f db env) = (db, env)"
  "seismic_finish (seismic_create_evm_with_inspector k b f db env i) = (db, env)"
  by (simp_all add: seismic_factory_defs seismic_finish_def)

text \<open>Every EVM of a factory has the context made from the RNG keypair of its purpose keys.\<close>

lemma seismic_factory_rng_key:
  "cx_rest (seismic_ctx (seismic_create_evm k b (new_with_purpose_keys keys) db env)) = k (rng_keypair keys)"
  "cx_rest (seismic_ctx (seismic_create_evm_with_inspector k b (new_with_purpose_keys keys) db env i))
     = k (rng_keypair keys)"
  by (simp_all add: seismic_factory_defs seismic_ctx_def)

section \<open>Either of two of these EVMs\<close>

interpretation eth_either: evm_pair "eth_evm_dict R" "eth_evm_dict R'"
  for R :: "(('db, 'spec, 'rest, 'insp, 'pre) inner_evm, 'tx, 'halt, 'err) revm_ops"
  and R' :: "(('db, 'spec, 'rest2, 'insp, 'pre) inner_evm, 'tx, 'halt, 'err) revm_ops"
  by unfold_locales

interpretation seismic_either: evm_pair "seismic_evm_dict R" "seismic_evm_dict R'"
  for R :: "(('db, 'spec, 'rest, 'insp, 'pre) inner_evm, seismic_transaction, 'halt, 'err) revm_ops"
  and R' :: "(('db, 'spec, 'rest2, 'insp, 'pre) inner_evm, seismic_transaction, 'halt, 'err) revm_ops"
  by unfold_locales

end
