(* ===== verification/Calc.thy ===== *)
theory Calc
  imports EvmTypes
begin

text \<open>
  Hardforks and rewards: the fork predicates of a chain specification (traits
  \<open>EthereumHardforks\<close>, \<open>EthExecutorSpec\<close> and \<open>OpHardforks\<close>, as dictionaries), and
  \<open>crates/evm/src/block/calc.rs\<close>.
\<close>

section \<open>Chain specifications\<close>

text \<open>
  The predicates of the trait \<open>EthereumHardforks\<close> that this repository calls. Their bodies are
  those of \<open>alloy_hardforks\<close>, so a specification is any record of such predicates.
\<close>

record hardforks =
  is_spurious_dragon_active_at_block :: "u64 \<Rightarrow> bool"
  is_byzantium_active_at_block :: "u64 \<Rightarrow> bool"
  is_constantinople_active_at_block :: "u64 \<Rightarrow> bool"
  is_paris_active_at_block :: "u64 \<Rightarrow> bool"
  is_shanghai_active_at_timestamp :: "u64 \<Rightarrow> bool"
  is_cancun_active_at_timestamp :: "u64 \<Rightarrow> bool"
  is_prague_active_at_timestamp :: "u64 \<Rightarrow> bool"
  dao_transitions_at_block :: "u64 \<Rightarrow> bool"

section \<open>calc.rs\<close>

text \<open>\<open>ETH_TO_WEI\<close>, the number of wei in an ether.\<close>

definition ETH_TO_WEI :: u128 where
  "ETH_TO_WEI = 1000000000000000000"

definition base_block_reward_pre_merge :: "'z hardforks_scheme \<Rightarrow> u64 \<Rightarrow> u128" where
  "base_block_reward_pre_merge spec block_number =
     (if is_constantinople_active_at_block spec block_number then ETH_TO_WEI * 2
      else if is_byzantium_active_at_block spec block_number then ETH_TO_WEI * 3
      else ETH_TO_WEI * 5)"

definition base_block_reward :: "'z hardforks_scheme \<Rightarrow> u64 \<Rightarrow> u128 option" where
  "base_block_reward spec block_number =
     (if is_paris_active_at_block spec block_number then None
      else Some (base_block_reward_pre_merge spec block_number))"

text \<open>\<open>ommers\<close> is the number of ommers, a \<open>usize\<close> (64 bits) widened by \<open>as u128\<close>.\<close>

definition block_reward :: "u128 \<Rightarrow> u64 \<Rightarrow> u128" where
  "block_reward base ommers = base + drop_bit 5 base * ucast ommers"

definition ommer_reward :: "u128 \<Rightarrow> u64 \<Rightarrow> u64 \<Rightarrow> u128" where
  "ommer_reward base block_number ommer_block_number =
     drop_bit 3 (ucast (8 + ommer_block_number - block_number) * base)"

text \<open>The base reward is one of three values, so the later products stay far below \<open>2^128\<close>.\<close>

lemma base_block_reward_cases:
  assumes "base_block_reward spec n = Some r"
  shows "r \<in> {2 * ETH_TO_WEI, 3 * ETH_TO_WEI, 5 * ETH_TO_WEI}"
  using assms
  by (auto simp: base_block_reward_def base_block_reward_pre_merge_def mult.commute
      split: if_splits)

lemma base_block_reward_bound:
  assumes "base_block_reward spec n = Some r"
  shows "unat r \<le> 5 * 10 ^ 18"
  using base_block_reward_cases [OF assms] by (auto simp: ETH_TO_WEI_def)

lemma base_block_reward_paris:
  "base_block_reward spec n = None \<longleftrightarrow> is_paris_active_at_block spec n"
  by (simp add: base_block_reward_def)

lemma u128_mult_no_wrap:
  fixes a b :: u128
  assumes "unat a * unat b < 2 ^ 128"
  shows "unat (a * b) = unat a * unat b"
  using assms by (simp add: unat_mult_lem [THEN iffD1])

lemma u128_add_no_wrap:
  fixes a b :: u128
  assumes "unat a + unat b < 2 ^ 128"
  shows "unat (a + b) = unat a + unat b"
  using assms by (simp add: unat_add_lem [THEN iffD1])

lemma unat_ucast_u128:
  fixes x :: u64
  shows "unat (ucast x :: u128) = unat x"
proof -
  have "unat x < 2 ^ 128"
    using unsigned_less [of x] by (rule less_le_trans) simp
  then show ?thesis
    unfolding unsigned_ucast_eq by (simp add: take_bit_nat_eq_self)
qed

text \<open>The reward as the yellow paper states it, in unbounded arithmetic.\<close>

lemma block_reward_exact:
  assumes "unat base \<le> 5 * 10 ^ 18"
  shows "unat (block_reward base ommers) = unat base + unat base div 32 * unat ommers"
proof -
  have q: "unat (drop_bit 5 base) = unat base div 32"
    unfolding unat_drop_bit_eq by (simp add: drop_bit_eq_div)
  have o: "unat (ucast ommers :: u128) = unat ommers"
    by (rule unat_ucast_u128)
  have ob: "unat ommers < 2 ^ 64"
    using unsigned_less [of ommers] by simp
  have "unat base div 32 * unat ommers \<le> (5 * 10 ^ 18) * 2 ^ 64"
    using assms ob by (intro mult_mono) auto
  then have small: "unat base div 32 * unat ommers < 2 ^ 127"
    by (rule le_less_trans) simp
  then have m: "unat (drop_bit 5 base * ucast ommers) = unat base div 32 * unat ommers"
    by (subst u128_mult_no_wrap) (simp_all add: q o)
  show ?thesis
    unfolding block_reward_def using small assms
    by (subst u128_add_no_wrap) (simp_all add: m)
qed

text \<open>
  An ommer at depth \<open>d < 8\<close> below the block gets \<open>(8 - d) / 8\<close> of the base reward; the
  intermediate \<open>u64\<close> and \<open>u128\<close> values do not wrap.
\<close>

lemma ommer_reward_exact:
  assumes base: "unat base \<le> 5 * 10 ^ 18"
    and le: "ommer_n \<le> block_n" and depth: "unat block_n - unat ommer_n < 8"
    and top: "unat ommer_n + 8 < 2 ^ 64"
  shows "unat (ommer_reward base block_n ommer_n) =
    (8 - (unat block_n - unat ommer_n)) * unat base div 8"
proof -
  have s: "unat (8 + ommer_n) = 8 + unat ommer_n"
    using top by (simp add: unat_add_lem [THEN iffD1])
  have le': "block_n \<le> 8 + ommer_n"
    using le depth s by (simp add: word_le_nat_alt)
  have d: "unat (8 + ommer_n - block_n) = 8 - (unat block_n - unat ommer_n)"
    using le depth s le' by (simp add: unat_sub word_le_nat_alt)
  have u: "unat (ucast (8 + ommer_n - block_n) :: u128) = 8 - (unat block_n - unat ommer_n)"
    unfolding unat_ucast_u128 by (rule d)
  have "(8 - (unat block_n - unat ommer_n)) * unat base \<le> 8 * (5 * 10 ^ 18)"
    using base by (intro mult_mono) auto
  then have "(8 - (unat block_n - unat ommer_n)) * unat base < 2 ^ 128"
    by (rule le_less_trans) simp
  then have m: "unat (ucast (8 + ommer_n - block_n) * base) =
      (8 - (unat block_n - unat ommer_n)) * unat base"
    by (subst u128_mult_no_wrap) (simp_all add: u)
  show ?thesis
    unfolding ommer_reward_def unat_drop_bit_eq
    by (simp add: drop_bit_eq_div m)
qed

end
