(* ===== verification/SystemCalls.thy ===== *)
theory SystemCalls
  imports SeismicEvm Calc
begin

text \<open>
  System calls around a block: state hooks (\<open>crates/evm/src/block/state_hook.rs\<close>), the calls of
  EIP-2935, EIP-4788, EIP-7002 and EIP-7251, and the helper that runs, reports and commits them
  (\<open>crates/evm/src/block/system_calls/\<close>).
\<close>

section \<open>state_hook.rs\<close>

datatype state_change_pre_block_source =
  BlockHashesContract | BeaconRootContract | PreWithdrawalRequestsContract

datatype state_change_post_block_source =
  BalanceIncrements | WithdrawalRequestsContract | ConsolidationRequestsContract

datatype state_change_source =
    Transaction u64
  | PreBlock state_change_pre_block_source
  | PostBlock state_change_post_block_source

section \<open>What the calls use of other crates\<close>

text \<open>
  Addresses and request types of \<open>alloy_eips\<close>, the text of errors, \<open>commit\<close> of the database, the
  method \<open>on_state\<close> of the installed hook (a hook is its state \<open>'hk\<close>), the \<open>Requests\<close> container,
  and whether the feature \<open>timestamp-in-seconds\<close> is on.
\<close>

record ('db, 'err, 'halt, 'hk, 'rq) sys_lib =
  sl_timestamp_in_seconds :: bool
  sl_eip4788_system_address :: address
  sl_eip7002_system_address :: address
  sl_history_storage_address :: address
  sl_beacon_roots_address :: address
  sl_withdrawal_request_predeploy_address :: address
  sl_consolidation_request_predeploy_address :: address
  sl_withdrawal_request_type :: u8
  sl_consolidation_request_type :: u8
  sl_deposit_request_type :: u8
  sl_to_string :: "'err \<Rightarrow> string"
  sl_halt_debug :: "'halt \<Rightarrow> string"
  sl_bytes_display :: "bytes \<Rightarrow> string"
  sl_commit :: "evm_state \<Rightarrow> 'db \<Rightarrow> 'db"
  sl_on_state :: "state_change_source \<Rightarrow> evm_state \<Rightarrow> 'hk \<Rightarrow> 'hk"
  sl_requests_default :: 'rq
  sl_push_request_with_type :: "u8 \<Rightarrow> bytes \<Rightarrow> 'rq \<Rightarrow> 'rq"
  sl_requests_extend :: "'rq \<Rightarrow> 'rq \<Rightarrow> 'rq"

text \<open>The 32 bytes of a hash, most significant first.\<close>

definition b256_bytes :: "b256 \<Rightarrow> bytes" where
  "b256_bytes h = map (\<lambda>i. ucast (drop_bit (8 * i) h)) (rev [0..<32])"

text \<open>The timestamp that the fork checks of the pre-block calls use.\<close>

definition system_call_timestamp :: "('db, 'err, 'halt, 'hk, 'rq) sys_lib \<Rightarrow> block_env \<Rightarrow> u64" where
  "system_call_timestamp L block =
     (if sl_timestamp_in_seconds L then saturating_to_u64 (be_timestamp block)
      else saturating_to_u64 (be_timestamp block) div 1000)"

section \<open>The four calls\<close>

definition transact_blockhashes_contract_call ::
    "('db, 'err, 'halt, 'hk, 'rq) sys_lib
      \<Rightarrow> ('evm, 'db, 'insp, 'pre, 'spec, 'tx, 'halt, 'err) evm_dict \<Rightarrow> 'z hardforks_scheme \<Rightarrow> b256
      \<Rightarrow> ('evm, ('inv, 'rest, 'dec, 'o) block_execution_error, 'halt result_and_state option) step" where
  "transact_blockhashes_contract_call L E spec parent_block_hash evm =
     (if \<not> is_prague_active_at_timestamp spec (system_call_timestamp L (ev_block E evm)) then
        (Inr None, evm)
      else if be_number (ev_block E evm) = 0 then (Inr None, evm)
      else
        (case ev_transact_system_call E (sl_eip4788_system_address L) (sl_history_storage_address L)
                (b256_bytes parent_block_hash) evm of
           (Inr res, evm') \<Rightarrow> (Inr (Some res), evm')
         | (Inl e, evm') \<Rightarrow> (Inl (Validation (BlockHashContractCall (sl_to_string L e))), evm')))"

definition transact_beacon_root_contract_call ::
    "('db, 'err, 'halt, 'hk, 'rq) sys_lib
      \<Rightarrow> ('evm, 'db, 'insp, 'pre, 'spec, 'tx, 'halt, 'err) evm_dict \<Rightarrow> 'z hardforks_scheme
      \<Rightarrow> b256 option
      \<Rightarrow> ('evm, ('inv, 'rest, 'dec, 'o) block_execution_error, 'halt result_and_state option) step" where
  "transact_beacon_root_contract_call L E spec parent_beacon_block_root evm =
     (if \<not> is_cancun_active_at_timestamp spec (system_call_timestamp L (ev_block E evm)) then
        (Inr None, evm)
      else
        (case parent_beacon_block_root of
           None \<Rightarrow> (Inl (Validation MissingParentBeaconBlockRoot), evm)
         | Some root \<Rightarrow>
             if be_number (ev_block E evm) = 0 then
               (if root \<noteq> 0 then
                  (Inl (Validation (CancunGenesisParentBeaconBlockRootNotZero root)), evm)
                else (Inr None, evm))
             else
               (case ev_transact_system_call E (sl_eip4788_system_address L)
                       (sl_beacon_roots_address L) (b256_bytes root) evm of
                  (Inr res, evm') \<Rightarrow> (Inr (Some res), evm')
                | (Inl e, evm') \<Rightarrow>
                    (Inl (Validation (BeaconRootContractCall root (sl_to_string L e))), evm'))))"

definition transact_withdrawal_requests_contract_call ::
    "('db, 'err, 'halt, 'hk, 'rq) sys_lib
      \<Rightarrow> ('evm, 'db, 'insp, 'pre, 'spec, 'tx, 'halt, 'err) evm_dict
      \<Rightarrow> ('evm, ('inv, 'rest, 'dec, 'o) block_execution_error, 'halt result_and_state) step" where
  "transact_withdrawal_requests_contract_call L E evm =
     (case ev_transact_system_call E (sl_eip7002_system_address L)
             (sl_withdrawal_request_predeploy_address L) [] evm of
        (Inr res, evm') \<Rightarrow> (Inr res, evm')
      | (Inl e, evm') \<Rightarrow>
          (Inl (Validation (WithdrawalRequestsContractCall
             (''execution failed: '' @ sl_to_string L e))), evm'))"

definition withdrawal_requests_post_commit ::
    "('db, 'err, 'halt, 'hk, 'rq) sys_lib \<Rightarrow> 'halt execution_result
      \<Rightarrow> ('inv, 'rest, 'dec, 'o) block_execution_error + bytes" where
  "withdrawal_requests_post_commit L result =
     (case result of
        Success _ _ output \<Rightarrow> Inr output
      | Revert _ _ output \<Rightarrow>
          Inl (Validation (WithdrawalRequestsContractCall
            (''execution reverted: '' @ sl_bytes_display L output)))
      | Halt _ _ reason \<Rightarrow>
          Inl (Validation (WithdrawalRequestsContractCall
            (''execution halted: '' @ sl_halt_debug L reason))))"

definition transact_consolidation_requests_contract_call ::
    "('db, 'err, 'halt, 'hk, 'rq) sys_lib
      \<Rightarrow> ('evm, 'db, 'insp, 'pre, 'spec, 'tx, 'halt, 'err) evm_dict
      \<Rightarrow> ('evm, ('inv, 'rest, 'dec, 'o) block_execution_error, 'halt result_and_state) step" where
  "transact_consolidation_requests_contract_call L E evm =
     (case ev_transact_system_call E (sl_eip7002_system_address L)
             (sl_consolidation_request_predeploy_address L) [] evm of
        (Inr res, evm') \<Rightarrow> (Inr res, evm')
      | (Inl e, evm') \<Rightarrow>
          (Inl (Validation (ConsolidationRequestsContractCall
             (''execution failed: '' @ sl_to_string L e))), evm'))"

definition consolidation_requests_post_commit ::
    "('db, 'err, 'halt, 'hk, 'rq) sys_lib \<Rightarrow> 'halt execution_result
      \<Rightarrow> ('inv, 'rest, 'dec, 'o) block_execution_error + bytes" where
  "consolidation_requests_post_commit L result =
     (case result of
        Success _ _ output \<Rightarrow> Inr output
      | Revert _ _ output \<Rightarrow>
          Inl (Validation (ConsolidationRequestsContractCall
            (''execution reverted: '' @ sl_bytes_display L output)))
      | Halt _ _ reason \<Rightarrow>
          Inl (Validation (ConsolidationRequestsContractCall
            (''execution halted: '' @ sl_halt_debug L reason))))"

section \<open>SystemCaller\<close>

record ('z, 'hk) system_caller =
  sc_spec :: "'z hardforks_scheme"
  sc_hook :: "'hk option"

definition system_caller_new :: "'z hardforks_scheme \<Rightarrow> ('z, 'hk) system_caller" where
  "system_caller_new spec = \<lparr>sc_spec = spec, sc_hook = None\<rparr>"

definition with_state_hook ::
    "'hk option \<Rightarrow> ('z, 'hk) system_caller \<Rightarrow> ('z, 'hk) system_caller" where
  "with_state_hook hook sc = sc\<lparr>sc_hook := hook\<rparr>"

definition on_state ::
    "('db, 'err, 'halt, 'hk, 'rq) sys_lib \<Rightarrow> state_change_source \<Rightarrow> evm_state
      \<Rightarrow> ('z, 'hk) system_caller \<Rightarrow> ('z, 'hk) system_caller" where
  "on_state L source state sc =
     (case sc_hook sc of
        Some hook \<Rightarrow> sc\<lparr>sc_hook := Some (sl_on_state L source state hook)\<rparr>
      | None \<Rightarrow> sc)"

text \<open>
  Closures over the hook: they may read and write state \<open>'s\<close> they have borrowed, and run only
  when a hook is installed.
\<close>

definition invoke_hook_with ::
    "('hk \<Rightarrow> 's \<Rightarrow> 'r \<times> 'hk \<times> 's) \<Rightarrow> ('z, 'hk) system_caller \<times> 's
      \<Rightarrow> 'r option \<times> ('z, 'hk) system_caller \<times> 's" where
  "invoke_hook_with f p =
     (case p of (sc, s) \<Rightarrow>
        (case sc_hook sc of
           None \<Rightarrow> (None, sc, s)
         | Some hook \<Rightarrow> (case f hook s of (r, hook', s') \<Rightarrow> (Some r, sc\<lparr>sc_hook := Some hook'\<rparr>, s'))))"

definition try_on_state_with ::
    "('db, 'err, 'halt, 'hk, 'rq) sys_lib \<Rightarrow> ('s, 'e, state_change_source \<times> evm_state) step
      \<Rightarrow> (('z, 'hk) system_caller \<times> 's, 'e, unit) step" where
  "try_on_state_with L f p =
     (case invoke_hook_with (\<lambda>hook s.
             (case f s of
                (Inl e, s') \<Rightarrow> (Inl e, hook, s')
              | (Inr (source, state), s') \<Rightarrow> (Inr (), sl_on_state L source state hook, s'))) p of
        (r, p') \<Rightarrow> (case r of Some r' \<Rightarrow> (r', p') | None \<Rightarrow> (Inr (), p')))"

definition on_state_with ::
    "('db, 'err, 'halt, 'hk, 'rq) sys_lib \<Rightarrow> ('s \<Rightarrow> (state_change_source \<times> evm_state) \<times> 's)
      \<Rightarrow> ('z, 'hk) system_caller \<times> 's \<Rightarrow> ('z, 'hk) system_caller \<times> 's" where
  "on_state_with L f p =
     snd (invoke_hook_with (\<lambda>hook s.
       (case f s of ((source, state), s') \<Rightarrow> ((), sl_on_state L source state hook, s'))) p)"

text \<open>\<open>evm.db_mut().commit(state)\<close>\<close>

definition evm_commit ::
    "('db, 'err, 'halt, 'hk, 'rq) sys_lib
      \<Rightarrow> ('evm, 'db, 'insp, 'pre, 'spec, 'tx, 'halt, 'err) evm_dict \<Rightarrow> evm_state \<Rightarrow> 'evm \<Rightarrow> 'evm" where
  "evm_commit L E state evm = evm_set_db E (sl_commit L state (evm_db E evm)) evm"

definition apply_blockhashes_contract_call ::
    "('db, 'err, 'halt, 'hk, 'rq) sys_lib
      \<Rightarrow> ('evm, 'db, 'insp, 'pre, 'spec, 'tx, 'halt, 'err) evm_dict \<Rightarrow> b256
      \<Rightarrow> (('z, 'hk) system_caller \<times> 'evm, ('inv, 'rest, 'dec, 'o) block_execution_error, unit) step" where
  "apply_blockhashes_contract_call L E parent_block_hash p =
     (case p of (sc, evm) \<Rightarrow>
        (case transact_blockhashes_contract_call L E (sc_spec sc) parent_block_hash evm of
           (Inl e, evm') \<Rightarrow> (Inl e, sc, evm')
         | (Inr None, evm') \<Rightarrow> (Inr (), sc, evm')
         | (Inr (Some res), evm') \<Rightarrow>
             (Inr (), on_state L (PreBlock BlockHashesContract) (rs_state res) sc,
              evm_commit L E (rs_state res) evm')))"

definition apply_beacon_root_contract_call ::
    "('db, 'err, 'halt, 'hk, 'rq) sys_lib
      \<Rightarrow> ('evm, 'db, 'insp, 'pre, 'spec, 'tx, 'halt, 'err) evm_dict \<Rightarrow> b256 option
      \<Rightarrow> (('z, 'hk) system_caller \<times> 'evm, ('inv, 'rest, 'dec, 'o) block_execution_error, unit) step" where
  "apply_beacon_root_contract_call L E parent_beacon_block_root p =
     (case p of (sc, evm) \<Rightarrow>
        (case transact_beacon_root_contract_call L E (sc_spec sc) parent_beacon_block_root evm of
           (Inl e, evm') \<Rightarrow> (Inl e, sc, evm')
         | (Inr None, evm') \<Rightarrow> (Inr (), sc, evm')
         | (Inr (Some res), evm') \<Rightarrow>
             (Inr (), on_state L (PreBlock BeaconRootContract) (rs_state res) sc,
              evm_commit L E (rs_state res) evm')))"

definition apply_withdrawal_requests_contract_call ::
    "('db, 'err, 'halt, 'hk, 'rq) sys_lib
      \<Rightarrow> ('evm, 'db, 'insp, 'pre, 'spec, 'tx, 'halt, 'err) evm_dict
      \<Rightarrow> (('z, 'hk) system_caller \<times> 'evm, ('inv, 'rest, 'dec, 'o) block_execution_error, bytes) step" where
  "apply_withdrawal_requests_contract_call L E p =
     (case p of (sc, evm) \<Rightarrow>
        (case transact_withdrawal_requests_contract_call L E evm of
           (Inl e, evm') \<Rightarrow> (Inl e, sc, evm')
         | (Inr res, evm') \<Rightarrow>
             (withdrawal_requests_post_commit L (rs_result res),
              on_state L (PostBlock WithdrawalRequestsContract) (rs_state res) sc,
              evm_commit L E (rs_state res) evm')))"

definition apply_consolidation_requests_contract_call ::
    "('db, 'err, 'halt, 'hk, 'rq) sys_lib
      \<Rightarrow> ('evm, 'db, 'insp, 'pre, 'spec, 'tx, 'halt, 'err) evm_dict
      \<Rightarrow> (('z, 'hk) system_caller \<times> 'evm, ('inv, 'rest, 'dec, 'o) block_execution_error, bytes) step" where
  "apply_consolidation_requests_contract_call L E p =
     (case p of (sc, evm) \<Rightarrow>
        (case transact_consolidation_requests_contract_call L E evm of
           (Inl e, evm') \<Rightarrow> (Inl e, sc, evm')
         | (Inr res, evm') \<Rightarrow>
             (consolidation_requests_post_commit L (rs_result res),
              on_state L (PostBlock ConsolidationRequestsContract) (rs_state res) sc,
              evm_commit L E (rs_state res) evm')))"

definition apply_pre_execution_changes ::
    "('db, 'err, 'halt, 'hk, 'rq) sys_lib
      \<Rightarrow> ('evm, 'db, 'insp, 'pre, 'spec, 'tx, 'halt, 'err) evm_dict \<Rightarrow> header
      \<Rightarrow> (('z, 'hk) system_caller \<times> 'evm, ('inv, 'rest, 'dec, 'o) block_execution_error, unit) step" where
  "apply_pre_execution_changes L E hdr =
     try_bind (apply_blockhashes_contract_call L E (hd_parent_hash hdr)) (\<lambda>_.
     try_bind (apply_beacon_root_contract_call L E (hd_parent_beacon_block_root hdr)) (\<lambda>_.
     ret ()))"

definition apply_post_execution_changes ::
    "('db, 'err, 'halt, 'hk, 'rq) sys_lib
      \<Rightarrow> ('evm, 'db, 'insp, 'pre, 'spec, 'tx, 'halt, 'err) evm_dict
      \<Rightarrow> (('z, 'hk) system_caller \<times> 'evm, ('inv, 'rest, 'dec, 'o) block_execution_error, 'rq) step" where
  "apply_post_execution_changes L E =
     try_bind (apply_withdrawal_requests_contract_call L E) (\<lambda>withdrawal_requests.
       let requests = sl_requests_default L;
           requests = (if withdrawal_requests \<noteq> []
             then sl_push_request_with_type L (sl_withdrawal_request_type L) withdrawal_requests requests
             else requests)
       in try_bind (apply_consolidation_requests_contract_call L E) (\<lambda>consolidation_requests.
            ret (if consolidation_requests \<noteq> []
              then sl_push_request_with_type L (sl_consolidation_request_type L)
                     consolidation_requests requests
              else requests)))"

lemmas system_call_defs = transact_blockhashes_contract_call_def
  transact_beacon_root_contract_call_def transact_withdrawal_requests_contract_call_def
  withdrawal_requests_post_commit_def transact_consolidation_requests_contract_call_def
  consolidation_requests_post_commit_def

lemmas apply_call_defs = apply_blockhashes_contract_call_def apply_beacon_root_contract_call_def
  apply_withdrawal_requests_contract_call_def apply_consolidation_requests_contract_call_def


section \<open>What the calls do\<close>

lemma on_state_None [simp]: "sc_hook sc = None \<Longrightarrow> on_state L src st sc = sc"
  by (simp add: on_state_def)

lemma sc_spec_on_state [simp]: "sc_spec (on_state L src st sc) = sc_spec sc"
  by (simp add: on_state_def split: option.splits)

lemma sc_hook_on_state: "sc_hook (on_state L src st sc) = map_option (sl_on_state L src st) (sc_hook sc)"
  by (simp add: on_state_def split: option.splits)

text \<open>\<open>try_on_state_with\<close>: without a hook the closure does not run; with one it reports its outcome.\<close>

lemma try_on_state_with_eq:
  "try_on_state_with L f (sc, s) =
     (if sc_hook sc = None then (Inr (), sc, s)
      else (case f s of
              (Inl e, s') \<Rightarrow> (Inl e, sc, s')
            | (Inr (src, st), s') \<Rightarrow> (Inr (), on_state L src st sc, s')))"
  by (auto simp: try_on_state_with_def invoke_hook_with_def on_state_def
      split: option.splits prod.splits sum.splits)

lemma on_state_with_eq:
  "on_state_with L f (sc, s) =
     (if sc_hook sc = None then (sc, s)
      else (case f s of ((src, st), s') \<Rightarrow> (on_state L src st sc, s')))"
  by (auto simp: on_state_with_def invoke_hook_with_def on_state_def
      split: option.splits prod.splits)

text \<open>The spec of a system caller never changes.\<close>

lemma apply_calls_keep_spec [frame]:
  "keeps (\<lambda>p. sc_spec (fst p)) (apply_blockhashes_contract_call L E h)"
  "keeps (\<lambda>p. sc_spec (fst p)) (apply_beacon_root_contract_call L E r)"
  "keeps (\<lambda>p. sc_spec (fst p)) (apply_withdrawal_requests_contract_call L E)"
  "keeps (\<lambda>p. sc_spec (fst p)) (apply_consolidation_requests_contract_call L E)"
  by (auto simp: keeps_def apply_call_defs split: prod.splits sum.splits option.splits)

lemma pre_execution_keeps_spec: "keeps (\<lambda>p. sc_spec (fst p)) (apply_pre_execution_changes L E hdr)"
  unfolding apply_pre_execution_changes_def by (intro frame)

text \<open>Committing through an EVM that meets the contract.\<close>

context evm_access
begin

lemma db_commit: "evm_db E (evm_commit L E st evm) = sl_commit L st (evm_db E evm)"
  by (simp add: evm_commit_def db_set_db)

lemma block_commit: "ev_block E (evm_commit L E st evm) = ev_block E evm"
  by (simp add: evm_commit_def block_set_db)

lemma inspector_commit: "evm_inspector E (evm_commit L E st evm) = evm_inspector E evm"
  by (simp add: evm_commit_def inspector_set_db)

text \<open>When system calls leave the block environment alone, so do the four applied calls.\<close>

lemma apply_calls_keep_block:
  assumes "\<And>c a d. keeps (ev_block E) (ev_transact_system_call E c a d)"
  shows "keeps (\<lambda>p. ev_block E (snd p)) (apply_blockhashes_contract_call L E h)"
    and "keeps (\<lambda>p. ev_block E (snd p)) (apply_beacon_root_contract_call L E r)"
    and "keeps (\<lambda>p. ev_block E (snd p)) (apply_withdrawal_requests_contract_call L E)"
    and "keeps (\<lambda>p. ev_block E (snd p)) (apply_consolidation_requests_contract_call L E)"
  using keepsD [OF assms]
  by (auto simp: keeps_def apply_call_defs system_call_defs block_commit
      split: prod.splits sum.splits option.splits)

lemma pre_execution_keeps_block:
  assumes "\<And>c a d. keeps (ev_block E) (ev_transact_system_call E c a d)"
  shows "keeps (\<lambda>p. ev_block E (snd p)) (apply_pre_execution_changes L E hdr)"
  unfolding apply_pre_execution_changes_def
  by (intro frame apply_calls_keep_block assms)

lemma post_execution_keeps_block:
  assumes "\<And>c a d. keeps (ev_block E) (ev_transact_system_call E c a d)"
  shows "keeps (\<lambda>p. ev_block E (snd p)) (apply_post_execution_changes L E)"
  unfolding apply_post_execution_changes_def Let_def
  by (intro frame apply_calls_keep_block assms)

end

text \<open>On the genesis block no system call is made before execution: EVM and hook are as they
  were, and the only possible failures are, from Cancun on, a missing or a non-zero parent beacon
  block root.\<close>

theorem pre_execution_genesis:
  assumes "be_number (ev_block E evm) = 0"
  shows "apply_pre_execution_changes L E hdr (sc, evm) =
    (if is_cancun_active_at_timestamp (sc_spec sc) (system_call_timestamp L (ev_block E evm)) then
       (case hd_parent_beacon_block_root hdr of
          None \<Rightarrow> Inl (Validation MissingParentBeaconBlockRoot)
        | Some root \<Rightarrow>
            if root = 0 then Inr ()
            else Inl (Validation (CancunGenesisParentBeaconBlockRootNotZero root)))
     else Inr (), sc, evm)"
  using assms
  by (simp add: apply_pre_execution_changes_def apply_call_defs system_call_defs step_defs
      split: option.splits)

definition sample_sys_lib :: "(nat, 'err, 'halt, state_change_source list, (u8 \<times> bytes) list) sys_lib" where
  "sample_sys_lib =
     \<lparr>sl_timestamp_in_seconds = False, sl_eip4788_system_address = 101, sl_eip7002_system_address = 101,
      sl_history_storage_address = 102, sl_beacon_roots_address = 103,
      sl_withdrawal_request_predeploy_address = 104, sl_consolidation_request_predeploy_address = 105,
      sl_withdrawal_request_type = 1, sl_consolidation_request_type = 2, sl_deposit_request_type = 0,
      sl_to_string = (\<lambda>_. ''e''), sl_halt_debug = (\<lambda>_. ''h''), sl_bytes_display = (\<lambda>_. ''b''),
      sl_commit = (\<lambda>st d. d + card (dom st)), sl_on_state = (\<lambda>src st h. h @ [src]),
      sl_requests_default = [], sl_push_request_with_type = (\<lambda>t b rs. rs @ [(t, b)]),
      sl_requests_extend = (\<lambda>xs ys. ys @ xs)\<rparr>"

definition sample_header :: header where
  "sample_header =
     \<lparr>hd_beneficiary = 1, hd_number = 0, hd_parent_hash = 0, hd_parent_beacon_block_root = Some 3\<rparr>"

definition genesis_wrapper :: "(nat, nat, unit, unit, unit) evm_wrapper" where
  "genesis_wrapper =
     seismic_ctx_mut (\<lambda>c. c\<lparr>cx_block := (cx_block c)\<lparr>be_number := 0, be_timestamp := 2000000\<rparr>\<rparr>)
       sample_wrapper"

definition cancun_spec :: hardforks where
  "cancun_spec =
     \<lparr>is_spurious_dragon_active_at_block = (\<lambda>_. True), is_byzantium_active_at_block = (\<lambda>_. True),
      is_constantinople_active_at_block = (\<lambda>_. True), is_paris_active_at_block = (\<lambda>_. True),
      is_shanghai_active_at_timestamp = (\<lambda>t. 1000 \<le> t),
      is_cancun_active_at_timestamp = (\<lambda>t. 1000 \<le> t),
      is_prague_active_at_timestamp = (\<lambda>t. 3000 \<le> t),
      dao_transitions_at_block = (\<lambda>_. False)\<rparr>"

lemma pre_execution_genesis_witness:
  "fst (apply_pre_execution_changes sample_sys_lib (seismic_evm_dict touching_revm) sample_header
      (system_caller_new cancun_spec, genesis_wrapper)) =
    (Inl (Validation (CancunGenesisParentBeaconBlockRootNotZero 3))
      :: (unit, unit, unit, unit) block_execution_error + unit)"
  by (subst pre_execution_genesis)
    (simp_all add: seismic_evm_defs genesis_wrapper_def sample_wrapper_def seismic_ctx_mut_def
      system_caller_new_def cancun_spec_def sample_header_def system_call_timestamp_def
      sample_sys_lib_def saturating_to_u64_def)


section \<open>The pre-block calls as a list\<close>

text \<open>
  The specification: the calls a block needs, in order, and running such a list. A call that the
  EVM rejects stops the run; otherwise the changes are shown to the hook and committed.
\<close>

type_synonym system_call = "state_change_source \<times> address \<times> address \<times> bytes"

fun run_calls ::
    "('db, 'err, 'halt, 'hk, 'rq) sys_lib
      \<Rightarrow> ('evm, 'db, 'insp, 'pre, 'spec, 'tx, 'halt, 'err) evm_dict \<Rightarrow> system_call list
      \<Rightarrow> ('z, 'hk) system_caller \<times> 'evm \<Rightarrow> bool \<times> ('z, 'hk) system_caller \<times> 'evm" where
  "run_calls L E [] (sc, evm) = (True, sc, evm)"
| "run_calls L E ((source, caller, contract, data) # calls) (sc, evm) =
     (case ev_transact_system_call E caller contract data evm of
        (Inl e, evm') \<Rightarrow> (False, sc, evm')
      | (Inr res, evm') \<Rightarrow>
          run_calls L E calls (on_state L source (rs_state res) sc, evm_commit L E (rs_state res) evm'))"

definition pre_block_calls ::
    "('db, 'err, 'halt, 'hk, 'rq) sys_lib \<Rightarrow> 'z hardforks_scheme \<Rightarrow> block_env \<Rightarrow> header
      \<Rightarrow> system_call list" where
  "pre_block_calls L spec block hdr =
     (if be_number block = 0 then []
      else (if is_prague_active_at_timestamp spec (system_call_timestamp L block) then
              [(PreBlock BlockHashesContract, sl_eip4788_system_address L,
                sl_history_storage_address L, b256_bytes (hd_parent_hash hdr))] else [])
         @ (if is_cancun_active_at_timestamp spec (system_call_timestamp L block) then
              [(PreBlock BeaconRootContract, sl_eip4788_system_address L,
                sl_beacon_roots_address L, b256_bytes (the (hd_parent_beacon_block_root hdr)))] else []))"

lemma apply_blockhashes_run:
  "map_prod (\<lambda>r. \<exists>u. r = Inr u) id
      (apply_blockhashes_contract_call L E h (sc, evm) ::
         (('inv, 'rest, 'dec, 'o) block_execution_error + unit) \<times> _) =
    run_calls L E
      (if be_number (ev_block E evm) \<noteq> 0
          \<and> is_prague_active_at_timestamp (sc_spec sc) (system_call_timestamp L (ev_block E evm))
       then [(PreBlock BlockHashesContract, sl_eip4788_system_address L,
              sl_history_storage_address L, b256_bytes h)] else []) (sc, evm)"
  by (simp add: apply_call_defs system_call_defs split: prod.splits sum.splits)

lemma apply_beacon_root_run:
  assumes "is_cancun_active_at_timestamp (sc_spec sc) (system_call_timestamp L (ev_block E evm))
      \<longrightarrow> root \<noteq> None \<and> (be_number (ev_block E evm) = 0 \<longrightarrow> root = Some 0)"
  shows "map_prod (\<lambda>r. \<exists>u. r = Inr u) id
      (apply_beacon_root_contract_call L E root (sc, evm) ::
         (('inv, 'rest, 'dec, 'o) block_execution_error + unit) \<times> _) =
    run_calls L E
      (if be_number (ev_block E evm) \<noteq> 0
          \<and> is_cancun_active_at_timestamp (sc_spec sc) (system_call_timestamp L (ev_block E evm))
       then [(PreBlock BeaconRootContract, sl_eip4788_system_address L,
              sl_beacon_roots_address L, b256_bytes (the root))] else []) (sc, evm)"
  using assms
  by (cases "be_number (ev_block E evm) = 0")
    (auto simp: apply_call_defs system_call_defs split: prod.splits sum.splits option.splits)

lemma run_calls_append:
  "run_calls L E (xs @ ys) p =
     (case run_calls L E xs p of (ok, p') \<Rightarrow> if ok then run_calls L E ys p' else (False, p'))"
proof (induction xs arbitrary: p)
  case Nil
  then show ?case by (cases p) simp
next
  case (Cons x xs)
  obtain src c a d where "x = (src, c, a, d)" by (cases x)
  then show ?case
    by (cases p) (simp add: Cons.IH split: prod.splits sum.splits)
qed

context evm_access
begin

lemma pre_execution_run:
  assumes quiet: "\<And>c a d. keeps (ev_block E) (ev_transact_system_call E c a d)"
    and root: "is_cancun_active_at_timestamp (sc_spec sc) (system_call_timestamp L (ev_block E evm))
      \<longrightarrow> hd_parent_beacon_block_root hdr \<noteq> None
        \<and> (be_number (ev_block E evm) = 0 \<longrightarrow> hd_parent_beacon_block_root hdr = Some 0)"
  shows "map_prod (\<lambda>r. \<exists>u. r = Inr u) id
      (apply_pre_execution_changes L E hdr (sc, evm) ::
         (('inv, 'rest, 'dec, 'o) block_execution_error + unit) \<times> _) =
    run_calls L E (pre_block_calls L (sc_spec sc) (ev_block E evm) hdr) (sc, evm)"
proof -
  obtain r sc1 evm1 where h: "(apply_blockhashes_contract_call L E (hd_parent_hash hdr) (sc, evm) ::
      (('inv, 'rest, 'dec, 'o) block_execution_error + unit) \<times> _) = (r, sc1, evm1)"
    by (rule prod_cases3)
  have spec: "sc_spec sc1 = sc_spec sc"
    using keepsD [OF apply_calls_keep_spec(1) h] by simp
  have block: "ev_block E evm1 = ev_block E evm"
    using keepsD [OF apply_calls_keep_block(1) [OF quiet] h] by simp
  let ?A = "if be_number (ev_block E evm) \<noteq> 0
      \<and> is_prague_active_at_timestamp (sc_spec sc) (system_call_timestamp L (ev_block E evm))
    then [(PreBlock BlockHashesContract, sl_eip4788_system_address L,
           sl_history_storage_address L, b256_bytes (hd_parent_hash hdr))] else []"
  let ?B = "if be_number (ev_block E evm) \<noteq> 0
      \<and> is_cancun_active_at_timestamp (sc_spec sc) (system_call_timestamp L (ev_block E evm))
    then [(PreBlock BeaconRootContract, sl_eip4788_system_address L, sl_beacon_roots_address L,
           b256_bytes (the (hd_parent_beacon_block_root hdr)))] else []"
  have calls: "pre_block_calls L (sc_spec sc) (ev_block E evm) hdr = ?A @ ?B"
    by (simp add: pre_block_calls_def)
  have A: "run_calls L E ?A (sc, evm) = (\<exists>u. r = Inr u, sc1, evm1)"
    using arg_cong [OF h, of "map_prod (\<lambda>r. \<exists>u. r = Inr u) id"]
    unfolding apply_blockhashes_run map_prod_simp id_apply .
  have B: "map_prod (\<lambda>r. \<exists>u. r = Inr u) id
      (apply_beacon_root_contract_call L E (hd_parent_beacon_block_root hdr) (sc1, evm1) ::
         (('inv, 'rest, 'dec, 'o) block_execution_error + unit) \<times> _) = run_calls L E ?B (sc1, evm1)"
    using apply_beacon_root_run [of sc1 L E evm1 "hd_parent_beacon_block_root hdr"] root
    by (simp add: spec block)
  show ?thesis
  proof (cases r)
    case (Inl e)
    then show ?thesis
      by (simp only: calls run_calls_append A)
        (simp add: apply_pre_execution_changes_def try_bind_def h)
  next
    case (Inr u)
    then have "apply_pre_execution_changes L E hdr (sc, evm) =
        (apply_beacon_root_contract_call L E (hd_parent_beacon_block_root hdr) (sc1, evm1) ::
           (('inv, 'rest, 'dec, 'o) block_execution_error + unit) \<times> _)"
      by (simp add: apply_pre_execution_changes_def try_bind_def h ret_def
          split: prod.splits sum.splits)
    then show ?thesis
      by (simp only: calls run_calls_append A prod.case B [symmetric]) (simp add: Inr)
  qed
qed

end


text \<open>What the EVM of revm must not do for the block to stay the one being executed.\<close>

definition revm_keeps_block ::
    "(('db, 'spec, 'rest, 'insp, 'pre) inner_evm, 'tx, 'halt, 'err) revm_ops \<Rightarrow> bool" where
  "revm_keeps_block R \<longleftrightarrow>
     (\<forall>tx. keeps (\<lambda>i. cx_block (in_ctx i)) (rv_transact R tx)
         \<and> keeps (\<lambda>i. cx_block (in_ctx i)) (rv_inspect_tx R tx))
     \<and> (\<forall>c a d. keeps (\<lambda>i. cx_block (in_ctx i)) (rv_system_call_with_caller R c a d))"

lemma on_inner_keeps_block [frame]:
  assumes "keeps (\<lambda>i. cx_block (in_ctx i)) m"
  shows "keeps (\<lambda>e. cx_block (in_ctx (we_inner e))) (on_inner m)"
  using keepsD [OF assms]
  by (auto simp: keeps_def on_inner_def zoom_def split: prod.splits)

lemma eth_keeps_block:
  assumes "revm_keeps_block R"
  shows "keeps (ev_block (eth_evm_dict R)) (ev_transact_system_call (eth_evm_dict R) c a d)"
    and "keeps (ev_block (eth_evm_dict R)) (ev_transact_raw (eth_evm_dict R) tx)"
proof -
  have b: "eth_block = (\<lambda>e. cx_block (in_ctx (we_inner e)))"
    by (simp add: fun_eq_iff eth_block_def eth_ctx_def)
  have t: "eth_transact_raw R tx = (\<lambda>e. (if we_inspect e then on_inner (rv_inspect_tx R tx) e
      else on_inner (rv_transact R tx) e))"
    by (simp add: fun_eq_iff eth_transact_raw_def)
  show "keeps (ev_block (eth_evm_dict R)) (ev_transact_system_call (eth_evm_dict R) c a d)"
    using assms
    by (simp add: eth_evm_dict_def b eth_transact_system_call_def revm_keeps_block_def
        on_inner_keeps_block)
  have "keeps (\<lambda>e. cx_block (in_ctx (we_inner e))) (on_inner (rv_inspect_tx R tx))"
    "keeps (\<lambda>e. cx_block (in_ctx (we_inner e))) (on_inner (rv_transact R tx))"
    using assms by (simp_all add: revm_keeps_block_def on_inner_keeps_block)
  then show "keeps (ev_block (eth_evm_dict R)) (ev_transact_raw (eth_evm_dict R) tx)"
    by (simp add: eth_evm_dict_def b t keeps_def)
qed

lemma seismic_eth_methods:
  "seismic_transact_raw R tx = eth_transact_raw R tx" "seismic_block = eth_block"
  by (simp_all add: fun_eq_iff seismic_transact_raw_def eth_transact_raw_def seismic_block_def
      eth_block_def eth_ctx_def)

lemma seismic_keeps_block:
  assumes "revm_keeps_block R"
  shows "keeps (ev_block (seismic_evm_dict R)) (ev_transact_system_call (seismic_evm_dict R) c a d)"
    and "keeps (ev_block (seismic_evm_dict R)) (ev_transact_raw (seismic_evm_dict R) tx)"
proof -
  show "keeps (ev_block (seismic_evm_dict R)) (ev_transact_system_call (seismic_evm_dict R) c a d)"
    using assms seismic_system_call_keeps_env [of R c a d]
    by (simp add: seismic_evm_dict_def revm_keeps_block_def)
  show "keeps (ev_block (seismic_evm_dict R)) (ev_transact_raw (seismic_evm_dict R) tx)"
    using eth_keeps_block(2) [OF assms, of tx]
    by (simp add: seismic_evm_dict_def eth_evm_dict_def seismic_eth_methods)
qed

text \<open>C3: Before execution the Seismic EVM runs exactly the system calls of the active forks, the
  blockhashes contract from Prague on and then the beacon roots contract from Cancun on, none on the
  genesis block; every call runs on the state its predecessor committed, its changes are shown to
  the hook and committed, and the run succeeds exactly when every call was accepted.\<close>

theorem pre_execution_refines_calls:
  assumes "revm_keeps_block R"
    and "is_cancun_active_at_timestamp (sc_spec sc) (system_call_timestamp L (seismic_block evm))
      \<longrightarrow> hd_parent_beacon_block_root hdr \<noteq> None
        \<and> (be_number (seismic_block evm) = 0 \<longrightarrow> hd_parent_beacon_block_root hdr = Some 0)"
  shows "map_prod (\<lambda>r. \<exists>u. r = Inr u) id
      (apply_pre_execution_changes L (seismic_evm_dict R) hdr (sc, evm) ::
         (('inv, 'rest, 'dec, 'o) block_execution_error + unit) \<times> _) =
    run_calls L (seismic_evm_dict R) (pre_block_calls L (sc_spec sc) (seismic_block evm) hdr) (sc, evm)"
  using seismic_access.pre_execution_run [OF seismic_keeps_block(1) [OF assms(1)], of sc L evm hdr]
    assms(2)
  by (simp add: seismic_evm_dict_def)

text \<open>An EVM that accepts everything and reports the caller as touched.\<close>

definition accepting_revm ::
    "((nat, nat, unit, unit, unit) inner_evm, seismic_transaction, unit, unit) revm_ops" where
  "accepting_revm =
     \<lparr>rv_transact = (\<lambda>tx i. (Inr \<lparr>rs_result = Success 21000 [] [42],
          rs_state = (case te_kind (stx_base tx) of Create \<Rightarrow> Map.empty | Call a \<Rightarrow> [a \<mapsto>
             \<lparr>acc_info = \<lparr>ai_balance = 0, ai_nonce = 1, ai_code_hash = 0, ai_code = None\<rparr>,
              acc_storage = Map.empty, acc_status = {Touched}, acc_transaction_id = 0\<rparr>])\<rparr>, i)),
      rv_inspect_tx = (\<lambda>tx i. (Inl (), i)),
      rv_system_call_with_caller = (\<lambda>c1 c2 d i. (Inl (), i))\<rparr>"

lemma accepting_revm_keeps_block: "revm_keeps_block accepting_revm"
  by (simp add: revm_keeps_block_def accepting_revm_def keeps_def)

definition accepted_call :: "address \<Rightarrow> unit result_and_state" where
  "accepted_call a =
     \<lparr>rs_result = Success 21000 [] [42],
      rs_state = [a \<mapsto>
         \<lparr>acc_info = \<lparr>ai_balance = 0, ai_nonce = 1, ai_code_hash = 0, ai_code = None\<rparr>,
          acc_storage = Map.empty, acc_status = {Touched}, acc_transaction_id = 0\<rparr>]\<rparr>"

lemma accepting_system_call:
  assumes "\<not> we_inspect e"
  shows "ev_transact_system_call (seismic_evm_dict accepting_revm) c a d e = (Inr (accepted_call a), e)"
  using assms
  by (simp add: seismic_evm_dict_def seismic_system_call_eq seismic_transact_raw_def on_inner_def
      zoom_def accepting_revm_def seismic_system_tx_def retain_contract_def seismic_ctx_mut_def
      system_call_ctx_def restore_ctx_def seismic_ctx_def accepted_call_def)

lemma seismic_commit_inspect [simp]:
  "we_inspect (evm_commit L (seismic_evm_dict R) st e) = we_inspect e"
  by (simp add: evm_commit_def evm_set_db_def seismic_evm_defs split: prod.splits)

definition cancun_wrapper :: "(nat, nat, unit, unit, unit) evm_wrapper" where
  "cancun_wrapper =
     seismic_ctx_mut (\<lambda>c. c\<lparr>cx_block := (cx_block c)\<lparr>be_number := 8, be_timestamp := 2000000\<rparr>\<rparr>)
       sample_wrapper"

lemma pre_execution_refines_calls_witness:
  "sc_hook (fst (snd (apply_pre_execution_changes sample_sys_lib (seismic_evm_dict accepting_revm)
      sample_header (with_state_hook (Some []) (system_caller_new cancun_spec), cancun_wrapper) ::
      ((unit, unit, unit, unit) block_execution_error + unit) \<times> _))) = Some [PreBlock BeaconRootContract]"
proof -
  let ?sc = "with_state_hook (Some []) (system_caller_new cancun_spec)"
  have t: "system_call_timestamp sample_sys_lib (seismic_block cancun_wrapper) = 2000"
    "be_number (seismic_block cancun_wrapper) = 8"
    by (simp_all add: cancun_wrapper_def sample_wrapper_def seismic_ctx_mut_def seismic_block_def
        system_call_timestamp_def sample_sys_lib_def saturating_to_u64_def)
  have calls: "pre_block_calls sample_sys_lib (sc_spec ?sc) (seismic_block cancun_wrapper) sample_header =
      [(PreBlock BeaconRootContract, 101, 103, b256_bytes 3)]"
    by (simp add: pre_block_calls_def t) (simp add: cancun_spec_def with_state_hook_def
        system_caller_new_def sample_sys_lib_def sample_header_def)
  have run: "map_prod (\<lambda>r. \<exists>u. r = Inr u) id
      (apply_pre_execution_changes sample_sys_lib (seismic_evm_dict accepting_revm) sample_header
         (?sc, cancun_wrapper) :: ((unit, unit, unit, unit) block_execution_error + unit) \<times> _) =
      run_calls sample_sys_lib (seismic_evm_dict accepting_revm)
        [(PreBlock BeaconRootContract, 101, 103, b256_bytes 3)] (?sc, cancun_wrapper)"
    using pre_execution_refines_calls [OF accepting_revm_keeps_block, of ?sc sample_sys_lib
        cancun_wrapper sample_header, unfolded calls]
    by (simp add: t) (simp add: sample_header_def)
  have "\<not> we_inspect cancun_wrapper"
    by (simp add: cancun_wrapper_def sample_wrapper_def seismic_ctx_mut_def)
  then show ?thesis
    using arg_cong [OF run, of "\<lambda>x. sc_hook (fst (snd x))"]
    by (simp add: accepting_system_call sc_hook_on_state)
      (simp add: with_state_hook_def sample_sys_lib_def)
qed

definition push_nonempty ::
    "('db, 'err, 'halt, 'hk, 'rq) sys_lib \<Rightarrow> u8 \<Rightarrow> bytes \<Rightarrow> 'rq \<Rightarrow> 'rq" where
  "push_nonempty L ty bs rq = (if bs = [] then rq else sl_push_request_with_type L ty bs rq)"

lemma apply_post_execution_changes_eq:
  "apply_post_execution_changes L E =
     try_bind (apply_withdrawal_requests_contract_call L E) (\<lambda>w.
     try_bind (apply_consolidation_requests_contract_call L E) (\<lambda>c.
       ret (push_nonempty L (sl_consolidation_request_type L) c
         (push_nonempty L (sl_withdrawal_request_type L) w (sl_requests_default L)))))"
  unfolding apply_post_execution_changes_def push_nonempty_def Let_def
  by (intro arg_cong2 [of _ _ _ _ try_bind] refl ext arg_cong [of _ _ ret]) simp

text \<open>C4: When the calls after execution succeed, the withdrawal-requests contract ran first and the
  consolidation-requests contract ran on the state with the first call's changes committed; both
  succeeded, the hook saw both sets of changes in that order and both are committed; and the
  requests are their non-empty outputs, each under its own type, in that order.\<close>

theorem post_execution_requests:
  assumes "(apply_post_execution_changes L E (sc, evm) ::
      (('inv, 'rest, 'dec, 'o) block_execution_error + _) \<times> _) = (Inr rq, sc', evm')"
  shows "\<exists>w evm1 c evm2 gw lw ow gc lc oc.
    ev_transact_system_call E (sl_eip7002_system_address L)
      (sl_withdrawal_request_predeploy_address L) [] evm = (Inr w, evm1)
    \<and> ev_transact_system_call E (sl_eip7002_system_address L)
        (sl_consolidation_request_predeploy_address L) [] (evm_commit L E (rs_state w) evm1) = (Inr c, evm2)
    \<and> rs_result w = Success gw lw ow \<and> rs_result c = Success gc lc oc
    \<and> evm' = evm_commit L E (rs_state c) evm2
    \<and> sc' = on_state L (PostBlock ConsolidationRequestsContract) (rs_state c)
              (on_state L (PostBlock WithdrawalRequestsContract) (rs_state w) sc)
    \<and> rq = push_nonempty L (sl_consolidation_request_type L) oc
              (push_nonempty L (sl_withdrawal_request_type L) ow (sl_requests_default L))"
  using assms
  by (auto simp: apply_post_execution_changes_eq try_bind_Inr apply_call_defs system_call_defs
      ret_def split: prod.splits sum.splits execution_result.splits)

lemma post_execution_requests_witness:
  "\<exists>p. (apply_post_execution_changes sample_sys_lib (seismic_evm_dict accepting_revm)
      (with_state_hook (Some []) (system_caller_new cancun_spec), cancun_wrapper) ::
      ((unit, unit, unit, unit) block_execution_error + _) \<times> _) = (Inr [(1, [42]), (2, [42])], p)
    \<and> sc_hook (fst p) = Some [PostBlock WithdrawalRequestsContract, PostBlock ConsolidationRequestsContract]"
proof -
  let ?run = "apply_post_execution_changes sample_sys_lib (seismic_evm_dict accepting_revm)
      (with_state_hook (Some []) (system_caller_new cancun_spec), cancun_wrapper) ::
      ((unit, unit, unit, unit) block_execution_error + _) \<times> _"
  have no_inspect: "\<not> we_inspect cancun_wrapper"
    by (simp add: cancun_wrapper_def sample_wrapper_def seismic_ctx_mut_def)
  have ok: "\<exists>sc' evm'. ?run = (Inr [(1, [42]), (2, [42])], sc', evm')"
    by (simp add: apply_post_execution_changes_eq try_bind_def apply_call_defs system_call_defs
        push_nonempty_def accepting_system_call accepted_call_def no_inspect ret_def Let_def)
      (simp add: sample_sys_lib_def)
  then obtain sc' evm' where run: "?run = (Inr [(1, [42]), (2, [42])], sc', evm')"
    by blast
  from post_execution_requests [OF run] have
    "sc_hook sc' = Some [PostBlock WithdrawalRequestsContract, PostBlock ConsolidationRequestsContract]"
    by (auto simp: sc_hook_on_state) (simp_all add: with_state_hook_def sample_sys_lib_def)
  with run show ?thesis by simp
qed

text \<open>
  A contract that reverts or halts makes the call fail, but its changes have been shown to the
  hook and committed by then.
\<close>

lemma withdrawal_requests_failure_commits:
  assumes "ev_transact_system_call E (sl_eip7002_system_address L)
      (sl_withdrawal_request_predeploy_address L) [] evm = (Inr w, evm1)"
    and "\<not> er_is_success (rs_result w)"
  shows "\<exists>msg. apply_post_execution_changes L E (sc, evm) =
    (Inl (Validation (WithdrawalRequestsContractCall msg)),
     on_state L (PostBlock WithdrawalRequestsContract) (rs_state w) sc,
     evm_commit L E (rs_state w) evm1)"
  using assms
  by (cases "rs_result w")
    (simp_all add: apply_post_execution_changes_def try_bind_def apply_call_defs system_call_defs
      er_is_success_def)

text \<open>An EVM that charges every transaction what it asks for, and makes no system call.\<close>

definition paying_revm ::
    "((nat, nat, unit, unit, unit) inner_evm, u64, unit, (unit, unit) evm_error) revm_ops" where
  "paying_revm =
     \<lparr>rv_transact = (\<lambda>g i. (Inr \<lparr>rs_result = Success g [] [], rs_state = [5 \<mapsto>
         \<lparr>acc_info = \<lparr>ai_balance = 0, ai_nonce = 1, ai_code_hash = 0, ai_code = None\<rparr>,
          acc_storage = Map.empty, acc_status = {Touched}, acc_transaction_id = 0\<rparr>]\<rparr>, i)),
      rv_inspect_tx = (\<lambda>g i. (Inl (OtherEvmError ()), i)),
      rv_system_call_with_caller = (\<lambda>c1 c2 d i. (Inl (OtherEvmError ()), i))\<rparr>"

lemma paying_revm_keeps_block: "revm_keeps_block paying_revm"
  by (simp add: revm_keeps_block_def paying_revm_def keeps_def)

end
