(* ===== verification/StateChanges.thy ===== *)
theory StateChanges
  imports ErrorModel Calc
begin

text \<open>
  \<open>crates/evm/src/block/state_changes.rs\<close>: the balance changes at the end of a block, and the
  changeset that reports them to a state hook. Also the operations of revm's \<open>State<DB>\<close> that the
  block executors call, as the record \<open>state_ops\<close>.
\<close>

section \<open>The database\<close>

text \<open>
  The part of \<open>State<DB>\<close> that is used: \<open>load_cache_account\<close> and \<open>basic\<close> (the account's info if it
  exists), \<open>set_state_clear_flag\<close>, \<open>increment_balances\<close>, \<open>drain_balances\<close>.
\<close>

record ('db, 'dberr) state_ops =
  so_load_cache_account :: "address \<Rightarrow> ('db, 'dberr, account_info option) step"
  so_set_state_clear_flag :: "bool \<Rightarrow> 'db \<Rightarrow> 'db"
  so_increment_balances :: "(address \<rightharpoonup> u128) \<Rightarrow> ('db, 'dberr, unit) step"
  so_drain_balances :: "address list \<Rightarrow> ('db, 'dberr, u128 list) step"
  so_basic :: "address \<Rightarrow> ('db, 'dberr, account_info option) step"

section \<open>Withdrawals\<close>

text \<open>\<open>U256::to::<u128>()\<close>, which panics on a value that does not fit (here \<open>None\<close>).\<close>

definition u256_to_u128 :: "u256 \<Rightarrow> u128 option" where
  "u256_to_u128 x = (if x < 2 ^ 128 then Some (ucast x) else None)"

text \<open>
  The loop over the withdrawals. \<open>amount_wei\<close> is \<open>Withdrawal::amount_wei\<close> of \<open>alloy_eips\<close>.
\<close>

fun insert_withdrawals ::
    "(withdrawal \<Rightarrow> u256) \<Rightarrow> withdrawal list \<Rightarrow> (address \<rightharpoonup> u128) \<Rightarrow> (address \<rightharpoonup> u128) option" where
  "insert_withdrawals amount_wei [] m = Some m"
| "insert_withdrawals amount_wei (w # ws) m =
     (if wd_amount w > 0 then
        (case u256_to_u128 (amount_wei w) of
           None \<Rightarrow> None
         | Some v \<Rightarrow> insert_withdrawals amount_wei ws (entry_add (wd_address w) v m))
      else insert_withdrawals amount_wei ws m)"

definition insert_post_block_withdrawals_balance_increments ::
    "(withdrawal \<Rightarrow> u256) \<Rightarrow> 'z hardforks_scheme \<Rightarrow> u64 \<Rightarrow> withdrawal list option
      \<Rightarrow> (address \<rightharpoonup> u128) \<Rightarrow> (address \<rightharpoonup> u128) option" where
  "insert_post_block_withdrawals_balance_increments amount_wei spec block_timestamp withdrawals m =
     (if is_shanghai_active_at_timestamp spec block_timestamp then
        (case withdrawals of Some ws \<Rightarrow> insert_withdrawals amount_wei ws m | None \<Rightarrow> Some m)
      else Some m)"

definition post_block_withdrawals_balance_increments ::
    "(withdrawal \<Rightarrow> u256) \<Rightarrow> 'z hardforks_scheme \<Rightarrow> u64 \<Rightarrow> withdrawal list
      \<Rightarrow> (address \<rightharpoonup> u128) option" where
  "post_block_withdrawals_balance_increments amount_wei spec block_timestamp withdrawals =
     insert_post_block_withdrawals_balance_increments amount_wei spec block_timestamp
       (Some withdrawals) Map.empty"

section \<open>Rewards and withdrawals of a block\<close>

definition post_block_balance_increments ::
    "(withdrawal \<Rightarrow> u256) \<Rightarrow> 'z hardforks_scheme \<Rightarrow> block_env \<Rightarrow> header list
      \<Rightarrow> withdrawal list option \<Rightarrow> (address \<rightharpoonup> u128) option" where
  "post_block_balance_increments amount_wei spec block_env ommers withdrawals =
     (let balance_increments =
        (case base_block_reward spec (saturating_to_u64 (be_number block_env)) of
           Some base_reward \<Rightarrow>
             entry_add (be_beneficiary block_env)
               (block_reward base_reward (of_nat (length ommers)))
               (fold (\<lambda>ommer. entry_add (hd_beneficiary ommer)
                        (ommer_reward base_reward (saturating_to_u64 (be_number block_env))
                           (hd_number ommer)))
                  ommers Map.empty)
         | None \<Rightarrow> Map.empty)
      in insert_post_block_withdrawals_balance_increments amount_wei spec
           (saturating_to_u64 (be_timestamp block_env)) withdrawals balance_increments)"

text \<open>What an account receives from a list of withdrawals.\<close>

definition withdrawn_to :: "(withdrawal \<Rightarrow> u256) \<Rightarrow> withdrawal list \<Rightarrow> address \<Rightarrow> u128" where
  "withdrawn_to amount_wei ws a =
     sum_list (map (\<lambda>w. ucast (amount_wei w)) (filter (\<lambda>w. wd_amount w > 0 \<and> wd_address w = a) ws))"

text \<open>
  The documented behaviour of \<open>amount_wei\<close>: the amount, which is in gwei, times \<open>10^9\<close>. Since the
  amount is a \<open>u64\<close>, the result always fits a \<open>u128\<close>.
\<close>

definition gwei_to_wei :: "(withdrawal \<Rightarrow> u256) \<Rightarrow> bool" where
  "gwei_to_wei amount_wei \<longleftrightarrow> (\<forall>w. unat (amount_wei w) = unat (wd_amount w) * 10 ^ 9)"

lemma gwei_to_wei_fits:
  assumes "gwei_to_wei amount_wei"
  shows "u256_to_u128 (amount_wei w) = Some (ucast (amount_wei w))"
proof -
  have "unat (wd_amount w) < 2 ^ 64"
    using unsigned_less [of "wd_amount w"] by simp
  then have "unat (amount_wei w) < 2 ^ 128"
    using assms by (simp add: gwei_to_wei_def)
  then have "amount_wei w < 2 ^ 128"
    by (simp add: word_less_nat_alt)
  then show ?thesis
    by (simp add: u256_to_u128_def)
qed

lemma gwei_to_wei_unat:
  assumes "gwei_to_wei amount_wei"
  shows "unat (ucast (amount_wei w) :: u128) = unat (wd_amount w) * 10 ^ 9"
proof -
  have "unat (wd_amount w) < 2 ^ 64"
    using unsigned_less [of "wd_amount w"] by simp
  then have "unat (wd_amount w) * 10 ^ 9 < 2 ^ 128" by simp
  moreover have "unat (amount_wei w) = unat (wd_amount w) * 10 ^ 9"
    using assms by (simp add: gwei_to_wei_def)
  moreover have "unat (ucast (amount_wei w) :: u128) = take_bit 128 (unat (amount_wei w))"
    by (simp add: unsigned_ucast_eq)
  ultimately show ?thesis
    by (simp only: take_bit_nat_eq_self)
qed

lemma insert_withdrawals_total:
  assumes "gwei_to_wei amount_wei"
  shows "insert_withdrawals amount_wei ws m =
    Some (fold (\<lambda>w. entry_add (wd_address w) (ucast (amount_wei w)))
            (filter (\<lambda>w. wd_amount w > 0) ws) m)"
  by (induction ws arbitrary: m) (auto simp: gwei_to_wei_fits [OF assms])

lemma insert_withdrawals_sum:
  assumes "gwei_to_wei amount_wei"
  shows "map_option (\<lambda>r. increment_of r a) (insert_withdrawals amount_wei ws m) =
    Some (increment_of m a + withdrawn_to amount_wei ws a)"
  by (simp add: insert_withdrawals_total [OF assms] fold_entry_add withdrawn_to_def conj_commute)

text \<open>C38: The balance changes at the end of a block are computed without panic, and give every
  address exactly what it is due: before the merge the ommer rewards of the ommers it mined and the
  block reward if it is the beneficiary; from Shanghai on the sum of its withdrawals in wei; and
  no address that is due nothing has an entry.\<close>

theorem post_block_balance_increments_sum:
  assumes "gwei_to_wei amount_wei"
  shows "\<exists>m. post_block_balance_increments amount_wei spec block ommers ws = Some m
    \<and> (\<forall>a. increment_of m a =
          (case base_block_reward spec (saturating_to_u64 (be_number block)) of
             None \<Rightarrow> 0
           | Some r \<Rightarrow>
               sum_list (map (\<lambda>o'. ommer_reward r (saturating_to_u64 (be_number block)) (hd_number o'))
                  (filter (\<lambda>o'. hd_beneficiary o' = a) ommers))
               + (if a = be_beneficiary block then block_reward r (of_nat (length ommers)) else 0))
          + (if is_shanghai_active_at_timestamp spec (saturating_to_u64 (be_timestamp block))
             then withdrawn_to amount_wei (case ws of None \<Rightarrow> [] | Some l \<Rightarrow> l) a else 0))
    \<and> dom m =
          (if is_paris_active_at_block spec (saturating_to_u64 (be_number block)) then {}
           else insert (be_beneficiary block) (hd_beneficiary ` set ommers))
          \<union> (if is_shanghai_active_at_timestamp spec (saturating_to_u64 (be_timestamp block))
             then wd_address ` {w \<in> set (case ws of None \<Rightarrow> [] | Some l \<Rightarrow> l). wd_amount w > 0} else {})"
  using assms
  by (cases "base_block_reward spec (saturating_to_u64 (be_number block))"; cases ws)
    (auto simp: post_block_balance_increments_def insert_post_block_withdrawals_balance_increments_def
      insert_withdrawals_total fold_entry_add dom_fold_entry_add withdrawn_to_def conj_commute
      base_block_reward_paris base_block_reward_def split: if_splits)

definition sample_amount_wei :: "withdrawal \<Rightarrow> u256" where
  "sample_amount_wei w = ucast (wd_amount w) * 1000000000"

lemma sample_amount_wei_law: "gwei_to_wei sample_amount_wei"
proof -
  have "unat (ucast x * 1000000000 :: u256) = unat x * 10 ^ 9" for x :: u64
  proof -
    have "unat x < 2 ^ 64"
      using unsigned_less [of x] by simp
    moreover from this have "unat (ucast x :: u256) = unat x"
      by (simp add: unsigned_ucast_eq take_bit_nat_eq_self)
    ultimately show ?thesis
      by (subst unat_mult_lem [THEN iffD1]) simp_all
  qed
  then show ?thesis
    by (simp add: gwei_to_wei_def sample_amount_wei_def)
qed

definition sample_spec :: hardforks where
  "sample_spec =
     \<lparr>is_spurious_dragon_active_at_block = (\<lambda>_. True), is_byzantium_active_at_block = (\<lambda>_. True),
      is_constantinople_active_at_block = (\<lambda>_. True), is_paris_active_at_block = (\<lambda>n. 100 \<le> n),
      is_shanghai_active_at_timestamp = (\<lambda>t. 1000 \<le> t),
      is_cancun_active_at_timestamp = (\<lambda>t. 1000 \<le> t),
      is_prague_active_at_timestamp = (\<lambda>t. 1000 \<le> t),
      dao_transitions_at_block = (\<lambda>n. n = 7)\<rparr>"

definition sample_block :: block_env where
  "sample_block =
     \<lparr>be_number = 5, be_beneficiary = 1, be_timestamp = 12, be_gas_limit = 1000, be_basefee = 9,
      be_difficulty = 0, be_prevrandao = None\<rparr>"

lemma post_block_balance_increments_sum_witness:
  "map_option (\<lambda>m. increment_of m 1)
     (post_block_balance_increments sample_amount_wei sample_spec sample_block [] None)
   = Some 2000000000000000000"
  using post_block_balance_increments_sum
    [OF sample_amount_wei_law, of sample_spec sample_block "[]" None]
  by (auto simp: sample_spec_def sample_block_def base_block_reward_def
      base_block_reward_pre_merge_def ETH_TO_WEI_def block_reward_def saturating_to_u64_def)

text \<open>No entry is zero-valued through withdrawals: with no rewards every entry is a sum of positive amounts.\<close>

lemma post_block_withdrawals_sum:
  assumes "gwei_to_wei amount_wei"
  shows "map_option (\<lambda>m. increment_of m a)
      (post_block_withdrawals_balance_increments amount_wei spec t ws) =
    Some (if is_shanghai_active_at_timestamp spec t then withdrawn_to amount_wei ws a else 0)"
  using insert_withdrawals_sum [OF assms, of a ws Map.empty]
  by (simp add: post_block_withdrawals_balance_increments_def
      insert_post_block_withdrawals_balance_increments_def)

section \<open>The changeset reported for balance increments\<close>

definition balance_increment_error :: string where
  "balance_increment_error = ''could not load account for balance increment''"

text \<open>The closure \<open>load_account\<close>.\<close>

definition load_increment_account ::
    "('db, 'dberr) state_ops \<Rightarrow> address
      \<Rightarrow> ('db, ('inv, 'rest, 'dec, 'o) block_execution_error, address \<times> account) step" where
  "load_increment_account S addr =
     try_bind (map_err (\<lambda>_. bee_msg balance_increment_error) (so_load_cache_account S addr)) (\<lambda>acc.
       (case acc of
          None \<Rightarrow> fail (bee_msg balance_increment_error)
        | Some info \<Rightarrow> ret (addr,
            \<lparr>acc_info = info, acc_storage = Map.empty, acc_status = {Touched},
             acc_transaction_id = 0\<rparr>)))"

text \<open>\<open>collect::<Result<EvmState, _>>()\<close> stops at the first error.\<close>

definition balance_increment_state ::
    "((address \<rightharpoonup> u128) \<Rightarrow> (address \<times> u128) list) \<Rightarrow> ('db, 'dberr) state_ops \<Rightarrow> (address \<rightharpoonup> u128)
      \<Rightarrow> ('db, ('inv, 'rest, 'dec, 'o) block_execution_error, evm_state) step" where
  "balance_increment_state iter S balance_increments =
     map_ok (\<lambda>accs. fold (\<lambda>(addr, acc) m. m(addr \<mapsto> acc)) accs Map.empty)
       (try_each (\<lambda>(addr, _). load_increment_account S addr)
          (filter (\<lambda>(_, balance). balance \<noteq> 0) (iter balance_increments)))"

lemma load_increment_account_Inr:
  "load_increment_account S addr s = (Inr y, t) \<longleftrightarrow>
     (\<exists>info. so_load_cache_account S addr s = (Inr (Some info), t)
        \<and> y = (addr, \<lparr>acc_info = info, acc_storage = Map.empty, acc_status = {Touched},
                     acc_transaction_id = 0\<rparr>))"
  by (auto simp: load_increment_account_def step_defs split: prod.splits sum.splits option.splits)

lemma balance_increment_state_loaded:
  assumes "balance_increment_state iter S m s = (Inr st, s')"
  shows "\<exists>ys. st = fold (\<lambda>(addr, acc) m. m(addr \<mapsto> acc)) ys Map.empty
    \<and> list_all2 (\<lambda>x y. fst y = fst x \<and> acc_storage (snd y) = Map.empty \<and> acc_status (snd y) = {Touched}
        \<and> (\<exists>u u'. so_load_cache_account S (fst y) u = (Inr (Some (acc_info (snd y))), u')))
      (filter (\<lambda>(_, balance). balance \<noteq> 0) (iter m)) ys"
  using assms unfolding balance_increment_state_def map_ok_Inr
  by (fastforce dest: try_each_all elim: list_all2_mono simp: load_increment_account_Inr)

text \<open>C39: The changeset reported for balance increments has exactly the addresses whose increment
  is not zero; each with no storage, marked touched, and with the account info that the database
  returned for it; the order in which the hash map is walked does not matter for its domain.\<close>

theorem balance_increment_state_dom:
  assumes "iterates iter m"
    and "balance_increment_state iter S m s = (Inr st, s')"
  shows "dom st = {a. \<exists>v. m a = Some v \<and> v \<noteq> 0}
    \<and> (\<forall>a acc. st a = Some acc \<longrightarrow> acc_storage acc = Map.empty \<and> acc_status acc = {Touched}
         \<and> (\<exists>u u'. so_load_cache_account S a u = (Inr (Some (acc_info acc)), u')))"
proof -
  let ?xs = "filter (\<lambda>(_, balance). balance \<noteq> 0) (iter m)"
  obtain ys where st: "st = fold (\<lambda>(addr, acc) m. m(addr \<mapsto> acc)) ys Map.empty"
    and loaded: "list_all2 (\<lambda>x y. fst y = fst x \<and> acc_storage (snd y) = Map.empty
        \<and> acc_status (snd y) = {Touched}
        \<and> (\<exists>u u'. so_load_cache_account S (fst y) u = (Inr (Some (acc_info (snd y))), u'))) ?xs ys"
    using balance_increment_state_loaded [OF assms(2)] by blast
  have keys: "map fst ys = map fst ?xs"
    using loaded by (induction rule: list_all2_induct) auto
  have each: "acc_storage acc = Map.empty \<and> acc_status acc = {Touched}
      \<and> (\<exists>u u'. so_load_cache_account S a u = (Inr (Some (acc_info acc)), u'))"
    if "(a, acc) \<in> set ys" for a acc
    using list_all2_right [OF loaded that] by (simp only: fst_conv snd_conv) blast
  have "distinct (map fst (iter m))"
    using assms(1) by (simp add: iterates_def)
  then have d: "distinct (map fst ys)"
    unfolding keys by (rule distinct_map_filter)
  have st': "st a = map_of ys a" for a
    using fold_map_upd [OF d, of "\<lambda>_ acc. acc" Map.empty]
    by (simp add: st split: option.splits)
  have "dom st = fst ` set ys"
    unfolding dom_map_of_conv_image_fst [symmetric] by (simp only: dom_def st')
  also have "\<dots> = fst ` set ?xs"
    using arg_cong [OF keys, of set] by (simp only: set_map)
  also have "\<dots> = {a. \<exists>v. m a = Some v \<and> v \<noteq> 0}"
    by (force simp: iterates_set [OF assms(1)])
  finally show ?thesis
    using each by (auto simp: st' dest: map_of_SomeD)
qed

definition sample_state_ops :: "('db, unit) state_ops" where
  "sample_state_ops =
     \<lparr>so_load_cache_account = (\<lambda>a s. (Inr (Some \<lparr>ai_balance = ucast a, ai_nonce = 0, ai_code_hash = 0,
        ai_code = None\<rparr>), s)),
      so_set_state_clear_flag = (\<lambda>_ s. s), so_increment_balances = (\<lambda>_ s. (Inr (), s)),
      so_drain_balances = (\<lambda>as s. (Inr (map (\<lambda>_. 0) as), s)), so_basic = (\<lambda>_ s. (Inr None, s))\<rparr>"

lemma balance_increment_state_dom_witness:
  "\<exists>st. fst (balance_increment_state (\<lambda>_. [(1, 5), (2, 0)]) sample_state_ops [1 \<mapsto> 5, 2 \<mapsto> 0] ()) =
       (Inr st :: (unit, unit, unit, unit) block_execution_error + evm_state) \<and> dom st = {1}"
proof -
  have it: "iterates (\<lambda>_. [(1, 5), (2, 0)]) [1 \<mapsto> 5, (2::address) \<mapsto> (0::u128)]"
    by (simp add: iterates_def fun_upd_twist)
  let ?run = "balance_increment_state (\<lambda>_. [(1, 5), (2, 0)]) sample_state_ops [1 \<mapsto> 5, 2 \<mapsto> 0] ()
    :: ((unit, unit, unit, unit) block_execution_error + evm_state) \<times> unit"
  let ?st = "[(1::address) \<mapsto> \<lparr>acc_info = \<lparr>ai_balance = 1, ai_nonce = 0, ai_code_hash = 0, ai_code = None\<rparr>,
    acc_storage = Map.empty, acc_status = {Touched}, acc_transaction_id = 0\<rparr>]"
  have run: "?run = (Inr ?st, ())"
    by (simp add: balance_increment_state_def load_increment_account_def step_defs
        sample_state_ops_def)
  note balance_increment_state_dom [OF it run, THEN conjunct1]
  also have "{a. \<exists>v. [1 \<mapsto> 5, 2 \<mapsto> (0::u128)] a = Some v \<and> v \<noteq> 0} = {1 :: address}"
    by auto
  finally have "dom ?st = {1}" .
  then show ?thesis
    by (simp add: run)
qed

end
