(* ===== verification/Receipts.thy ===== *)
theory Receipts
  imports EvmTypes
begin

text \<open>
  The receipt builders: \<open>crates/evm/src/eth/receipt_builder.rs\<close>,
  \<open>crates/op-evm/src/block/receipt_builder.rs\<close> and \<open>crates/seismic-evm/src/block/receipt_builder.rs\<close>.
\<close>

section \<open>What a receipt is built from\<close>

record ('tx, 'evm, 'halt) receipt_builder_ctx =
  rc_tx :: 'tx
  rc_evm :: 'evm
  rc_result :: "'halt execution_result"
  rc_state :: evm_state
  rc_cumulative_gas_used :: u64

text \<open>The receipt of \<open>alloy_consensus\<close>; \<open>rcp_status\<close> is \<open>Eip658Value::Eip658\<close>.\<close>

record receipt =
  rcp_status :: bool
  rcp_cumulative_gas_used :: u64
  rcp_logs :: "log list"

text \<open>
  A builder may reach \<open>unreachable!()\<close>: \<open>None\<close>. \<open>with_bloom\<close> of \<open>alloy_consensus\<close> pairs a receipt
  with the bloom filter of its logs and is an argument.
\<close>

record ('tx, 'evm, 'halt, 'rcpt) receipt_builder =
  rb_build_receipt :: "('tx, 'evm, 'halt) receipt_builder_ctx \<Rightarrow> 'rcpt option"

section \<open>Ethereum\<close>

datatype tx_type = TxLegacy | TxEip2930 | TxEip1559 | TxEip4844 | TxEip7702

datatype 'rb receipt_envelope =
    ReceiptLegacy 'rb | ReceiptEip2930 'rb | ReceiptEip1559 'rb | ReceiptEip4844 'rb | ReceiptEip7702 'rb

definition alloy_build_receipt ::
    "(receipt \<Rightarrow> 'rb) \<Rightarrow> ('tx \<Rightarrow> tx_type) \<Rightarrow> ('tx, 'evm, 'halt) receipt_builder_ctx
      \<Rightarrow> 'rb receipt_envelope option" where
  "alloy_build_receipt with_bloom ty ctx =
     (let receipt = with_bloom
        \<lparr>rcp_status = er_is_success (rc_result ctx),
         rcp_cumulative_gas_used = rc_cumulative_gas_used ctx,
         rcp_logs = er_logs (rc_result ctx)\<rparr>
      in Some (case ty (rc_tx ctx) of
           TxLegacy \<Rightarrow> ReceiptLegacy receipt
         | TxEip2930 \<Rightarrow> ReceiptEip2930 receipt
         | TxEip1559 \<Rightarrow> ReceiptEip1559 receipt
         | TxEip4844 \<Rightarrow> ReceiptEip4844 receipt
         | TxEip7702 \<Rightarrow> ReceiptEip7702 receipt))"

definition alloy_receipt_builder ::
    "(receipt \<Rightarrow> 'rb) \<Rightarrow> ('tx \<Rightarrow> tx_type) \<Rightarrow> ('tx, 'evm, 'halt, 'rb receipt_envelope) receipt_builder" where
  "alloy_receipt_builder with_bloom ty = \<lparr>rb_build_receipt = alloy_build_receipt with_bloom ty\<rparr>"

section \<open>Optimism\<close>

datatype op_tx_type = OpTxLegacy | OpTxEip2930 | OpTxEip1559 | OpTxEip7702 | OpTxDeposit

text \<open>\<open>OpDepositReceipt\<close> of \<open>op_alloy_consensus\<close>.\<close>

record op_deposit_receipt =
  dr_inner :: receipt
  dr_deposit_nonce :: "u64 option"
  dr_deposit_receipt_version :: "u64 option"

datatype ('rb, 'drb) op_receipt_envelope =
    OpReceiptLegacy 'rb | OpReceiptEip2930 'rb | OpReceiptEip1559 'rb | OpReceiptEip7702 'rb
  | OpReceiptDeposit 'drb

text \<open>
  \<open>build_receipt\<close> hands the context back for a deposit (\<open>Inl\<close>); the inner \<open>unreachable!()\<close> of
  the second match is \<open>None\<close>.
\<close>

record ('tx, 'evm, 'halt, 'rcpt) op_receipt_builder =
  orb_build_receipt ::
    "('tx, 'evm, 'halt) receipt_builder_ctx
      \<Rightarrow> (('tx, 'evm, 'halt) receipt_builder_ctx + 'rcpt) option"
  orb_build_deposit_receipt :: "op_deposit_receipt \<Rightarrow> 'rcpt"

definition op_build_receipt ::
    "(receipt \<Rightarrow> 'rb) \<Rightarrow> ('tx \<Rightarrow> op_tx_type) \<Rightarrow> ('tx, 'evm, 'halt) receipt_builder_ctx
      \<Rightarrow> (('tx, 'evm, 'halt) receipt_builder_ctx + ('rb, 'drb) op_receipt_envelope) option" where
  "op_build_receipt with_bloom tx_ty ctx =
     (case tx_ty (rc_tx ctx) of
        OpTxDeposit \<Rightarrow> Some (Inl ctx)
      | ty \<Rightarrow>
          let receipt = with_bloom
            \<lparr>rcp_status = er_is_success (rc_result ctx),
             rcp_cumulative_gas_used = rc_cumulative_gas_used ctx,
             rcp_logs = er_logs (rc_result ctx)\<rparr>
          in (case ty of
                OpTxLegacy \<Rightarrow> Some (Inr (OpReceiptLegacy receipt))
              | OpTxEip2930 \<Rightarrow> Some (Inr (OpReceiptEip2930 receipt))
              | OpTxEip1559 \<Rightarrow> Some (Inr (OpReceiptEip1559 receipt))
              | OpTxEip7702 \<Rightarrow> Some (Inr (OpReceiptEip7702 receipt))
              | OpTxDeposit \<Rightarrow> None))"

definition op_build_deposit_receipt ::
    "(op_deposit_receipt \<Rightarrow> 'drb) \<Rightarrow> op_deposit_receipt \<Rightarrow> ('rb, 'drb) op_receipt_envelope" where
  "op_build_deposit_receipt with_bloom inner = OpReceiptDeposit (with_bloom inner)"

definition op_alloy_receipt_builder ::
    "(receipt \<Rightarrow> 'rb) \<Rightarrow> (op_deposit_receipt \<Rightarrow> 'drb) \<Rightarrow> ('tx \<Rightarrow> op_tx_type)
      \<Rightarrow> ('tx, 'evm, 'halt, ('rb, 'drb) op_receipt_envelope) op_receipt_builder" where
  "op_alloy_receipt_builder with_bloom deposit_with_bloom ty =
     \<lparr>orb_build_receipt = op_build_receipt with_bloom ty,
      orb_build_deposit_receipt = op_build_deposit_receipt deposit_with_bloom\<rparr>"

section \<open>Seismic\<close>

text \<open>The kinds of a \<open>SeismicTxEnvelope\<close>: those of its variants in \<open>crates/evm/src/tx.rs\<close>.\<close>

datatype seismic_tx_type =
  SeismicTxLegacy | SeismicTxEip2930 | SeismicTxEip1559 | SeismicTxEip4844 | SeismicTxEip7702
  | SeismicTxSeismic

datatype 'rb seismic_receipt_envelope =
    SeismicReceiptLegacy 'rb | SeismicReceiptEip2930 'rb | SeismicReceiptEip1559 'rb
  | SeismicReceiptEip7702 'rb | SeismicReceiptSeismic 'rb

definition seismic_build_receipt ::
    "(receipt \<Rightarrow> 'rb) \<Rightarrow> ('tx \<Rightarrow> seismic_tx_type) \<Rightarrow> ('tx, 'evm, 'halt) receipt_builder_ctx
      \<Rightarrow> 'rb seismic_receipt_envelope option" where
  "seismic_build_receipt with_bloom tx_ty ctx =
     (let receipt_with_bloom = with_bloom
        \<lparr>rcp_status = er_is_success (rc_result ctx),
         rcp_cumulative_gas_used = rc_cumulative_gas_used ctx,
         rcp_logs = er_logs (rc_result ctx)\<rparr>;
          ty = tx_ty (rc_tx ctx)
      in (case ty of
            SeismicTxLegacy \<Rightarrow> Some (SeismicReceiptLegacy receipt_with_bloom)
          | SeismicTxEip2930 \<Rightarrow> Some (SeismicReceiptEip2930 receipt_with_bloom)
          | SeismicTxEip1559 \<Rightarrow> Some (SeismicReceiptEip1559 receipt_with_bloom)
          | SeismicTxEip7702 \<Rightarrow> Some (SeismicReceiptEip7702 receipt_with_bloom)
          | SeismicTxSeismic \<Rightarrow> Some (SeismicReceiptSeismic receipt_with_bloom)
          | _ \<Rightarrow> None))"

definition seismic_receipt_builder ::
    "(receipt \<Rightarrow> 'rb) \<Rightarrow> ('tx \<Rightarrow> seismic_tx_type)
      \<Rightarrow> ('tx, 'evm, 'halt, 'rb seismic_receipt_envelope) receipt_builder" where
  "seismic_receipt_builder with_bloom ty = \<lparr>rb_build_receipt = seismic_build_receipt with_bloom ty\<rparr>"

section \<open>What the builders keep\<close>

primrec receipt_envelope_inner :: "'rb receipt_envelope \<Rightarrow> 'rb" where
  "receipt_envelope_inner (ReceiptLegacy r) = r"
| "receipt_envelope_inner (ReceiptEip2930 r) = r"
| "receipt_envelope_inner (ReceiptEip1559 r) = r"
| "receipt_envelope_inner (ReceiptEip4844 r) = r"
| "receipt_envelope_inner (ReceiptEip7702 r) = r"

primrec seismic_receipt_inner :: "'rb seismic_receipt_envelope \<Rightarrow> 'rb" where
  "seismic_receipt_inner (SeismicReceiptLegacy r) = r"
| "seismic_receipt_inner (SeismicReceiptEip2930 r) = r"
| "seismic_receipt_inner (SeismicReceiptEip1559 r) = r"
| "seismic_receipt_inner (SeismicReceiptEip7702 r) = r"
| "seismic_receipt_inner (SeismicReceiptSeismic r) = r"

primrec op_receipt_inner :: "('rb, 'drb) op_receipt_envelope \<Rightarrow> 'rb + 'drb" where
  "op_receipt_inner (OpReceiptLegacy r) = Inl r"
| "op_receipt_inner (OpReceiptEip2930 r) = Inl r"
| "op_receipt_inner (OpReceiptEip1559 r) = Inl r"
| "op_receipt_inner (OpReceiptEip7702 r) = Inl r"
| "op_receipt_inner (OpReceiptDeposit r) = Inr r"

text \<open>The plain receipt of a context.\<close>

definition receipt_of :: "('tx, 'evm, 'halt) receipt_builder_ctx \<Rightarrow> receipt" where
  "receipt_of ctx =
     \<lparr>rcp_status = er_is_success (rc_result ctx), rcp_cumulative_gas_used = rc_cumulative_gas_used ctx,
      rcp_logs = er_logs (rc_result ctx)\<rparr>"

lemma alloy_build_receipt_inner:
  "map_option receipt_envelope_inner (alloy_build_receipt wb ty ctx) = Some (wb (receipt_of ctx))"
  by (simp add: alloy_build_receipt_def receipt_of_def Let_def split: tx_type.splits)

lemma op_build_receipt_inner:
  "map_option (map_sum id op_receipt_inner) (op_build_receipt wb ty ctx) =
    Some (if ty (rc_tx ctx) = OpTxDeposit then Inl ctx else Inr (Inl (wb (receipt_of ctx))))"
  by (simp add: op_build_receipt_def receipt_of_def Let_def split: op_tx_type.splits)

text \<open>
  The kind an envelope has (the consensus tag of its receipt), independently of how the builders
  choose it.
\<close>

primrec receipt_envelope_type :: "'rb receipt_envelope \<Rightarrow> tx_type" where
  "receipt_envelope_type (ReceiptLegacy r) = TxLegacy"
| "receipt_envelope_type (ReceiptEip2930 r) = TxEip2930"
| "receipt_envelope_type (ReceiptEip1559 r) = TxEip1559"
| "receipt_envelope_type (ReceiptEip4844 r) = TxEip4844"
| "receipt_envelope_type (ReceiptEip7702 r) = TxEip7702"

primrec seismic_receipt_type :: "'rb seismic_receipt_envelope \<Rightarrow> seismic_tx_type" where
  "seismic_receipt_type (SeismicReceiptLegacy r) = SeismicTxLegacy"
| "seismic_receipt_type (SeismicReceiptEip2930 r) = SeismicTxEip2930"
| "seismic_receipt_type (SeismicReceiptEip1559 r) = SeismicTxEip1559"
| "seismic_receipt_type (SeismicReceiptEip7702 r) = SeismicTxEip7702"
| "seismic_receipt_type (SeismicReceiptSeismic r) = SeismicTxSeismic"

text \<open>The Ethereum kinds among the Seismic ones, and the Ethereum envelopes among theirs.\<close>

primrec seismic_type_of :: "tx_type \<Rightarrow> seismic_tx_type" where
  "seismic_type_of TxLegacy = SeismicTxLegacy"
| "seismic_type_of TxEip2930 = SeismicTxEip2930"
| "seismic_type_of TxEip1559 = SeismicTxEip1559"
| "seismic_type_of TxEip4844 = SeismicTxEip4844"
| "seismic_type_of TxEip7702 = SeismicTxEip7702"

primrec seismic_envelope_of :: "'rb receipt_envelope \<Rightarrow> 'rb seismic_receipt_envelope option" where
  "seismic_envelope_of (ReceiptLegacy r) = Some (SeismicReceiptLegacy r)"
| "seismic_envelope_of (ReceiptEip2930 r) = Some (SeismicReceiptEip2930 r)"
| "seismic_envelope_of (ReceiptEip1559 r) = Some (SeismicReceiptEip1559 r)"
| "seismic_envelope_of (ReceiptEip4844 r) = None"
| "seismic_envelope_of (ReceiptEip7702 r) = Some (SeismicReceiptEip7702 r)"

text \<open>C40: The Seismic receipt builder panics exactly on blob (EIP-4844) transactions, which the
  transaction conversion accepts. For every other kind the envelope is the one of the transaction's
  kind, and it carries the receipt with the success flag, the logs and the cumulative gas of the
  execution. The Ethereum builder never panics and its envelope, too, has the transaction's kind
  and that receipt; on a transaction of an Ethereum kind the Seismic builder returns the Ethereum
  builder's envelope, blob transactions aside.\<close>

theorem seismic_build_receipt_outcome:
  "map_option (\<lambda>e. (seismic_receipt_type e, seismic_receipt_inner e)) (seismic_build_receipt wb ty ctx) =
    (if ty (rc_tx ctx) = SeismicTxEip4844 then None
     else Some (ty (rc_tx ctx), wb (receipt_of ctx)))
   \<and> map_option (\<lambda>e. (receipt_envelope_type e, receipt_envelope_inner e)) (alloy_build_receipt wb ty' ctx) =
    Some (ty' (rc_tx ctx), wb (receipt_of ctx))
   \<and> seismic_build_receipt wb (seismic_type_of \<circ> ty') ctx =
    Option.bind (alloy_build_receipt wb ty' ctx) seismic_envelope_of"
  by (cases "ty (rc_tx ctx)"; cases "ty' (rc_tx ctx)")
    (simp_all add: seismic_build_receipt_def alloy_build_receipt_def receipt_of_def Let_def)

end
