(* ===== verification/Deposits.thy ===== *)
theory Deposits
  imports ErrorModel Calc
begin

text \<open>
  The specification of the Ethereum block executor (\<open>crates/evm/src/eth/spec.rs\<close>) and the parsing
  of EIP-6110 deposits (\<open>crates/evm/src/eth/eip6110.rs\<close>).
\<close>

section \<open>spec.rs\<close>

text \<open>\<open>EthExecutorSpec\<close>: the hardforks and a deposit contract.\<close>

record eth_executor_spec = hardforks +
  deposit_contract_address :: "address option"

text \<open>\<open>EthSpec\<close> forwards the fork predicates of its \<open>EthereumChainHardforks\<close>, here an argument.\<close>

definition eth_spec :: "hardforks \<Rightarrow> address option \<Rightarrow> eth_executor_spec" where
  "eth_spec hf deposit =
     \<lparr>is_spurious_dragon_active_at_block = is_spurious_dragon_active_at_block hf,
      is_byzantium_active_at_block = is_byzantium_active_at_block hf,
      is_constantinople_active_at_block = is_constantinople_active_at_block hf,
      is_paris_active_at_block = is_paris_active_at_block hf,
      is_shanghai_active_at_timestamp = is_shanghai_active_at_timestamp hf,
      is_cancun_active_at_timestamp = is_cancun_active_at_timestamp hf,
      is_prague_active_at_timestamp = is_prague_active_at_timestamp hf,
      dao_transitions_at_block = dao_transitions_at_block hf,
      deposit_contract_address = deposit\<rparr>"

text \<open>\<open>mainnet\<close> is \<open>EthereumChainHardforks::mainnet()\<close>, \<open>mainnet_deposit\<close> the constant of \<open>alloy_eips\<close>.\<close>

definition eth_spec_mainnet :: "hardforks \<Rightarrow> address \<Rightarrow> eth_executor_spec" where
  "eth_spec_mainnet mainnet mainnet_deposit = eth_spec mainnet (Some mainnet_deposit)"

definition eth_spec_sepolia :: "hardforks \<Rightarrow> eth_executor_spec" where
  "eth_spec_sepolia sepolia = eth_spec sepolia (Some 0x7f02c3e3c98b133055b8b348b2ac625669ed295d)"

definition eth_spec_holesky :: "hardforks \<Rightarrow> eth_executor_spec" where
  "eth_spec_holesky holesky = eth_spec holesky (Some 0x4242424242424242424242424242424242424242)"

section \<open>eip6110.rs\<close>

definition DEPOSIT_BYTES_SIZE :: nat where
  "DEPOSIT_BYTES_SIZE = 48 + 32 + 8 + 96 + 8"

record deposit_event =
  de_pubkey :: bytes
  de_withdrawal_credentials :: bytes
  de_amount :: bytes
  de_signature :: bytes
  de_index :: bytes

text \<open>The signature hash of the event: the topic named in the source and checked by its test.\<close>

definition deposit_signature_hash :: b256 where
  "deposit_signature_hash = 0x649bbc62d0e31342afea4e5cd82d4049e7e1ee912fc0889aa790803be39038c5"

definition accumulate_deposit_from_log :: "deposit_event \<Rightarrow> bytes \<Rightarrow> bytes" where
  "accumulate_deposit_from_log ev out =
     out @ de_pubkey ev @ de_withdrawal_credentials ev @ de_amount ev @ de_signature ev @ de_index ev"

definition is_deposit_log :: "address \<Rightarrow> log \<Rightarrow> bool" where
  "is_deposit_log address l \<longleftrightarrow>
     log_address l = address
     \<and> (case log_topics l of t # _ \<Rightarrow> t = deposit_signature_hash | [] \<Rightarrow> False)"

text \<open>
  \<open>decode_log\<close> is the generated ABI decoder, with its error as text. The accumulator is the state:
  what was appended before an error stays in it.
\<close>

definition accumulate_deposits_from_logs ::
    "(log \<Rightarrow> string + deposit_event) \<Rightarrow> address \<Rightarrow> log list
      \<Rightarrow> (bytes, 'inv block_validation_error, unit) step" where
  "accumulate_deposits_from_logs decode_log address logs =
     map_ok (\<lambda>_. ())
       (try_each
          (\<lambda>l out.
             (case decode_log l of
                Inl err \<Rightarrow> (Inl (DepositRequestDecode err), out)
              | Inr ev \<Rightarrow> (Inr (), accumulate_deposit_from_log ev out)))
          (filter (is_deposit_log address) logs))"

definition accumulate_deposits_from_receipt ::
    "(log \<Rightarrow> string + deposit_event) \<Rightarrow> ('rcpt \<Rightarrow> log list) \<Rightarrow> address \<Rightarrow> 'rcpt
      \<Rightarrow> (bytes, 'inv block_validation_error, unit) step" where
  "accumulate_deposits_from_receipt decode_log logs_of address r =
     accumulate_deposits_from_logs decode_log address (logs_of r)"

definition accumulate_deposits_from_receipts ::
    "(log \<Rightarrow> string + deposit_event) \<Rightarrow> ('rcpt \<Rightarrow> log list) \<Rightarrow> address \<Rightarrow> 'rcpt list
      \<Rightarrow> (bytes, 'inv block_validation_error, unit) step" where
  "accumulate_deposits_from_receipts decode_log logs_of address receipts =
     map_ok (\<lambda>_. ()) (try_each (accumulate_deposits_from_receipt decode_log logs_of address) receipts)"

definition parse_deposits_from_receipts ::
    "(log \<Rightarrow> string + deposit_event) \<Rightarrow> ('rcpt \<Rightarrow> log list) \<Rightarrow> address
      \<Rightarrow> 'z eth_executor_spec_scheme \<Rightarrow> 'rcpt list \<Rightarrow> 'inv block_validation_error + bytes" where
  "parse_deposits_from_receipts decode_log logs_of mainnet_deposit spec receipts =
     (case accumulate_deposits_from_receipts decode_log logs_of
             (case deposit_contract_address spec of Some a \<Rightarrow> a | None \<Rightarrow> mainnet_deposit) receipts [] of
        (Inl e, _) \<Rightarrow> Inl e
      | (Inr _, out) \<Rightarrow> Inr out)"

section \<open>What the parser returns\<close>

text \<open>
  Specification: the deposit logs of all receipts in order; the first one that does not decode
  decides the error, otherwise the requests are the encodings one after the other.
\<close>

fun decode_all :: "(log \<Rightarrow> string + deposit_event) \<Rightarrow> log list \<Rightarrow> string + deposit_event list" where
  "decode_all decode_log [] = Inr []"
| "decode_all decode_log (l # ls) =
     (case decode_log l of
        Inl err \<Rightarrow> Inl err
      | Inr ev \<Rightarrow> map_sum id (\<lambda>evs. ev # evs) (decode_all decode_log ls))"

definition deposit_bytes :: "deposit_event \<Rightarrow> bytes" where
  "deposit_bytes ev = accumulate_deposit_from_log ev []"

lemma accumulate_deposit_bytes: "accumulate_deposit_from_log ev out = out @ deposit_bytes ev"
  by (simp add: accumulate_deposit_from_log_def deposit_bytes_def)

lemma decode_all_append:
  "decode_all d (xs @ ys) =
     (case decode_all d xs of
        Inl err \<Rightarrow> Inl err
      | Inr evs \<Rightarrow> map_sum id (\<lambda>evs'. evs @ evs') (decode_all d ys))"
  by (cases "decode_all d ys"; induction xs) (auto split: sum.splits)

text \<open>The accumulated bytes of a run, or its error.\<close>

definition accumulated :: "('e + unit) \<times> bytes \<Rightarrow> 'e + bytes" where
  "accumulated p = (case p of (Inl e, _) \<Rightarrow> Inl e | (Inr _, out) \<Rightarrow> Inr out)"

definition deposits_of ::
    "(log \<Rightarrow> string + deposit_event) \<Rightarrow> log list \<Rightarrow> bytes \<Rightarrow> 'inv block_validation_error + bytes" where
  "deposits_of decode_log ls out =
     map_sum DepositRequestDecode (\<lambda>evs. out @ concat (map deposit_bytes evs)) (decode_all decode_log ls)"

lemma accumulate_logs_spec:
  "accumulated (accumulate_deposits_from_logs decode_log a ls out) =
     deposits_of decode_log (filter (is_deposit_log a) ls) out"
proof -
  have "accumulated (map_ok (\<lambda>_. ()) (try_each (\<lambda>l out. case decode_log l of
              Inl err \<Rightarrow> (Inl (DepositRequestDecode err), out)
            | Inr ev \<Rightarrow> (Inr (), accumulate_deposit_from_log ev out)) xs) out) =
      deposits_of decode_log xs out" for xs
  proof (induction xs arbitrary: out)
    case Nil
    then show ?case by (simp add: accumulated_def map_ok_def deposits_of_def)
  next
    case (Cons l xs)
    show ?case
    proof (cases "decode_log l")
      case (Inl err)
      then show ?thesis by (simp add: accumulated_def map_ok_def deposits_of_def)
    next
      case (Inr ev)
      then show ?thesis
        using Cons.IH [of "out @ deposit_bytes ev"]
        by (cases "decode_all decode_log xs")
          (simp_all add: accumulated_def map_ok_def deposits_of_def accumulate_deposit_bytes
            split: sum.splits prod.splits)
    qed
  qed
  then show ?thesis
    by (simp add: accumulate_deposits_from_logs_def)
qed

lemma accumulate_receipts_spec:
  "accumulated (accumulate_deposits_from_receipts decode_log logs_of a rs out) =
     deposits_of decode_log (filter (is_deposit_log a) (concat (map logs_of rs))) out"
proof (induction rs arbitrary: out)
  case Nil
  then show ?case
    by (simp add: accumulated_def accumulate_deposits_from_receipts_def map_ok_def deposits_of_def)
next
  case (Cons r rs)
  have step: "accumulated (accumulate_deposits_from_receipts decode_log logs_of a (r # rs) out) =
      (case accumulated (accumulate_deposits_from_logs decode_log a (logs_of r) out) of
         Inl e \<Rightarrow> Inl e
       | Inr out' \<Rightarrow> accumulated (accumulate_deposits_from_receipts decode_log logs_of a rs out'))"
    by (simp add: accumulate_deposits_from_receipts_def accumulate_deposits_from_receipt_def
        accumulated_def map_ok_def split: sum.splits prod.splits)
  show ?case
    unfolding step accumulate_logs_spec
    by (cases "decode_all decode_log (filter (is_deposit_log a) (concat (map logs_of rs)))")
      (simp_all add: Cons.IH deposits_of_def decode_all_append split: sum.splits)
qed

text \<open>C37: The deposit requests of a block are the encodings, one after the other and in log order, of
  exactly the logs of its receipts that the deposit contract emitted with the deposit topic; when
  one of those does not decode, the first such log decides the error. The contract address of the
  specification is used, and the mainnet one when it has none.\<close>

theorem parse_deposits_spec:
  "parse_deposits_from_receipts decode_log logs_of mainnet spec rs =
     map_sum DepositRequestDecode (\<lambda>evs. concat (map deposit_bytes evs))
       (decode_all decode_log
          (filter (\<lambda>l. log_address l =
                (case deposit_contract_address spec of Some a \<Rightarrow> a | None \<Rightarrow> mainnet)
              \<and> (\<exists>ts. log_topics l = deposit_signature_hash # ts))
             (concat (map logs_of rs))))"
proof -
  have logs: "is_deposit_log a = (\<lambda>l. log_address l = a
      \<and> (\<exists>ts. log_topics l = deposit_signature_hash # ts))" for a
    by (auto simp: fun_eq_iff is_deposit_log_def split: list.splits)
  have "parse_deposits_from_receipts decode_log logs_of mainnet spec rs =
      accumulated (accumulate_deposits_from_receipts decode_log logs_of
        (case deposit_contract_address spec of Some a \<Rightarrow> a | None \<Rightarrow> mainnet) rs [])"
    by (simp add: parse_deposits_from_receipts_def accumulated_def)
  then show ?thesis
    by (simp add: accumulate_receipts_spec deposits_of_def logs)
qed

text \<open>Well-sized fields give requests of 192 bytes each.\<close>

lemma length_deposit_bytes:
  assumes "length (de_pubkey ev) = 48" "length (de_withdrawal_credentials ev) = 32"
    and "length (de_amount ev) = 8" "length (de_signature ev) = 96" "length (de_index ev) = 8"
  shows "length (deposit_bytes ev) = DEPOSIT_BYTES_SIZE"
  using assms by (simp add: deposit_bytes_def accumulate_deposit_from_log_def DEPOSIT_BYTES_SIZE_def)

end
