(* ===== verification/EthExecutor.thy ===== *)
theory EthExecutor
  imports BlockExecutor SystemCalls StateChanges Receipts Deposits DaoFork
begin

text \<open>
  \<open>crates/evm/src/eth/block.rs\<close>: the Ethereum block executor. Its state is the struct
  \<open>EthBlockExecutor\<close>; each method of the trait \<open>BlockExecutor\<close> is a definition, and the dictionary
  of these methods is shown to be a block executor in the sense of the locale.
\<close>

section \<open>State and parameters\<close>

record eth_block_execution_ctx =
  ec_parent_hash :: b256
  ec_parent_beacon_block_root :: "b256 option"
  ec_ommers :: "header list"
  ec_withdrawals :: "withdrawal list option"

record ('evm, 'hk, 'tx, 'halt, 'rcpt) eth_block_executor =
  xe_spec :: eth_executor_spec
  xe_ctx :: eth_block_execution_ctx
  xe_evm :: 'evm
  xe_system_caller :: "(unit eth_executor_spec_ext, 'hk) system_caller"
  xe_receipt_builder :: "('tx, 'evm, 'halt, 'rcpt) receipt_builder"
  xe_receipts :: "'rcpt list"
  xe_gas_used :: u64

text \<open>
  What the executor uses of other crates: gas limit and hash of a transaction, logs of a receipt,
  the ABI decoder and constants of EIP-6110, \<open>amount_wei\<close>, the iteration order of hash maps, the
  database, and the record for system calls.
\<close>

record ('tx, 'rcpt, 'db, 'dberr, 'err, 'halt, 'hk, 'rq) executor_lib =
  xl_gas_limit :: "'tx \<Rightarrow> u64"
  xl_trie_hash :: "'tx \<Rightarrow> b256"
  xl_receipt_logs :: "'rcpt \<Rightarrow> log list"
  xl_decode_log :: "log \<Rightarrow> string + deposit_event"
  xl_mainnet_deposit_contract_address :: address
  xl_amount_wei :: "withdrawal \<Rightarrow> u256"
  xl_iter :: "(address \<rightharpoonup> u128) \<Rightarrow> (address \<times> u128) list"
  xl_state :: "('db, 'dberr) state_ops"
  xl_sys :: "('db, 'err, 'halt, 'hk, 'rq) sys_lib"

definition eth_block_executor_new ::
    "'evm \<Rightarrow> eth_block_execution_ctx \<Rightarrow> eth_executor_spec \<Rightarrow> ('tx, 'evm, 'halt, 'rcpt) receipt_builder
      \<Rightarrow> ('evm, 'hk, 'tx, 'halt, 'rcpt) eth_block_executor" where
  "eth_block_executor_new evm ctx spec receipt_builder =
     \<lparr>xe_spec = spec, xe_ctx = ctx, xe_evm = evm, xe_system_caller = system_caller_new spec,
      xe_receipt_builder = receipt_builder, xe_receipts = [], xe_gas_used = 0\<rparr>"

text \<open>Methods of the system caller, of the EVM and of its database, run inside the executor.\<close>

definition on_caller ::
    "((unit eth_executor_spec_ext, 'hk) system_caller \<times> 'evm, 'e, 'a) step
      \<Rightarrow> (('evm, 'hk, 'tx, 'halt, 'rcpt) eth_block_executor, 'e abort, 'a) step" where
  "on_caller m =
     zoom (\<lambda>x. (xe_system_caller x, xe_evm x))
          (\<lambda>p x. x\<lparr>xe_system_caller := fst p, xe_evm := snd p\<rparr>) (map_err Error m)"

definition on_db ::
    "('evm, 'db, 'insp, 'pre, 'spec, 'env, 'halt, 'err) evm_dict \<Rightarrow> ('db, 'e, 'a) step
      \<Rightarrow> ('evm, 'e, 'a) step" where
  "on_db E m = zoom (evm_db E) (evm_set_db E) m"

definition on_executor_db ::
    "('evm, 'db, 'insp, 'pre, 'spec, 'env, 'halt, 'err) evm_dict \<Rightarrow> ('db, 'e, 'a) step
      \<Rightarrow> (('evm, 'hk, 'tx, 'halt, 'rcpt) eth_block_executor, 'e, 'a) step" where
  "on_executor_db E m = zoom xe_evm (\<lambda>evm x. x\<lparr>xe_evm := evm\<rparr>) (on_db E m)"

section \<open>Before the transactions\<close>

definition eth_apply_pre_execution_changes ::
    "('tx, 'rcpt, 'db, 'dberr, 'err, 'halt, 'hk, 'rq) executor_lib
      \<Rightarrow> ('evm, 'db, 'insp, 'pre, 'spec, 'env, 'halt, 'err) evm_dict
      \<Rightarrow> (('evm, 'hk, 'tx, 'halt, 'rcpt) eth_block_executor,
          ('inv, 'rest, 'dec, 'o) block_execution_error abort, unit) step" where
  "eth_apply_pre_execution_changes L E =
     try_bind (modify (\<lambda>x.
       let state_clear_flag = is_spurious_dragon_active_at_block (xe_spec x)
             (saturating_to_u64 (be_number (ev_block E (xe_evm x))))
       in x\<lparr>xe_evm := evm_set_db E
              (so_set_state_clear_flag (xl_state L) state_clear_flag (evm_db E (xe_evm x))) (xe_evm x)\<rparr>)) (\<lambda>_ x.
     try_bind (on_caller (apply_blockhashes_contract_call (xl_sys L) E (ec_parent_hash (xe_ctx x)))) (\<lambda>_.
     try_bind (on_caller (apply_beacon_root_contract_call (xl_sys L) E
                 (ec_parent_beacon_block_root (xe_ctx x)))) (\<lambda>_.
     ret ())) x)"

section \<open>A transaction\<close>

definition eth_execute_transaction_with_commit_condition ::
    "('tx, 'rcpt, 'db, 'dberr, ('inv, 'rest) evm_error, 'halt, 'hk, 'rq) executor_lib
      \<Rightarrow> ('evm, 'db, 'insp, 'pre, 'spec, 'env, 'halt, ('inv, 'rest) evm_error) evm_dict
      \<Rightarrow> ('tx, 'env) executable_tx \<Rightarrow> ('halt execution_result \<Rightarrow> 'c \<Rightarrow> commit_changes \<times> 'c)
      \<Rightarrow> (('evm, 'hk, 'tx, 'halt, 'rcpt) eth_block_executor \<times> 'c,
          ('inv, 'rest, 'dec, 'o) block_execution_error abort, u64 option) step" where
  "eth_execute_transaction_with_commit_condition L E tx f s =
     (case s of (x, c) \<Rightarrow>
      let block_available_gas = be_gas_limit (ev_block E (xe_evm x)) - xe_gas_used x
      in if xl_gas_limit L (xt_tx tx) > block_available_gas then
           (Inl (Error (Validation (TransactionGasLimitMoreThanAvailableBlockGas
              (xl_gas_limit L (xt_tx tx)) block_available_gas))), (x, c))
         else
           (case evm_transact E xt_to_tx_env tx (xe_evm x) of
              (Inl err, evm) \<Rightarrow>
                (Inl (Error (bee_evm err (xl_trie_hash L (xt_tx tx)))), (x\<lparr>xe_evm := evm\<rparr>, c))
            | (Inr rs, evm) \<Rightarrow>
                (case f (rs_result rs) c of (decision, c') \<Rightarrow>
                   if \<not> should_commit decision then (Inr None, (x\<lparr>xe_evm := evm\<rparr>, c'))
                   else
                     let caller = on_state (xl_sys L) (Transaction (of_nat (length (xe_receipts x))))
                                    (rs_state rs) (xe_system_caller x);
                         gas_used = er_gas_used (rs_result rs);
                         x1 = x\<lparr>xe_evm := evm, xe_system_caller := caller,
                                xe_gas_used := xe_gas_used x + gas_used\<rparr>
                     in (case rb_build_receipt (xe_receipt_builder x1)
                                \<lparr>rc_tx = xt_tx tx, rc_evm = xe_evm x1, rc_result = rs_result rs,
                                 rc_state = rs_state rs,
                                 rc_cumulative_gas_used = xe_gas_used x1\<rparr> of
                           None \<Rightarrow> (Inl Panic, (x1, c'))
                         | Some receipt \<Rightarrow>
                             (Inr (Some gas_used),
                              (x1\<lparr>xe_receipts := xe_receipts x1 @ [receipt],
                                  xe_evm := evm_commit (xl_sys L) E (rs_state rs) (xe_evm x1)\<rparr>, c'))))))"

section \<open>After the transactions\<close>

text \<open>The EIP-7685 requests of the block.\<close>

definition eth_collect_requests ::
    "('tx, 'rcpt, 'db, 'dberr, 'err, 'halt, 'hk, 'rq) executor_lib
      \<Rightarrow> ('evm, 'db, 'insp, 'pre, 'spec, 'env, 'halt, 'err) evm_dict
      \<Rightarrow> (('evm, 'hk, 'tx, 'halt, 'rcpt) eth_block_executor,
          ('inv, 'rest, 'dec, 'o) block_execution_error abort, 'rq) step" where
  "eth_collect_requests L E x =
     (if is_prague_active_at_timestamp (xe_spec x)
           (saturating_to_u64 (be_timestamp (ev_block E (xe_evm x)))) then
        (case parse_deposits_from_receipts (xl_decode_log L) (xl_receipt_logs L)
                (xl_mainnet_deposit_contract_address L) (xe_spec x) (xe_receipts x) of
           Inl e \<Rightarrow> (Inl (Error (Validation e)), x)
         | Inr deposit_requests \<Rightarrow>
             let requests = sl_requests_default (xl_sys L);
                 requests = (if deposit_requests \<noteq> []
                   then sl_push_request_with_type (xl_sys L) (sl_deposit_request_type (xl_sys L))
                          deposit_requests requests
                   else requests)
             in map_ok (\<lambda>rq. sl_requests_extend (xl_sys L) rq requests)
                  (on_caller (apply_post_execution_changes (xl_sys L) E)) x)
      else (Inr (sl_requests_default (xl_sys L)), x))"

text \<open>The irregular state change of the DAO fork: the increments with the drained balance added.\<close>

definition eth_dao_fork ::
    "('tx, 'rcpt, 'db, 'dberr, 'err, 'halt, 'hk, 'rq) executor_lib
      \<Rightarrow> ('evm, 'db, 'insp, 'pre, 'spec, 'env, 'halt, 'err) evm_dict \<Rightarrow> (address \<rightharpoonup> u128)
      \<Rightarrow> (('evm, 'hk, 'tx, 'halt, 'rcpt) eth_block_executor,
          ('inv, 'rest, 'dec, 'o) block_execution_error abort, address \<rightharpoonup> u128) step" where
  "eth_dao_fork L E balance_increments x =
     (if dao_transitions_at_block (xe_spec x)
           (saturating_to_u64 (be_number (ev_block E (xe_evm x)))) then
        map_ok (\<lambda>drained. entry_add DAO_HARDFORK_BENEFICIARY (sum_list drained) balance_increments)
          (map_err (\<lambda>_. Error (Validation IncrementBalanceFailed))
             (on_executor_db E (so_drain_balances (xl_state L) DAO_HARDFORK_ACCOUNTS))) x
      else (Inr balance_increments, x))"

text \<open>The closure given to \<open>try_on_state_with\<close>.\<close>

definition report_balance_increments ::
    "('tx, 'rcpt, 'db, 'dberr, 'err, 'halt, 'hk, 'rq) executor_lib
      \<Rightarrow> ('evm, 'db, 'insp, 'pre, 'spec, 'env, 'halt, 'err) evm_dict \<Rightarrow> (address \<rightharpoonup> u128)
      \<Rightarrow> ('evm, ('inv, 'rest, 'dec, 'o) block_execution_error, state_change_source \<times> evm_state) step" where
  "report_balance_increments L E balance_increments =
     map_ok (\<lambda>state. (PostBlock BalanceIncrements, state))
       (on_db E (balance_increment_state (xl_iter L) (xl_state L) balance_increments))"

text \<open>The balance changes: DAO fork, increments, and their report to the hook.\<close>

definition eth_finish_balances ::
    "('tx, 'rcpt, 'db, 'dberr, 'err, 'halt, 'hk, 'rq) executor_lib
      \<Rightarrow> ('evm, 'db, 'insp, 'pre, 'spec, 'env, 'halt, 'err) evm_dict \<Rightarrow> 'rq \<Rightarrow> (address \<rightharpoonup> u128)
      \<Rightarrow> (('evm, 'hk, 'tx, 'halt, 'rcpt) eth_block_executor,
          ('inv, 'rest, 'dec, 'o) block_execution_error abort,
          'evm \<times> ('rcpt, 'rq) block_execution_result) step" where
  "eth_finish_balances L E requests increments =
     try_bind (eth_dao_fork L E increments) (\<lambda>balance_increments.
     try_bind (map_err (\<lambda>_. Error (Validation IncrementBalanceFailed))
                (on_executor_db E (so_increment_balances (xl_state L) balance_increments))) (\<lambda>_.
     try_bind (on_caller (try_on_state_with (xl_sys L)
                (report_balance_increments L E balance_increments))) (\<lambda>_ x.
     (Inr (xe_evm x, \<lparr>ber_receipts = xe_receipts x, ber_requests = requests,
                      ber_gas_used = xe_gas_used x\<rparr>), x))))"

definition eth_finish_block ::
    "('tx, 'rcpt, 'db, 'dberr, 'err, 'halt, 'hk, 'rq) executor_lib
      \<Rightarrow> ('evm, 'db, 'insp, 'pre, 'spec, 'env, 'halt, 'err) evm_dict
      \<Rightarrow> (('evm, 'hk, 'tx, 'halt, 'rcpt) eth_block_executor,
          ('inv, 'rest, 'dec, 'o) block_execution_error abort,
          'evm \<times> ('rcpt, 'rq) block_execution_result) step" where
  "eth_finish_block L E =
     try_bind (eth_collect_requests L E) (\<lambda>requests x.
       (case post_block_balance_increments (xl_amount_wei L) (xe_spec x) (ev_block E (xe_evm x))
               (ec_ommers (xe_ctx x)) (ec_withdrawals (xe_ctx x)) of
          None \<Rightarrow> (Inl Panic, x)
        | Some increments \<Rightarrow> eth_finish_balances L E requests increments x))"

definition eth_set_state_hook ::
    "'hk option \<Rightarrow> ('evm, 'hk, 'tx, 'halt, 'rcpt) eth_block_executor
      \<Rightarrow> ('evm, 'hk, 'tx, 'halt, 'rcpt) eth_block_executor" where
  "eth_set_state_hook hook x = x\<lparr>xe_system_caller := with_state_hook hook (xe_system_caller x)\<rparr>"

definition eth_evm_mut ::
    "'evm \<Rightarrow> ('evm, 'hk, 'tx, 'halt, 'rcpt) eth_block_executor
      \<Rightarrow> ('evm, 'hk, 'tx, 'halt, 'rcpt) eth_block_executor" where
  "eth_evm_mut evm x = x\<lparr>xe_evm := evm\<rparr>"

definition eth_block_executor_dict ::
    "('tx, 'rcpt, 'db, 'dberr, ('inv, 'rest) evm_error, 'halt, 'hk, 'rq) executor_lib
      \<Rightarrow> ('evm, 'db, 'insp, 'pre, 'spec, 'env, 'halt, ('inv, 'rest) evm_error) evm_dict
      \<Rightarrow> (('evm, 'hk, 'tx, 'halt, 'rcpt) eth_block_executor, 'c, 'tx, 'env, 'halt, 'hk, 'evm, 'rcpt,
          'rq, ('inv, 'rest, 'dec, 'o) block_execution_error) block_executor_dict" where
  "eth_block_executor_dict L E =
     \<lparr>bx_apply_pre_execution_changes = eth_apply_pre_execution_changes L E,
      bx_execute_transaction_with_commit_condition = eth_execute_transaction_with_commit_condition L E,
      bx_execute_transaction_with_result_closure =
        default_result_closure (eth_execute_transaction_with_commit_condition L E),
      bx_finish = eth_finish_block L E,
      bx_set_state_hook = eth_set_state_hook,
      bx_evm = xe_evm, bx_evm_mut = eth_evm_mut\<rparr>"

section \<open>The factory\<close>

record ('rb, 'spec, 'ef) block_executor_factory =
  bf_receipt_builder :: 'rb
  bf_spec :: 'spec
  bf_evm_factory :: 'ef

definition eth_block_executor_factory_new ::
    "'rb \<Rightarrow> 'spec \<Rightarrow> 'ef \<Rightarrow> ('rb, 'spec, 'ef) block_executor_factory" where
  "eth_block_executor_factory_new receipt_builder spec evm_factory =
     \<lparr>bf_receipt_builder = receipt_builder, bf_spec = spec, bf_evm_factory = evm_factory\<rparr>"

definition eth_create_executor ::
    "(('tx, 'evm, 'halt, 'rcpt) receipt_builder, eth_executor_spec, 'ef) block_executor_factory
      \<Rightarrow> 'evm \<Rightarrow> eth_block_execution_ctx \<Rightarrow> ('evm, 'hk, 'tx, 'halt, 'rcpt) eth_block_executor" where
  "eth_create_executor factory evm ctx =
     eth_block_executor_new evm ctx (bf_spec factory) (bf_receipt_builder factory)"


section \<open>The executor meets its contract\<close>

lemma keeps_on_caller [frame]:
  "(\<And>x sc evm. v (x\<lparr>xe_system_caller := sc, xe_evm := evm\<rparr>) = v x) \<Longrightarrow> keeps v (on_caller m)"
  unfolding on_caller_def by (rule keeps_zoom)

lemma keeps_on_executor_db [frame]:
  "(\<And>x evm. v (x\<lparr>xe_evm := evm\<rparr>) = v x) \<Longrightarrow> keeps v (on_executor_db E m)"
  unfolding on_executor_db_def by (rule keeps_zoom)

text \<open>What the methods around the transactions leave alone.\<close>

definition ignores_evm :: "(('evm, 'hk, 'tx, 'halt, 'rcpt) eth_block_executor \<Rightarrow> 'v) \<Rightarrow> bool" where
  "ignores_evm v \<longleftrightarrow> (\<forall>x sc evm. v (x\<lparr>xe_system_caller := sc, xe_evm := evm\<rparr>) = v x)
     \<and> (\<forall>x evm. v (x\<lparr>xe_evm := evm\<rparr>) = v x)"

definition eth_built ::
    "('evm, 'hk, 'tx, 'halt, 'rcpt) eth_block_executor \<Rightarrow> 'rcpt \<Rightarrow> u64 \<Rightarrow> bool" where
  "eth_built x r u \<longleftrightarrow>
     (\<exists>ctx. rb_build_receipt (xe_receipt_builder x) ctx = Some r \<and> rc_cumulative_gas_used ctx = u)"

lemma ignores_evm_fields [simp]:
  "ignores_evm xe_receipts" "ignores_evm xe_gas_used" "ignores_evm xe_receipt_builder"
  "ignores_evm xe_spec" "ignores_evm xe_ctx" "ignores_evm eth_built"
  by (auto simp: ignores_evm_def eth_built_def fun_eq_iff)

lemma pre_execution_ignores: "ignores_evm v \<Longrightarrow> keeps v (eth_apply_pre_execution_changes L E)"
proof -
  assume v: "ignores_evm v"
  have "keeps v (\<lambda>x. try_bind (on_caller (apply_blockhashes_contract_call (xl_sys L) E (ec_parent_hash (xe_ctx x)))) (\<lambda>_.
     try_bind (on_caller (apply_beacon_root_contract_call (xl_sys L) E
                 (ec_parent_beacon_block_root (xe_ctx x)))) (\<lambda>_. ret ())) x)"
  proof (rule keepsI)
    fix s r t
    have "keeps v (try_bind (on_caller (apply_blockhashes_contract_call (xl_sys L) E h)) (\<lambda>_.
      try_bind (on_caller (apply_beacon_root_contract_call (xl_sys L) E p)) (\<lambda>_. ret ())))" for h p
      using v by (intro frame) (auto simp: ignores_evm_def)
    from keepsD [OF this] show "try_bind (on_caller (apply_blockhashes_contract_call (xl_sys L) E
        (ec_parent_hash (xe_ctx s)))) (\<lambda>_. try_bind (on_caller (apply_beacon_root_contract_call
        (xl_sys L) E (ec_parent_beacon_block_root (xe_ctx s)))) (\<lambda>_. ret ())) s = (r, t) \<Longrightarrow> v t = v s" .
  qed
  then show ?thesis
    unfolding eth_apply_pre_execution_changes_def
    using v by (intro keeps_try_bind keeps_modify) (auto simp: ignores_evm_def Let_def)
qed

lemma collect_requests_ignores: "ignores_evm v \<Longrightarrow> keeps v (eth_collect_requests L E)"
proof (rule keepsI)
  fix s r t
  assume v: "ignores_evm v" and run: "eth_collect_requests L E s = (r, t)"
  have "keeps v (map_ok f (on_caller (apply_post_execution_changes (xl_sys L) E)))" for f
    using v by (intro frame) (auto simp: ignores_evm_def)
  from keepsD [OF this] show "v t = v s"
    using run by (auto simp: eth_collect_requests_def Let_def split: if_splits sum.splits)
qed

lemma dao_fork_ignores: "ignores_evm v \<Longrightarrow> keeps v (eth_dao_fork L E inc)"
proof (rule keepsI)
  fix s r t
  assume v: "ignores_evm v" and run: "eth_dao_fork L E inc s = (r, t)"
  have "keeps v (map_ok f (map_err g (on_executor_db E m)))" for f g m
    using v by (intro frame) (auto simp: ignores_evm_def)
  from keepsD [OF this] show "v t = v s"
    using run by (auto simp: eth_dao_fork_def split: if_splits)
qed


lemma finish_balances_ignores: "ignores_evm v \<Longrightarrow> keeps v (eth_finish_balances L E requests inc)"
  unfolding eth_finish_balances_def
  by (intro frame dao_fork_ignores) (auto simp: ignores_evm_def keeps_def)

lemma finish_ignores:
  assumes "ignores_evm v"
  shows "keeps v (eth_finish_block L E)"
  unfolding eth_finish_block_def
proof (rule keeps_try_bind)
  show "keeps v (eth_collect_requests L E)"
    by (rule collect_requests_ignores [OF assms])
  show "keeps v (\<lambda>x. case post_block_balance_increments (xl_amount_wei L) (xe_spec x)
      (ev_block E (xe_evm x)) (ec_ommers (xe_ctx x)) (ec_withdrawals (xe_ctx x)) of
        None \<Rightarrow> (Inl Panic, x) | Some increments \<Rightarrow> eth_finish_balances L E requests increments x)"
    for requests
    using keepsD [OF finish_balances_ignores [OF assms]]
    by (intro keepsI) (auto split: option.splits)
qed

lemma finish_result:
  assumes "eth_finish_block L E x = (Inr (evm, res), x')"
  shows "evm = xe_evm x'" and "ber_receipts res = xe_receipts x" and "ber_gas_used res = xe_gas_used x"
proof -
  have *: "evm = xe_evm x' \<and> ber_receipts res = xe_receipts x' \<and> ber_gas_used res = xe_gas_used x'"
    using assms
    by (auto simp: eth_finish_block_def eth_finish_balances_def try_bind_Inr split: option.splits)
  then show "evm = xe_evm x'" "ber_receipts res = xe_receipts x" "ber_gas_used res = xe_gas_used x"
    using keepsD [OF finish_ignores [of xe_receipts] assms]
      keepsD [OF finish_ignores [of xe_gas_used] assms]
    by simp_all
qed

text \<open>The branches of a transaction.\<close>

lemma eth_tx_cases:
  assumes "eth_execute_transaction_with_commit_condition L E tx f (x, c) = (r, (x', c'))"
  obtains (gas) "xl_gas_limit L (xt_tx tx) > be_gas_limit (ev_block E (xe_evm x)) - xe_gas_used x"
      "r = Inl (Error (Validation (TransactionGasLimitMoreThanAvailableBlockGas
        (xl_gas_limit L (xt_tx tx)) (be_gas_limit (ev_block E (xe_evm x)) - xe_gas_used x))))"
      "x' = x" "c' = c"
  | (evm_error) err evm where
      "xl_gas_limit L (xt_tx tx) \<le> be_gas_limit (ev_block E (xe_evm x)) - xe_gas_used x"
      "evm_transact E xt_to_tx_env tx (xe_evm x) = (Inl err, evm)"
      "r = Inl (Error (bee_evm err (xl_trie_hash L (xt_tx tx))))" "x' = x\<lparr>xe_evm := evm\<rparr>" "c' = c"
  | (no_commit) rs evm where
      "xl_gas_limit L (xt_tx tx) \<le> be_gas_limit (ev_block E (xe_evm x)) - xe_gas_used x"
      "evm_transact E xt_to_tx_env tx (xe_evm x) = (Inr rs, evm)"
      "f (rs_result rs) c = (No, c')" "r = Inr None" "x' = x\<lparr>xe_evm := evm\<rparr>"
  | (panic) rs evm where
      "xl_gas_limit L (xt_tx tx) \<le> be_gas_limit (ev_block E (xe_evm x)) - xe_gas_used x"
      "evm_transact E xt_to_tx_env tx (xe_evm x) = (Inr rs, evm)"
      "f (rs_result rs) c = (Yes, c')" "r = Inl Panic"
      "x' = x\<lparr>xe_evm := evm,
         xe_system_caller := on_state (xl_sys L) (Transaction (of_nat (length (xe_receipts x))))
           (rs_state rs) (xe_system_caller x),
         xe_gas_used := xe_gas_used x + er_gas_used (rs_result rs)\<rparr>"
  | (commit) rs evm receipt where
      "xl_gas_limit L (xt_tx tx) \<le> be_gas_limit (ev_block E (xe_evm x)) - xe_gas_used x"
      "evm_transact E xt_to_tx_env tx (xe_evm x) = (Inr rs, evm)"
      "f (rs_result rs) c = (Yes, c')" "r = Inr (Some (er_gas_used (rs_result rs)))"
      "rb_build_receipt (xe_receipt_builder x)
         \<lparr>rc_tx = xt_tx tx, rc_evm = evm, rc_result = rs_result rs, rc_state = rs_state rs,
          rc_cumulative_gas_used = xe_gas_used x + er_gas_used (rs_result rs)\<rparr> = Some receipt"
      "x' = x\<lparr>xe_evm := evm_commit (xl_sys L) E (rs_state rs) evm,
         xe_system_caller := on_state (xl_sys L) (Transaction (of_nat (length (xe_receipts x))))
           (rs_state rs) (xe_system_caller x),
         xe_receipts := xe_receipts x @ [receipt],
         xe_gas_used := xe_gas_used x + er_gas_used (rs_result rs)\<rparr>"
proof (cases "xl_gas_limit L (xt_tx tx) > be_gas_limit (ev_block E (xe_evm x)) - xe_gas_used x")
  case True
  then show thesis
    using assms
    by (intro gas) (auto simp: eth_execute_transaction_with_commit_condition_def Let_def)
next
  case False
  then have le: "xl_gas_limit L (xt_tx tx) \<le> be_gas_limit (ev_block E (xe_evm x)) - xe_gas_used x"
    by simp
  obtain t evm where t: "evm_transact E xt_to_tx_env tx (xe_evm x) = (t, evm)"
    by fastforce
  show thesis
  proof (cases t)
    case (Inl err)
    then show thesis
      using assms t
      by (intro evm_error [of err evm]) (auto simp: eth_execute_transaction_with_commit_condition_def Let_def False le)
  next
    case (Inr rs)
    obtain d c1 where d: "f (rs_result rs) c = (d, c1)" by fastforce
    show thesis
    proof (cases d)
      case No
      then show thesis
        using assms t Inr d
        by (intro no_commit [of rs evm]) (auto simp: eth_execute_transaction_with_commit_condition_def Let_def False le)
    next
      case Yes
      show thesis
      proof (cases "rb_build_receipt (xe_receipt_builder x)
         \<lparr>rc_tx = xt_tx tx, rc_evm = evm, rc_result = rs_result rs, rc_state = rs_state rs,
          rc_cumulative_gas_used = xe_gas_used x + er_gas_used (rs_result rs)\<rparr>")
        case None
        then show thesis
          using assms t Inr d Yes
          by (intro panic [of rs evm]) (auto simp: eth_execute_transaction_with_commit_condition_def Let_def False le)
      next
        case (Some receipt)
        then show thesis
          using assms t Inr d Yes
          by (intro commit [of rs evm receipt]) (auto simp: eth_execute_transaction_with_commit_condition_def Let_def False le)
      qed
    qed
  qed
qed

text \<open>The Ethereum executor is a block executor.\<close>

lemma eth_commit_built:
  "keeps (\<lambda>p. eth_built (fst p)) (eth_execute_transaction_with_commit_condition L E tx f)"
proof (rule keepsI)
  fix s r t
  assume run: "eth_execute_transaction_with_commit_condition L E tx f s = (r, t)"
  obtain x c x' c' where s: "s = (x, c)" and t: "t = (x', c')" by fastforce
  from run [unfolded s t] show "eth_built (fst t) = eth_built (fst s)"
    by (rule eth_tx_cases) (auto simp: s t eth_built_def fun_eq_iff)
qed

interpretation eth_executor: block_executor "eth_block_executor_dict L E" xe_receipts xe_gas_used eth_built
  for L :: "('tx, 'rcpt, 'db, 'dberr, ('inv, 'rest) evm_error, 'halt, 'hk, 'rq) executor_lib"
  and E :: "('evm, 'db, 'insp, 'pre, 'spec, 'env, 'halt, ('inv, 'rest) evm_error) evm_dict"
proof unfold_locales
  show "keeps xe_receipts (bx_apply_pre_execution_changes (eth_block_executor_dict L E))"
    "keeps xe_gas_used (bx_apply_pre_execution_changes (eth_block_executor_dict L E))"
    "keeps eth_built (bx_apply_pre_execution_changes (eth_block_executor_dict L E))"
    by (simp_all add: eth_block_executor_dict_def pre_execution_ignores)
  show "keeps (\<lambda>p. eth_built (fst p))
      (bx_execute_transaction_with_commit_condition (eth_block_executor_dict L E) tx f)" for tx f
    by (simp add: eth_block_executor_dict_def eth_commit_built)
  show "(\<exists>r. xe_receipts x' = xe_receipts x @ [r] \<and> eth_built x r (xe_gas_used x + g))
      \<and> xe_gas_used x' = xe_gas_used x + g \<and> (\<exists>res. f res c = (Yes, c') \<and> er_gas_used res = g)"
    if "bx_execute_transaction_with_commit_condition (eth_block_executor_dict L E) tx f (x, c)
        = (Inr (Some g), (x', c'))" for tx f x c g x' c'
    using that unfolding eth_block_executor_dict_def block_executor_dict.simps
    by (rule eth_tx_cases) (auto simp: eth_built_def intro!: exI)
  show "xe_receipts x' = xe_receipts x \<and> xe_gas_used x' = xe_gas_used x \<and> (\<exists>res. f res c = (No, c'))"
    if "bx_execute_transaction_with_commit_condition (eth_block_executor_dict L E) tx f (x, c)
        = (Inr None, (x', c'))" for tx f x c x' c'
    using that unfolding eth_block_executor_dict_def block_executor_dict.simps
    by (rule eth_tx_cases) auto
  show "xe_receipts x' = xe_receipts x \<and> xe_gas_used x' = xe_gas_used x \<and> c' = c"
    if "bx_execute_transaction_with_commit_condition (eth_block_executor_dict L E) tx f (x, c)
        = (Inl (Error e), (x', c'))" for tx f x c e x' c'
    using that unfolding eth_block_executor_dict_def block_executor_dict.simps
    by (rule eth_tx_cases) auto
  show "bx_execute_transaction_with_result_closure (eth_block_executor_dict L E) =
      default_result_closure (bx_execute_transaction_with_commit_condition (eth_block_executor_dict L E))"
    by (simp add: eth_block_executor_dict_def)
  show "ber_receipts res = xe_receipts x \<and> evm = bx_evm (eth_block_executor_dict L E) x'"
    if "bx_finish (eth_block_executor_dict L E) x = (Inr (evm, res), x')" for x evm res x'
    using that finish_result by (auto simp: eth_block_executor_dict_def)
qed


section \<open>A block on a concrete chain\<close>

text \<open>
  For the witnesses: transactions are their gas limits, the inner EVM accepts each and charges
  exactly its limit, the database counts committed accounts.
\<close>

definition sample_executor_lib ::
    "(u64, nat receipt_envelope, nat, unit, (unit, unit) evm_error, unit,
      state_change_source list, (u8 \<times> bytes) list) executor_lib" where
  "sample_executor_lib =
     \<lparr>xl_gas_limit = (\<lambda>g. g), xl_trie_hash = ucast, xl_receipt_logs = (\<lambda>_. []),
      xl_decode_log = (\<lambda>_. Inl ''bad''), xl_mainnet_deposit_contract_address = 7,
      xl_amount_wei = sample_amount_wei, xl_iter = ascending, xl_state = sample_state_ops,
      xl_sys = sample_sys_lib\<rparr>"

definition sample_factory ::
    "((u64, (nat, nat, unit, unit, unit) evm_wrapper, unit, nat receipt_envelope) receipt_builder,
      eth_executor_spec, unit) block_executor_factory" where
  "sample_factory =
     eth_block_executor_factory_new
       (alloy_receipt_builder (\<lambda>r. unat (rcp_cumulative_gas_used r)) (\<lambda>_. TxLegacy))
       (eth_spec cancun_spec None) ()"

definition sample_ctx :: eth_block_execution_ctx where
  "sample_ctx =
     \<lparr>ec_parent_hash = 0, ec_parent_beacon_block_root = None, ec_ommers = [], ec_withdrawals = None\<rparr>"

definition sample_txs :: "(u64, u64) executable_tx list" where
  "sample_txs = [\<lparr>xt_tx = 300, xt_signer = 1, xt_to_tx_env = 300\<rparr>, \<lparr>xt_tx = 500, xt_signer = 2, xt_to_tx_env = 500\<rparr>]"

definition sample_executor ::
    "((nat, nat, unit, unit, unit) evm_wrapper, state_change_source list, u64, unit,
      nat receipt_envelope) eth_block_executor" where
  "sample_executor = eth_create_executor sample_factory sample_wrapper sample_ctx"

lemmas sample_block_defs = sample_executor_def sample_factory_def sample_ctx_def sample_txs_def
  sample_executor_lib_def sample_wrapper_def eth_create_executor_def eth_block_executor_new_def
  eth_block_executor_factory_new_def


lemma sample_pre:
  "(eth_apply_pre_execution_changes sample_executor_lib (eth_evm_dict paying_revm) sample_executor ::
     ((unit, unit, unit, unit) block_execution_error abort + unit) \<times> _) = (Inr (), sample_executor)"
proof -
  have "(eth_apply_pre_execution_changes sample_executor_lib (eth_evm_dict paying_revm) sample_executor ::
     ((unit, unit, unit, unit) block_execution_error abort + unit) \<times> _) =
     (let e = evm_set_db (eth_evm_dict paying_revm) 0 sample_wrapper
      in (Inr (), sample_executor\<lparr>xe_evm := e\<rparr>))"
    by (simp add: eth_apply_pre_execution_changes_def on_caller_def step_defs Let_def
        apply_call_defs system_call_defs sample_block_defs system_caller_new_def eth_spec_def
        cancun_spec_def eth_evm_defs evm_defs system_call_timestamp_def sample_sys_lib_def
        saturating_to_u64_def sample_state_ops_def)
  then show ?thesis
    by (simp add: sample_block_defs evm_defs eth_evm_defs)
qed

definition sample_after :: "(nat receipt_envelope) list \<Rightarrow> u64 \<Rightarrow> nat \<Rightarrow>
    ((nat, nat, unit, unit, unit) evm_wrapper, state_change_source list, u64, unit,
      nat receipt_envelope) eth_block_executor" where
  "sample_after rs g d = sample_executor
     \<lparr>xe_receipts := rs, xe_gas_used := g, xe_evm := evm_set_db (eth_evm_dict paying_revm) d sample_wrapper\<rparr>"

lemma sample_tx:
  assumes "t \<le> 1000 - g" "g' = g + t" "d' = d + 1" "rs' = rs @ [ReceiptLegacy (unat g')]"
  shows "(execute_transaction (eth_block_executor_dict sample_executor_lib (eth_evm_dict paying_revm))
     \<lparr>xt_tx = t, xt_signer = a, xt_to_tx_env = t\<rparr> (sample_after rs g d, c) ::
     ((unit, unit, unit, unit) block_execution_error abort + u64) \<times> _) =
     (Inr t, (sample_after rs' g' d', c))"
  using assms
  by (simp add: execute_transaction_def eth_block_executor_dict_def default_result_closure_def
      map_ok_def eth_execute_transaction_with_commit_condition_def Let_def sample_after_def
      sample_block_defs evm_defs eth_evm_defs evm_commit_def paying_revm_def zoom_def
      alloy_receipt_builder_def alloy_build_receipt_def sample_sys_lib_def system_caller_new_def
      leD word_le_def)


lemma eth_dict_simps [simp]:
  "bx_apply_pre_execution_changes (eth_block_executor_dict L E) = eth_apply_pre_execution_changes L E"
  "bx_execute_transaction_with_commit_condition (eth_block_executor_dict L E) =
     eth_execute_transaction_with_commit_condition L E"
  "bx_finish (eth_block_executor_dict L E) = eth_finish_block L E"
  "bx_evm (eth_block_executor_dict L E) = xe_evm"
  "bx_set_state_hook (eth_block_executor_dict L E) = eth_set_state_hook"
  by (simp_all add: eth_block_executor_dict_def)

lemma eth_create_simps [simp]:
  "xe_receipts (eth_create_executor factory evm ctx) = []"
  "xe_gas_used (eth_create_executor factory evm ctx) = 0"
  "xe_evm (eth_create_executor factory evm ctx) = evm"
  "eth_built (eth_create_executor factory evm ctx) =
     (\<lambda>r u. \<exists>rctx. rb_build_receipt (bf_receipt_builder factory) rctx = Some r
        \<and> rc_cumulative_gas_used rctx = u)"
  by (simp_all add: eth_create_executor_def eth_block_executor_new_def eth_built_def fun_eq_iff)

lemma sample_after_new: "sample_executor = sample_after [] 0 0"
  by (simp add: sample_after_def sample_block_defs evm_defs eth_evm_defs)

lemma sample_txs_run:
  "(try_each (execute_transaction (eth_block_executor_dict sample_executor_lib (eth_evm_dict paying_revm)))
      sample_txs (sample_executor, c) ::
     ((unit, unit, unit, unit) block_execution_error abort + u64 list) \<times> _) =
     (Inr [300, 500], (sample_after [ReceiptLegacy 300, ReceiptLegacy 800] 800 2, c))"
proof -
  have 1: "(execute_transaction (eth_block_executor_dict sample_executor_lib (eth_evm_dict paying_revm))
     \<lparr>xt_tx = 300, xt_signer = 1, xt_to_tx_env = 300\<rparr> (sample_after [] 0 0, c) ::
     ((unit, unit, unit, unit) block_execution_error abort + u64) \<times> _) =
     (Inr 300, (sample_after [ReceiptLegacy 300] 300 1, c))"
    by (rule sample_tx) (simp_all add: word_le_nat_alt)
  have 2: "(execute_transaction (eth_block_executor_dict sample_executor_lib (eth_evm_dict paying_revm))
     \<lparr>xt_tx = 500, xt_signer = 2, xt_to_tx_env = 500\<rparr> (sample_after [ReceiptLegacy 300] 300 1, c) ::
     ((unit, unit, unit, unit) block_execution_error abort + u64) \<times> _) =
     (Inr 500, (sample_after [ReceiptLegacy 300, ReceiptLegacy 800] 800 2, c))"
    by (rule sample_tx) (simp_all add: word_le_nat_alt)
  show ?thesis
    by (simp add: sample_txs_def sample_after_new 1 2 del: One_nat_def)
qed

lemma sample_finish:
  "(eth_finish_block sample_executor_lib (eth_evm_dict paying_revm) (sample_after rs g d) ::
     ((unit, unit, unit, unit) block_execution_error abort + _) \<times> _) =
     (Inr (evm_set_db (eth_evm_dict paying_revm) d sample_wrapper,
       \<lparr>ber_receipts = rs, ber_requests = [], ber_gas_used = g\<rparr>), sample_after rs g d)"
  by (simp add: eth_finish_block_def eth_collect_requests_def eth_finish_balances_def eth_dao_fork_def
      step_defs on_caller_def on_executor_db_def on_db_def try_on_state_with_eq sample_after_def
      sample_block_defs evm_defs eth_evm_defs eth_spec_def cancun_spec_def system_caller_new_def
      post_block_balance_increments_def insert_post_block_withdrawals_balance_increments_def
      base_block_reward_def saturating_to_u64_def sample_state_ops_def sample_sys_lib_def)

lemma sample_block_run:
  "(execute_block (eth_block_executor_dict sample_executor_lib (eth_evm_dict paying_revm)) sample_txs
      (sample_executor, c) :: ((unit, unit, unit, unit) block_execution_error abort + _) \<times> _) =
     (Inr \<lparr>ber_receipts = [ReceiptLegacy 300, ReceiptLegacy 800], ber_requests = [], ber_gas_used = 800\<rparr>,
      (sample_after [ReceiptLegacy 300, ReceiptLegacy 800] 800 2, c))"
  using sample_txs_run [of c]
  by (simp add: execute_block_def bx_apply_post_execution_changes_def on_executor_def zoom_def
      try_bind_def map_ok_def sample_pre sample_finish)

section \<open>The unit of time in fork checks\<close>

text \<open>
  With timestamps in milliseconds, the calls before a block compare seconds with the time of a fork
  and the code after it compares milliseconds. In between, a block has no blockhashes call but runs
  the request contracts of Prague.
\<close>

lemma prague_checks_disagree:
  fixes prague :: u64
  assumes "\<not> sl_timestamp_in_seconds (xl_sys L)"
    and "\<And>t. is_prague_active_at_timestamp (xe_spec x) t \<longleftrightarrow> prague \<le> t"
    and "t = saturating_to_u64 (be_timestamp (ev_block E (xe_evm x)))"
    and "prague \<le> t" and "t div 1000 < prague"
    and "(parse_deposits_from_receipts (xl_decode_log L) (xl_receipt_logs L)
      (xl_mainnet_deposit_contract_address L) (xe_spec x) (xe_receipts x) ::
        'inv block_validation_error + _) = Inr []"
  shows "transact_blockhashes_contract_call (xl_sys L) E (xe_spec x) h (xe_evm x) = (Inr None, xe_evm x)"
    and "(eth_collect_requests L E x ::
        (('inv, 'rest, 'dec, 'o) block_execution_error abort + _) \<times> _) =
      map_ok (\<lambda>rq. sl_requests_extend (xl_sys L) rq (sl_requests_default (xl_sys L)))
        (on_caller (apply_post_execution_changes (xl_sys L) E)) x"
  using assms
  by (simp_all add: transact_blockhashes_contract_call_def system_call_timestamp_def not_le
      eth_collect_requests_def)

section \<open>Gas stays within the block\<close>

context executor_evm
begin

text \<open>One transaction: the block stays the same and its gas is within what is left.\<close>

lemma eth_execute_transaction_within:
  assumes quiet: "\<And>env. keeps (ev_block E) (ev_transact_raw E env)"
    and gas: "gas_respecting E (xl_gas_limit L) txs" "tx \<in> set txs"
    and run: "(execute_transaction (eth_block_executor_dict L E) tx (x, c) ::
      (('inv, 'rest, 'dec, 'o) block_execution_error abort + u64) \<times> _) = (Inr g, (x', c'))"
  shows "ev_block E (xe_evm x') = ev_block E (xe_evm x)
    \<and> g \<le> be_gas_limit (ev_block E (xe_evm x)) - xe_gas_used x"
proof -
  from run obtain o' where
    cc: "(eth_execute_transaction_with_commit_condition L E tx (\<lambda>res c. (Yes, c)) (x, c) ::
      (('inv, 'rest, 'dec, 'o) block_execution_error abort + u64 option) \<times> _) = (Inr o', (x', c'))"
    and g: "g = (case o' of Some gas \<Rightarrow> gas | None \<Rightarrow> 0)"
    unfolding execute_transaction_def eth_executor.result_closure default_result_closure_Inr eth_dict_simps
    by blast
  from cc show ?thesis
  proof (rule eth_tx_cases)
    fix rs evm receipt
    assume le: "xl_gas_limit L (xt_tx tx) \<le> be_gas_limit (ev_block E (xe_evm x)) - xe_gas_used x"
      and t: "evm_transact E xt_to_tx_env tx (xe_evm x) = (Inr rs, evm)"
      and o': "Inr o' = Inr (Some (er_gas_used (rs_result rs)))"
      and x': "x' = x\<lparr>xe_evm := evm_commit (xl_sys L) E (rs_state rs) evm,
         xe_system_caller := on_state (xl_sys L) (Transaction (of_nat (length (xe_receipts x))))
           (rs_state rs) (xe_system_caller x),
         xe_receipts := xe_receipts x @ [receipt],
         xe_gas_used := xe_gas_used x + er_gas_used (rs_result rs)\<rparr>"
    show ?thesis
      using transact_within [OF quiet gas t] le o' by (simp add: x' g block_commit)
  qed auto
qed

lemma eth_pre_keeps_block:
  assumes "\<And>c a d. keeps (ev_block E) (ev_transact_system_call E c a d)"
  shows "keeps (\<lambda>x. ev_block E (xe_evm x)) (eth_apply_pre_execution_changes L E)"
proof -
  have call: "keeps (\<lambda>x. ev_block E (xe_evm x)) (on_caller m)"
    if "keeps (\<lambda>p. ev_block E (snd p)) m" for m
    using keepsD [OF keeps_map_err [OF that, of Error]]
    by (auto simp: keeps_def on_caller_def zoom_def split: prod.splits)
  have "keeps (\<lambda>x. ev_block E (xe_evm x))
     (\<lambda>x. try_bind (on_caller (apply_blockhashes_contract_call (xl_sys L) E (ec_parent_hash (xe_ctx x)))) (\<lambda>_.
     try_bind (on_caller (apply_beacon_root_contract_call (xl_sys L) E
                 (ec_parent_beacon_block_root (xe_ctx x)))) (\<lambda>_. ret ())) x)"
  proof (rule keepsI)
    fix s r t
    have "keeps (\<lambda>x. ev_block E (xe_evm x))
      (try_bind (on_caller (apply_blockhashes_contract_call (xl_sys L) E h)) (\<lambda>_.
       try_bind (on_caller (apply_beacon_root_contract_call (xl_sys L) E p)) (\<lambda>_. ret ())))" for h p
      by (intro keeps_try_bind keeps_ret call apply_calls_keep_block assms)
    from keepsD [OF this] show "try_bind (on_caller (apply_blockhashes_contract_call (xl_sys L) E
        (ec_parent_hash (xe_ctx s)))) (\<lambda>_. try_bind (on_caller (apply_beacon_root_contract_call
        (xl_sys L) E (ec_parent_beacon_block_root (xe_ctx s)))) (\<lambda>_. ret ())) s = (r, t)
      \<Longrightarrow> ev_block E (xe_evm t) = ev_block E (xe_evm s)" .
  qed
  then show ?thesis
    unfolding eth_apply_pre_execution_changes_def
    by (intro keeps_try_bind keeps_modify) (simp_all add: block_set_db Let_def)
qed

end

interpretation eth_executor_evm: executor_evm "eth_evm_dict R"
  for R :: "(('db, 'spec, 'rest, 'insp, 'pre) inner_evm, 'tx, 'halt, ('inv, 'irest) evm_error) revm_ops"
  by unfold_locales

lemma sample_txs_respect:
  "gas_respecting (eth_evm_dict paying_revm) (\<lambda>g. g) sample_txs"
  by (auto simp: paying_revm_def gas_respecting_def sample_txs_def
      eth_evm_defs zoom_def split: if_splits)

end
