(* ===== verification/EthTransactions.thy ===== *)
theory EthTransactions
  imports EthExecutor
begin

text \<open>
  The transactions of a block, specified without an executor: each runs on the state that its
  predecessor's committed changes left. The loop of the Ethereum executor
  (\<open>execute_transaction\<close> of \<open>crates/evm/src/block/mod.rs\<close> over \<open>crates/evm/src/eth/block.rs\<close>) refines
  this specification, and hook, receipts and gas are functions of it.
\<close>

section \<open>The specification\<close>

text \<open>Running and committing one transaction after the other: the outcome of each, and the EVM it left
  before the commit.\<close>

fun transact_all ::
    "('db, 'err, 'halt, 'hk, 'rq) sys_lib \<Rightarrow> ('evm, 'db, 'insp, 'pre, 'spec, 'env, 'halt, 'err) evm_dict
      \<Rightarrow> ('tx, 'env) executable_tx list
      \<Rightarrow> ('evm, 'err, ('halt result_and_state \<times> 'evm) list) step" where
  "transact_all S E [] evm = (Inr [], evm)"
| "transact_all S E (tx # txs) evm =
     (case evm_transact E xt_to_tx_env tx evm of
        (Inl err, evm') \<Rightarrow> (Inl err, evm')
      | (Inr rs, evm') \<Rightarrow>
          (case transact_all S E txs (evm_commit S E (rs_state rs) evm') of
             (Inl err, evm'') \<Rightarrow> (Inl err, evm'')
           | (Inr runs, evm'') \<Rightarrow> (Inr ((rs, evm') # runs), evm'')))"

definition run_gas :: "'halt result_and_state \<times> 'evm \<Rightarrow> u64" where
  "run_gas run = er_gas_used (rs_result (fst run))"

text \<open>What the hook is told: the changes of each transaction under its index in the block.\<close>

fun tell_hook ::
    "('db, 'err, 'halt, 'hk, 'rq) sys_lib \<Rightarrow> nat \<Rightarrow> ('halt result_and_state \<times> 'evm) list
      \<Rightarrow> ('z, 'hk) system_caller \<Rightarrow> ('z, 'hk) system_caller" where
  "tell_hook S n [] sc = sc"
| "tell_hook S n (run # runs) sc =
     tell_hook S (Suc n) runs (on_state S (Transaction (of_nat n)) (rs_state (fst run)) sc)"

text \<open>What a receipt is built from: the transaction, its outcome, and the gas up to and including it.\<close>

fun receipt_ctxs ::
    "('tx, 'env) executable_tx list \<Rightarrow> ('halt result_and_state \<times> 'evm) list \<Rightarrow> u64
      \<Rightarrow> ('tx, 'evm, 'halt) receipt_builder_ctx list" where
  "receipt_ctxs (tx # txs) (run # runs) used =
     \<lparr>rc_tx = xt_tx tx, rc_evm = snd run, rc_result = rs_result (fst run), rc_state = rs_state (fst run),
      rc_cumulative_gas_used = used + run_gas run\<rparr> # receipt_ctxs txs runs (used + run_gas run)"
| "receipt_ctxs _ _ used = []"

section \<open>The loop of the executor\<close>

lemma eth_execute_transaction_run:
  assumes "(execute_transaction (eth_block_executor_dict L E) tx (x, c) ::
      (('inv, 'rest, 'dec, 'o) block_execution_error abort + u64) \<times> _) = (Inr g, (x', c'))"
  obtains rs evm receipt where "evm_transact E xt_to_tx_env tx (xe_evm x) = (Inr rs, evm)"
    "g = er_gas_used (rs_result rs)" "c' = c"
    "rb_build_receipt (xe_receipt_builder x)
         \<lparr>rc_tx = xt_tx tx, rc_evm = evm, rc_result = rs_result rs, rc_state = rs_state rs,
          rc_cumulative_gas_used = xe_gas_used x + er_gas_used (rs_result rs)\<rparr> = Some receipt"
    "x' = x\<lparr>xe_evm := evm_commit (xl_sys L) E (rs_state rs) evm,
         xe_system_caller := on_state (xl_sys L) (Transaction (of_nat (length (xe_receipts x))))
           (rs_state rs) (xe_system_caller x),
         xe_receipts := xe_receipts x @ [receipt],
         xe_gas_used := xe_gas_used x + er_gas_used (rs_result rs)\<rparr>"
proof -
  from assms obtain o' where
    cc: "(eth_execute_transaction_with_commit_condition L E tx (\<lambda>res c. (Yes, c)) (x, c) ::
      (('inv, 'rest, 'dec, 'o) block_execution_error abort + u64 option) \<times> _) = (Inr o', (x', c'))"
    and g: "g = (case o' of Some gas \<Rightarrow> gas | None \<Rightarrow> 0)"
    unfolding execute_transaction_def eth_executor.result_closure default_result_closure_Inr eth_dict_simps
    by blast
  from cc show thesis
    by (rule eth_tx_cases) (use that g in auto)
qed

lemma eth_transactions_run:
  assumes "(try_each (execute_transaction (eth_block_executor_dict L E)) txs (x, c) ::
      (('inv, 'rest, 'dec, 'o) block_execution_error abort + _) \<times> _) = (Inr gs, (x', c'))"
  shows "\<exists>runs receipts. transact_all (xl_sys L) E txs (xe_evm x) = (Inr runs, xe_evm x')
    \<and> length runs = length txs \<and> gs = map run_gas runs \<and> c' = c
    \<and> map Some receipts = map (rb_build_receipt (xe_receipt_builder x)) (receipt_ctxs txs runs (xe_gas_used x))
    \<and> x' = x\<lparr>xe_evm := xe_evm x',
             xe_system_caller := tell_hook (xl_sys L) (length (xe_receipts x)) runs (xe_system_caller x),
             xe_receipts := xe_receipts x @ receipts,
             xe_gas_used := xe_gas_used x + sum_list gs\<rparr>"
  using assms
proof (induction txs arbitrary: x c gs)
  case Nil
  then show ?case by simp
next
  case (Cons tx txs)
  from Cons.prems obtain g p hs where
    one: "(execute_transaction (eth_block_executor_dict L E) tx (x, c) ::
      (('inv, 'rest, 'dec, 'o) block_execution_error abort + u64) \<times> _) = (Inr g, p)"
    and rest: "(try_each (execute_transaction (eth_block_executor_dict L E)) txs p ::
      (('inv, 'rest, 'dec, 'o) block_execution_error abort + _) \<times> _) = (Inr hs, (x', c'))"
    and gs: "gs = g # hs"
    unfolding try_each_Cons_Inr by blast
  obtain x1 c1 where p: "p = (x1, c1)" by (cases p)
  from one [unfolded p] obtain rs evm receipt where
    t: "evm_transact E xt_to_tx_env tx (xe_evm x) = (Inr rs, evm)" "g = er_gas_used (rs_result rs)" "c1 = c"
    and r: "rb_build_receipt (xe_receipt_builder x)
         \<lparr>rc_tx = xt_tx tx, rc_evm = evm, rc_result = rs_result rs, rc_state = rs_state rs,
          rc_cumulative_gas_used = xe_gas_used x + er_gas_used (rs_result rs)\<rparr> = Some receipt"
    and x1: "x1 = x\<lparr>xe_evm := evm_commit (xl_sys L) E (rs_state rs) evm,
         xe_system_caller := on_state (xl_sys L) (Transaction (of_nat (length (xe_receipts x))))
           (rs_state rs) (xe_system_caller x),
         xe_receipts := xe_receipts x @ [receipt],
         xe_gas_used := xe_gas_used x + er_gas_used (rs_result rs)\<rparr>"
    by (rule eth_execute_transaction_run)
  from Cons.IH [OF rest [unfolded p]] obtain runs receipts where IH:
    "transact_all (xl_sys L) E txs (xe_evm x1) = (Inr runs, xe_evm x')" "length runs = length txs"
    "hs = map run_gas runs" "c' = c1"
    "map Some receipts = map (rb_build_receipt (xe_receipt_builder x1)) (receipt_ctxs txs runs (xe_gas_used x1))"
    "x' = x1\<lparr>xe_evm := xe_evm x',
             xe_system_caller := tell_hook (xl_sys L) (length (xe_receipts x1)) runs (xe_system_caller x1),
             xe_receipts := xe_receipts x1 @ receipts,
             xe_gas_used := xe_gas_used x1 + sum_list hs\<rparr>"
    by blast
  have "x' = x\<lparr>xe_evm := xe_evm x',
             xe_system_caller := tell_hook (xl_sys L) (length (xe_receipts x)) ((rs, evm) # runs) (xe_system_caller x),
             xe_receipts := xe_receipts x @ receipt # receipts,
             xe_gas_used := xe_gas_used x + sum_list gs\<rparr>"
    by (subst IH(6)) (simp add: x1 gs t(2) add.assoc)
  then show ?case
    using IH(1-5) t r
    by (intro exI [of _ "(rs, evm) # runs"] exI [of _ "receipt # receipts"])
      (simp add: x1 gs run_gas_def)
qed

text \<open>C12: When the loop over the transactions of a block succeeds, the EVM has gone through exactly the
  specified runs, each on the state its predecessor's changes were committed to; the gas returned is
  theirs; the hook was told each transaction's changes, the same that were committed, under its index
  in the block and in order; one receipt per transaction was built from that transaction, its
  outcome, the EVM before the commit and the cumulative gas; and nothing else of the executor changed.\<close>

theorem eth_transactions_refine:
  assumes "(try_each (execute_transaction (eth_block_executor_dict L E)) txs (x, c) ::
      (('inv, 'rest, 'dec, 'o) block_execution_error abort + _) \<times> _) = (Inr gs, (x', c'))"
  shows "\<exists>runs receipts. transact_all (xl_sys L) E txs (xe_evm x) = (Inr runs, xe_evm x')
    \<and> length runs = length txs \<and> gs = map run_gas runs \<and> c' = c
    \<and> map Some receipts = map (rb_build_receipt (xe_receipt_builder x)) (receipt_ctxs txs runs (xe_gas_used x))
    \<and> x' = x\<lparr>xe_evm := xe_evm x',
             xe_system_caller := tell_hook (xl_sys L) (length (xe_receipts x)) runs (xe_system_caller x),
             xe_receipts := xe_receipts x @ receipts,
             xe_gas_used := xe_gas_used x + sum_list gs\<rparr>"
  using assms by (rule eth_transactions_run)

lemma eth_transactions_refine_witness:
  "\<exists>runs. transact_all sample_sys_lib (eth_evm_dict paying_revm) sample_txs sample_wrapper =
      (Inr runs, xe_evm (sample_after [ReceiptLegacy 300, ReceiptLegacy 800] 800 2))
    \<and> map run_gas runs = [300, 500]"
proof -
  have "xl_sys sample_executor_lib = sample_sys_lib" "xe_evm sample_executor = sample_wrapper"
    by (simp_all add: sample_executor_lib_def sample_executor_def)
  then show ?thesis
    using eth_transactions_refine [OF sample_txs_run [of "()"]] by auto
qed

section \<open>A whole block\<close>

text \<open>The cumulative gas in the contexts of a block's receipts.\<close>

lemma receipt_ctxs_running:
  "length runs = length txs \<Longrightarrow>
    map rc_cumulative_gas_used (receipt_ctxs txs runs u) = running u (map run_gas runs)"
  by (induction txs runs u rule: receipt_ctxs.induct) auto

text \<open>
  What a block that executes has done: the changes before the transactions, then the specified runs on
  the EVM they left; receipts, gas and the requests' place in the result follow from these runs.
\<close>

lemma eth_block_run:
  assumes run: "(execute_block (eth_block_executor_dict L E) txs (x, c) ::
      (('inv, 'rest, 'dec, 'o) block_execution_error abort + _) \<times> _) = (Inr res, (x', c'))"
  obtains x1 gs x2 runs receipts where
    "(eth_apply_pre_execution_changes L E x ::
        (('inv, 'rest, 'dec, 'o) block_execution_error abort + unit) \<times> _) = (Inr (), x1)"
    "(try_each (execute_transaction (eth_block_executor_dict L E)) txs (x1, c) ::
      (('inv, 'rest, 'dec, 'o) block_execution_error abort + _) \<times> _) = (Inr gs, (x2, c))"
    "transact_all (xl_sys L) E txs (xe_evm x1) = (Inr runs, xe_evm x2)"
    "length runs = length txs" "gs = map run_gas runs"
    "map Some receipts = map (rb_build_receipt (xe_receipt_builder x)) (receipt_ctxs txs runs (xe_gas_used x))"
    "ber_receipts res = xe_receipts x @ receipts"
    "ber_gas_used res = xe_gas_used x + sum_list (map run_gas runs)" "ber_gas_used res = xe_gas_used x2"
proof -
  from eth_executor.execute_block_ok [OF run] obtain x1 gs x2 where
    pre: "(eth_apply_pre_execution_changes L E x ::
        (('inv, 'rest, 'dec, 'o) block_execution_error abort + unit) \<times> _) = (Inr (), x1)"
    and txs: "(try_each (execute_transaction (eth_block_executor_dict L E)) txs (x1, c) ::
      (('inv, 'rest, 'dec, 'o) block_execution_error abort + _) \<times> _) = (Inr gs, (x2, c))"
    and fin: "(eth_finish_block L E x2 ::
      (('inv, 'rest, 'dec, 'o) block_execution_error abort + _) \<times> _) = (Inr (xe_evm x', res), x')"
    unfolding eth_dict_simps by blast
  have x1: "xe_receipts x1 = xe_receipts x" "xe_gas_used x1 = xe_gas_used x"
    "xe_receipt_builder x1 = xe_receipt_builder x"
    using keepsD [OF pre_execution_ignores pre, of xe_receipts] keepsD [OF pre_execution_ignores pre, of xe_gas_used]
      keepsD [OF pre_execution_ignores pre, of xe_receipt_builder] by simp_all
  from eth_transactions_run [OF txs] obtain runs receipts where
    runs: "transact_all (xl_sys L) E txs (xe_evm x1) = (Inr runs, xe_evm x2)" "length runs = length txs"
    "gs = map run_gas runs"
    "map Some receipts = map (rb_build_receipt (xe_receipt_builder x1)) (receipt_ctxs txs runs (xe_gas_used x1))"
    and x2: "x2 = x1\<lparr>xe_evm := xe_evm x2,
             xe_system_caller := tell_hook (xl_sys L) (length (xe_receipts x1)) runs (xe_system_caller x1),
             xe_receipts := xe_receipts x1 @ receipts,
             xe_gas_used := xe_gas_used x1 + sum_list gs\<rparr>"
    by blast
  have "xe_receipts x2 = xe_receipts x @ receipts" "xe_gas_used x2 = xe_gas_used x + sum_list gs"
    by (subst x2, simp add: x1)+
  with that [OF pre txs runs(1-3)] runs(3,4) show thesis
    using finish_result [OF fin] by (simp add: x1)
qed

text \<open>C14: A block executed by a fresh Ethereum executor has charged what its transactions used: after the
  changes before the block, the transactions ran one after the other, each on the committed changes
  of its predecessors; the receipts are the ones built from each transaction, its outcome and the
  gas used up to and including it, in order; and the gas of the block is the sum of what the EVM
  reported for each.\<close>

theorem eth_block_accounting:
  assumes "(execute_block (eth_block_executor_dict L E) txs (eth_create_executor factory evm ctx, c) ::
      (('inv, 'rest, 'dec, 'o) block_execution_error abort + _) \<times> _) = (Inr res, s')"
  shows "\<exists>x1 runs evm'.
      (eth_apply_pre_execution_changes L E (eth_create_executor factory evm ctx) ::
        (('inv, 'rest, 'dec, 'o) block_execution_error abort + unit) \<times> _) = (Inr (), x1)
    \<and> transact_all (xl_sys L) E txs (xe_evm x1) = (Inr runs, evm') \<and> length runs = length txs
    \<and> map Some (ber_receipts res) =
        map (rb_build_receipt (bf_receipt_builder factory)) (receipt_ctxs txs runs 0)
    \<and> map rc_cumulative_gas_used (receipt_ctxs txs runs 0) = running 0 (map run_gas runs)
    \<and> ber_gas_used res = sum_list (map run_gas runs)"
proof -
  obtain x' c' where s': "s' = (x', c')" by fastforce
  have builder: "xe_receipt_builder (eth_create_executor factory evm ctx) = bf_receipt_builder factory"
    by (simp add: eth_create_executor_def eth_block_executor_new_def)
  from assms [unfolded s'] show ?thesis
  proof (rule eth_block_run)
    fix x1 gs x2 runs receipts
    assume "(eth_apply_pre_execution_changes L E (eth_create_executor factory evm ctx) ::
        (('inv, 'rest, 'dec, 'o) block_execution_error abort + unit) \<times> _) = (Inr (), x1)"
      "transact_all (xl_sys L) E txs (xe_evm x1) = (Inr runs, xe_evm x2)" "length runs = length txs"
      "map Some receipts = map (rb_build_receipt (xe_receipt_builder (eth_create_executor factory evm ctx)))
         (receipt_ctxs txs runs (xe_gas_used (eth_create_executor factory evm ctx)))"
      "ber_receipts res = xe_receipts (eth_create_executor factory evm ctx) @ receipts"
      "ber_gas_used res = xe_gas_used (eth_create_executor factory evm ctx) + sum_list (map run_gas runs)"
    then show ?thesis
      by (intro exI [of _ x1] exI [of _ runs] exI [of _ "xe_evm x2"]) (simp add: builder receipt_ctxs_running)
  qed
qed

lemma eth_block_accounting_witness:
  "\<exists>runs evm'. transact_all sample_sys_lib (eth_evm_dict paying_revm) sample_txs sample_wrapper = (Inr runs, evm')
    \<and> map Some [ReceiptLegacy 300, ReceiptLegacy 800] =
        map (rb_build_receipt (bf_receipt_builder sample_factory)) (receipt_ctxs sample_txs runs 0)
    \<and> 800 = sum_list (map run_gas runs)"
proof -
  have "xl_sys sample_executor_lib = sample_sys_lib" "xe_evm sample_executor = sample_wrapper"
    by (simp_all add: sample_executor_lib_def sample_executor_def)
  then show ?thesis
    using eth_block_accounting [OF sample_block_run [where c = "()", unfolded sample_executor_def]]
      sample_pre [unfolded sample_executor_def] by (auto simp: sample_executor_def)
qed

section \<open>Gas stays within the block\<close>

context executor_evm
begin

text \<open>A whole block: from a counter within the limit, gas adds up exactly and stays within it.\<close>

lemma eth_block_within:
  assumes quiet: "\<And>env. keeps (ev_block E) (ev_transact_raw E env)"
    and quiet_sys: "\<And>c a d. keeps (ev_block E) (ev_transact_system_call E c a d)"
    and gas: "gas_respecting E (xl_gas_limit L) txs"
    and room: "xe_gas_used x \<le> be_gas_limit (ev_block E (xe_evm x))"
    and run: "(execute_block (eth_block_executor_dict L E) txs (x, c) ::
      (('inv, 'rest, 'dec, 'o) block_execution_error abort + _) \<times> _) = (Inr res, (x', c'))"
  shows "ber_gas_used res \<le> be_gas_limit (ev_block E (xe_evm x))
    \<and> (\<exists>x1 runs evm'. (eth_apply_pre_execution_changes L E x ::
          (('inv, 'rest, 'dec, 'o) block_execution_error abort + unit) \<times> _) = (Inr (), x1)
        \<and> transact_all (xl_sys L) E txs (xe_evm x1) = (Inr runs, evm')
        \<and> unat (ber_gas_used res) = unat (xe_gas_used x) + sum_list (map (unat \<circ> run_gas) runs))"
  using run
proof (rule eth_block_run)
  fix x1 gs x2 runs receipts
  assume pre: "(eth_apply_pre_execution_changes L E x ::
        (('inv, 'rest, 'dec, 'o) block_execution_error abort + unit) \<times> _) = (Inr (), x1)"
    and txs: "(try_each (execute_transaction (eth_block_executor_dict L E)) txs (x1, c) ::
      (('inv, 'rest, 'dec, 'o) block_execution_error abort + _) \<times> _) = (Inr gs, (x2, c))"
    and runs: "transact_all (xl_sys L) E txs (xe_evm x1) = (Inr runs, xe_evm x2)" "gs = map run_gas runs"
    and used: "ber_gas_used res = xe_gas_used x2"
  let ?block = "ev_block E (xe_evm x)"
  let ?P = "\<lambda>y. ev_block E (xe_evm y) = ?block"
  have x1: "?P x1" "xe_gas_used x1 = xe_gas_used x"
    using keepsD [OF eth_pre_keeps_block [OF quiet_sys] pre] keepsD [OF pre_execution_ignores pre, of xe_gas_used]
    by simp_all
  have "?P x2 \<and> be_gas_limit ?block = be_gas_limit ?block \<and> xe_gas_used x2 \<le> be_gas_limit ?block
      \<and> unat (xe_gas_used x2) = unat (xe_gas_used x1) + sum_list (map unat gs)"
  proof (rule eth_executor.execute_transactions_within
      [where P = ?P and limit = "\<lambda>_. be_gas_limit ?block", OF _ x1(1) _ txs])
    show "?P y' \<and> be_gas_limit ?block = be_gas_limit ?block \<and> g \<le> be_gas_limit ?block - xe_gas_used y"
      if "tx \<in> set txs" "?P y" "xe_gas_used y \<le> be_gas_limit ?block"
        "(execute_transaction (eth_block_executor_dict L E) tx (y, d) ::
          (('inv, 'rest, 'dec, 'o) block_execution_error abort + u64) \<times> _) = (Inr g, (y', d'))"
      for tx y d g y' d'
      using eth_execute_transaction_within [OF quiet gas that(1,4)] that(2) by simp
  qed (simp add: x1 room)
  then show ?thesis
    using pre runs used by (auto simp: x1 o_def)
qed

end

text \<open>C13: When the EVM leaves the block environment alone and never uses more than a transaction's gas
  limit, a block executed by a fresh Ethereum executor uses at most the block's gas limit, and its
  gas used is, in unbounded arithmetic, the sum of what the EVM reported for its transactions, run
  one after the other: neither the running total nor the available gas ever wraps.\<close>

theorem eth_gas_within_limit:
  assumes "revm_keeps_block R"
    and "gas_respecting (eth_evm_dict R) (xl_gas_limit L) txs"
    and "(execute_block (eth_block_executor_dict L (eth_evm_dict R)) txs
           (eth_create_executor factory evm ctx, c) ::
      (('inv, 'rest, 'dec, 'o) block_execution_error abort + _) \<times> _) = (Inr res, (x', c'))"
  shows "ber_gas_used res \<le> be_gas_limit (eth_block evm)
    \<and> (\<exists>x1 runs evm'.
        (eth_apply_pre_execution_changes L (eth_evm_dict R) (eth_create_executor factory evm ctx) ::
          (('inv, 'rest, 'dec, 'o) block_execution_error abort + unit) \<times> _) = (Inr (), x1)
        \<and> transact_all (xl_sys L) (eth_evm_dict R) txs (xe_evm x1) = (Inr runs, evm')
        \<and> unat (ber_gas_used res) = sum_list (map (unat \<circ> run_gas) runs))"
  using eth_executor_evm.eth_block_within [OF eth_keeps_block(2) [OF assms(1)]
      eth_keeps_block(1) [OF assms(1)] assms(2) _ assms(3)]
  by (simp add: eth_evm_dict_def)

lemma eth_gas_within_limit_witness:
  "(800::u64) \<le> be_gas_limit (eth_block sample_wrapper)
   \<and> (\<exists>runs evm'. transact_all sample_sys_lib (eth_evm_dict paying_revm) sample_txs sample_wrapper = (Inr runs, evm')
        \<and> 800 = sum_list (map (unat \<circ> run_gas) runs))"
proof -
  have "xl_sys sample_executor_lib = sample_sys_lib" "xe_evm sample_executor = sample_wrapper"
    by (simp_all add: sample_executor_lib_def sample_executor_def)
  then show ?thesis
    using eth_gas_within_limit [OF paying_revm_keeps_block, of sample_executor_lib sample_txs sample_factory
        sample_wrapper sample_ctx "()", OF _ sample_block_run [unfolded sample_executor_def]]
      sample_pre [unfolded sample_executor_def]
    by (auto simp: sample_txs_respect sample_executor_lib_def sample_executor_def)
qed

end
