(* ===== verification/TxConv.thy ===== *)
theory TxConv
  imports SeismicEvm BlockExecutor
begin

text \<open>
  \<open>crates/evm/src/tx.rs\<close>: how consensus transactions become the transaction environments that the
  EVMs run, for Ethereum, OP and Seismic envelopes, with and without their encoded form.
\<close>

section \<open>Consensus transactions\<close>

text \<open>The transaction types of \<open>alloy_consensus\<close>, with the fields that the conversions destructure.\<close>

record tx_legacy =
  tl_chain_id :: "u64 option"
  tl_nonce :: u64
  tl_gas_price :: u128
  tl_gas_limit :: u64
  tl_to :: tx_kind
  tl_value :: u256
  tl_input :: bytes

record tx_eip2930 =
  t2_chain_id :: u64
  t2_nonce :: u64
  t2_gas_price :: u128
  t2_gas_limit :: u64
  t2_to :: tx_kind
  t2_value :: u256
  t2_access_list :: access_list
  t2_input :: bytes

record tx_eip1559 =
  t1_chain_id :: u64
  t1_nonce :: u64
  t1_gas_limit :: u64
  t1_to :: tx_kind
  t1_value :: u256
  t1_input :: bytes
  t1_max_fee_per_gas :: u128
  t1_max_priority_fee_per_gas :: u128
  t1_access_list :: access_list

record tx_eip4844 =
  t4_chain_id :: u64
  t4_nonce :: u64
  t4_gas_limit :: u64
  t4_to :: address
  t4_value :: u256
  t4_input :: bytes
  t4_max_fee_per_gas :: u128
  t4_max_priority_fee_per_gas :: u128
  t4_access_list :: access_list
  t4_blob_versioned_hashes :: "b256 list"
  t4_max_fee_per_blob_gas :: u128

record tx_eip7702 =
  t7_chain_id :: u64
  t7_nonce :: u64
  t7_gas_limit :: u64
  t7_to :: address
  t7_value :: u256
  t7_input :: bytes
  t7_max_fee_per_gas :: u128
  t7_max_priority_fee_per_gas :: u128
  t7_access_list :: access_list
  t7_authorization_list :: "signed_authorization list"

record tx_deposit =
  td_source_hash :: b256
  td_from :: address
  td_to :: tx_kind
  td_mint :: u128
  td_value :: u256
  td_gas_limit :: u64
  td_is_system_transaction :: bool
  td_input :: bytes

record tx_seismic_elements =
  se_encryption_pubkey :: bytes
  se_encryption_nonce :: "96 word"
  se_message_version :: u8

record tx_seismic =
  ts_chain_id :: u64
  ts_nonce :: u64
  ts_gas_price :: u128
  ts_gas_limit :: u64
  ts_to :: tx_kind
  ts_value :: u256
  ts_input :: bytes
  ts_seismic_elements :: tx_seismic_elements

text \<open>A signed transaction; \<open>tx()\<close> and \<open>inner()\<close> are \<open>sg_tx\<close>.\<close>

record 't signed =
  sg_tx :: 't
  sg_hash :: b256

text \<open>Envelopes. A blob transaction may come with its sidecar, hence the type \<open>'v\<close>.\<close>

datatype 'v ethereum_tx_envelope =
    EthLegacy "tx_legacy signed" | EthEip2930 "tx_eip2930 signed" | EthEip1559 "tx_eip1559 signed"
  | EthEip4844 "'v signed" | EthEip7702 "tx_eip7702 signed"

datatype op_tx_envelope =
    OpLegacy "tx_legacy signed" | OpEip2930 "tx_eip2930 signed" | OpEip1559 "tx_eip1559 signed"
  | OpEip7702 "tx_eip7702 signed" | OpDeposit "tx_deposit signed"

datatype 'v seismic_tx_envelope =
    SeiLegacy "tx_legacy signed" | SeiEip2930 "tx_eip2930 signed" | SeiEip1559 "tx_eip1559 signed"
  | SeiEip4844 "'v signed" | SeiEip7702 "tx_eip7702 signed" | SeiSeismic "tx_seismic signed"

section \<open>What the conversions use of other crates\<close>

text \<open>The methods of the traits \<open>Typed2718\<close> and \<open>Transaction\<close> that are called on a transaction type.\<close>

record 't transaction_methods =
  tr_ty :: "'t \<Rightarrow> u8"
  tr_gas_limit :: "'t \<Rightarrow> u64"
  tr_gas_price :: "'t \<Rightarrow> u128 option"
  tr_kind :: "'t \<Rightarrow> tx_kind"
  tr_value :: "'t \<Rightarrow> u256"
  tr_input :: "'t \<Rightarrow> bytes"
  tr_nonce :: "'t \<Rightarrow> u64"
  tr_chain_id :: "'t \<Rightarrow> u64 option"

text \<open>
  Their implementations, the type bytes of \<open>alloy_eips\<close>, \<open>TxEnv::default()\<close>, \<open>AsRef<TxEip4844>\<close>,
  the signature of an authorization and the recovery of its signer, the hash of a Seismic
  envelope and the encoding of an OP envelope.
\<close>

record ('v, 'sig) tx_lib =
  tx_legacy_methods :: "tx_legacy transaction_methods"
  tx_eip2930_methods :: "tx_eip2930 transaction_methods"
  tx_eip1559_methods :: "tx_eip1559 transaction_methods"
  tx_eip4844_methods :: "tx_eip4844 transaction_methods"
  tx_blob_methods :: "'v transaction_methods"
  tx_eip7702_methods :: "tx_eip7702 transaction_methods"
  tx_deposit_methods :: "tx_deposit transaction_methods"
  tx_seismic_methods :: "tx_seismic transaction_methods"
  LEGACY_TX_TYPE_ID :: u8
  EIP2930_TX_TYPE_ID :: u8
  EIP1559_TX_TYPE_ID :: u8
  EIP4844_TX_TYPE_ID :: u8
  EIP7702_TX_TYPE_ID :: u8
  SEISMIC_TX_TYPE_ID :: u8
  default_tx_env :: tx_env
  as_eip4844 :: "'v \<Rightarrow> tx_eip4844"
  auth_signature :: "signed_authorization \<Rightarrow> 'sig option"
  auth_signature_hash :: "signed_authorization \<Rightarrow> b256"
  recover_signer :: "'sig \<Rightarrow> b256 \<Rightarrow> address option"
  seismic_tx_hash :: "'v seismic_tx_envelope \<Rightarrow> b256"
  op_encoded_2718 :: "op_tx_envelope \<Rightarrow> bytes"

section \<open>Ethereum transactions\<close>

text \<open>The implementations of \<open>FromRecoveredTx\<close> for \<open>TxEnv\<close>; \<open>..Default::default()\<close> fills the other fields.\<close>

definition tx_env_from_legacy :: "('v, 'sig) tx_lib \<Rightarrow> tx_legacy \<Rightarrow> address \<Rightarrow> tx_env" where
  "tx_env_from_legacy T tx caller =
     (default_tx_env T)\<lparr>
       te_tx_type := tr_ty (tx_legacy_methods T) tx, te_caller := caller,
       te_gas_limit := tl_gas_limit tx, te_gas_price := tl_gas_price tx, te_kind := tl_to tx,
       te_value := tl_value tx, te_data := tl_input tx, te_nonce := tl_nonce tx,
       te_chain_id := tl_chain_id tx\<rparr>"

definition tx_env_from_eip2930 :: "('v, 'sig) tx_lib \<Rightarrow> tx_eip2930 \<Rightarrow> address \<Rightarrow> tx_env" where
  "tx_env_from_eip2930 T tx caller =
     (default_tx_env T)\<lparr>
       te_tx_type := tr_ty (tx_eip2930_methods T) tx, te_caller := caller,
       te_gas_limit := t2_gas_limit tx, te_gas_price := t2_gas_price tx, te_kind := t2_to tx,
       te_value := t2_value tx, te_data := t2_input tx, te_chain_id := Some (t2_chain_id tx),
       te_nonce := t2_nonce tx, te_access_list := t2_access_list tx\<rparr>"

definition tx_env_from_eip1559 :: "('v, 'sig) tx_lib \<Rightarrow> tx_eip1559 \<Rightarrow> address \<Rightarrow> tx_env" where
  "tx_env_from_eip1559 T tx caller =
     (default_tx_env T)\<lparr>
       te_tx_type := tr_ty (tx_eip1559_methods T) tx, te_caller := caller,
       te_gas_limit := t1_gas_limit tx, te_gas_price := t1_max_fee_per_gas tx, te_kind := t1_to tx,
       te_value := t1_value tx, te_data := t1_input tx, te_nonce := t1_nonce tx,
       te_chain_id := Some (t1_chain_id tx),
       te_gas_priority_fee := Some (t1_max_priority_fee_per_gas tx),
       te_access_list := t1_access_list tx\<rparr>"

definition tx_env_from_eip4844 :: "('v, 'sig) tx_lib \<Rightarrow> tx_eip4844 \<Rightarrow> address \<Rightarrow> tx_env" where
  "tx_env_from_eip4844 T tx caller =
     (default_tx_env T)\<lparr>
       te_tx_type := tr_ty (tx_eip4844_methods T) tx, te_caller := caller,
       te_gas_limit := t4_gas_limit tx, te_gas_price := t4_max_fee_per_gas tx,
       te_kind := Call (t4_to tx), te_value := t4_value tx, te_data := t4_input tx,
       te_nonce := t4_nonce tx, te_chain_id := Some (t4_chain_id tx),
       te_gas_priority_fee := Some (t4_max_priority_fee_per_gas tx),
       te_access_list := t4_access_list tx, te_blob_hashes := t4_blob_versioned_hashes tx,
       te_max_fee_per_blob_gas := t4_max_fee_per_blob_gas tx\<rparr>"

text \<open>The closure over the authorization list: a signer that cannot be recovered is \<open>Invalid\<close>.\<close>

definition recover_authorization ::
    "('v, 'sig) tx_lib \<Rightarrow> signed_authorization \<Rightarrow> signed_authorization + recovered_authorization" where
  "recover_authorization T auth =
     Inr (RecoveredAuthorization (sa_inner auth)
       (case Option.bind (auth_signature T auth)
               (\<lambda>signature. recover_signer T signature (auth_signature_hash T auth)) of
          None \<Rightarrow> Invalid
        | Some a \<Rightarrow> Valid a))"

definition tx_env_from_eip7702 :: "('v, 'sig) tx_lib \<Rightarrow> tx_eip7702 \<Rightarrow> address \<Rightarrow> tx_env" where
  "tx_env_from_eip7702 T tx caller =
     (default_tx_env T)\<lparr>
       te_tx_type := tr_ty (tx_eip7702_methods T) tx, te_caller := caller,
       te_gas_limit := t7_gas_limit tx, te_gas_price := t7_max_fee_per_gas tx,
       te_kind := Call (t7_to tx), te_value := t7_value tx, te_data := t7_input tx,
       te_nonce := t7_nonce tx, te_chain_id := Some (t7_chain_id tx),
       te_gas_priority_fee := Some (t7_max_priority_fee_per_gas tx),
       te_access_list := t7_access_list tx,
       te_authorization_list := map (recover_authorization T) (t7_authorization_list tx)\<rparr>"

text \<open>\<open>FromTxWithEncoded\<close> for the five types ignores the encoded bytes.\<close>

definition tx_env_from_encoded_legacy ::
    "('v, 'sig) tx_lib \<Rightarrow> tx_legacy \<Rightarrow> address \<Rightarrow> bytes \<Rightarrow> tx_env" where
  "tx_env_from_encoded_legacy T tx sender encoded = tx_env_from_legacy T tx sender"

definition tx_env_from_encoded_eip2930 ::
    "('v, 'sig) tx_lib \<Rightarrow> tx_eip2930 \<Rightarrow> address \<Rightarrow> bytes \<Rightarrow> tx_env" where
  "tx_env_from_encoded_eip2930 T tx sender encoded = tx_env_from_eip2930 T tx sender"

definition tx_env_from_encoded_eip1559 ::
    "('v, 'sig) tx_lib \<Rightarrow> tx_eip1559 \<Rightarrow> address \<Rightarrow> bytes \<Rightarrow> tx_env" where
  "tx_env_from_encoded_eip1559 T tx sender encoded = tx_env_from_eip1559 T tx sender"

definition tx_env_from_encoded_eip4844 ::
    "('v, 'sig) tx_lib \<Rightarrow> tx_eip4844 \<Rightarrow> address \<Rightarrow> bytes \<Rightarrow> tx_env" where
  "tx_env_from_encoded_eip4844 T tx sender encoded = tx_env_from_eip4844 T tx sender"

definition tx_env_from_encoded_eip7702 ::
    "('v, 'sig) tx_lib \<Rightarrow> tx_eip7702 \<Rightarrow> address \<Rightarrow> bytes \<Rightarrow> tx_env" where
  "tx_env_from_encoded_eip7702 T tx sender encoded = tx_env_from_eip7702 T tx sender"

definition tx_env_from_encoded_envelope ::
    "('v, 'sig) tx_lib \<Rightarrow> 'v ethereum_tx_envelope \<Rightarrow> address \<Rightarrow> bytes \<Rightarrow> tx_env" where
  "tx_env_from_encoded_envelope T env caller encoded =
     (case env of
        EthLegacy tx \<Rightarrow> tx_env_from_encoded_legacy T (sg_tx tx) caller encoded
      | EthEip1559 tx \<Rightarrow> tx_env_from_encoded_eip1559 T (sg_tx tx) caller encoded
      | EthEip2930 tx \<Rightarrow> tx_env_from_encoded_eip2930 T (sg_tx tx) caller encoded
      | EthEip4844 tx \<Rightarrow> tx_env_from_encoded_eip4844 T (as_eip4844 T (sg_tx tx)) caller encoded
      | EthEip7702 tx \<Rightarrow> tx_env_from_encoded_eip7702 T (sg_tx tx) caller encoded)"

definition tx_env_from_envelope ::
    "('v, 'sig) tx_lib \<Rightarrow> 'v ethereum_tx_envelope \<Rightarrow> address \<Rightarrow> tx_env" where
  "tx_env_from_envelope T env sender =
     (case env of
        EthLegacy tx \<Rightarrow> tx_env_from_legacy T (sg_tx tx) sender
      | EthEip1559 tx \<Rightarrow> tx_env_from_eip1559 T (sg_tx tx) sender
      | EthEip2930 tx \<Rightarrow> tx_env_from_eip2930 T (sg_tx tx) sender
      | EthEip4844 tx \<Rightarrow> tx_env_from_eip4844 T (as_eip4844 T (sg_tx tx)) sender
      | EthEip7702 tx \<Rightarrow> tx_env_from_eip7702 T (sg_tx tx) sender)"

section \<open>OP transactions\<close>

text \<open>\<open>OpTransaction<TxEnv>\<close> and \<open>DepositTransactionParts\<close> of \<open>op_revm\<close>.\<close>

record deposit_transaction_parts =
  dp_source_hash :: b256
  dp_mint :: "u128 option"
  dp_is_system_transaction :: bool

record op_transaction =
  otx_base :: tx_env
  otx_enveloped_tx :: "bytes option"
  otx_deposit :: deposit_transaction_parts

definition tx_env_from_deposit :: "('v, 'sig) tx_lib \<Rightarrow> tx_deposit \<Rightarrow> address \<Rightarrow> tx_env" where
  "tx_env_from_deposit T tx caller =
     (default_tx_env T)\<lparr>
       te_tx_type := tr_ty (tx_deposit_methods T) tx, te_caller := caller,
       te_gas_limit := td_gas_limit tx, te_kind := td_to tx, te_value := td_value tx,
       te_data := td_input tx\<rparr>"

definition tx_env_from_op_envelope ::
    "('v, 'sig) tx_lib \<Rightarrow> op_tx_envelope \<Rightarrow> address \<Rightarrow> tx_env" where
  "tx_env_from_op_envelope T env caller =
     (case env of
        OpLegacy tx \<Rightarrow> tx_env_from_legacy T (sg_tx tx) caller
      | OpEip1559 tx \<Rightarrow> tx_env_from_eip1559 T (sg_tx tx) caller
      | OpEip2930 tx \<Rightarrow> tx_env_from_eip2930 T (sg_tx tx) caller
      | OpEip7702 tx \<Rightarrow> tx_env_from_eip7702 T (sg_tx tx) caller
      | OpDeposit tx \<Rightarrow> tx_env_from_deposit T (sg_tx tx) caller)"

definition tx_env_from_encoded_op_envelope ::
    "('v, 'sig) tx_lib \<Rightarrow> op_tx_envelope \<Rightarrow> address \<Rightarrow> bytes \<Rightarrow> tx_env" where
  "tx_env_from_encoded_op_envelope T env caller encoded = tx_env_from_op_envelope T env caller"

text \<open>\<open>DepositTransactionParts::default()\<close>, an argument \<open>d0\<close>, is used for everything but deposits.\<close>

definition op_transaction_from_encoded ::
    "('v, 'sig) tx_lib \<Rightarrow> deposit_transaction_parts \<Rightarrow> op_tx_envelope \<Rightarrow> address \<Rightarrow> bytes
      \<Rightarrow> op_transaction" where
  "op_transaction_from_encoded T d0 env caller encoded =
     (let base = tx_env_from_op_envelope T env caller;
          deposit =
            (case env of
               OpDeposit tx \<Rightarrow>
                 \<lparr>dp_source_hash = td_source_hash (sg_tx tx), dp_mint = Some (td_mint (sg_tx tx)),
                  dp_is_system_transaction = td_is_system_transaction (sg_tx tx)\<rparr>
             | _ \<Rightarrow> d0)
      in \<lparr>otx_base = base, otx_enveloped_tx = Some encoded, otx_deposit = deposit\<rparr>)"

definition op_transaction_from_recovered ::
    "('v, 'sig) tx_lib \<Rightarrow> deposit_transaction_parts \<Rightarrow> op_tx_envelope \<Rightarrow> address \<Rightarrow> op_transaction" where
  "op_transaction_from_recovered T d0 env sender =
     (let encoded = op_encoded_2718 T env
      in op_transaction_from_encoded T d0 env sender encoded)"

section \<open>Seismic transactions\<close>

text \<open>
  The same arms as the source: type byte, the sender, and eight values of the transaction; the
  other fields are written out as empty in every arm.
\<close>

definition seismic_tx_env ::
    "u8 \<Rightarrow> address \<Rightarrow> u64 \<Rightarrow> u128 \<Rightarrow> tx_kind \<Rightarrow> u256 \<Rightarrow> bytes \<Rightarrow> u64 \<Rightarrow> u64 option \<Rightarrow> tx_env" where
  "seismic_tx_env ty sender gas_limit gas_price kind val data nonce chain_id =
     \<lparr>te_tx_type = ty, te_caller = sender, te_gas_limit = gas_limit, te_gas_price = gas_price,
      te_kind = kind, te_value = val, te_data = data, te_nonce = nonce, te_chain_id = chain_id,
      te_access_list = [], te_gas_priority_fee = None, te_blob_hashes = [],
      te_max_fee_per_blob_gas = 0, te_authorization_list = []\<rparr>"

definition unwrap_or_0 :: "u128 option \<Rightarrow> u128" where
  "unwrap_or_0 x = (case x of Some v \<Rightarrow> v | None \<Rightarrow> 0)"

definition seismic_from_recovered_tx ::
    "('v, 'sig) tx_lib \<Rightarrow> 'v seismic_tx_envelope \<Rightarrow> address \<Rightarrow> seismic_transaction" where
  "seismic_from_recovered_tx T env sender =
     (let rng_mode = Execution;
          tx_hash = seismic_tx_hash T env;
          base = (case env of
             SeiLegacy stx \<Rightarrow> (let tx = sg_tx stx; m = tx_legacy_methods T in
               seismic_tx_env (LEGACY_TX_TYPE_ID T) sender (tl_gas_limit tx) (tl_gas_price tx)
                 (tr_kind m tx) (tl_value tx) (tl_input tx) (tl_nonce tx) (tl_chain_id tx))
           | SeiEip2930 stx \<Rightarrow> (let tx = sg_tx stx; m = tx_eip2930_methods T in
               seismic_tx_env (EIP2930_TX_TYPE_ID T) sender (t2_gas_limit tx) (t2_gas_price tx)
                 (tr_kind m tx) (t2_value tx) (t2_input tx) (t2_nonce tx) (tr_chain_id m tx))
           | SeiEip1559 stx \<Rightarrow> (let tx = sg_tx stx; m = tx_eip1559_methods T in
               seismic_tx_env (EIP1559_TX_TYPE_ID T) sender (t1_gas_limit tx)
                 (unwrap_or_0 (tr_gas_price m tx))
                 (tr_kind m tx) (t1_value tx) (t1_input tx) (t1_nonce tx) (tr_chain_id m tx))
           | SeiEip4844 stx \<Rightarrow> (let tx = sg_tx stx; m = tx_blob_methods T in
               seismic_tx_env (EIP4844_TX_TYPE_ID T) sender (tr_gas_limit m tx)
                 (unwrap_or_0 (tr_gas_price m tx))
                 (tr_kind m tx) (tr_value m tx) (tr_input m tx) (tr_nonce m tx) (tr_chain_id m tx))
           | SeiEip7702 stx \<Rightarrow> (let tx = sg_tx stx; m = tx_eip7702_methods T in
               seismic_tx_env (EIP7702_TX_TYPE_ID T) sender (t7_gas_limit tx)
                 (unwrap_or_0 (tr_gas_price m tx))
                 (tr_kind m tx) (t7_value tx) (t7_input tx) (t7_nonce tx) (tr_chain_id m tx))
           | SeiSeismic stx \<Rightarrow> (let tx = sg_tx stx; m = tx_seismic_methods T in
               seismic_tx_env (SEISMIC_TX_TYPE_ID T) sender (ts_gas_limit tx)
                 (unwrap_or_0 (tr_gas_price m tx))
                 (tr_kind m tx) (ts_value tx) (ts_input tx) (ts_nonce tx) (tr_chain_id m tx)))
      in \<lparr>stx_base = base, stx_tx_hash = tx_hash, stx_rng_mode = rng_mode\<rparr>)"

definition seismic_from_encoded_tx ::
    "('v, 'sig) tx_lib \<Rightarrow> 'v seismic_tx_envelope \<Rightarrow> address \<Rightarrow> bytes \<Rightarrow> seismic_transaction" where
  "seismic_from_encoded_tx T env sender encoded =
     (let tx_env = seismic_from_recovered_tx T env sender
      in \<lparr>stx_base = stx_base tx_env, stx_tx_hash = stx_tx_hash tx_env, stx_rng_mode = Execution\<rparr>)"

text \<open>\<open>IntoTxEnv<TxEnv>\<close> for a Seismic transaction.\<close>

definition seismic_into_tx_env :: "seismic_transaction \<Rightarrow> tx_env" where
  "seismic_into_tx_env tx = stx_base tx"

section \<open>Recovered and encoded transactions\<close>

record 't recovered =
  rv_inner :: 't
  rv_signer :: address

record 't with_encoded =
  wn_encoded_bytes :: bytes
  wn_value :: 't

text \<open>\<open>ToTxEnv\<close> for the wrappers, over the implementations \<open>from\<close> and \<open>from_encoded\<close> of a transaction type.\<close>

definition recovered_to_tx_env :: "('t \<Rightarrow> address \<Rightarrow> 'env) \<Rightarrow> 't recovered \<Rightarrow> 'env" where
  "recovered_to_tx_env from r = from (rv_inner r) (rv_signer r)"

definition with_encoded_to_tx_env ::
    "('t \<Rightarrow> address \<Rightarrow> bytes \<Rightarrow> 'env) \<Rightarrow> 't recovered with_encoded \<Rightarrow> 'env" where
  "with_encoded_to_tx_env from_encoded w =
     from_encoded (rv_inner (wn_value w)) (rv_signer (wn_value w)) (wn_encoded_bytes w)"

definition either_to_tx_env :: "('l \<Rightarrow> 'env) \<Rightarrow> ('r \<Rightarrow> 'env) \<Rightarrow> 'l + 'r \<Rightarrow> 'env" where
  "either_to_tx_env to_l to_r e = (case e of Inl l \<Rightarrow> to_l l | Inr r \<Rightarrow> to_r r)"

text \<open>The trait \<open>RecoveredTx\<close>, with its implementations.\<close>

record ('r, 't) recovered_tx =
  rtx_tx :: "'r \<Rightarrow> 't"
  rtx_signer :: "'r \<Rightarrow> address"

definition recovered_recovered_tx :: "('t recovered, 't) recovered_tx" where
  "recovered_recovered_tx = \<lparr>rtx_tx = rv_inner, rtx_signer = rv_signer\<rparr>"

definition with_encoded_recovered_tx :: "('r, 't) recovered_tx \<Rightarrow> ('r with_encoded, 't) recovered_tx" where
  "with_encoded_recovered_tx d =
     \<lparr>rtx_tx = (\<lambda>w. rtx_tx d (wn_value w)), rtx_signer = (\<lambda>w. rtx_signer d (wn_value w))\<rparr>"

definition either_recovered_tx ::
    "('l, 't) recovered_tx \<Rightarrow> ('r, 't) recovered_tx \<Rightarrow> ('l + 'r, 't) recovered_tx" where
  "either_recovered_tx dl dr =
     \<lparr>rtx_tx = (\<lambda>e. case e of Inl l \<Rightarrow> rtx_tx dl l | Inr r \<Rightarrow> rtx_tx dr r),
      rtx_signer = (\<lambda>e. case e of Inl l \<Rightarrow> rtx_signer dl l | Inr r \<Rightarrow> rtx_signer dr r)\<rparr>"

text \<open>What an executor sees of an argument: \<open>ExecutableTx\<close> joins \<open>RecoveredTx\<close> and \<open>ToTxEnv\<close>.\<close>

definition executable_of :: "('r, 't) recovered_tx \<Rightarrow> ('r \<Rightarrow> 'env) \<Rightarrow> 'r \<Rightarrow> ('t, 'env) executable_tx" where
  "executable_of d to_tx_env r =
     \<lparr>xt_tx = rtx_tx d r, xt_signer = rtx_signer d r, xt_to_tx_env = to_tx_env r\<rparr>"


section \<open>Properties\<close>

lemmas eth_conversion_defs = tx_env_from_legacy_def tx_env_from_eip2930_def tx_env_from_eip1559_def
  tx_env_from_eip4844_def tx_env_from_eip7702_def

lemmas eth_encoded_defs = tx_env_from_encoded_legacy_def tx_env_from_encoded_eip2930_def
  tx_env_from_encoded_eip1559_def tx_env_from_encoded_eip4844_def tx_env_from_encoded_eip7702_def

text \<open>Ethereum and Seismic conversions do not look at the encoded bytes.\<close>

lemma tx_env_from_encoded_eq: "tx_env_from_encoded_envelope T env s b = tx_env_from_envelope T env s"
  by (simp add: tx_env_from_encoded_envelope_def tx_env_from_envelope_def eth_encoded_defs
      split: ethereum_tx_envelope.splits)

lemma seismic_from_encoded_eq: "seismic_from_encoded_tx T env s b = seismic_from_recovered_tx T env s"
  by (simp add: seismic_from_encoded_tx_def seismic_from_recovered_tx_def Let_def)

text \<open>To an executor a recovered transaction and the same transaction with its encoded bytes are the
  same argument: same transaction, signer and environment, for Ethereum and Seismic envelopes with
  any bytes, and for OP envelopes exactly when the bytes are the transaction's encoding. An argument
  wrapped in an \<open>Either\<close> is the wrapped one.\<close>

theorem encoded_argument_same:
  fixes we :: "'v ethereum_tx_envelope recovered with_encoded"
    and ws :: "'v seismic_tx_envelope recovered with_encoded"
    and wo :: "op_tx_envelope recovered with_encoded"
  shows "executable_of (with_encoded_recovered_tx recovered_recovered_tx)
      (with_encoded_to_tx_env (tx_env_from_encoded_envelope T)) we =
      executable_of recovered_recovered_tx (recovered_to_tx_env (tx_env_from_envelope T)) (wn_value we)
    \<and> executable_of (with_encoded_recovered_tx recovered_recovered_tx)
      (with_encoded_to_tx_env (seismic_from_encoded_tx T)) ws =
      executable_of recovered_recovered_tx (recovered_to_tx_env (seismic_from_recovered_tx T)) (wn_value ws)
    \<and> (executable_of (with_encoded_recovered_tx recovered_recovered_tx)
        (with_encoded_to_tx_env (op_transaction_from_encoded T d0)) wo =
       executable_of recovered_recovered_tx
        (recovered_to_tx_env (op_transaction_from_recovered T d0)) (wn_value wo) \<longleftrightarrow>
       wn_encoded_bytes wo = op_encoded_2718 T (rv_inner (wn_value wo)))
    \<and> executable_of (either_recovered_tx dl dr) (either_to_tx_env tl tr) e =
       (case e of Inl l \<Rightarrow> executable_of dl tl l | Inr r \<Rightarrow> executable_of dr tr r)"
  by (auto simp: executable_of_def with_encoded_recovered_tx_def recovered_recovered_tx_def
      with_encoded_to_tx_env_def recovered_to_tx_env_def tx_env_from_encoded_eq seismic_from_encoded_eq
      op_transaction_from_encoded_def op_transaction_from_recovered_def either_recovered_tx_def
      either_to_tx_env_def Let_def split: sum.splits)

text \<open>
  The documented behaviour of the libraries: type bytes of EIP-2718, the default environment, and
  the accessors of \<open>Transaction\<close>, which return the field of that name, where \<open>gas_price\<close> is \<open>None\<close>
  for the transaction types that have a fee cap instead.
\<close>

definition type_byte_laws :: "('v, 'sig) tx_lib \<Rightarrow> bool" where
  "type_byte_laws T \<longleftrightarrow>
     LEGACY_TX_TYPE_ID T = 0 \<and> EIP2930_TX_TYPE_ID T = 1 \<and> EIP1559_TX_TYPE_ID T = 2
     \<and> EIP4844_TX_TYPE_ID T = 3 \<and> EIP7702_TX_TYPE_ID T = 4
     \<and> (\<forall>t. tr_ty (tx_legacy_methods T) t = 0) \<and> (\<forall>t. tr_ty (tx_eip2930_methods T) t = 1)
     \<and> (\<forall>t. tr_ty (tx_eip1559_methods T) t = 2) \<and> (\<forall>t. tr_ty (tx_eip4844_methods T) t = 3)
     \<and> (\<forall>t. tr_ty (tx_eip7702_methods T) t = 4)"

definition accessor_laws :: "('v, 'sig) tx_lib \<Rightarrow> bool" where
  "accessor_laws T \<longleftrightarrow>
     (\<forall>t. tr_kind (tx_legacy_methods T) t = tl_to t)
     \<and> (\<forall>t. tr_kind (tx_eip2930_methods T) t = t2_to t
          \<and> tr_chain_id (tx_eip2930_methods T) t = Some (t2_chain_id t))
     \<and> (\<forall>t. tr_gas_price (tx_eip1559_methods T) t = None \<and> tr_kind (tx_eip1559_methods T) t = t1_to t
          \<and> tr_chain_id (tx_eip1559_methods T) t = Some (t1_chain_id t))
     \<and> (\<forall>v. tr_gas_price (tx_blob_methods T) v = None
          \<and> tr_gas_limit (tx_blob_methods T) v = t4_gas_limit (as_eip4844 T v)
          \<and> tr_kind (tx_blob_methods T) v = Call (t4_to (as_eip4844 T v))
          \<and> tr_value (tx_blob_methods T) v = t4_value (as_eip4844 T v)
          \<and> tr_input (tx_blob_methods T) v = t4_input (as_eip4844 T v)
          \<and> tr_nonce (tx_blob_methods T) v = t4_nonce (as_eip4844 T v)
          \<and> tr_chain_id (tx_blob_methods T) v = Some (t4_chain_id (as_eip4844 T v)))
     \<and> (\<forall>t. tr_gas_price (tx_eip7702_methods T) t = None
          \<and> tr_kind (tx_eip7702_methods T) t = Call (t7_to t)
          \<and> tr_chain_id (tx_eip7702_methods T) t = Some (t7_chain_id t))
     \<and> (\<forall>t. tr_gas_price (tx_seismic_methods T) t = Some (ts_gas_price t)
          \<and> tr_kind (tx_seismic_methods T) t = ts_to t
          \<and> tr_chain_id (tx_seismic_methods T) t = Some (ts_chain_id t))"

definition default_env_law :: "('v, 'sig) tx_lib \<Rightarrow> bool" where
  "default_env_law T \<longleftrightarrow>
     te_access_list (default_tx_env T) = [] \<and> te_gas_priority_fee (default_tx_env T) = None
     \<and> te_blob_hashes (default_tx_env T) = [] \<and> te_max_fee_per_blob_gas (default_tx_env T) = 0
     \<and> te_authorization_list (default_tx_env T) = []"

text \<open>C21: The environment of a Seismic envelope, compared with the one of the same Ethereum transaction:
  a legacy transaction is converted alike, a Seismic one like a legacy one. Of the others the access
  list is dropped; of fee-cap transactions also the priority fee, and the gas price becomes zero; of
  blob transactions the blobs and their fee; of EIP-7702 transactions the authorizations. The random
  numbers of the result are in execution mode and its hash is the envelope's.\<close>

theorem seismic_conversion_compared:
  assumes "type_byte_laws T" and "accessor_laws T" and "default_env_law T"
  shows "seismic_from_recovered_tx T env sender =
    \<lparr>stx_base =
       (case env of
          SeiLegacy s \<Rightarrow> tx_env_from_legacy T (sg_tx s) sender
        | SeiEip2930 s \<Rightarrow> (tx_env_from_eip2930 T (sg_tx s) sender)\<lparr>te_access_list := []\<rparr>
        | SeiEip1559 s \<Rightarrow> (tx_env_from_eip1559 T (sg_tx s) sender)
            \<lparr>te_gas_price := 0, te_gas_priority_fee := None, te_access_list := []\<rparr>
        | SeiEip4844 s \<Rightarrow> (tx_env_from_eip4844 T (as_eip4844 T (sg_tx s)) sender)
            \<lparr>te_gas_price := 0, te_gas_priority_fee := None, te_access_list := [],
             te_blob_hashes := [], te_max_fee_per_blob_gas := 0\<rparr>
        | SeiEip7702 s \<Rightarrow> (tx_env_from_eip7702 T (sg_tx s) sender)
            \<lparr>te_gas_price := 0, te_gas_priority_fee := None, te_access_list := [],
             te_authorization_list := []\<rparr>
        | SeiSeismic s \<Rightarrow> (tx_env_from_legacy T
            \<lparr>tl_chain_id = Some (ts_chain_id (sg_tx s)), tl_nonce = ts_nonce (sg_tx s),
             tl_gas_price = ts_gas_price (sg_tx s), tl_gas_limit = ts_gas_limit (sg_tx s),
             tl_to = ts_to (sg_tx s), tl_value = ts_value (sg_tx s), tl_input = ts_input (sg_tx s)\<rparr> sender)
            \<lparr>te_tx_type := SEISMIC_TX_TYPE_ID T\<rparr>),
     stx_tx_hash = seismic_tx_hash T env, stx_rng_mode = Execution\<rparr>"
  using assms
  by (simp add: seismic_from_recovered_tx_def eth_conversion_defs seismic_tx_env_def unwrap_or_0_def
      type_byte_laws_def accessor_laws_def default_env_law_def Let_def split: seismic_tx_envelope.splits)


text \<open>A library for the witnesses: blobs are the plain EIP-4844 transactions, a signature is the address it recovers to.\<close>

definition sample_tx_lib :: "(tx_eip4844, address) tx_lib" where
  "sample_tx_lib =
     \<lparr>tx_legacy_methods = \<lparr>tr_ty = (\<lambda>_. 0), tr_gas_limit = tl_gas_limit, tr_gas_price = (\<lambda>t. Some (tl_gas_price t)),
        tr_kind = tl_to, tr_value = tl_value, tr_input = tl_input, tr_nonce = tl_nonce, tr_chain_id = tl_chain_id\<rparr>,
      tx_eip2930_methods = \<lparr>tr_ty = (\<lambda>_. 1), tr_gas_limit = t2_gas_limit, tr_gas_price = (\<lambda>t. Some (t2_gas_price t)),
        tr_kind = t2_to, tr_value = t2_value, tr_input = t2_input, tr_nonce = t2_nonce,
        tr_chain_id = (\<lambda>t. Some (t2_chain_id t))\<rparr>,
      tx_eip1559_methods = \<lparr>tr_ty = (\<lambda>_. 2), tr_gas_limit = t1_gas_limit, tr_gas_price = (\<lambda>_. None),
        tr_kind = t1_to, tr_value = t1_value, tr_input = t1_input, tr_nonce = t1_nonce,
        tr_chain_id = (\<lambda>t. Some (t1_chain_id t))\<rparr>,
      tx_eip4844_methods = \<lparr>tr_ty = (\<lambda>_. 3), tr_gas_limit = t4_gas_limit, tr_gas_price = (\<lambda>_. None),
        tr_kind = (\<lambda>t. Call (t4_to t)), tr_value = t4_value, tr_input = t4_input, tr_nonce = t4_nonce,
        tr_chain_id = (\<lambda>t. Some (t4_chain_id t))\<rparr>,
      tx_blob_methods = \<lparr>tr_ty = (\<lambda>_. 3), tr_gas_limit = t4_gas_limit, tr_gas_price = (\<lambda>_. None),
        tr_kind = (\<lambda>t. Call (t4_to t)), tr_value = t4_value, tr_input = t4_input, tr_nonce = t4_nonce,
        tr_chain_id = (\<lambda>t. Some (t4_chain_id t))\<rparr>,
      tx_eip7702_methods = \<lparr>tr_ty = (\<lambda>_. 4), tr_gas_limit = t7_gas_limit, tr_gas_price = (\<lambda>_. None),
        tr_kind = (\<lambda>t. Call (t7_to t)), tr_value = t7_value, tr_input = t7_input, tr_nonce = t7_nonce,
        tr_chain_id = (\<lambda>t. Some (t7_chain_id t))\<rparr>,
      tx_deposit_methods = \<lparr>tr_ty = (\<lambda>_. 126), tr_gas_limit = td_gas_limit, tr_gas_price = (\<lambda>_. None),
        tr_kind = td_to, tr_value = td_value, tr_input = td_input, tr_nonce = (\<lambda>_. 0), tr_chain_id = (\<lambda>_. None)\<rparr>,
      tx_seismic_methods = \<lparr>tr_ty = (\<lambda>_. 74), tr_gas_limit = ts_gas_limit, tr_gas_price = (\<lambda>t. Some (ts_gas_price t)),
        tr_kind = ts_to, tr_value = ts_value, tr_input = ts_input, tr_nonce = ts_nonce,
        tr_chain_id = (\<lambda>t. Some (ts_chain_id t))\<rparr>,
      LEGACY_TX_TYPE_ID = 0, EIP2930_TX_TYPE_ID = 1, EIP1559_TX_TYPE_ID = 2, EIP4844_TX_TYPE_ID = 3,
      EIP7702_TX_TYPE_ID = 4, SEISMIC_TX_TYPE_ID = 74,
      default_tx_env = \<lparr>te_tx_type = 0, te_caller = 0, te_gas_limit = 16777216, te_gas_price = 0,
        te_kind = Call 0, te_value = 0, te_data = [], te_nonce = 0, te_chain_id = Some 1,
        te_access_list = [], te_gas_priority_fee = None, te_blob_hashes = [],
        te_max_fee_per_blob_gas = 0, te_authorization_list = []\<rparr>,
      as_eip4844 = (\<lambda>t. t), auth_signature = (\<lambda>a. if sa_y_parity a \<le> 1 then Some (ucast (sa_r a)) else None),
      auth_signature_hash = (\<lambda>_. 0), recover_signer = (\<lambda>sig h. if sig = 0 then None else Some sig),
      seismic_tx_hash = (\<lambda>_. 0), op_encoded_2718 = (\<lambda>_. [])\<rparr>"

lemma sample_tx_lib_laws:
  "type_byte_laws sample_tx_lib" "accessor_laws sample_tx_lib" "default_env_law sample_tx_lib"
  by (simp_all add: type_byte_laws_def accessor_laws_def default_env_law_def sample_tx_lib_def)

definition sample_1559 :: tx_eip1559 where
  "sample_1559 =
     \<lparr>t1_chain_id = 5, t1_nonce = 2, t1_gas_limit = 100, t1_to = Create, t1_value = 0, t1_input = [1],
      t1_max_fee_per_gas = 30, t1_max_priority_fee_per_gas = 3, t1_access_list = [(7, [8])]\<rparr>"

lemma seismic_conversion_compared_witness:
  "te_gas_price (stx_base (seismic_from_recovered_tx sample_tx_lib
      (SeiEip1559 \<lparr>sg_tx = sample_1559, sg_hash = 0\<rparr>) 9)) = 0
   \<and> te_gas_price (tx_env_from_eip1559 sample_tx_lib sample_1559 9) = 30
   \<and> te_access_list (tx_env_from_eip1559 sample_tx_lib sample_1559 9) = [(7, [8])]"
  unfolding seismic_conversion_compared [OF sample_tx_lib_laws]
  by (simp add: eth_conversion_defs sample_1559_def)

section \<open>Nothing of an Ethereum transaction is lost\<close>

text \<open>
  What an envelope signs over: its payload without signature and hash, with the authorizations of an
  EIP-7702 transaction as their signed tuple and recovered authority.
\<close>

datatype tx_payload =
    PayloadLegacy tx_legacy | Payload2930 tx_eip2930 | Payload1559 tx_eip1559 | Payload4844 tx_eip4844
  | Payload7702 tx_eip7702 "(signed_authorization + recovered_authorization) list"

definition payload_of :: "('v, 'sig) tx_lib \<Rightarrow> 'v ethereum_tx_envelope \<Rightarrow> tx_payload" where
  "payload_of T env =
     (case env of
        EthLegacy s \<Rightarrow> PayloadLegacy (sg_tx s)
      | EthEip2930 s \<Rightarrow> Payload2930 (sg_tx s)
      | EthEip1559 s \<Rightarrow> Payload1559 (sg_tx s)
      | EthEip4844 s \<Rightarrow> Payload4844 (as_eip4844 T (sg_tx s))
      | EthEip7702 s \<Rightarrow> Payload7702 ((sg_tx s)\<lparr>t7_authorization_list := []\<rparr>)
          (map (recover_authorization T) (t7_authorization_list (sg_tx s))))"

text \<open>Reading the payload back from an environment, by its type byte.\<close>

definition payload_from_tx_env :: "tx_env \<Rightarrow> tx_payload" where
  "payload_from_tx_env e =
     (let to = (case te_kind e of Call a \<Rightarrow> a | Create \<Rightarrow> 0); chain = the (te_chain_id e);
          prio = the (te_gas_priority_fee e)
      in if te_tx_type e = 0 then PayloadLegacy
           \<lparr>tl_chain_id = te_chain_id e, tl_nonce = te_nonce e, tl_gas_price = te_gas_price e,
            tl_gas_limit = te_gas_limit e, tl_to = te_kind e, tl_value = te_value e, tl_input = te_data e\<rparr>
         else if te_tx_type e = 1 then Payload2930
           \<lparr>t2_chain_id = chain, t2_nonce = te_nonce e, t2_gas_price = te_gas_price e,
            t2_gas_limit = te_gas_limit e, t2_to = te_kind e, t2_value = te_value e,
            t2_access_list = te_access_list e, t2_input = te_data e\<rparr>
         else if te_tx_type e = 2 then Payload1559
           \<lparr>t1_chain_id = chain, t1_nonce = te_nonce e, t1_gas_limit = te_gas_limit e, t1_to = te_kind e,
            t1_value = te_value e, t1_input = te_data e, t1_max_fee_per_gas = te_gas_price e,
            t1_max_priority_fee_per_gas = prio, t1_access_list = te_access_list e\<rparr>
         else if te_tx_type e = 3 then Payload4844
           \<lparr>t4_chain_id = chain, t4_nonce = te_nonce e, t4_gas_limit = te_gas_limit e, t4_to = to,
            t4_value = te_value e, t4_input = te_data e, t4_max_fee_per_gas = te_gas_price e,
            t4_max_priority_fee_per_gas = prio, t4_access_list = te_access_list e,
            t4_blob_versioned_hashes = te_blob_hashes e, t4_max_fee_per_blob_gas = te_max_fee_per_blob_gas e\<rparr>
         else Payload7702
           \<lparr>t7_chain_id = chain, t7_nonce = te_nonce e, t7_gas_limit = te_gas_limit e, t7_to = to,
            t7_value = te_value e, t7_input = te_data e, t7_max_fee_per_gas = te_gas_price e,
            t7_max_priority_fee_per_gas = prio, t7_access_list = te_access_list e,
            t7_authorization_list = []\<rparr> (te_authorization_list e))"

text \<open>C23: The environment of an Ethereum transaction determines the transaction: its sender, and from the
  type byte on its whole payload can be read back, with the authorizations of an EIP-7702 transaction
  as their tuples and recovered authorities; encoded bytes add nothing.\<close>

theorem eth_conversion_lossless:
  assumes "type_byte_laws T"
  shows "payload_from_tx_env (tx_env_from_envelope T env sender) = payload_of T env
    \<and> te_caller (tx_env_from_envelope T env sender) = sender
    \<and> tx_env_from_encoded_envelope T env sender b = tx_env_from_envelope T env sender"
  using assms
  by (simp add: payload_from_tx_env_def payload_of_def tx_env_from_envelope_def eth_conversion_defs
      type_byte_laws_def Let_def tx_env_from_encoded_eq split: ethereum_tx_envelope.splits)

lemma eth_conversion_lossless_witness:
  "payload_from_tx_env (tx_env_from_envelope sample_tx_lib
      (EthEip1559 \<lparr>sg_tx = sample_1559, sg_hash = 0\<rparr>) 9) = Payload1559 sample_1559"
  using eth_conversion_lossless [OF sample_tx_lib_laws(1), of "EthEip1559 \<lparr>sg_tx = sample_1559, sg_hash = 0\<rparr>" 9]
  by (simp add: payload_of_def)

text \<open>C24: An EIP-7702 transaction hands the EVM one recovered authorization for each one it carries, in
  order, with the signed tuple unchanged; its authority is valid, and then the signer, exactly when
  the signature is well formed and a signer can be recovered for the tuple's hash.\<close>

theorem eip7702_authorizations:
  "length (te_authorization_list (tx_env_from_eip7702 T tx s)) = length (t7_authorization_list tx)
   \<and> (\<forall>i < length (t7_authorization_list tx).
        (let auth = t7_authorization_list tx ! i
         in \<exists>authority. te_authorization_list (tx_env_from_eip7702 T tx s) ! i =
              Inr (RecoveredAuthorization (sa_inner auth) authority)
            \<and> (\<forall>a. authority = Valid a \<longleftrightarrow>
                 (\<exists>sg. auth_signature T auth = Some sg
                    \<and> recover_signer T sg (auth_signature_hash T auth) = Some a))))"
  by (auto simp: tx_env_from_eip7702_def recover_authorization_def Let_def Option.bind_eq_Some_conv
      split: option.splits)

definition sample_auth :: "u8 \<Rightarrow> signed_authorization" where
  "sample_auth p = \<lparr>sa_inner = \<lparr>au_chain_id = 1, au_address = 4, au_nonce = 0\<rparr>, sa_y_parity = p, sa_r = 77, sa_s = 1\<rparr>"

definition sample_7702 :: tx_eip7702 where
  "sample_7702 =
     \<lparr>t7_chain_id = 1, t7_nonce = 0, t7_gas_limit = 100, t7_to = 3, t7_value = 0, t7_input = [],
      t7_max_fee_per_gas = 1, t7_max_priority_fee_per_gas = 1, t7_access_list = [],
      t7_authorization_list = [sample_auth 0, sample_auth 2]\<rparr>"

lemma eip7702_authorizations_witness:
  "\<exists>authority. te_authorization_list (tx_env_from_eip7702 sample_tx_lib sample_7702 9) ! 1 =
      Inr (RecoveredAuthorization (sa_inner (sample_auth 2)) authority) \<and> (\<forall>a. authority \<noteq> Valid a)"
proof -
  have "length (t7_authorization_list sample_7702) = 2" "t7_authorization_list sample_7702 ! 1 = sample_auth 2"
    by (simp_all add: sample_7702_def)
  moreover have "auth_signature sample_tx_lib (sample_auth 2) = None"
    by (simp add: sample_tx_lib_def sample_auth_def word_le_nat_alt)
  ultimately show ?thesis
    using eip7702_authorizations [of sample_tx_lib sample_7702 9]
    by (simp add: Let_def) (metis One_nat_def lessI numeral_2_eq_2 option.distinct(1))
qed

section \<open>Environments fit their type byte\<close>

text \<open>
  The fields that an environment may use, by its type byte: access lists from EIP-2930 on, a priority
  fee for the fee-cap types and only those, blobs for EIP-4844 and authorizations for EIP-7702, where
  no contract can be created; the four typed transactions of Ethereum are bound to a chain.
\<close>

definition env_well_typed :: "tx_env \<Rightarrow> bool" where
  "env_well_typed e \<longleftrightarrow>
     (te_tx_type e \<notin> {1, 2, 3, 4} \<longrightarrow> te_access_list e = [])
     \<and> (te_gas_priority_fee e \<noteq> None \<longleftrightarrow> te_tx_type e \<in> {2, 3, 4})
     \<and> (te_tx_type e \<noteq> 3 \<longrightarrow> te_blob_hashes e = [] \<and> te_max_fee_per_blob_gas e = 0)
     \<and> (te_tx_type e \<noteq> 4 \<longrightarrow> te_authorization_list e = [])
     \<and> (te_tx_type e \<in> {3, 4} \<longrightarrow> te_kind e \<noteq> Create)
     \<and> (te_tx_type e \<in> {1, 2, 3, 4} \<longrightarrow> te_chain_id e \<noteq> None)"

text \<open>The type bytes of deposits and of Seismic transactions are none of Ethereum's.\<close>

definition other_type_laws :: "('v, 'sig) tx_lib \<Rightarrow> bool" where
  "other_type_laws T \<longleftrightarrow> (\<forall>t. tr_ty (tx_deposit_methods T) t \<notin> {0, 1, 2, 3, 4})
     \<and> SEISMIC_TX_TYPE_ID T \<notin> {0, 1, 2, 3, 4}"

text \<open>C22: The conversions produce environments that fit their type byte: every Ethereum envelope and every
  OP envelope, deposits included, with the encoded bytes kept for OP. A Seismic envelope does so
  exactly when it is none of the three fee-cap types: those keep their type byte and lose the priority
  fee that belongs to it.\<close>

theorem converted_env_well_typed:
  assumes "type_byte_laws T" and "accessor_laws T" and "default_env_law T" and "other_type_laws T"
  shows "env_well_typed (tx_env_from_envelope T eth sender)
    \<and> env_well_typed (otx_base (op_transaction_from_recovered T d0 op sender))
    \<and> otx_enveloped_tx (op_transaction_from_recovered T d0 op sender) = Some (op_encoded_2718 T op)
    \<and> (env_well_typed (seismic_into_tx_env (seismic_from_recovered_tx T sei sender)) \<longleftrightarrow>
        (case sei of SeiEip1559 _ \<Rightarrow> False | SeiEip4844 _ \<Rightarrow> False | SeiEip7702 _ \<Rightarrow> False | _ \<Rightarrow> True))"
proof (intro conjI)
  note laws = assms(1) [unfolded type_byte_laws_def] assms(3) [unfolded default_env_law_def]
    assms(4) [unfolded other_type_laws_def]
  show "env_well_typed (tx_env_from_envelope T eth sender)"
    using laws
    by (cases eth) (simp_all add: env_well_typed_def tx_env_from_envelope_def eth_conversion_defs)
  show "env_well_typed (otx_base (op_transaction_from_recovered T d0 op sender))"
    using laws
    by (cases op) (simp_all add: env_well_typed_def op_transaction_from_recovered_def
        op_transaction_from_encoded_def tx_env_from_op_envelope_def tx_env_from_deposit_def
        eth_conversion_defs Let_def)
  show "otx_enveloped_tx (op_transaction_from_recovered T d0 op sender) = Some (op_encoded_2718 T op)"
    by (simp add: op_transaction_from_recovered_def op_transaction_from_encoded_def Let_def)
  show "env_well_typed (seismic_into_tx_env (seismic_from_recovered_tx T sei sender)) \<longleftrightarrow>
      (case sei of SeiEip1559 _ \<Rightarrow> False | SeiEip4844 _ \<Rightarrow> False | SeiEip7702 _ \<Rightarrow> False | _ \<Rightarrow> True)"
    using laws assms(2) [unfolded accessor_laws_def]
    by (cases sei) (simp_all add: env_well_typed_def seismic_into_tx_env_def seismic_from_recovered_tx_def
        seismic_tx_env_def unwrap_or_0_def Let_def)
qed

definition sample_2930 :: tx_eip2930 where
  "sample_2930 =
     \<lparr>t2_chain_id = 5, t2_nonce = 2, t2_gas_price = 7, t2_gas_limit = 100, t2_to = Create, t2_value = 0,
      t2_access_list = [(7, [8])], t2_input = [1]\<rparr>"

lemma converted_env_well_typed_witness:
  "env_well_typed (tx_env_from_envelope sample_tx_lib (EthEip1559 \<lparr>sg_tx = sample_1559, sg_hash = 0\<rparr>) 9)
   \<and> \<not> env_well_typed (seismic_into_tx_env
        (seismic_from_recovered_tx sample_tx_lib (SeiEip1559 \<lparr>sg_tx = sample_1559, sg_hash = 0\<rparr>) 9))
   \<and> env_well_typed (seismic_into_tx_env
        (seismic_from_recovered_tx sample_tx_lib (SeiEip2930 \<lparr>sg_tx = sample_2930, sg_hash = 0\<rparr>) 9))"
proof -
  have "other_type_laws sample_tx_lib"
    by (simp add: other_type_laws_def sample_tx_lib_def)
  note typed = converted_env_well_typed [OF sample_tx_lib_laws this]
  show ?thesis
    using typed [of "EthEip1559 \<lparr>sg_tx = sample_1559, sg_hash = 0\<rparr>" 9 _ _ "SeiEip1559 \<lparr>sg_tx = sample_1559, sg_hash = 0\<rparr>"]
      typed [of _ 9 _ _ "SeiEip2930 \<lparr>sg_tx = sample_2930, sg_hash = 0\<rparr>"]
    by simp
qed

end
