(* ===== verification/SeismicExecutor.thy ===== *)
theory SeismicExecutor
  imports EthTransactions TxConv
begin

text \<open>
  \<open>crates/seismic-evm/src/block/mod.rs\<close>: the Seismic block executor, which decrypts the input of a
  transaction and hands it to the Ethereum executor, and its factory. A Seismic block is shown to be
  the Ethereum block of the decrypted transactions, so what holds of the one holds of the other.
\<close>

section \<open>The executor\<close>

text \<open>
  What is used of other crates: the key for transaction inputs among the purpose keys of the
  enclave, the decryption of a transaction's input (\<open>InputDecryptionElements::plaintext_copy\<close>), and
  the conversion of a recovered transaction into the environment of the EVM.
\<close>

record ('keys, 'sk, 'tx, 'env, 'dec) seismic_lib =
  ml_tx_io_sk :: "'keys \<Rightarrow> 'sk"
  ml_plaintext_copy :: "'sk \<Rightarrow> 'tx \<Rightarrow> 'dec + 'tx"
  ml_from_recovered_tx :: "'tx \<Rightarrow> address \<Rightarrow> 'env"

record ('evm, 'hk, 'tx, 'halt, 'rcpt, 'keys) seismic_block_executor =
  sx_inner :: "('evm, 'hk, 'tx, 'halt, 'rcpt) eth_block_executor"
  sx_purpose_keys :: 'keys

definition seismic_block_executor_new ::
    "'evm \<Rightarrow> eth_block_execution_ctx \<Rightarrow> eth_executor_spec \<Rightarrow> ('tx, 'evm, 'halt, 'rcpt) receipt_builder
      \<Rightarrow> 'keys \<Rightarrow> ('evm, 'hk, 'tx, 'halt, 'rcpt, 'keys) seismic_block_executor" where
  "seismic_block_executor_new evm ctx spec receipt_builder purpose_keys =
     \<lparr>sx_inner = eth_block_executor_new evm ctx spec receipt_builder, sx_purpose_keys = purpose_keys\<rparr>"

text \<open>Methods of the inner executor, alone and beside the caller's state.\<close>

definition on_inner_executor ::
    "(('evm, 'hk, 'tx, 'halt, 'rcpt) eth_block_executor, 'e, 'a) step
      \<Rightarrow> (('evm, 'hk, 'tx, 'halt, 'rcpt, 'keys) seismic_block_executor, 'e, 'a) step" where
  "on_inner_executor = zoom sx_inner (\<lambda>i x. x\<lparr>sx_inner := i\<rparr>)"

definition on_inner_executor_with ::
    "(('evm, 'hk, 'tx, 'halt, 'rcpt) eth_block_executor \<times> 'c, 'e, 'a) step
      \<Rightarrow> (('evm, 'hk, 'tx, 'halt, 'rcpt, 'keys) seismic_block_executor \<times> 'c, 'e, 'a) step" where
  "on_inner_executor_with =
     zoom (\<lambda>p. (sx_inner (fst p), snd p)) (\<lambda>q p. ((fst p)\<lparr>sx_inner := fst q\<rparr>, snd q))"

definition seismic_apply_pre_execution_changes ::
    "('tx, 'rcpt, 'db, 'dberr, 'err, 'halt, 'hk, 'rq) executor_lib
      \<Rightarrow> ('evm, 'db, 'insp, 'pre, 'spec, 'env, 'halt, 'err) evm_dict
      \<Rightarrow> (('evm, 'hk, 'tx, 'halt, 'rcpt, 'keys) seismic_block_executor,
          ('inv, 'rest, 'dec, 'o) block_execution_error abort, unit) step" where
  "seismic_apply_pre_execution_changes L E = on_inner_executor (eth_apply_pre_execution_changes L E)"

text \<open>\<open>Recovered::new_unchecked(plaintext_base, *signer)\<close> as an argument of the inner executor.\<close>

definition recovered_plaintext ::
    "('keys, 'sk, 'tx, 'env, 'dec) seismic_lib \<Rightarrow> 'tx \<Rightarrow> address \<Rightarrow> ('tx, 'env) executable_tx" where
  "recovered_plaintext M plaintext signer =
     executable_of recovered_recovered_tx (recovered_to_tx_env (ml_from_recovered_tx M))
       \<lparr>rv_inner = plaintext, rv_signer = signer\<rparr>"

definition seismic_execute_transaction_with_commit_condition ::
    "('keys, 'sk, 'tx, 'env, 'dec) seismic_lib
      \<Rightarrow> ('tx, 'rcpt, 'db, 'dberr, ('inv, 'rest) evm_error, 'halt, 'hk, 'rq) executor_lib
      \<Rightarrow> ('evm, 'db, 'insp, 'pre, 'spec, 'env, 'halt, ('inv, 'rest) evm_error) evm_dict
      \<Rightarrow> ('tx, 'env) executable_tx \<Rightarrow> ('halt execution_result \<Rightarrow> 'c \<Rightarrow> commit_changes \<times> 'c)
      \<Rightarrow> (('evm, 'hk, 'tx, 'halt, 'rcpt, 'keys) seismic_block_executor \<times> 'c,
          ('inv, 'rest, 'dec, 'o) block_execution_error abort, u64 option) step" where
  "seismic_execute_transaction_with_commit_condition M L E tx f s =
     (case ml_plaintext_copy M (ml_tx_io_sk M (sx_purpose_keys (fst s))) (xt_tx tx) of
        Inl e \<Rightarrow> (Inl (Error (Internal (FailedToDecryptSeismicTx e))), s)
      | Inr plaintext_base \<Rightarrow>
          on_inner_executor_with
            (eth_execute_transaction_with_commit_condition L E
               (recovered_plaintext M plaintext_base (xt_signer tx)) f) s)"

text \<open>The overridden \<open>execute_transaction_with_result_closure\<close>, over that of the inner executor.\<close>

definition seismic_execute_transaction_with_result_closure ::
    "('keys, 'sk, 'tx, 'env, 'dec) seismic_lib
      \<Rightarrow> ('tx, 'rcpt, 'db, 'dberr, ('inv, 'rest) evm_error, 'halt, 'hk, 'rq) executor_lib
      \<Rightarrow> ('evm, 'db, 'insp, 'pre, 'spec, 'env, 'halt, ('inv, 'rest) evm_error) evm_dict
      \<Rightarrow> ('tx, 'env) executable_tx \<Rightarrow> ('halt execution_result \<Rightarrow> 'c \<Rightarrow> 'c)
      \<Rightarrow> (('evm, 'hk, 'tx, 'halt, 'rcpt, 'keys) seismic_block_executor \<times> 'c,
          ('inv, 'rest, 'dec, 'o) block_execution_error abort, u64) step" where
  "seismic_execute_transaction_with_result_closure M L E tx f s =
     (case ml_plaintext_copy M (ml_tx_io_sk M (sx_purpose_keys (fst s))) (xt_tx tx) of
        Inl e \<Rightarrow> (Inl (Error (Internal (FailedToDecryptSeismicTx e))), s)
      | Inr plaintext_base \<Rightarrow>
          on_inner_executor_with
            (bx_execute_transaction_with_result_closure (eth_block_executor_dict L E)
               (recovered_plaintext M plaintext_base (xt_signer tx)) f) s)"

definition seismic_finish_block ::
    "('tx, 'rcpt, 'db, 'dberr, 'err, 'halt, 'hk, 'rq) executor_lib
      \<Rightarrow> ('evm, 'db, 'insp, 'pre, 'spec, 'env, 'halt, 'err) evm_dict
      \<Rightarrow> (('evm, 'hk, 'tx, 'halt, 'rcpt, 'keys) seismic_block_executor,
          ('inv, 'rest, 'dec, 'o) block_execution_error abort,
          'evm \<times> ('rcpt, 'rq) block_execution_result) step" where
  "seismic_finish_block L E = on_inner_executor (eth_finish_block L E)"

definition seismic_set_state_hook ::
    "'hk option \<Rightarrow> ('evm, 'hk, 'tx, 'halt, 'rcpt, 'keys) seismic_block_executor
      \<Rightarrow> ('evm, 'hk, 'tx, 'halt, 'rcpt, 'keys) seismic_block_executor" where
  "seismic_set_state_hook hook x = x\<lparr>sx_inner := eth_set_state_hook hook (sx_inner x)\<rparr>"

definition seismic_executor_evm_mut ::
    "'evm \<Rightarrow> ('evm, 'hk, 'tx, 'halt, 'rcpt, 'keys) seismic_block_executor
      \<Rightarrow> ('evm, 'hk, 'tx, 'halt, 'rcpt, 'keys) seismic_block_executor" where
  "seismic_executor_evm_mut evm x = x\<lparr>sx_inner := eth_evm_mut evm (sx_inner x)\<rparr>"

definition seismic_block_executor_dict ::
    "('keys, 'sk, 'tx, 'env, 'dec) seismic_lib
      \<Rightarrow> ('tx, 'rcpt, 'db, 'dberr, ('inv, 'rest) evm_error, 'halt, 'hk, 'rq) executor_lib
      \<Rightarrow> ('evm, 'db, 'insp, 'pre, 'spec, 'env, 'halt, ('inv, 'rest) evm_error) evm_dict
      \<Rightarrow> (('evm, 'hk, 'tx, 'halt, 'rcpt, 'keys) seismic_block_executor, 'c, 'tx, 'env, 'halt, 'hk, 'evm,
          'rcpt, 'rq, ('inv, 'rest, 'dec, 'o) block_execution_error) block_executor_dict" where
  "seismic_block_executor_dict M L E =
     \<lparr>bx_apply_pre_execution_changes = seismic_apply_pre_execution_changes L E,
      bx_execute_transaction_with_commit_condition =
        seismic_execute_transaction_with_commit_condition M L E,
      bx_execute_transaction_with_result_closure = seismic_execute_transaction_with_result_closure M L E,
      bx_finish = seismic_finish_block L E,
      bx_set_state_hook = seismic_set_state_hook,
      bx_evm = (\<lambda>x. xe_evm (sx_inner x)), bx_evm_mut = seismic_executor_evm_mut\<rparr>"

section \<open>The factory\<close>

record ('rb, 'spec, 'ef, 'keys) seismic_block_executor_factory =
  bsf_receipt_builder :: 'rb
  bsf_spec :: 'spec
  bsf_evm_factory :: 'ef
  bsf_purpose_keys :: 'keys

definition seismic_block_executor_factory_new ::
    "'rb \<Rightarrow> 'spec \<Rightarrow> 'ef \<Rightarrow> 'keys \<Rightarrow> ('rb, 'spec, 'ef, 'keys) seismic_block_executor_factory" where
  "seismic_block_executor_factory_new receipt_builder spec evm_factory purpose_keys =
     \<lparr>bsf_receipt_builder = receipt_builder, bsf_spec = spec, bsf_evm_factory = evm_factory,
      bsf_purpose_keys = purpose_keys\<rparr>"

definition seismic_create_executor ::
    "(('tx, 'evm, 'halt, 'rcpt) receipt_builder, eth_executor_spec, 'ef, 'keys) seismic_block_executor_factory
      \<Rightarrow> 'evm \<Rightarrow> eth_block_execution_ctx \<Rightarrow> ('evm, 'hk, 'tx, 'halt, 'rcpt, 'keys) seismic_block_executor" where
  "seismic_create_executor factory evm ctx =
     seismic_block_executor_new evm ctx (bsf_spec factory) (bsf_receipt_builder factory)
       (bsf_purpose_keys factory)"

section \<open>Decryption and the inner executor\<close>

lemma on_inner_executor_with_Inr:
  "on_inner_executor_with m (x, c) = (r, (x', c')) \<longleftrightarrow>
     (\<exists>i. m (sx_inner x, c) = (r, (i, c')) \<and> x' = x\<lparr>sx_inner := i\<rparr>)"
  by (auto simp: on_inner_executor_with_def zoom_def split: prod.splits)

lemma on_inner_executor_Inr:
  "on_inner_executor m x = (r, x') \<longleftrightarrow> (\<exists>i. m (sx_inner x) = (r, i) \<and> x' = x\<lparr>sx_inner := i\<rparr>)"
  by (auto simp: on_inner_executor_def zoom_def split: prod.splits)

text \<open>The overridden method is the provided one.\<close>

lemma seismic_result_closure:
  "seismic_execute_transaction_with_result_closure M L E =
     default_result_closure (seismic_execute_transaction_with_commit_condition M L E)"
  by (auto simp: fun_eq_iff seismic_execute_transaction_with_result_closure_def default_result_closure_def
      seismic_execute_transaction_with_commit_condition_def eth_block_executor_dict_def map_ok_def
      on_inner_executor_with_def zoom_def split: sum.splits prod.splits)

text \<open>The Seismic executor is a block executor, because the inner one is.\<close>

lemma seismic_dict_simps [simp]:
  "bx_apply_pre_execution_changes (seismic_block_executor_dict M L E) = seismic_apply_pre_execution_changes L E"
  "bx_execute_transaction_with_commit_condition (seismic_block_executor_dict M L E) =
     seismic_execute_transaction_with_commit_condition M L E"
  "bx_execute_transaction_with_result_closure (seismic_block_executor_dict M L E) =
     seismic_execute_transaction_with_result_closure M L E"
  "bx_finish (seismic_block_executor_dict M L E) = seismic_finish_block L E"
  "bx_evm (seismic_block_executor_dict M L E) = (\<lambda>x. xe_evm (sx_inner x))"
  by (simp_all add: seismic_block_executor_dict_def)

text \<open>The key that decrypts, and the argument that the inner executor gets when it does.\<close>

definition plaintext_of ::
    "('keys, 'sk, 'tx, 'env, 'dec) seismic_lib \<Rightarrow> 'keys \<Rightarrow> ('tx, 'env) executable_tx
      \<Rightarrow> ('dec + ('tx, 'env) executable_tx)" where
  "plaintext_of M keys tx =
     map_sum id (\<lambda>p. recovered_plaintext M p (xt_signer tx))
       (ml_plaintext_copy M (ml_tx_io_sk M keys) (xt_tx tx))"

lemma seismic_commit_eq:
  "seismic_execute_transaction_with_commit_condition M L E tx f s =
     (case plaintext_of M (sx_purpose_keys (fst s)) tx of
        Inl e \<Rightarrow> (Inl (Error (Internal (FailedToDecryptSeismicTx e))), s)
      | Inr ptx \<Rightarrow> on_inner_executor_with (eth_execute_transaction_with_commit_condition L E ptx f) s)"
  by (simp add: seismic_execute_transaction_with_commit_condition_def plaintext_of_def split: sum.splits)

lemma seismic_commit_cases:
  assumes "seismic_execute_transaction_with_commit_condition M L E tx f (x, c) = (r, (x', c'))"
  obtains (undecryptable) e where "plaintext_of M (sx_purpose_keys x) tx = Inl e"
      "r = Inl (Error (Internal (FailedToDecryptSeismicTx e)))" "x' = x" "c' = c"
  | (inner) ptx i where "plaintext_of M (sx_purpose_keys x) tx = Inr ptx"
      "eth_execute_transaction_with_commit_condition L E ptx f (sx_inner x, c) = (r, (i, c'))"
      "x' = x\<lparr>sx_inner := i\<rparr>"
  using assms
  by (auto simp: seismic_commit_eq on_inner_executor_with_Inr split: sum.splits)

lemma keeps_on_inner [frame]:
  assumes "keeps v m"
  shows "keeps (\<lambda>x. v (sx_inner x)) (on_inner_executor m)"
  using keepsD [OF assms] by (auto simp: keeps_def on_inner_executor_def zoom_def split: prod.splits)

interpretation seismic_executor: block_executor "seismic_block_executor_dict M L E"
    "\<lambda>x. xe_receipts (sx_inner x)" "\<lambda>x. xe_gas_used (sx_inner x)" "\<lambda>x. eth_built (sx_inner x)"
  for M :: "('keys, 'sk, 'tx, 'env, 'dec) seismic_lib"
  and L :: "('tx, 'rcpt, 'db, 'dberr, ('inv, 'rest) evm_error, 'halt, 'hk, 'rq) executor_lib"
  and E :: "('evm, 'db, 'insp, 'pre, 'spec, 'env, 'halt, ('inv, 'rest) evm_error) evm_dict"
proof (unfold_locales, unfold seismic_dict_simps)
  show "keeps (\<lambda>x. xe_receipts (sx_inner x)) (seismic_apply_pre_execution_changes L E)"
    "keeps (\<lambda>x. xe_gas_used (sx_inner x)) (seismic_apply_pre_execution_changes L E)"
    "keeps (\<lambda>x. eth_built (sx_inner x)) (seismic_apply_pre_execution_changes L E)"
    by (simp_all add: seismic_apply_pre_execution_changes_def keeps_on_inner pre_execution_ignores)
  show "keeps (\<lambda>p. eth_built (sx_inner (fst p))) (seismic_execute_transaction_with_commit_condition M L E tx f)"
    for tx f
  proof (rule keepsI)
    fix s r t
    assume run: "seismic_execute_transaction_with_commit_condition M L E tx f s = (r, t)"
    obtain x c x' c' where s: "s = (x, c)" and t: "t = (x', c')" by fastforce
    from run [unfolded s t] show "eth_built (sx_inner (fst t)) = eth_built (sx_inner (fst s))"
    proof (rule seismic_commit_cases)
      fix ptx i
      assume "eth_execute_transaction_with_commit_condition L E ptx f (sx_inner x, c) = (r, (i, c'))"
        and "x' = x\<lparr>sx_inner := i\<rparr>"
      then show ?thesis using keepsD [OF eth_commit_built] by (fastforce simp: s t)
    qed (simp add: s t)
  qed
  show "(\<exists>r. xe_receipts (sx_inner x') = xe_receipts (sx_inner x) @ [r]
        \<and> eth_built (sx_inner x) r (xe_gas_used (sx_inner x) + g))
      \<and> xe_gas_used (sx_inner x') = xe_gas_used (sx_inner x) + g
      \<and> (\<exists>res. f res c = (Yes, c') \<and> er_gas_used res = g)"
    if "seismic_execute_transaction_with_commit_condition M L E tx f (x, c) = (Inr (Some g), (x', c'))"
    for tx f x c g x' c'
    using that by (rule seismic_commit_cases) (auto dest!: eth_executor.commit_some [unfolded eth_dict_simps])
  show "xe_receipts (sx_inner x') = xe_receipts (sx_inner x)
      \<and> xe_gas_used (sx_inner x') = xe_gas_used (sx_inner x) \<and> (\<exists>res. f res c = (No, c'))"
    if "seismic_execute_transaction_with_commit_condition M L E tx f (x, c) = (Inr None, (x', c'))"
    for tx f x c x' c'
    using that by (rule seismic_commit_cases) (auto dest!: eth_executor.commit_none [unfolded eth_dict_simps])
  show "xe_receipts (sx_inner x') = xe_receipts (sx_inner x)
      \<and> xe_gas_used (sx_inner x') = xe_gas_used (sx_inner x) \<and> c' = c"
    if "seismic_execute_transaction_with_commit_condition M L E tx f (x, c) = (Inl (Error e), (x', c'))"
    for tx f x c e x' c'
    using that by (rule seismic_commit_cases) (auto dest!: eth_executor.commit_error [unfolded eth_dict_simps])
  show "seismic_execute_transaction_with_result_closure M L E =
      default_result_closure (seismic_execute_transaction_with_commit_condition M L E)"
    by (rule seismic_result_closure)
  show "ber_receipts res = xe_receipts (sx_inner x) \<and> evm = xe_evm (sx_inner x')"
    if "seismic_finish_block L E x = (Inr (evm, res), x')" for x evm res x'
    using that finish_result by (auto simp: seismic_finish_block_def on_inner_executor_Inr)
qed

section \<open>A Seismic block is an Ethereum block of plaintexts\<close>

lemma seismic_execute_transaction_eq:
  "execute_transaction (seismic_block_executor_dict M L E) tx s =
     (case plaintext_of M (sx_purpose_keys (fst s)) tx of
        Inl e \<Rightarrow> (Inl (Error (Internal (FailedToDecryptSeismicTx e))), s)
      | Inr ptx \<Rightarrow> on_inner_executor_with (execute_transaction (eth_block_executor_dict L E) ptx) s)"
  by (simp add: execute_transaction_def seismic_execute_transaction_with_result_closure_def plaintext_of_def
      split: sum.splits)

definition decrypts ::
    "('keys, 'sk, 'tx, 'env, 'dec) seismic_lib \<Rightarrow> 'keys \<Rightarrow> ('tx, 'env) executable_tx list
      \<Rightarrow> ('tx, 'env) executable_tx list \<Rightarrow> bool" where
  "decrypts M keys txs ptxs \<longleftrightarrow> list_all2 (\<lambda>tx ptx. plaintext_of M keys tx = Inr ptx) txs ptxs"

lemma decrypts_Nil [simp]: "decrypts M keys [] ptxs \<longleftrightarrow> ptxs = []"
  by (simp add: decrypts_def)

lemma decrypts_Cons [simp]: "decrypts M keys txs [] \<longleftrightarrow> txs = []"
  "decrypts M keys (tx # txs) ptxs \<longleftrightarrow>
     (\<exists>ptx rest. ptxs = ptx # rest \<and> plaintext_of M keys tx = Inr ptx \<and> decrypts M keys txs rest)"
  by (auto simp: decrypts_def list_all2_Cons1)

lemma on_inner_executor_with_eq:
  "on_inner_executor_with m (x, c) = (case m (sx_inner x, c) of (r, i, c') \<Rightarrow> (r, x\<lparr>sx_inner := i\<rparr>, c'))"
  by (simp add: on_inner_executor_with_def zoom_def split: prod.splits)

lemma seismic_transactions_eq:
  fixes c :: 'c
  assumes "decrypts M (sx_purpose_keys x) txs ptxs"
  shows "(try_each (execute_transaction (seismic_block_executor_dict M L E)) txs (x, c) ::
      (('inv, 'rest, 'dec, 'o) block_execution_error abort + _) \<times> _) =
    on_inner_executor_with (try_each (execute_transaction (eth_block_executor_dict L E)) ptxs) (x, c)"
  using assms
proof (induction txs arbitrary: x c ptxs)
  case Nil
  then show ?case by (simp add: on_inner_executor_with_eq)
next
  case (Cons tx txs)
  from Cons.prems obtain ptx rest where ptxs: "ptxs = ptx # rest"
    and ptx: "plaintext_of M (sx_purpose_keys x) tx = Inr ptx" and rest: "decrypts M (sx_purpose_keys x) txs rest"
    by auto
  have IH: "(try_each (execute_transaction (seismic_block_executor_dict M L E)) txs (x\<lparr>sx_inner := i\<rparr>, d) ::
      (('inv, 'rest, 'dec, 'o) block_execution_error abort + _) \<times> _) =
      on_inner_executor_with (try_each (execute_transaction (eth_block_executor_dict L E)) rest)
        (x\<lparr>sx_inner := i\<rparr>, d)" for i and d :: 'c
    by (rule Cons.IH) (simp add: rest)
  have one: "(execute_transaction (seismic_block_executor_dict M L E) tx (x, c) ::
      (('inv, 'rest, 'dec, 'o) block_execution_error abort + _) \<times> _) =
      on_inner_executor_with (execute_transaction (eth_block_executor_dict L E) ptx) (x, c)"
    by (simp add: seismic_execute_transaction_eq ptx)
  show ?case
    by (simp add: ptxs one on_inner_executor_with_eq IH split: prod.splits sum.splits)
qed

text \<open>The transactions of a block after the changes before them, without the changes after them.\<close>

definition execute_until ::
    "('x, 'c, 'tx, 'env, 'halt, 'hk, 'evm, 'rcpt, 'rq, 'e) block_executor_dict
      \<Rightarrow> ('tx, 'env) executable_tx list \<Rightarrow> ('x \<times> 'c, 'e abort, u64 list) step" where
  "execute_until B txs =
     try_bind (on_executor (bx_apply_pre_execution_changes B)) (\<lambda>_. try_each (execute_transaction B) txs)"

lemma execute_block_until:
  "execute_block B txs = try_bind (execute_until B txs) (\<lambda>_. on_executor (bx_apply_post_execution_changes B))"
  by (simp add: execute_block_def execute_until_def try_bind_assoc)

lemma seismic_until_eq:
  assumes "decrypts M (sx_purpose_keys x) txs ptxs"
  shows "(execute_until (seismic_block_executor_dict M L E) txs (x, c) ::
      (('inv, 'rest, 'dec, 'o) block_execution_error abort + _) \<times> _) =
    on_inner_executor_with (execute_until (eth_block_executor_dict L E) ptxs) (x, c)"
proof -
  have txs: "(try_each (execute_transaction (seismic_block_executor_dict M L E)) txs (x\<lparr>sx_inner := i\<rparr>, c) ::
      (('inv, 'rest, 'dec, 'o) block_execution_error abort + _) \<times> _) =
      on_inner_executor_with (try_each (execute_transaction (eth_block_executor_dict L E)) ptxs)
        (x\<lparr>sx_inner := i\<rparr>, c)" for i
    by (rule seismic_transactions_eq) (simp add: assms)
  show ?thesis
    by (simp add: execute_until_def try_bind_def on_executor_def zoom_def txs on_inner_executor_with_eq
        seismic_apply_pre_execution_changes_def on_inner_executor_def split: prod.splits sum.splits)
qed

text \<open>
  For the witnesses: a transaction is an encrypted gas limit, the key is subtracted to decrypt it, and
  what is smaller than the key does not decrypt. The plaintexts are those of the Ethereum block.
\<close>

definition sample_seismic_lib :: "(u64, u64, u64, u64, unit) seismic_lib" where
  "sample_seismic_lib =
     \<lparr>ml_tx_io_sk = (\<lambda>k. k), ml_plaintext_copy = (\<lambda>sk t. if t < sk then Inl () else Inr (t - sk)),
      ml_from_recovered_tx = (\<lambda>t _. t)\<rparr>"

definition sample_encrypted_txs :: "(u64, u64) executable_tx list" where
  "sample_encrypted_txs =
     [\<lparr>xt_tx = 400, xt_signer = 1, xt_to_tx_env = 0\<rparr>, \<lparr>xt_tx = 600, xt_signer = 2, xt_to_tx_env = 0\<rparr>]"

definition sample_seismic_executor ::
    "((nat, nat, unit, unit, unit) evm_wrapper, state_change_source list, u64, unit,
      nat receipt_envelope, u64) seismic_block_executor" where
  "sample_seismic_executor =
     seismic_create_executor
       (seismic_block_executor_factory_new (bf_receipt_builder sample_factory) (bf_spec sample_factory) () 100)
       sample_wrapper sample_ctx"

lemma sample_seismic_executor_simps [simp]:
  "sx_inner sample_seismic_executor = sample_executor" "sx_purpose_keys sample_seismic_executor = 100"
  by (simp_all add: sample_seismic_executor_def seismic_create_executor_def seismic_block_executor_new_def
      seismic_block_executor_factory_new_def sample_executor_def eth_create_executor_def)

lemma sample_decrypts: "decrypts sample_seismic_lib 100 sample_encrypted_txs sample_txs"
  by (simp add: sample_encrypted_txs_def sample_txs_def plaintext_of_def sample_seismic_lib_def
      recovered_plaintext_def executable_of_def recovered_recovered_tx_def recovered_to_tx_env_def
      word_less_nat_alt)

lemma seismic_block_refines_eq:
  assumes "decrypts M (sx_purpose_keys x) txs ptxs"
  shows "(execute_block (seismic_block_executor_dict M L E) txs (x, c) ::
      (('inv, 'rest, 'dec, 'o) block_execution_error abort + _) \<times> _) =
    (case execute_block (eth_block_executor_dict L E) ptxs (sx_inner x, c) of
       (r, i, c') \<Rightarrow> (r, x\<lparr>sx_inner := i\<rparr>, c'))"
  by (simp add: execute_block_until try_bind_def seismic_until_eq [OF assms] on_inner_executor_with_eq
      on_executor_def zoom_def bx_apply_post_execution_changes_def map_ok_def seismic_finish_block_def
      on_inner_executor_def split: prod.splits sum.splits)

text \<open>C5: A Seismic block whose transactions decrypt under the executor's key is the Ethereum block of
  the plaintexts: the inner executor goes through the same states on the decrypted transactions,
  each with its original signer, and its result, error or panic is the result; the keys stay.\<close>

theorem seismic_block_refines_ethereum:
  assumes "decrypts M (sx_purpose_keys x) txs ptxs"
  shows "execute_block (seismic_block_executor_dict M L E) txs (x, c) =
    (case execute_block (eth_block_executor_dict L E) ptxs (sx_inner x, c) of
       (r, i, c') \<Rightarrow> (r, x\<lparr>sx_inner := i\<rparr>, c'))"
  by (rule seismic_block_refines_eq [OF assms])

lemma seismic_block_refines_ethereum_witness:
  "(execute_block (seismic_block_executor_dict sample_seismic_lib sample_executor_lib (eth_evm_dict paying_revm))
      sample_encrypted_txs (sample_seismic_executor, ()) ::
      ((unit, unit, unit, unit) block_execution_error abort + _) \<times> _) =
    (Inr \<lparr>ber_receipts = [ReceiptLegacy 300, ReceiptLegacy 800], ber_requests = [], ber_gas_used = 800\<rparr>,
     sample_seismic_executor\<lparr>sx_inner := sample_after [ReceiptLegacy 300, ReceiptLegacy 800] 800 2\<rparr>, ())"
proof -
  have "decrypts sample_seismic_lib (sx_purpose_keys sample_seismic_executor) sample_encrypted_txs sample_txs"
    by (simp add: sample_decrypts)
  then show ?thesis
    by (subst seismic_block_refines_ethereum [of _ _ _ sample_txs]) (simp_all add: sample_block_run)
qed

text \<open>C9: A transaction that cannot be decrypted stops the block with that error: the inner executor is
  left where the transactions before it have taken it, and neither it nor any later transaction
  reaches the EVM.\<close>

theorem seismic_undecryptable_stops:
  assumes "decrypts M (sx_purpose_keys x) txs ptxs"
    and "ml_plaintext_copy M (ml_tx_io_sk M (sx_purpose_keys x)) (xt_tx tx) = Inl e"
    and "(execute_until (eth_block_executor_dict L E) ptxs (sx_inner x, c) ::
      (('inv, 'rest, 'dec, 'o) block_execution_error abort + _) \<times> _) = (Inr gs, (i, c'))"
  shows "execute_block (seismic_block_executor_dict M L E) (txs @ tx # later) (x, c) =
    (Inl (Error (Internal (FailedToDecryptSeismicTx e)) ::
       ('inv, 'rest, 'dec, 'o) block_execution_error abort), (x\<lparr>sx_inner := i\<rparr>, c'))"
proof -
  have tx: "execute_transaction (seismic_block_executor_dict M L E) tx (x\<lparr>sx_inner := i\<rparr>, c') =
      (Inl (Error (Internal (FailedToDecryptSeismicTx e))), (x\<lparr>sx_inner := i\<rparr>, c'))"
    by (simp add: seismic_execute_transaction_eq plaintext_of_def assms(2))
  have "(execute_until (seismic_block_executor_dict M L E) txs (x, c) ::
      (('inv, 'rest, 'dec, 'o) block_execution_error abort + _) \<times> _) = (Inr gs, (x\<lparr>sx_inner := i\<rparr>, c'))"
    using assms(3) by (simp add: seismic_until_eq [OF assms(1)] on_inner_executor_with_eq)
  then obtain s where "(on_executor (bx_apply_pre_execution_changes (seismic_block_executor_dict M L E)) (x, c) ::
      (('inv, 'rest, 'dec, 'o) block_execution_error abort + _) \<times> _) = (Inr (), s)"
    and "(try_each (execute_transaction (seismic_block_executor_dict M L E)) txs s ::
      (('inv, 'rest, 'dec, 'o) block_execution_error abort + _) \<times> _) = (Inr gs, (x\<lparr>sx_inner := i\<rparr>, c'))"
    by (auto simp: execute_until_def try_bind_Inr)
  then show ?thesis
    by (simp add: execute_block_def try_bind_def try_each_append tx)
qed

lemma seismic_undecryptable_stops_witness:
  "fst (execute_block (seismic_block_executor_dict sample_seismic_lib sample_executor_lib (eth_evm_dict paying_revm))
      (sample_encrypted_txs @ \<lparr>xt_tx = 13, xt_signer = 1, xt_to_tx_env = 0\<rparr> # sample_encrypted_txs)
      (sample_seismic_executor, ()) ::
      ((unit, unit, unit, unit) block_execution_error abort + _) \<times> _) =
    Inl (Error (Internal (FailedToDecryptSeismicTx ())))"
proof -
  have d: "decrypts sample_seismic_lib (sx_purpose_keys sample_seismic_executor) sample_encrypted_txs sample_txs"
    by (simp add: sample_decrypts)
  have u: "ml_plaintext_copy sample_seismic_lib (ml_tx_io_sk sample_seismic_lib
      (sx_purpose_keys sample_seismic_executor)) (xt_tx \<lparr>xt_tx = 13, xt_signer = 1, xt_to_tx_env = 0 :: u64\<rparr>) = Inl ()"
    by (simp add: sample_seismic_lib_def word_less_nat_alt)
  have r: "(execute_until (eth_block_executor_dict sample_executor_lib (eth_evm_dict paying_revm)) sample_txs
      (sx_inner sample_seismic_executor, ()) :: ((unit, unit, unit, unit) block_execution_error abort + _) \<times> _) =
    (Inr [300, 500], (sample_after [ReceiptLegacy 300, ReceiptLegacy 800] 800 2, ()))"
    using sample_txs_run [of "()"]
    by (simp add: execute_until_def try_bind_def on_executor_def zoom_def sample_pre)
  show ?thesis
    by (simp add: seismic_undecryptable_stops [OF d u r])
qed

section \<open>Gas of a Seismic block\<close>

text \<open>A block that executes has decrypted every transaction.\<close>

lemma seismic_transactions_decrypt:
  assumes "(try_each (execute_transaction (seismic_block_executor_dict M L E)) txs (x, c) ::
      (('inv, 'rest, 'dec, 'o) block_execution_error abort + _) \<times> _) = (Inr gs, s)"
  shows "\<exists>ptxs. decrypts M (sx_purpose_keys x) txs ptxs"
  using assms
proof (induction txs arbitrary: x c gs)
  case Nil
  then show ?case by simp
next
  case (Cons tx txs)
  from Cons.prems obtain g t hs where
    one: "(execute_transaction (seismic_block_executor_dict M L E) tx (x, c) ::
      (('inv, 'rest, 'dec, 'o) block_execution_error abort + _) \<times> _) = (Inr g, t)"
    and rest: "(try_each (execute_transaction (seismic_block_executor_dict M L E)) txs t ::
      (('inv, 'rest, 'dec, 'o) block_execution_error abort + _) \<times> _) = (Inr hs, s)"
    unfolding try_each_Cons_Inr by blast
  from one obtain ptx i d where ptx: "plaintext_of M (sx_purpose_keys x) tx = Inr ptx"
    and t: "t = (x\<lparr>sx_inner := i\<rparr>, d)"
    by (auto simp: seismic_execute_transaction_eq on_inner_executor_with_eq split: sum.splits prod.splits)
  from Cons.IH [OF rest [unfolded t]] ptx show ?case by auto
qed

lemma seismic_block_decrypts:
  assumes "(execute_block (seismic_block_executor_dict M L E) txs (x, c) ::
      (('inv, 'rest, 'dec, 'o) block_execution_error abort + _) \<times> _) = (Inr res, s)"
  shows "\<exists>ptxs. decrypts M (sx_purpose_keys x) txs ptxs"
proof -
  from assms obtain x1 gs t where
    pre: "(seismic_apply_pre_execution_changes L E x ::
      (('inv, 'rest, 'dec, 'o) block_execution_error abort + _) \<times> _) = (Inr (), x1)"
    and txs: "(try_each (execute_transaction (seismic_block_executor_dict M L E)) txs (x1, c) ::
      (('inv, 'rest, 'dec, 'o) block_execution_error abort + _) \<times> _) = (Inr gs, t)"
    by (auto simp: execute_block_def try_bind_Inr on_executor_Inr)
  have "sx_purpose_keys x1 = sx_purpose_keys x"
    using pre by (auto simp: seismic_apply_pre_execution_changes_def on_inner_executor_Inr)
  with seismic_transactions_decrypt [OF txs] show ?thesis by simp
qed

interpretation seismic_executor_evm: executor_evm "seismic_evm_dict R"
  for R :: "(('db, 'spec, 'rest, 'insp, 'pre) inner_evm, seismic_transaction, 'halt, ('inv, 'irest) evm_error) revm_ops"
  by unfold_locales

text \<open>C10: When the EVM leaves the block environment alone and never uses more than the gas limit of a
  decrypted transaction, a block executed by a fresh Seismic executor has decrypted all its
  transactions and uses at most the block's gas limit; and its gas used is, in unbounded arithmetic,
  the sum of what the EVM reported for the plaintexts, run one after the other.\<close>

theorem seismic_gas_within_limit:
  assumes "revm_keeps_block R"
    and "\<And>ptxs. decrypts M (bsf_purpose_keys factory) txs ptxs \<Longrightarrow>
      gas_respecting (seismic_evm_dict R) (xl_gas_limit L) ptxs"
    and "(execute_block (seismic_block_executor_dict M L (seismic_evm_dict R)) txs
           (seismic_create_executor factory evm ctx, c) ::
      (('inv, 'rest, 'dec, 'o) block_execution_error abort + _) \<times> _) = (Inr res, (x', c'))"
  shows "ber_gas_used res \<le> be_gas_limit (seismic_block evm)
    \<and> (\<exists>ptxs x1 runs evm'. decrypts M (bsf_purpose_keys factory) txs ptxs
        \<and> (seismic_apply_pre_execution_changes L (seismic_evm_dict R) (seismic_create_executor factory evm ctx) ::
            (('inv, 'rest, 'dec, 'o) block_execution_error abort + unit) \<times> _) = (Inr (), x1)
        \<and> transact_all (xl_sys L) (seismic_evm_dict R) ptxs (xe_evm (sx_inner x1)) = (Inr runs, evm')
        \<and> unat (ber_gas_used res) = sum_list (map (unat \<circ> run_gas) runs))"
proof -
  note new = seismic_create_executor_def seismic_block_executor_new_def eth_block_executor_new_def
  obtain ptxs where d: "decrypts M (bsf_purpose_keys factory) txs ptxs"
    using seismic_block_decrypts [OF assms(3)] by (auto simp: new)
  let ?x = "seismic_create_executor factory evm ctx"
  obtain i where run: "(execute_block (eth_block_executor_dict L (seismic_evm_dict R)) ptxs (sx_inner ?x, c) ::
      (('inv, 'rest, 'dec, 'o) block_execution_error abort + _) \<times> _) = (Inr res, (i, c'))"
    using assms(3) d
    by (subst (asm) seismic_block_refines_eq [of _ _ _ ptxs])
      (auto simp: seismic_create_executor_def seismic_block_executor_new_def split: prod.splits)
  have x: "xe_gas_used (sx_inner ?x) = 0" "ev_block (seismic_evm_dict R) (xe_evm (sx_inner ?x)) = seismic_block evm"
    by (simp_all add: new) (simp add: seismic_evm_dict_def)
  from seismic_executor_evm.eth_block_within [OF seismic_keeps_block(2) [OF assms(1)]
      seismic_keeps_block(1) [OF assms(1)] assms(2) [OF d] _ run]
  obtain x1 runs evm' where "ber_gas_used res \<le> be_gas_limit (seismic_block evm)"
    and pre: "(eth_apply_pre_execution_changes L (seismic_evm_dict R) (sx_inner ?x) ::
        (('inv, 'rest, 'dec, 'o) block_execution_error abort + unit) \<times> _) = (Inr (), x1)"
    and "transact_all (xl_sys L) (seismic_evm_dict R) ptxs (xe_evm x1) = (Inr runs, evm')"
    and "unat (ber_gas_used res) = sum_list (map (unat \<circ> run_gas) runs)"
    by (auto simp: x)
  moreover have "(seismic_apply_pre_execution_changes L (seismic_evm_dict R) ?x ::
      (('inv, 'rest, 'dec, 'o) block_execution_error abort + unit) \<times> _) = (Inr (), ?x\<lparr>sx_inner := x1\<rparr>)"
    using pre by (simp add: seismic_apply_pre_execution_changes_def on_inner_executor_Inr)
  ultimately show ?thesis
    using d by (intro conjI exI [of _ ptxs] exI [of _ "?x\<lparr>sx_inner := x1\<rparr>"] exI [of _ runs] exI [of _ evm']) simp_all
qed

text \<open>The same chain on the Seismic EVM: one transaction, encrypted as 400, that uses its 300 gas.\<close>

definition paying_seismic_revm ::
    "((nat, nat, unit, unit, unit) inner_evm, seismic_transaction, unit, (unit, unit) evm_error) revm_ops" where
  "paying_seismic_revm =
     \<lparr>rv_transact = (\<lambda>tx. rv_transact paying_revm (te_gas_limit (stx_base tx))),
      rv_inspect_tx = (\<lambda>tx. rv_transact paying_revm (te_gas_limit (stx_base tx))),
      rv_system_call_with_caller = rv_system_call_with_caller paying_revm\<rparr>"

definition gas_seismic_lib :: "(u64, u64, u64, seismic_transaction, unit) seismic_lib" where
  "gas_seismic_lib =
     \<lparr>ml_tx_io_sk = ml_tx_io_sk sample_seismic_lib, ml_plaintext_copy = ml_plaintext_copy sample_seismic_lib,
      ml_from_recovered_tx = (\<lambda>t a. (seismic_system_tx a a [])
        \<lparr>stx_base := (stx_base (seismic_system_tx a a []))\<lparr>te_gas_limit := t\<rparr>\<rparr>)\<rparr>"

definition sample_seismic_factory ::
    "((u64, (nat, nat, unit, unit, unit) evm_wrapper, unit, nat receipt_envelope) receipt_builder,
      eth_executor_spec, unit, u64) seismic_block_executor_factory" where
  "sample_seismic_factory =
     seismic_block_executor_factory_new (bf_receipt_builder sample_factory) (bf_spec sample_factory) () 100"

definition one_encrypted_tx :: "(u64, seismic_transaction) executable_tx" where
  "one_encrypted_tx = \<lparr>xt_tx = 400, xt_signer = 1, xt_to_tx_env = seismic_system_tx 1 1 []\<rparr>"

definition one_plain_tx :: "(u64, seismic_transaction) executable_tx" where
  "one_plain_tx = \<lparr>xt_tx = 300, xt_signer = 1, xt_to_tx_env = ml_from_recovered_tx gas_seismic_lib 300 1\<rparr>"

lemma one_decrypts: "decrypts gas_seismic_lib 100 [one_encrypted_tx] ptxs \<longleftrightarrow> ptxs = [one_plain_tx]"
  by (cases ptxs) (auto simp: one_encrypted_tx_def one_plain_tx_def plaintext_of_def gas_seismic_lib_def
      sample_seismic_lib_def recovered_plaintext_def executable_of_def recovered_recovered_tx_def
      recovered_to_tx_env_def word_less_nat_alt)

lemma seismic_sample_after_db:
  "evm_set_db (seismic_evm_dict R) d (xe_evm (sample_after rs g n)) = xe_evm (sample_after rs g d)"
  "evm_db (seismic_evm_dict R) (xe_evm (sample_after rs g n)) = n"
  by (simp_all add: sample_after_def evm_defs seismic_evm_defs eth_evm_defs)

lemma seismic_sample_pre:
  "(eth_apply_pre_execution_changes sample_executor_lib (seismic_evm_dict paying_seismic_revm)
      (sample_after [] 0 0) :: ((unit, unit, unit, unit) block_execution_error abort + unit) \<times> _) =
    (Inr (), sample_after [] 0 0)"
  by (simp add: eth_apply_pre_execution_changes_def on_caller_def step_defs Let_def
        apply_call_defs system_call_defs sample_after_def sample_block_defs system_caller_new_def eth_spec_def
        cancun_spec_def eth_evm_defs seismic_evm_defs evm_defs system_call_timestamp_def sample_sys_lib_def
        saturating_to_u64_def sample_state_ops_def)

lemma seismic_sample_tx:
  "(execute_transaction (eth_block_executor_dict sample_executor_lib (seismic_evm_dict paying_seismic_revm))
      one_plain_tx (sample_after [] 0 0, c) ::
      ((unit, unit, unit, unit) block_execution_error abort + u64) \<times> _) =
    (Inr 300, (sample_after [ReceiptLegacy 300] 300 1, c))"
  by (simp add: execute_transaction_def eth_block_executor_dict_def default_result_closure_def
      map_ok_def eth_execute_transaction_with_commit_condition_def Let_def sample_after_def
      sample_block_defs evm_defs eth_evm_defs seismic_evm_defs evm_commit_def paying_revm_def
      paying_seismic_revm_def zoom_def seismic_transact_raw_def on_inner_def
      alloy_receipt_builder_def alloy_build_receipt_def sample_sys_lib_def system_caller_new_def
      one_plain_tx_def gas_seismic_lib_def word_le_nat_alt word_less_nat_alt)

lemma seismic_sample_finish:
  "(eth_finish_block sample_executor_lib (seismic_evm_dict paying_seismic_revm) (sample_after rs g d) ::
     ((unit, unit, unit, unit) block_execution_error abort + _) \<times> _) =
     (Inr (xe_evm (sample_after rs g d),
       \<lparr>ber_receipts = rs, ber_requests = [], ber_gas_used = g\<rparr>), sample_after rs g d)"
  by (simp add: eth_finish_block_def eth_collect_requests_def eth_finish_balances_def eth_dao_fork_def
      step_defs on_caller_def on_executor_db_def on_db_def try_on_state_with_eq sample_after_def
      sample_block_defs evm_defs eth_evm_defs seismic_evm_defs eth_spec_def cancun_spec_def system_caller_new_def
      post_block_balance_increments_def insert_post_block_withdrawals_balance_increments_def
      base_block_reward_def saturating_to_u64_def sample_state_ops_def sample_sys_lib_def)

lemma seismic_gas_within_limit_witness:
  "\<exists>res s. (execute_block (seismic_block_executor_dict gas_seismic_lib sample_executor_lib
        (seismic_evm_dict paying_seismic_revm)) [one_encrypted_tx]
        (seismic_create_executor sample_seismic_factory sample_wrapper sample_ctx, ()) ::
        ((unit, unit, unit, unit) block_execution_error abort + _) \<times> _) = (Inr res, s)
     \<and> ber_gas_used res = 300 \<and> ber_gas_used res \<le> be_gas_limit (seismic_block sample_wrapper)"
proof -
  let ?x = "seismic_create_executor sample_seismic_factory sample_wrapper sample_ctx ::
    ((nat, nat, unit, unit, unit) evm_wrapper, state_change_source list, u64, unit,
      nat receipt_envelope, u64) seismic_block_executor"
  have x: "sx_inner ?x = sample_after [] 0 0" "sx_purpose_keys ?x = 100" "bsf_purpose_keys sample_seismic_factory = 100"
    by (simp_all add: sample_seismic_factory_def seismic_create_executor_def seismic_block_executor_new_def
      seismic_block_executor_factory_new_def sample_after_new [symmetric] sample_executor_def eth_create_executor_def)
  have "decrypts gas_seismic_lib (sx_purpose_keys ?x) [one_encrypted_tx] [one_plain_tx]"
    by (simp only: x one_decrypts)
  note block = seismic_block_refines_eq [OF this]
  have run: "(execute_block (seismic_block_executor_dict gas_seismic_lib sample_executor_lib
        (seismic_evm_dict paying_seismic_revm)) [one_encrypted_tx] (?x, ()) ::
        ((unit, unit, unit, unit) block_execution_error abort + _) \<times> _) =
    (Inr \<lparr>ber_receipts = [ReceiptLegacy 300], ber_requests = [], ber_gas_used = 300\<rparr>,
     (?x\<lparr>sx_inner := sample_after [ReceiptLegacy 300] 300 1\<rparr>, ()))"
    by (subst block) (simp add: execute_block_def bx_apply_post_execution_changes_def on_executor_def zoom_def
        try_bind_def map_ok_def seismic_sample_pre seismic_sample_tx seismic_sample_finish x del: One_nat_def)
  have gas: "gas_respecting (seismic_evm_dict paying_seismic_revm) (xl_gas_limit sample_executor_lib) ptxs"
    if "decrypts gas_seismic_lib (bsf_purpose_keys sample_seismic_factory) [one_encrypted_tx] ptxs" for ptxs
    using that unfolding x one_decrypts
    by (auto simp: gas_respecting_def one_plain_tx_def gas_seismic_lib_def sample_executor_lib_def
        seismic_evm_defs seismic_transact_raw_def on_inner_def zoom_def paying_seismic_revm_def paying_revm_def
        split: if_splits)
  have keeps: "revm_keeps_block paying_seismic_revm"
    using paying_revm_keeps_block by (simp add: revm_keeps_block_def paying_seismic_revm_def)
  from seismic_gas_within_limit [OF keeps gas run] run show ?thesis by auto
qed

end
