(* ===== verification/BlockBuilding.thy ===== *)
theory BlockBuilding
  imports SeismicExecutor
begin

text \<open>
  Building a block instead of executing a given one: the caller offers transactions to the executor one
  after the other, decides about each from its result, and goes on after one that was rejected
  (\<open>execute_transaction_with_commit_condition\<close> and \<open>execute_transaction_with_result_closure\<close> of
  \<open>crates/evm/src/block/mod.rs\<close>). The runs of such a builder are an inductive relation; the contract of
  a block executor gives an invariant of all of them.
\<close>

section \<open>Runs of a builder\<close>

text \<open>
  \<open>building B T x done y\<close>: with the executor \<open>B\<close>, starting in \<open>x\<close> and offering transactions of \<open>T\<close>, the
  builder has reached \<open>y\<close> and has committed the transactions \<open>done\<close>, each with the gas it was told. A
  rejected transaction leaves with an error, a discarded one was executed but not committed.
\<close>

inductive building ::
    "('x, 'c, 'tx, 'env, 'halt, 'hk, 'evm, 'rcpt, 'rq, 'e) block_executor_dict
      \<Rightarrow> ('tx, 'env) executable_tx set \<Rightarrow> 'x \<Rightarrow> (('tx, 'env) executable_tx \<times> u64) list \<Rightarrow> 'x \<Rightarrow> bool"
  for B T x where
  start: "building B T x [] x"
| committed: "building B T x done y \<Longrightarrow> tx \<in> T
    \<Longrightarrow> bx_execute_transaction_with_commit_condition B tx f (y, c) = (Inr (Some g), (z, c'))
    \<Longrightarrow> building B T x (done @ [(tx, g)]) z"
| discarded: "building B T x done y \<Longrightarrow> tx \<in> T
    \<Longrightarrow> bx_execute_transaction_with_commit_condition B tx f (y, c) = (Inr None, (z, c'))
    \<Longrightarrow> building B T x done z"
| rejected: "building B T x done y \<Longrightarrow> tx \<in> T
    \<Longrightarrow> bx_execute_transaction_with_commit_condition B tx f (y, c) = (Inl (Error e), (z, c'))
    \<Longrightarrow> building B T x done z"
| observed: "building B T x done y \<Longrightarrow> tx \<in> T
    \<Longrightarrow> bx_execute_transaction_with_result_closure B tx h (y, c) = (Inr g, (z, c'))
    \<Longrightarrow> building B T x (done @ [(tx, g)]) z"

lemma running_append: "running u (gs @ hs) = running u gs @ running (u + sum_list gs) hs"
  by (induction gs arbitrary: u) (simp_all add: add.assoc)

context block_executor
begin

text \<open>The accounting of a builder: receipts and counter are those of the committed transactions.\<close>

lemma building_accounts:
  assumes "building B T x done y"
  shows "fst ` set done \<subseteq> T \<and> built y = built x \<and> used y = used x + sum_list (map snd done)
    \<and> (\<exists>rs. rcpts y = rcpts x @ rs \<and> list_all2 (built x) rs (running (used x) (map snd done)))"
  using assms
proof (induction rule: building.induct)
  case start
  then show ?case by simp
next
  case (committed "done" y tx f c g z c')
  have b: "built z = built y"
    using keepsD [OF commit_built committed.hyps(3)] by simp
  from commit_some [OF committed.hyps(3)] committed.IH committed.hyps(2) show ?case
    by (auto simp: b running_append add.assoc intro!: list_all2_appendI)
next
  case (discarded "done" y tx f c z c')
  then show ?case
    using commit_none [OF discarded.hyps(3)] keepsD [OF commit_built discarded.hyps(3)] by simp
next
  case (rejected "done" y tx f c e z c')
  then show ?case
    using commit_error [OF rejected.hyps(3)] keepsD [OF commit_built rejected.hyps(3)] by simp
next
  case (observed "done" y tx h c g z c')
  from result_closure_ok [OF observed.hyps(3)] observed.IH observed.hyps(2) show ?case
    by (auto simp: running_append add.assoc intro!: list_all2_appendI)
qed

text \<open>What no offer changes, a builder does not change.\<close>

lemma building_keeps:
  assumes offer: "\<And>tx f. keeps (\<lambda>p. v (fst p)) (bx_execute_transaction_with_commit_condition B tx f)"
    and run: "building B T x done y"
  shows "v y = v x"
  using run
proof (induction rule: building.induct)
  case (observed "done" y tx h c g z c')
  then show ?case
    using keepsD [OF offer result_closure_commits [OF observed.hyps(3)]] by simp
qed (use keepsD [OF offer] in fastforce)+

text \<open>
  The gas of a builder stays within a limit when every offer keeps \<open>P\<close> and the limit, and what it
  commits fits in what is left.
\<close>

lemma building_within:
  assumes offer: "\<And>tx f y c r z c'. tx \<in> T \<Longrightarrow> P y \<Longrightarrow>
      bx_execute_transaction_with_commit_condition B tx f (y, c) = (r, (z, c')) \<Longrightarrow>
      P z \<and> (\<forall>g. r = Inr (Some g) \<longrightarrow> g \<le> limit - used y)"
    and run: "building B T x done y" and start: "P x" "used x \<le> limit"
  shows "P y \<and> used y \<le> limit \<and> unat (used y) = unat (used x) + sum_list (map (unat \<circ> snd) done)"
  using run
proof (induction rule: building.induct)
  case start
  then show ?case using assms(3,4) by simp
next
  case (committed "done" y tx f c g z c')
  then show ?case
    using offer [OF committed.hyps(2) _ committed.hyps(3)] commit_some [OF committed.hyps(3)]
      u64_add_no_wrap [of "used y" limit g] by auto
next
  case (discarded "done" y tx f c z c')
  then show ?case
    using offer [OF discarded.hyps(2) _ discarded.hyps(3)] commit_none [OF discarded.hyps(3)] by auto
next
  case (rejected "done" y tx f c e z c')
  then show ?case
    using offer [OF rejected.hyps(2) _ rejected.hyps(3)] commit_error [OF rejected.hyps(3)] by auto
next
  case (observed "done" y tx h c g z c')
  have "P z" "g \<le> limit - used y"
    using offer [OF observed.hyps(2) _ result_closure_commits [OF observed.hyps(3)]] observed.IH by auto
  then show ?case
    using observed.IH result_closure_ok(2) [OF observed.hyps(3)] u64_add_no_wrap [of "used y" limit g] by auto
qed

end

section \<open>Builders over the executors of this repository\<close>

context executor_evm
begin

lemma eth_offer_within:
  assumes quiet: "\<And>env. keeps (ev_block E) (ev_transact_raw E env)"
    and gas: "gas_respecting E (xl_gas_limit L) [tx]"
    and run: "(eth_execute_transaction_with_commit_condition L E tx f (y, c) ::
      (('inv, 'rest, 'dec, 'o) block_execution_error abort + u64 option) \<times> _) = (r, (z, c'))"
  shows "ev_block E (xe_evm z) = ev_block E (xe_evm y)
    \<and> (\<forall>g. r = Inr (Some g) \<longrightarrow> g \<le> be_gas_limit (ev_block E (xe_evm y)) - xe_gas_used y)"
proof -
  have block: "ev_block E e' = ev_block E (xe_evm y)" if "evm_transact E xt_to_tx_env tx (xe_evm y) = (res, e')"
    for res e'
    using keepsD [OF quiet that [unfolded evm_transact_def]] .
  from run show ?thesis
  proof (rule eth_tx_cases)
    fix rs evm receipt
    assume le: "xl_gas_limit L (xt_tx tx) \<le> be_gas_limit (ev_block E (xe_evm y)) - xe_gas_used y"
      and t: "evm_transact E xt_to_tx_env tx (xe_evm y) = (Inr rs, evm)"
      and r: "r = Inr (Some (er_gas_used (rs_result rs)))"
      and z: "z = y\<lparr>xe_evm := evm_commit (xl_sys L) E (rs_state rs) evm,
         xe_system_caller := on_state (xl_sys L) (Transaction (of_nat (length (xe_receipts y))))
           (rs_state rs) (xe_system_caller y),
         xe_receipts := xe_receipts y @ [receipt],
         xe_gas_used := xe_gas_used y + er_gas_used (rs_result rs)\<rparr>"
    show ?thesis
      using transact_within [OF quiet gas _ t] le r by (simp add: z block_commit)
  qed (auto simp: block)
qed

end

text \<open>What the EVM may use: for every transaction on offer that decrypts, no more than its gas limit.\<close>

definition offers_respect ::
    "('keys, 'sk, 'tx, 'env, 'dec) seismic_lib \<Rightarrow> 'keys
      \<Rightarrow> ('evm, 'db, 'insp, 'pre, 'spec, 'env, 'halt, 'err) evm_dict \<Rightarrow> ('tx \<Rightarrow> u64)
      \<Rightarrow> ('tx, 'env) executable_tx set \<Rightarrow> bool" where
  "offers_respect M keys E gas_limit T \<longleftrightarrow>
     (\<forall>tx \<in> T. \<forall>ptx. plaintext_of M keys tx = Inr ptx \<longrightarrow> gas_respecting E gas_limit [ptx])"

context executor_evm
begin

lemma seismic_building_within:
  assumes quiet: "\<And>env. keeps (ev_block E) (ev_transact_raw E env)"
    and gas: "offers_respect M (sx_purpose_keys x) E (xl_gas_limit L) T"
    and run: "building (seismic_block_executor_dict M L E ::
      (_, _, _, _, _, _, _, _, _, ('inv, 'rest, 'dec, 'o) block_execution_error) block_executor_dict) T x done y"
    and room: "xe_gas_used (sx_inner x) \<le> be_gas_limit (ev_block E (xe_evm (sx_inner x)))"
  shows "xe_gas_used (sx_inner y) \<le> be_gas_limit (ev_block E (xe_evm (sx_inner x)))
    \<and> unat (xe_gas_used (sx_inner y)) = unat (xe_gas_used (sx_inner x)) + sum_list (map (unat \<circ> snd) done)"
proof -
  let ?limit = "be_gas_limit (ev_block E (xe_evm (sx_inner x)))"
  let ?P = "\<lambda>y. sx_purpose_keys y = sx_purpose_keys x
    \<and> ev_block E (xe_evm (sx_inner y)) = ev_block E (xe_evm (sx_inner x))"
  have offer: "?P z \<and> (\<forall>g. r = Inr (Some g) \<longrightarrow> g \<le> ?limit - xe_gas_used (sx_inner y))"
    if "tx \<in> T" "?P y" and run: "bx_execute_transaction_with_commit_condition (seismic_block_executor_dict M L E ::
      (_, _, _, _, _, _, _, _, _, ('inv, 'rest, 'dec, 'o) block_execution_error) block_executor_dict)
        tx f (y, c) = (r, (z, c'))"
    for tx f y c r z c'
    using run [unfolded seismic_dict_simps]
  proof (rule seismic_commit_cases)
    fix ptx i
    assume ptx: "plaintext_of M (sx_purpose_keys y) tx = Inr ptx"
      and inner: "eth_execute_transaction_with_commit_condition L E ptx f (sx_inner y, c) = (r, (i, c'))"
      and z: "z = y\<lparr>sx_inner := i\<rparr>"
    have "gas_respecting E (xl_gas_limit L) [ptx]"
      using gas that(1,2) ptx by (auto simp: offers_respect_def)
    from eth_offer_within [OF quiet this inner] show ?thesis
      using that(2) by (simp add: z)
  qed (use that(2) in auto)
  have "?P y \<and> xe_gas_used (sx_inner y) \<le> ?limit
    \<and> unat (xe_gas_used (sx_inner y)) = unat (xe_gas_used (sx_inner x)) + sum_list (map (unat \<circ> snd) done)"
    by (rule seismic_executor.building_within [where P = ?P and limit = ?limit, OF _ run _ room])
      (erule (2) offer, simp)
  then show ?thesis by blast
qed

end

text \<open>C7: A builder that starts from a fresh Seismic executor after the changes before the block, and offers
  it any transactions, in any order, as often as it likes, observing, discarding and skipping rejected
  ones, ends with one receipt for each transaction it has committed, in the order of the commits,
  each built with the gas used up to and including it; and the gas of the block is the exact sum of
  what the committed transactions used and at most the block's limit.\<close>

theorem seismic_building_sound:
  assumes "revm_keeps_block R"
    and "offers_respect M (bsf_purpose_keys factory) (seismic_evm_dict R) (xl_gas_limit L) T"
    and "(seismic_apply_pre_execution_changes L (seismic_evm_dict R) (seismic_create_executor factory evm ctx) ::
        (('inv, 'rest, 'dec, 'o) block_execution_error abort + unit) \<times> _) = (Inr (), x)"
    and "building (seismic_block_executor_dict M L (seismic_evm_dict R) ::
        (_, _, _, _, _, _, _, _, _, ('inv, 'rest, 'dec, 'o) block_execution_error) block_executor_dict) T x done y"
    and "(seismic_finish_block L (seismic_evm_dict R) y ::
        (('inv, 'rest, 'dec, 'o) block_execution_error abort + _) \<times> _) = (Inr (evm', res), z)"
  shows "fst ` set done \<subseteq> T
    \<and> list_all2 (\<lambda>r u. \<exists>rctx. rb_build_receipt (bsf_receipt_builder factory) rctx = Some r
                      \<and> rc_cumulative_gas_used rctx = u) (ber_receipts res) (running 0 (map snd done))
    \<and> unat (ber_gas_used res) = sum_list (map (unat \<circ> snd) done)
    \<and> ber_gas_used res \<le> be_gas_limit (seismic_block evm)"
proof -
  let ?x = "seismic_create_executor factory evm ctx"
  let ?E = "seismic_evm_dict R"
  obtain i where pre: "(eth_apply_pre_execution_changes L ?E (sx_inner ?x) ::
        (('inv, 'rest, 'dec, 'o) block_execution_error abort + unit) \<times> _) = (Inr (), i)"
    and x: "x = ?x\<lparr>sx_inner := i\<rparr>"
    using assms(3) by (auto simp: seismic_apply_pre_execution_changes_def on_inner_executor_Inr)
  have new: "sx_purpose_keys ?x = bsf_purpose_keys factory" "xe_gas_used (sx_inner ?x) = 0"
    "xe_receipts (sx_inner ?x) = []" "xe_evm (sx_inner ?x) = evm"
    "xe_receipt_builder (sx_inner ?x) = bsf_receipt_builder factory"
    by (simp_all add: seismic_create_executor_def seismic_block_executor_new_def eth_block_executor_new_def)
  have i: "xe_gas_used i = 0" "xe_receipts i = []" "xe_receipt_builder i = bsf_receipt_builder factory"
    "ev_block ?E (xe_evm i) = seismic_block evm"
    using keepsD [OF pre_execution_ignores pre, of xe_gas_used] keepsD [OF pre_execution_ignores pre, of xe_receipts]
      keepsD [OF pre_execution_ignores pre, of xe_receipt_builder]
      keepsD [OF seismic_executor_evm.eth_pre_keeps_block [OF seismic_keeps_block(1) [OF assms(1)]] pre]
    by (simp_all add: new) (simp add: seismic_evm_dict_def)
  have fin: "ber_receipts res = xe_receipts (sx_inner y)" "ber_gas_used res = xe_gas_used (sx_inner y)"
    using assms(5) finish_result by (auto simp: seismic_finish_block_def on_inner_executor_Inr)
  have "offers_respect M (sx_purpose_keys x) ?E (xl_gas_limit L) T"
    using assms(2) by (simp add: x new)
  from seismic_executor_evm.seismic_building_within [OF seismic_keeps_block(2) [OF assms(1)] this assms(4)]
  have "xe_gas_used (sx_inner y) \<le> be_gas_limit (seismic_block evm)
    \<and> unat (xe_gas_used (sx_inner y)) = sum_list (map (unat \<circ> snd) done)"
    by (simp add: x i)
  moreover have "eth_built i = (\<lambda>r u. \<exists>rctx. rb_build_receipt (bsf_receipt_builder factory) rctx = Some r
      \<and> rc_cumulative_gas_used rctx = u)"
    by (simp add: eth_built_def i fun_eq_iff)
  ultimately show ?thesis
    using seismic_executor.building_accounts [OF assms(4)] by (auto simp: fin x i)
qed

text \<open>A builder that is offered a transaction that does not decrypt, and then one that does.\<close>

definition undecryptable_tx :: "(u64, seismic_transaction) executable_tx" where
  "undecryptable_tx = one_encrypted_tx\<lparr>xt_tx := 13\<rparr>"

definition built_executor ::
    "nat receipt_envelope list \<Rightarrow> u64 \<Rightarrow> nat \<Rightarrow>
      ((nat, nat, unit, unit, unit) evm_wrapper, state_change_source list, u64, unit,
        nat receipt_envelope, u64) seismic_block_executor" where
  "built_executor rs g d = \<lparr>sx_inner = sample_after rs g d, sx_purpose_keys = 100\<rparr>"

lemma built_executor_new: "seismic_create_executor sample_seismic_factory sample_wrapper sample_ctx = built_executor [] 0 0"
  by (simp add: built_executor_def sample_seismic_factory_def seismic_create_executor_def
      seismic_block_executor_new_def seismic_block_executor_factory_new_def sample_after_new [symmetric]
      sample_executor_def eth_create_executor_def)

lemma sample_building:
  "building (seismic_block_executor_dict gas_seismic_lib sample_executor_lib (seismic_evm_dict paying_seismic_revm) ::
      (_, unit, _, _, _, _, _, _, _, (unit, unit, unit, unit) block_execution_error) block_executor_dict)
    {undecryptable_tx, one_encrypted_tx} (built_executor [] 0 0) [(one_encrypted_tx, 300)]
    (built_executor [ReceiptLegacy 300] 300 1)"
proof -
  let ?B = "seismic_block_executor_dict gas_seismic_lib sample_executor_lib (seismic_evm_dict paying_seismic_revm) ::
      (_, unit, _, _, _, _, _, _, _, (unit, unit, unit, unit) block_execution_error) block_executor_dict"
  have bad: "bx_execute_transaction_with_commit_condition ?B undecryptable_tx (\<lambda>_ c. (Yes, c))
      (built_executor [] 0 0, ()) =
      (Inl (Error (Internal (FailedToDecryptSeismicTx ()))), (built_executor [] 0 0, ()))"
    by (simp add: seismic_execute_transaction_with_commit_condition_def built_executor_def undecryptable_tx_def
        gas_seismic_lib_def sample_seismic_lib_def word_less_nat_alt)
  have one: "plaintext_of gas_seismic_lib 100 one_encrypted_tx = Inr one_plain_tx"
    using one_decrypts [of "[one_plain_tx]"] by simp
  have "execute_transaction ?B one_encrypted_tx (built_executor [] 0 0, ()) =
      (Inr 300, (built_executor [ReceiptLegacy 300] 300 1, ()))"
    by (simp add: seismic_execute_transaction_eq built_executor_def one on_inner_executor_with_eq
        seismic_sample_tx del: One_nat_def)
  then have good: "bx_execute_transaction_with_result_closure ?B one_encrypted_tx (\<lambda>_ c. c)
      (built_executor [] 0 0, ()) = (Inr 300, (built_executor [ReceiptLegacy 300] 300 1, ()))"
    by (simp only: execute_transaction_def)
  have "building ?B {undecryptable_tx, one_encrypted_tx} (built_executor [] 0 0) [] (built_executor [] 0 0)"
    by (rule building.rejected [OF building.start _ bad]) simp
  from building.observed [OF this _ good] show ?thesis by simp
qed

lemma seismic_building_sound_witness:
  "(300 :: u64) \<le> be_gas_limit (seismic_block sample_wrapper)"
proof -
  let ?E = "seismic_evm_dict paying_seismic_revm"
  have keeps: "revm_keeps_block paying_seismic_revm"
    using paying_revm_keeps_block by (simp add: revm_keeps_block_def paying_seismic_revm_def)
  have "plaintext_of gas_seismic_lib 100 one_encrypted_tx = Inr one_plain_tx"
    using one_decrypts [of "[one_plain_tx]"] by simp
  moreover have "\<nexists>ptx. plaintext_of gas_seismic_lib 100 undecryptable_tx = Inr ptx"
    by (simp add: plaintext_of_def undecryptable_tx_def gas_seismic_lib_def sample_seismic_lib_def word_less_nat_alt)
  moreover have "gas_respecting ?E (xl_gas_limit sample_executor_lib) [one_plain_tx]"
    by (auto simp: gas_respecting_def one_plain_tx_def gas_seismic_lib_def sample_executor_lib_def
        seismic_evm_defs seismic_transact_raw_def on_inner_def zoom_def paying_seismic_revm_def paying_revm_def
        split: if_splits)
  ultimately have respect: "offers_respect gas_seismic_lib (bsf_purpose_keys sample_seismic_factory) ?E
      (xl_gas_limit sample_executor_lib) {undecryptable_tx, one_encrypted_tx}"
    by (auto simp: offers_respect_def sample_seismic_factory_def seismic_block_executor_factory_new_def)
  have pre: "(seismic_apply_pre_execution_changes sample_executor_lib ?E
      (seismic_create_executor sample_seismic_factory sample_wrapper sample_ctx) ::
      ((unit, unit, unit, unit) block_execution_error abort + unit) \<times> _) = (Inr (), built_executor [] 0 0)"
    by (simp add: built_executor_new built_executor_def seismic_apply_pre_execution_changes_def on_inner_executor_def
        zoom_def seismic_sample_pre)
  have fin: "(seismic_finish_block sample_executor_lib ?E (built_executor [ReceiptLegacy 300] 300 1) ::
      ((unit, unit, unit, unit) block_execution_error abort + _) \<times> _) =
    (Inr (xe_evm (sample_after [ReceiptLegacy 300] 300 1),
       \<lparr>ber_receipts = [ReceiptLegacy 300], ber_requests = [], ber_gas_used = 300\<rparr>),
     built_executor [ReceiptLegacy 300] 300 1)"
    by (simp add: built_executor_def seismic_finish_block_def on_inner_executor_def zoom_def
        seismic_sample_finish del: One_nat_def)
  from seismic_building_sound [OF keeps respect pre sample_building fin] show ?thesis by simp
qed

end
