(* ===== verification/SeismicChain.thy ===== *)
theory SeismicChain
  imports SeismicExecutor
begin

text \<open>
  \<open>crates/seismic-evm/src/hardfork.rs\<close>: the hardforks of a Seismic chain, what they switch on and off in
  the block executor, and when a block of such a chain executes.
\<close>

section \<open>The configuration\<close>

text \<open>
  \<open>ForkCondition\<close> of \<open>alloy_hardforks\<close>: the variants that the sources construct, the others by name.
  The forks of Ethereum are a type of that crate too, in the order of their activation; here any
  type with a rank.
\<close>

datatype fork_condition = AtBlock u64 | Never | OtherForkCondition string

datatype seismic_hardfork = Mercury

record seismic_chain_hardforks =
  sch_forks :: "(seismic_hardfork \<times> fork_condition) list"

definition seismic_hardfork_mainnet :: "(seismic_hardfork \<times> fork_condition) list" where
  "seismic_hardfork_mainnet = [(Mercury, AtBlock 0)]"

text \<open>\<open>forks.sort()\<close> compares the conditions, as there is one fork; \<open>ord\<close> is their order.\<close>

definition seismic_chain_hardforks_new ::
    "(fork_condition \<Rightarrow> nat) \<Rightarrow> (seismic_hardfork \<times> fork_condition) list \<Rightarrow> seismic_chain_hardforks" where
  "seismic_chain_hardforks_new ord forks = \<lparr>sch_forks = sort_key (\<lambda>(_, c). ord c) forks\<rparr>"

definition seismic_chain_mainnet :: "(fork_condition \<Rightarrow> nat) \<Rightarrow> seismic_chain_hardforks" where
  "seismic_chain_mainnet ord = seismic_chain_hardforks_new ord seismic_hardfork_mainnet"

definition seismic_ethereum_fork_activation ::
    "('f \<Rightarrow> nat) \<Rightarrow> 'f \<Rightarrow> seismic_chain_hardforks \<Rightarrow> 'f \<Rightarrow> fork_condition" where
  "seismic_ethereum_fork_activation rank prague chain fork =
     (if rank fork < rank prague then AtBlock 0 else Never)"

definition seismic_fork_activation ::
    "seismic_chain_hardforks \<Rightarrow> seismic_hardfork \<Rightarrow> fork_condition" where
  "seismic_fork_activation chain fork = AtBlock 0"

definition seismic_deposit_contract_address :: "seismic_chain_hardforks \<Rightarrow> address option" where
  "seismic_deposit_contract_address chain = None"

text \<open>
  The predicates of \<open>EthereumHardforks\<close> are provided by \<open>alloy_hardforks\<close>: they evaluate the
  activation condition of a fork at a block or a timestamp.
\<close>

record 'f hardforks_lib =
  hl_rank :: "'f \<Rightarrow> nat"
  hl_dao :: 'f
  hl_spurious_dragon :: 'f
  hl_byzantium :: 'f
  hl_constantinople :: 'f
  hl_paris :: 'f
  hl_shanghai :: 'f
  hl_cancun :: 'f
  hl_prague :: 'f
  hl_active_at_block :: "fork_condition \<Rightarrow> u64 \<Rightarrow> bool"
  hl_active_at_timestamp :: "fork_condition \<Rightarrow> u64 \<Rightarrow> bool"
  hl_transitions_at_block :: "fork_condition \<Rightarrow> u64 \<Rightarrow> bool"

definition seismic_executor_spec :: "'f hardforks_lib \<Rightarrow> seismic_chain_hardforks \<Rightarrow> eth_executor_spec" where
  "seismic_executor_spec H chain =
     (let activation = seismic_ethereum_fork_activation (hl_rank H) (hl_prague H) chain
      in \<lparr>is_spurious_dragon_active_at_block = hl_active_at_block H (activation (hl_spurious_dragon H)),
          is_byzantium_active_at_block = hl_active_at_block H (activation (hl_byzantium H)),
          is_constantinople_active_at_block = hl_active_at_block H (activation (hl_constantinople H)),
          is_paris_active_at_block = hl_active_at_block H (activation (hl_paris H)),
          is_shanghai_active_at_timestamp = hl_active_at_timestamp H (activation (hl_shanghai H)),
          is_cancun_active_at_timestamp = hl_active_at_timestamp H (activation (hl_cancun H)),
          is_prague_active_at_timestamp = hl_active_at_timestamp H (activation (hl_prague H)),
          dao_transitions_at_block = hl_transitions_at_block H (activation (hl_dao H)),
          deposit_contract_address = seismic_deposit_contract_address chain\<rparr>)"

section \<open>The forks of a Seismic chain\<close>

text \<open>
  The documented behaviour of \<open>alloy_hardforks\<close>: a block condition is active from its block on, is the
  transition at that block, and never counts as active at a timestamp; a condition that never holds
  is never active. The forks before Prague come before it.
\<close>

definition hardforks_laws :: "'f hardforks_lib \<Rightarrow> bool" where
  "hardforks_laws H \<longleftrightarrow>
     (\<forall>n b. hl_active_at_block H (AtBlock n) b \<longleftrightarrow> n \<le> b)
     \<and> (\<forall>n t. \<not> hl_active_at_timestamp H (AtBlock n) t)
     \<and> (\<forall>t. \<not> hl_active_at_timestamp H Never t)
     \<and> (\<forall>n b. hl_transitions_at_block H (AtBlock n) b \<longleftrightarrow> b = n)
     \<and> (\<forall>f \<in> {hl_dao H, hl_spurious_dragon H, hl_byzantium H, hl_constantinople H, hl_paris H,
               hl_shanghai H, hl_cancun H}. hl_rank H f < hl_rank H (hl_prague H))"

lemma seismic_executor_spec_eq:
  assumes "hardforks_laws H"
  shows "seismic_executor_spec H chain =
    \<lparr>is_spurious_dragon_active_at_block = (\<lambda>_. True), is_byzantium_active_at_block = (\<lambda>_. True),
     is_constantinople_active_at_block = (\<lambda>_. True), is_paris_active_at_block = (\<lambda>_. True),
     is_shanghai_active_at_timestamp = (\<lambda>_. False), is_cancun_active_at_timestamp = (\<lambda>_. False),
     is_prague_active_at_timestamp = (\<lambda>_. False), dao_transitions_at_block = (\<lambda>b. b = 0),
     deposit_contract_address = None\<rparr>"
  using assms
  by (simp add: seismic_executor_spec_def hardforks_laws_def seismic_ethereum_fork_activation_def
      seismic_deposit_contract_address_def fun_eq_iff)

text \<open>C11: On a Seismic chain, whose forks before Prague are active from block 0, every fork that is looked
  up by timestamp counts as inactive, Shanghai and Cancun included. So before the transactions
  of any block no system call is made, and only empty accounts are marked for clearing; after them,
  whatever they have left in the executor, deposits among the logs of its receipts included, no
  request is collected, and neither rewards nor the withdrawals of the block change a balance.\<close>

theorem seismic_chain_forks:
  assumes "hardforks_laws H"
    and "sx_inner x = eth_block_executor_new evm ctx (seismic_executor_spec H chain) rb"
    and "xe_spec y = seismic_executor_spec H chain"
  shows "(seismic_apply_pre_execution_changes L E x ::
        (('inv, 'rest, 'dec, 'o) block_execution_error abort + unit) \<times> _) =
      (Inr (), x\<lparr>sx_inner := (sx_inner x)
         \<lparr>xe_evm := evm_set_db E (so_set_state_clear_flag (xl_state L) True (evm_db E evm)) evm\<rparr>\<rparr>)
    \<and> (eth_collect_requests L E y :: (('inv, 'rest, 'dec, 'o) block_execution_error abort + _) \<times> _) =
      (Inr (sl_requests_default (xl_sys L)), y)
    \<and> post_block_balance_increments amount_wei (xe_spec y) block ommers withdrawals = Some Map.empty"
  using assms(2,3)
  by (simp add: seismic_executor_spec_eq [OF assms(1)] seismic_apply_pre_execution_changes_def
      on_inner_executor_def zoom_def eth_apply_pre_execution_changes_def on_caller_def step_defs Let_def
      apply_call_defs system_call_defs system_caller_new_def eth_block_executor_new_def
      eth_collect_requests_def post_block_balance_increments_def base_block_reward_def
      insert_post_block_withdrawals_balance_increments_def)

text \<open>The forks by number, as far as the executor asks for them.\<close>

definition sample_hardforks_lib :: "nat hardforks_lib" where
  "sample_hardforks_lib =
     \<lparr>hl_rank = (\<lambda>f. f), hl_dao = 0, hl_spurious_dragon = 1, hl_byzantium = 2, hl_constantinople = 3,
      hl_paris = 4, hl_shanghai = 5, hl_cancun = 6, hl_prague = 7,
      hl_active_at_block = (\<lambda>c b. case c of AtBlock n \<Rightarrow> n \<le> b | _ \<Rightarrow> False),
      hl_active_at_timestamp = (\<lambda>c t. False),
      hl_transitions_at_block = (\<lambda>c b. case c of AtBlock n \<Rightarrow> b = n | _ \<Rightarrow> False)\<rparr>"

lemma seismic_chain_forks_witness:
  "(eth_collect_requests sample_executor_lib (seismic_evm_dict paying_seismic_revm)
      ((sample_after [ReceiptLegacy 300] 300 1)
        \<lparr>xe_spec := seismic_executor_spec sample_hardforks_lib (seismic_chain_mainnet (\<lambda>_. 0))\<rparr>) ::
      ((unit, unit, unit, unit) block_execution_error abort + _) \<times> _) =
    (Inr [], (sample_after [ReceiptLegacy 300] 300 1)
        \<lparr>xe_spec := seismic_executor_spec sample_hardforks_lib (seismic_chain_mainnet (\<lambda>_. 0))\<rparr>)
   \<and> post_block_balance_increments (\<lambda>w. ucast (wd_amount w))
      (seismic_executor_spec sample_hardforks_lib (seismic_chain_mainnet (\<lambda>_. 0)))
      (seismic_block sample_wrapper) []
      (Some [\<lparr>wd_address = 6, wd_amount = 32\<rparr>]) = Some Map.empty"
proof -
  let ?spec = "seismic_executor_spec sample_hardforks_lib (seismic_chain_mainnet (\<lambda>_. 0))"
  let ?x = "seismic_block_executor_new sample_wrapper sample_ctx ?spec (bf_receipt_builder sample_factory) (100 :: u64)"
  let ?y = "(sample_after [ReceiptLegacy 300] 300 1)\<lparr>xe_spec := ?spec\<rparr>"
  have laws: "hardforks_laws sample_hardforks_lib"
    by (simp add: hardforks_laws_def sample_hardforks_lib_def)
  have x: "sx_inner ?x = eth_block_executor_new sample_wrapper sample_ctx ?spec (bf_receipt_builder sample_factory)"
    by (simp add: seismic_block_executor_new_def)
  have y: "xe_spec ?y = ?spec" by simp
  have none: "sl_requests_default (xl_sys sample_executor_lib) = []"
    by (simp add: sample_executor_lib_def sample_sys_lib_def)
  have "(eth_collect_requests sample_executor_lib (seismic_evm_dict paying_seismic_revm) ?y ::
        ((unit, unit, unit, unit) block_execution_error abort + _) \<times> _) =
      (Inr (sl_requests_default (xl_sys sample_executor_lib)), ?y)
    \<and> post_block_balance_increments (\<lambda>w. ucast (wd_amount w)) (xe_spec ?y) (seismic_block sample_wrapper) []
        (Some [\<lparr>wd_address = 6, wd_amount = 32\<rparr>]) = Some Map.empty"
    by (rule seismic_chain_forks [THEN conjunct2, OF laws x y])
  then show ?thesis by (simp only: none y)
qed

section \<open>When a block executes\<close>

lemma eth_execute_transaction_success:
  assumes "xl_gas_limit L (xt_tx tx) \<le> be_gas_limit (ev_block E (xe_evm x)) - xe_gas_used x"
    and "evm_transact E xt_to_tx_env tx (xe_evm x) = (Inr rs, evm)"
    and "rb_build_receipt (xe_receipt_builder x)
         \<lparr>rc_tx = xt_tx tx, rc_evm = evm, rc_result = rs_result rs, rc_state = rs_state rs,
          rc_cumulative_gas_used = xe_gas_used x + er_gas_used (rs_result rs)\<rparr> = Some receipt"
  shows "execute_transaction (eth_block_executor_dict L E) tx (x, c) =
    (Inr (er_gas_used (rs_result rs)),
     (x\<lparr>xe_evm := evm_commit (xl_sys L) E (rs_state rs) evm,
        xe_system_caller := on_state (xl_sys L) (Transaction (of_nat (length (xe_receipts x))))
           (rs_state rs) (xe_system_caller x),
        xe_receipts := xe_receipts x @ [receipt],
        xe_gas_used := xe_gas_used x + er_gas_used (rs_result rs)\<rparr>, c))"
  using assms
  by (simp add: execute_transaction_def eth_block_executor_dict_def default_result_closure_def map_ok_def
      eth_execute_transaction_with_commit_condition_def Let_def not_less [symmetric])

text \<open>The side conditions on a list of transactions: a receipt can be built for each, and the sum of their
  gas limits.\<close>

definition builds_receipts ::
    "('tx, 'evm, 'halt, 'rcpt) receipt_builder \<Rightarrow> ('tx, 'env) executable_tx list \<Rightarrow> bool" where
  "builds_receipts rb txs \<longleftrightarrow>
     (\<forall>tx \<in> set txs. \<forall>ctx. rc_tx ctx = xt_tx tx \<longrightarrow> (\<exists>r. rb_build_receipt rb ctx = Some r))"

definition gas_limits :: "('tx \<Rightarrow> u64) \<Rightarrow> ('tx, 'env) executable_tx list \<Rightarrow> nat" where
  "gas_limits gas_limit txs = sum_list (map (\<lambda>tx. unat (gas_limit (xt_tx tx))) txs)"

lemma available_gas:
  fixes used limit g :: u64
  assumes "unat used + unat g + n \<le> unat limit"
  shows "g \<le> limit - used" and "r \<le> g \<Longrightarrow> unat (used + r) + n \<le> unat limit"
proof -
  have "unat (limit - used) = unat limit - unat used"
    using assms by (intro unat_sub) (simp add: word_le_nat_alt)
  then show le: "g \<le> limit - used"
    using assms by (simp add: word_le_nat_alt)
  show "unat (used + r) + n \<le> unat limit" if "r \<le> g"
  proof -
    have "unat (used + r) = unat used + unat r"
      using u64_add_no_wrap(1) [of used limit r] assms le that by (simp add: word_le_nat_alt)
    then show ?thesis using assms that by (simp add: word_le_nat_alt)
  qed
qed

context executor_evm
begin

text \<open>
  When the EVM accepts the transactions one after the other, each on the state its predecessors left,
  and their gas limits fit the block, the loop over them goes through.
\<close>

lemma eth_transactions_succeed:
  fixes c :: 'c
  assumes quiet: "\<And>env. keeps (ev_block E) (ev_transact_raw E env)"
  shows "gas_respecting E (xl_gas_limit L) txs
    \<Longrightarrow> transact_all (xl_sys L) E txs (xe_evm x) = (Inr runs, evm')
    \<Longrightarrow> builds_receipts (xe_receipt_builder x) txs
    \<Longrightarrow> unat (xe_gas_used x) + gas_limits (xl_gas_limit L) txs \<le> unat (be_gas_limit (ev_block E (xe_evm x)))
    \<Longrightarrow> \<exists>x'. (try_each (execute_transaction (eth_block_executor_dict L E)) txs (x, c) ::
         (('inv, 'rest, 'dec, 'o) block_execution_error abort + _) \<times> _) = (Inr (map run_gas runs), (x', c))
       \<and> xe_spec x' = xe_spec x \<and> ev_block E (xe_evm x') = ev_block E (xe_evm x)"
proof (induction txs arbitrary: x runs)
  case Nil
  then show ?case by auto
next
  case (Cons tx txs)
  from Cons.prems(2) obtain rs evm rest where t: "evm_transact E xt_to_tx_env tx (xe_evm x) = (Inr rs, evm)"
    and rest: "transact_all (xl_sys L) E txs (evm_commit (xl_sys L) E (rs_state rs) evm) = (Inr rest, evm')"
    and runs: "runs = (rs, evm) # rest"
    by (auto split: prod.splits sum.splits)
  have block: "ev_block E evm = ev_block E (xe_evm x)" and used: "er_gas_used (rs_result rs) \<le> xl_gas_limit L (xt_tx tx)"
    using transact_within [OF quiet Cons.prems(1) _ t] by auto
  obtain r where r: "rb_build_receipt (xe_receipt_builder x)
         \<lparr>rc_tx = xt_tx tx, rc_evm = evm, rc_result = rs_result rs, rc_state = rs_state rs,
          rc_cumulative_gas_used = xe_gas_used x + er_gas_used (rs_result rs)\<rparr> = Some r"
    using Cons.prems(3) by (fastforce simp: builds_receipts_def)
  have room: "unat (xe_gas_used x) + unat (xl_gas_limit L (xt_tx tx)) + gas_limits (xl_gas_limit L) txs
      \<le> unat (be_gas_limit (ev_block E (xe_evm x)))"
    using Cons.prems(4) by (simp add: gas_limits_def)
  define x1 where "x1 = x\<lparr>xe_evm := evm_commit (xl_sys L) E (rs_state rs) evm,
        xe_system_caller := on_state (xl_sys L) (Transaction (of_nat (length (xe_receipts x))))
           (rs_state rs) (xe_system_caller x),
        xe_receipts := xe_receipts x @ [r],
        xe_gas_used := xe_gas_used x + er_gas_used (rs_result rs)\<rparr>"
  have one: "(execute_transaction (eth_block_executor_dict L E) tx (x, c) ::
      (('inv, 'rest, 'dec, 'o) block_execution_error abort + u64) \<times> _) = (Inr (er_gas_used (rs_result rs)), (x1, c))"
    unfolding x1_def by (rule eth_execute_transaction_success [OF available_gas(1) [OF room] t r])
  have x1: "xe_receipt_builder x1 = xe_receipt_builder x" "xe_spec x1 = xe_spec x"
    "ev_block E (xe_evm x1) = ev_block E (xe_evm x)" "xe_gas_used x1 = xe_gas_used x + er_gas_used (rs_result rs)"
    "xe_evm x1 = evm_commit (xl_sys L) E (rs_state rs) evm"
    by (simp_all add: x1_def block_commit block)
  have "\<exists>x'. (try_each (execute_transaction (eth_block_executor_dict L E)) txs (x1, c) ::
         (('inv, 'rest, 'dec, 'o) block_execution_error abort + _) \<times> _) = (Inr (map run_gas rest), (x', c))
       \<and> xe_spec x' = xe_spec x1 \<and> ev_block E (xe_evm x') = ev_block E (xe_evm x1)"
    by (rule Cons.IH) (use Cons.prems available_gas(2) [OF room used] rest in
      \<open>simp_all add: x1(1-4) gas_respecting_def builds_receipts_def\<close>, simp add: x1(5))
  then show ?case
    using one by (auto simp: runs run_gas_def x1(2,3))
qed

end

context executor_evm
begin

text \<open>After the transactions of a Seismic block beyond genesis, only the hook is told of no change.\<close>

lemma seismic_chain_finish:
  assumes laws: "hardforks_laws H" and iter: "hash_iter (xl_iter L)"
    and spec: "xe_spec x = seismic_executor_spec H chain"
    and number: "be_number (ev_block E (xe_evm x)) \<noteq> 0"
    and inc: "so_increment_balances (xl_state L) Map.empty (evm_db E (xe_evm x)) = (Inr (), db)"
  shows "\<exists>x'. (eth_finish_block L E x ::
      (('inv, 'rest, 'dec, 'o) block_execution_error abort + _) \<times> _) =
    (Inr (xe_evm x', \<lparr>ber_receipts = xe_receipts x, ber_requests = sl_requests_default (xl_sys L),
                      ber_gas_used = xe_gas_used x\<rparr>), x')
    \<and> xe_evm x' = evm_set_db E db (xe_evm x)"
proof -
  have "iterates (xl_iter L) Map.empty"
    using iter by (rule hash_iterD) simp
  then have "xl_iter L Map.empty = []"
    unfolding iterates_def by (metis map_of_eq_empty_iff)
  then have state: "balance_increment_state (xl_iter L) (xl_state L) Map.empty d =
      (Inr Map.empty :: ('inv, 'rest, 'dec, 'o) block_execution_error + _, d)" for d
    by (simp add: balance_increment_state_def map_ok_def)
  have nonzero: "saturating_to_u64 (be_number (ev_block E (xe_evm x))) \<noteq> 0"
    using number saturating_to_u64_eq_0 by blast
  show ?thesis
    using inc nonzero
    by (auto simp: eth_finish_block_def eth_collect_requests_def eth_finish_balances_def eth_dao_fork_def
        step_defs on_caller_def on_executor_db_def on_db_def try_on_state_with_eq report_balance_increments_def
        state spec seismic_executor_spec_eq [OF laws] post_block_balance_increments_def
        insert_post_block_withdrawals_balance_increments_def base_block_reward_def db_set_db set_db_set_db split: prod.splits)
qed

text \<open>The block that the inner executor runs, from a state without receipts.\<close>

lemma seismic_chain_block_succeeds:
  fixes c :: 'c
  assumes laws: "hardforks_laws H" "hash_iter (xl_iter L)"
    and quiet: "\<And>env. keeps (ev_block E) (ev_transact_raw E env)"
    and spec: "xe_spec x = seismic_executor_spec H chain" "sc_spec (xe_system_caller x) = xe_spec x"
    and start: "be_number (ev_block E (xe_evm x)) \<noteq> 0" "xe_gas_used x = 0"
    and txs: "gas_limits (xl_gas_limit L) txs \<le> unat (be_gas_limit (ev_block E (xe_evm x)))"
      "gas_respecting E (xl_gas_limit L) txs" "builds_receipts (xe_receipt_builder x) txs"
    and accepted: "transact_all (xl_sys L) E txs
        (evm_set_db E (so_set_state_clear_flag (xl_state L) True (evm_db E (xe_evm x))) (xe_evm x)) = (Inr runs, evm')"
    and inc: "\<And>db. \<exists>db'. so_increment_balances (xl_state L) Map.empty db = (Inr (), db')"
  shows "\<exists>res x'. (execute_block (eth_block_executor_dict L E) txs (x, c) ::
      (('inv, 'rest, 'dec, 'o) block_execution_error abort + _) \<times> _) = (Inr res, (x', c))
    \<and> ber_requests res = sl_requests_default (xl_sys L)"
proof -
  let ?x1 = "x\<lparr>xe_evm := evm_set_db E (so_set_state_clear_flag (xl_state L) True (evm_db E (xe_evm x))) (xe_evm x)\<rparr>"
  have pre: "(eth_apply_pre_execution_changes L E x ::
      (('inv, 'rest, 'dec, 'o) block_execution_error abort + _) \<times> _) = (Inr (), ?x1)"
    using spec(2) [unfolded spec(1)]
    by (simp add: eth_apply_pre_execution_changes_def on_caller_def step_defs Let_def apply_call_defs
        system_call_defs spec(1) seismic_executor_spec_eq [OF laws(1)])
  have "\<exists>x2. (try_each (execute_transaction (eth_block_executor_dict L E)) txs (?x1, c) ::
      (('inv, 'rest, 'dec, 'o) block_execution_error abort + _) \<times> _) = (Inr (map run_gas runs), (x2, c))
    \<and> xe_spec x2 = xe_spec ?x1 \<and> ev_block E (xe_evm x2) = ev_block E (xe_evm ?x1)"
    by (rule eth_transactions_succeed [OF quiet]) (use txs start accepted in \<open>simp_all add: block_set_db\<close>)
  then obtain x2 where mid: "(try_each (execute_transaction (eth_block_executor_dict L E)) txs (?x1, c) ::
      (('inv, 'rest, 'dec, 'o) block_execution_error abort + _) \<times> _) = (Inr (map run_gas runs), (x2, c))"
    and x2: "xe_spec x2 = seismic_executor_spec H chain" "be_number (ev_block E (xe_evm x2)) \<noteq> 0"
    using start(1) by (auto simp: spec(1) block_set_db)
  from inc obtain db where
    "so_increment_balances (xl_state L) Map.empty (evm_db E (xe_evm x2)) = (Inr (), db)" by blast
  from seismic_chain_finish [OF laws x2 this] obtain x3 where
    "(eth_finish_block L E x2 :: (('inv, 'rest, 'dec, 'o) block_execution_error abort + _) \<times> _) =
      (Inr (xe_evm x3, \<lparr>ber_receipts = xe_receipts x2, ber_requests = sl_requests_default (xl_sys L),
                        ber_gas_used = xe_gas_used x2\<rparr>), x3)" by blast
  then show ?thesis
    by (simp add: execute_block_def try_bind_def on_executor_def zoom_def pre mid
        bx_apply_post_execution_changes_def map_ok_def)
qed

end

text \<open>C6: A block of a Seismic chain beyond genesis executes: when its transactions decrypt, the sum of
  their gas limits fits the block's, the EVM accepts them one after the other, each on the state its
  predecessors left, and a receipt can be built for each, then the executor, with or without a state
  hook, returns a result, neither an error nor a panic: the receipts built from these runs with the
  cumulative gas, the sum of their gas, and no requests.\<close>

theorem seismic_block_succeeds:
  assumes "hardforks_laws H" and "hash_iter (xl_iter L)" and "revm_keeps_block R"
    and "bsf_spec factory = seismic_executor_spec H chain"
    and "be_number (seismic_block evm) \<noteq> 0"
    and "decrypts M (bsf_purpose_keys factory) txs ptxs"
    and "gas_limits (xl_gas_limit L) ptxs \<le> unat (be_gas_limit (seismic_block evm))"
    and "gas_respecting (seismic_evm_dict R) (xl_gas_limit L) ptxs"
    and "transact_all (xl_sys L) (seismic_evm_dict R) ptxs
        (evm_set_db (seismic_evm_dict R)
          (so_set_state_clear_flag (xl_state L) True (evm_db (seismic_evm_dict R) evm)) evm) = (Inr runs, evm')"
    and "builds_receipts (bsf_receipt_builder factory) ptxs"
    and "\<And>db. \<exists>db'. so_increment_balances (xl_state L) Map.empty db = (Inr (), db')"
  shows "\<exists>res x'. (execute_block (seismic_block_executor_dict M L (seismic_evm_dict R)) txs
        (seismic_set_state_hook hook (seismic_create_executor factory evm ctx), c) ::
        (('inv, 'rest, 'dec, 'o) block_execution_error abort + _) \<times> _) = (Inr res, (x', c))
      \<and> map Some (ber_receipts res) =
          map (rb_build_receipt (bsf_receipt_builder factory)) (receipt_ctxs ptxs runs 0)
      \<and> ber_gas_used res = sum_list (map run_gas runs)
      \<and> ber_requests res = sl_requests_default (xl_sys L)"
proof -
  let ?x = "seismic_set_state_hook hook (seismic_create_executor factory evm ctx)"
  let ?i = "sx_inner ?x"
  let ?E = "seismic_evm_dict R"
  have x: "sx_purpose_keys ?x = bsf_purpose_keys factory" "xe_spec ?i = seismic_executor_spec H chain"
    "xe_evm ?i = evm" "xe_gas_used ?i = 0" "xe_receipts ?i = []" "xe_receipt_builder ?i = bsf_receipt_builder factory"
    "sc_spec (xe_system_caller ?i) = xe_spec ?i"
    using assms(4)
    by (simp_all add: seismic_set_state_hook_def seismic_create_executor_def seismic_block_executor_new_def
        eth_block_executor_new_def eth_set_state_hook_def with_state_hook_def system_caller_new_def)
  have block: "ev_block ?E = seismic_block" by (simp add: seismic_evm_dict_def)
  let ?x1 = "?i\<lparr>xe_evm := evm_set_db ?E (so_set_state_clear_flag (xl_state L) True (evm_db ?E evm)) evm\<rparr>"
  have "\<exists>res i. (execute_block (eth_block_executor_dict L ?E) ptxs (?i, c) ::
      (('inv, 'rest, 'dec, 'o) block_execution_error abort + _) \<times> _) = (Inr res, (i, c))
    \<and> ber_requests res = sl_requests_default (xl_sys L)"
    by (rule seismic_executor_evm.seismic_chain_block_succeeds [OF assms(1,2) seismic_keeps_block(2) [OF assms(3)]
        x(2,7)]) (use assms(5-) in \<open>simp_all add: x block\<close>)
  then obtain res i where inner: "(execute_block (eth_block_executor_dict L ?E) ptxs (?i, c) ::
      (('inv, 'rest, 'dec, 'o) block_execution_error abort + _) \<times> _) = (Inr res, (i, c))"
    and requests: "ber_requests res = sl_requests_default (xl_sys L)" by blast
  have pre: "(eth_apply_pre_execution_changes L ?E ?i ::
      (('inv, 'rest, 'dec, 'o) block_execution_error abort + _) \<times> _) = (Inr (), ?x1)"
    using x(7) [unfolded x(2)]
    by (simp add: eth_apply_pre_execution_changes_def on_caller_def step_defs Let_def apply_call_defs
        system_call_defs x(2,3) seismic_executor_spec_eq [OF assms(1)])
  from inner have charged: "map Some (ber_receipts res) =
        map (rb_build_receipt (bsf_receipt_builder factory)) (receipt_ctxs ptxs runs 0)
      \<and> ber_gas_used res = sum_list (map run_gas runs)"
    by (rule eth_block_run) (use pre assms(9) in \<open>auto simp: x\<close>)
  have d: "decrypts M (sx_purpose_keys ?x) txs ptxs" by (simp only: x assms(6))
  have "(execute_block (seismic_block_executor_dict M L ?E) txs (?x, c) ::
      (('inv, 'rest, 'dec, 'o) block_execution_error abort + _) \<times> _) = (Inr res, (?x\<lparr>sx_inner := i\<rparr>, c))"
    by (simp add: seismic_block_refines_eq [OF d] inner)
  then show ?thesis
    using charged requests by blast
qed

text \<open>The block with one encrypted transaction, on a chain with the forks of Seismic.\<close>

definition sample_chain_factory ::
    "((u64, (nat, nat, unit, unit, unit) evm_wrapper, unit, nat receipt_envelope) receipt_builder,
      eth_executor_spec, unit, u64) seismic_block_executor_factory" where
  "sample_chain_factory =
     seismic_block_executor_factory_new (bf_receipt_builder sample_factory)
       (seismic_executor_spec sample_hardforks_lib (seismic_chain_mainnet (\<lambda>_. 0))) () 100"

lemma seismic_block_succeeds_witness:
  "\<exists>res s. (execute_block (seismic_block_executor_dict gas_seismic_lib sample_executor_lib
        (seismic_evm_dict paying_seismic_revm)) [one_encrypted_tx]
        (seismic_set_state_hook (Some []) (seismic_create_executor sample_chain_factory sample_wrapper sample_ctx), ()) ::
        ((unit, unit, unit, unit) block_execution_error abort + _) \<times> _) = (Inr res, s)
     \<and> ber_receipts res = [ReceiptLegacy 300] \<and> ber_gas_used res = 300 \<and> ber_requests res = []"
proof -
  let ?E = "seismic_evm_dict paying_seismic_revm"
  have f: "bsf_spec sample_chain_factory = seismic_executor_spec sample_hardforks_lib (seismic_chain_mainnet (\<lambda>_. 0))"
    "bsf_purpose_keys sample_chain_factory = 100" "bsf_receipt_builder sample_chain_factory = bf_receipt_builder sample_factory"
    by (simp_all add: sample_chain_factory_def seismic_block_executor_factory_new_def)
  have tx: "xt_tx one_plain_tx = 300" "te_gas_limit (stx_base (xt_to_tx_env one_plain_tx)) = 300"
    by (simp_all add: one_plain_tx_def gas_seismic_lib_def)
  have laws: "hardforks_laws sample_hardforks_lib"
    by (simp add: hardforks_laws_def sample_hardforks_lib_def)
  have iter: "hash_iter (xl_iter sample_executor_lib)"
    by (simp add: sample_executor_lib_def hash_iter_ascending)
  have keeps: "revm_keeps_block paying_seismic_revm"
    using paying_revm_keeps_block by (simp add: revm_keeps_block_def paying_seismic_revm_def)
  have number: "be_number (seismic_block sample_wrapper) \<noteq> 0"
    by (simp add: sample_wrapper_def seismic_block_def)
  have dec: "decrypts gas_seismic_lib (bsf_purpose_keys sample_chain_factory) [one_encrypted_tx] [one_plain_tx]"
    by (simp only: f one_decrypts)
  have limits: "gas_limits (xl_gas_limit sample_executor_lib) [one_plain_tx]
      \<le> unat (be_gas_limit (seismic_block sample_wrapper))"
    by (simp add: gas_limits_def tx sample_executor_lib_def sample_wrapper_def seismic_block_def)
  have gas: "gas_respecting ?E (xl_gas_limit sample_executor_lib) [one_plain_tx]"
    by (auto simp: gas_respecting_def tx sample_executor_lib_def seismic_evm_defs seismic_transact_raw_def
        on_inner_def zoom_def paying_seismic_revm_def paying_revm_def split: if_splits)
  obtain rs e where run: "evm_transact ?E xt_to_tx_env one_plain_tx
      (evm_set_db ?E (so_set_state_clear_flag (xl_state sample_executor_lib) True (evm_db ?E sample_wrapper)) sample_wrapper) =
      (Inr rs, e)" and rs: "rs_result rs = Success 300 [] []"
    by (simp add: evm_transact_def seismic_evm_defs seismic_transact_raw_def on_inner_def zoom_def evm_set_db_def
        paying_seismic_revm_def paying_revm_def tx sample_wrapper_def)
  then have acc: "transact_all (xl_sys sample_executor_lib) ?E [one_plain_tx]
      (evm_set_db ?E (so_set_state_clear_flag (xl_state sample_executor_lib) True (evm_db ?E sample_wrapper)) sample_wrapper) =
      (Inr [(rs, e)], evm_commit (xl_sys sample_executor_lib) ?E (rs_state rs) e)"
    by simp
  have build: "builds_receipts (bsf_receipt_builder sample_chain_factory) [one_plain_tx]"
    by (simp add: builds_receipts_def f sample_factory_def eth_block_executor_factory_new_def
        alloy_receipt_builder_def alloy_build_receipt_def)
  have inc: "\<exists>db'. so_increment_balances (xl_state sample_executor_lib) Map.empty db = (Inr (), db')" for db
    by (simp add: sample_executor_lib_def sample_state_ops_def)
  have built: "map (rb_build_receipt (bsf_receipt_builder sample_chain_factory)) (receipt_ctxs [one_plain_tx] [(rs, e)] 0) =
      [Some (ReceiptLegacy 300)]" "sum_list (map run_gas [(rs, e)]) = 300"
    by (simp_all add: f rs run_gas_def sample_factory_def eth_block_executor_factory_new_def alloy_receipt_builder_def
        alloy_build_receipt_def)
  have none: "sl_requests_default (xl_sys sample_executor_lib) = []"
    by (simp add: sample_executor_lib_def sample_sys_lib_def)
  have "\<exists>res x'. (execute_block (seismic_block_executor_dict gas_seismic_lib sample_executor_lib ?E) [one_encrypted_tx]
        (seismic_set_state_hook (Some []) (seismic_create_executor sample_chain_factory sample_wrapper sample_ctx), ()) ::
        ((unit, unit, unit, unit) block_execution_error abort + _) \<times> _) = (Inr res, (x', ()))
      \<and> map Some (ber_receipts res) = map (rb_build_receipt (bsf_receipt_builder sample_chain_factory))
          (receipt_ctxs [one_plain_tx] [(rs, e)] 0)
      \<and> ber_gas_used res = sum_list (map run_gas [(rs, e)])
      \<and> ber_requests res = sl_requests_default (xl_sys sample_executor_lib)"
    by (rule seismic_block_succeeds [OF laws iter keeps f(1) number dec limits gas acc build inc])
  then show ?thesis unfolding built none by auto
qed

end
