(* ===== verification/BlockReplay.thy ===== *)
theory BlockReplay
  imports BlockBuilding SeismicChain
begin

text \<open>
  Executing a block that a builder has made. The builder rejects and discards transactions on the
  way; whoever executes the finished block sees only those it committed. When the EVM leaves no trace
  of a transaction that was not committed, both arrive at the same block
  (\<open>execute_block\<close> and \<open>execute_transaction_with_commit_condition\<close> of
  \<open>crates/evm/src/block/mod.rs\<close>, over \<open>crates/seismic-evm/src/block/mod.rs\<close>).
\<close>

section \<open>Replaying a builder\<close>

context block_executor
begin

text \<open>
  A relation that a commit keeps when it is repeated on the other side, and that what is not committed
  does not leave, relates the builder's executor to the one that executes its transactions alone.
\<close>

lemma building_replays:
  assumes commit: "\<And>tx f y c g z c' y'. tx \<in> T \<Longrightarrow> sim y y' \<Longrightarrow>
      bx_execute_transaction_with_commit_condition B tx f (y, c) = (Inr (Some g), (z, c')) \<Longrightarrow>
      \<exists>z'. execute_transaction B tx (y', d) = (Inr g, (z', d)) \<and> sim z z'"
    and discard: "\<And>tx f y c z c' y'. tx \<in> T \<Longrightarrow> sim y y' \<Longrightarrow>
      bx_execute_transaction_with_commit_condition B tx f (y, c) = (Inr None, (z, c')) \<Longrightarrow> sim z y'"
    and reject: "\<And>tx f y c e z c' y'. tx \<in> T \<Longrightarrow> sim y y' \<Longrightarrow>
      bx_execute_transaction_with_commit_condition B tx f (y, c) = (Inl (Error e), (z, c')) \<Longrightarrow> sim z y'"
    and start: "sim x x'" and run: "building B T x done y"
  shows "\<exists>y'. try_each (execute_transaction B) (map fst done) (x', d) = (Inr (map snd done), (y', d)) \<and> sim y y'"
  using run
proof (induction rule: building.induct)
  case start
  then show ?case using assms(4) by simp
next
  case (committed "done" y tx f c g z c')
  then obtain y' where "sim y y'"
    and "try_each (execute_transaction B) (map fst done) (x', d) = (Inr (map snd done), (y', d))" by blast
  with commit [OF committed.hyps(2) _ committed.hyps(3)] show ?case
    by (fastforce simp: try_each_append)
next
  case (discarded "done" y tx f c z c')
  then show ?case using discard by blast
next
  case (rejected "done" y tx f c e z c')
  then show ?case using reject by blast
next
  case (observed "done" y tx h c g z c')
  then obtain y' where "sim y y'"
    and "try_each (execute_transaction B) (map fst done) (x', d) = (Inr (map snd done), (y', d))" by blast
  with commit [OF observed.hyps(2) _ result_closure_commits [OF observed.hyps(3)]] show ?case
    by (fastforce simp: try_each_append)
qed

end

section \<open>What the EVM leaves behind\<close>

text \<open>
  \<open>sim\<close> identifies EVMs that no later transaction can tell apart: they may differ in caches, in the
  journal's scratch space, in the environment of the last transaction, or in the inspector. For an
  EVM whose context keeps nothing else between transactions, \<open>transact\<close> without a commit leaves such
  a one. (The EVM of \<open>op_revm\<close> keeps more; \<open>OpReplay\<close> works with a weaker law.)
\<close>

definition evm_replays ::
    "('evm \<Rightarrow> 'evm \<Rightarrow> bool) \<Rightarrow> ('db, 'err, 'halt, 'hk, 'rq) sys_lib
      \<Rightarrow> ('evm, 'db, 'insp, 'pre, 'spec, 'env, 'halt, 'err) evm_dict \<Rightarrow> bool" where
  "evm_replays sim S E \<longleftrightarrow> equivp sim
     \<and> (\<forall>e e'. sim e e' \<longrightarrow> ev_block E e = ev_block E e')
     \<and> (\<forall>env e r f. ev_transact_raw E env e = (r, f) \<longrightarrow> sim e f)
     \<and> (\<forall>env e e'. sim e e' \<longrightarrow> fst (ev_transact_raw E env e) = fst (ev_transact_raw E env e'))
     \<and> (\<forall>state e e'. sim e e' \<longrightarrow> sim (evm_commit S E state e) (evm_commit S E state e'))"

text \<open>A receipt builder that cannot tell such EVMs apart either.\<close>

definition builder_replays ::
    "('evm \<Rightarrow> 'evm \<Rightarrow> bool) \<Rightarrow> ('tx, 'evm, 'halt, 'rcpt) receipt_builder \<Rightarrow> bool" where
  "builder_replays sim rb \<longleftrightarrow>
     (\<forall>ctx e. sim (rc_evm ctx) e \<longrightarrow> rb_build_receipt rb (ctx\<lparr>rc_evm := e\<rparr>) = rb_build_receipt rb ctx)"

text \<open>Executors that differ in such an EVM only.\<close>

definition same_executor ::
    "('evm \<Rightarrow> 'evm \<Rightarrow> bool) \<Rightarrow> ('evm, 'hk, 'tx, 'halt, 'rcpt) eth_block_executor
      \<Rightarrow> ('evm, 'hk, 'tx, 'halt, 'rcpt) eth_block_executor \<Rightarrow> bool" where
  "same_executor sim x x' \<longleftrightarrow> sim (xe_evm x) (xe_evm x') \<and> x' = x\<lparr>xe_evm := xe_evm x'\<rparr>
     \<and> builder_replays sim (xe_receipt_builder x)"

lemma evm_replaysD:
  assumes "evm_replays sim S E"
  shows "sim e e" and "sim e e' \<Longrightarrow> ev_block E e' = ev_block E e"
    and "evm_transact E into tx e = (r, f) \<Longrightarrow> sim e e' \<Longrightarrow> sim f e'"
    and "evm_transact E into tx e = (r, f) \<Longrightarrow> sim e e' \<Longrightarrow> \<exists>f'. evm_transact E into tx e' = (r, f') \<and> sim f f'"
    and "sim e e' \<Longrightarrow> sim (evm_commit S E state e) (evm_commit S E state e')"
proof -
  have equiv: "equivp sim"
    and block: "\<And>e e'. sim e e' \<Longrightarrow> ev_block E e = ev_block E e'"
    and leaves: "\<And>env e r f. ev_transact_raw E env e = (r, f) \<Longrightarrow> sim e f"
    and same: "\<And>env e e'. sim e e' \<Longrightarrow> fst (ev_transact_raw E env e) = fst (ev_transact_raw E env e')"
    using assms unfolding evm_replays_def by auto
  note sym = equivp_symp [OF equiv] and trans = equivp_transp [OF equiv]
  show "sim e e" by (rule equivp_reflp [OF equiv])
  show "ev_block E e' = ev_block E e" if "sim e e'" using block [OF that] by simp
  show left: "sim f e'" if "evm_transact E into tx e = (r, f)" "sim e e'"
    using that leaves [of "into tx" e r f] sym trans unfolding evm_transact_def by blast
  show "\<exists>f'. evm_transact E into tx e' = (r, f') \<and> sim f f'"
    if run: "evm_transact E into tx e = (r, f)" and "sim e e'"
  proof -
    obtain r' f' where t: "evm_transact E into tx e' = (r', f')" by fastforce
    have "r' = r"
      using same [OF that(2), of "into tx"] run t by (simp add: evm_transact_def)
    moreover have "sim e' f'"
      using leaves t unfolding evm_transact_def by blast
    ultimately show ?thesis
      using t left [OF that] trans by blast
  qed
  show "sim (evm_commit S E state e) (evm_commit S E state e')" if "sim e e'"
    using assms that unfolding evm_replays_def by blast
qed

section \<open>The Ethereum executor\<close>

lemma same_executorE:
  assumes "same_executor sim x x'"
  obtains e where "x' = x\<lparr>xe_evm := e\<rparr>" "sim (xe_evm x) e" "builder_replays sim (xe_receipt_builder x)"
  using assms unfolding same_executor_def by blast

lemma eth_commit_replays:
  assumes "evm_replays sim (xl_sys L) E" and "same_executor sim y y'"
    and "(eth_execute_transaction_with_commit_condition L E tx f (y, c) ::
      (('inv, 'rest, 'dec, 'o) block_execution_error abort + _) \<times> _) = (Inr (Some g), (z, c'))"
  shows "\<exists>z'. (execute_transaction (eth_block_executor_dict L E) tx (y', d) ::
      (('inv, 'rest, 'dec, 'o) block_execution_error abort + _) \<times> _) = (Inr g, (z', d)) \<and> same_executor sim z z'"
  using assms(3)
proof (rule eth_tx_cases)
  note laws = evm_replaysD [OF assms(1)]
  from assms(2) obtain e where y': "y' = y\<lparr>xe_evm := e\<rparr>" and sim: "sim (xe_evm y) e"
    and builder: "builder_replays sim (xe_receipt_builder y)"
    by (rule same_executorE)
  fix rs evm receipt
  assume room: "xl_gas_limit L (xt_tx tx) \<le> be_gas_limit (ev_block E (xe_evm y)) - xe_gas_used y"
    and run: "evm_transact E xt_to_tx_env tx (xe_evm y) = (Inr rs, evm)"
    and g: "(Inr (Some g) :: ('inv, 'rest, 'dec, 'o) block_execution_error abort + _) =
      Inr (Some (er_gas_used (rs_result rs)))"
    and built: "rb_build_receipt (xe_receipt_builder y)
         \<lparr>rc_tx = xt_tx tx, rc_evm = evm, rc_result = rs_result rs, rc_state = rs_state rs,
          rc_cumulative_gas_used = xe_gas_used y + er_gas_used (rs_result rs)\<rparr> = Some receipt"
    and z: "z = y\<lparr>xe_evm := evm_commit (xl_sys L) E (rs_state rs) evm,
         xe_system_caller := on_state (xl_sys L) (Transaction (of_nat (length (xe_receipts y))))
           (rs_state rs) (xe_system_caller y),
         xe_receipts := xe_receipts y @ [receipt],
         xe_gas_used := xe_gas_used y + er_gas_used (rs_result rs)\<rparr>"
  from laws(4) [OF run sim] obtain evm' where
    run': "evm_transact E xt_to_tx_env tx e = (Inr rs, evm')" and evm': "sim evm evm'" by blast
  have "rb_build_receipt (xe_receipt_builder y)
         \<lparr>rc_tx = xt_tx tx, rc_evm = evm', rc_result = rs_result rs, rc_state = rs_state rs,
          rc_cumulative_gas_used = xe_gas_used y + er_gas_used (rs_result rs)\<rparr> = Some receipt"
    using builder [unfolded builder_replays_def, rule_format, of "\<lparr>rc_tx = xt_tx tx, rc_evm = evm,
      rc_result = rs_result rs, rc_state = rs_state rs,
      rc_cumulative_gas_used = xe_gas_used y + er_gas_used (rs_result rs)\<rparr>" evm'] evm' built
    by simp
  with eth_execute_transaction_success [of L tx E y' rs evm' receipt d] room run'
  show ?thesis
    using g laws(5) [OF evm'] builder
    by (intro exI [of _ "y'\<lparr>xe_evm := evm_commit (xl_sys L) E (rs_state rs) evm',
         xe_system_caller := on_state (xl_sys L) (Transaction (of_nat (length (xe_receipts y))))
           (rs_state rs) (xe_system_caller y),
         xe_receipts := xe_receipts y @ [receipt],
         xe_gas_used := xe_gas_used y + er_gas_used (rs_result rs)\<rparr>"])
      (simp add: same_executor_def y' z laws(2) [OF sim])
qed auto

lemma eth_skip_replays:
  assumes "evm_replays sim (xl_sys L) E" and "same_executor sim y y'"
    and "(eth_execute_transaction_with_commit_condition L E tx f (y, c) ::
      (('inv, 'rest, 'dec, 'o) block_execution_error abort + _) \<times> _) = (r, (z, c'))"
    and "r = Inr None \<or> (\<exists>e. r = Inl (Error e))"
  shows "same_executor sim z y'"
proof -
  from assms(2) obtain e where y': "y' = y\<lparr>xe_evm := e\<rparr>" and sim: "sim (xe_evm y) e"
    and builder: "builder_replays sim (xe_receipt_builder y)"
    by (rule same_executorE)
  have left: "same_executor sim (y\<lparr>xe_evm := evm\<rparr>) y'" if "evm_transact E xt_to_tx_env tx (xe_evm y) = (t, evm)" for t evm
    using evm_replaysD(3) [OF assms(1) that sim] y' builder by (simp add: same_executor_def)
  from assms(3) show ?thesis
    by (rule eth_tx_cases) (use left assms(2,4) in auto)
qed

section \<open>The Seismic executor\<close>

definition same_seismic_executor ::
    "('evm \<Rightarrow> 'evm \<Rightarrow> bool) \<Rightarrow> ('evm, 'hk, 'tx, 'halt, 'rcpt, 'keys) seismic_block_executor
      \<Rightarrow> ('evm, 'hk, 'tx, 'halt, 'rcpt, 'keys) seismic_block_executor \<Rightarrow> bool" where
  "same_seismic_executor sim x x' \<longleftrightarrow>
     same_executor sim (sx_inner x) (sx_inner x') \<and> sx_purpose_keys x' = sx_purpose_keys x"

lemma seismic_building_replays:
  fixes d :: 'c
  assumes "evm_replays sim (xl_sys L) E" and "builder_replays sim (xe_receipt_builder (sx_inner x))"
    and run: "building (seismic_block_executor_dict M L E ::
      (_, 'c, _, _, _, _, _, _, _, ('inv, 'rest, 'dec, 'o) block_execution_error) block_executor_dict) T x done y"
  shows "\<exists>y'. (try_each (execute_transaction (seismic_block_executor_dict M L E)) (map fst done) (x, d) ::
      (('inv, 'rest, 'dec, 'o) block_execution_error abort + _) \<times> _) = (Inr (map snd done), (y', d))
    \<and> same_seismic_executor sim y y'"
proof (rule seismic_executor.building_replays [where sim = "same_seismic_executor sim", OF _ _ _ _ run], unfold seismic_dict_simps)
  show "same_seismic_executor sim x x"
    using assms(1,2) by (simp add: same_seismic_executor_def same_executor_def evm_replaysD(1))
  show "\<exists>z'. (execute_transaction (seismic_block_executor_dict M L E) tx (y', d) ::
      (('inv, 'rest, 'dec, 'o) block_execution_error abort + _) \<times> _) = (Inr g, (z', d))
    \<and> same_seismic_executor sim z z'"
    if same: "same_seismic_executor sim y y'"
      and run: "(seismic_execute_transaction_with_commit_condition M L E tx f (y, c) ::
        (('inv, 'rest, 'dec, 'o) block_execution_error abort + _) \<times> _) = (Inr (Some g), (z, c'))"
    for tx f y c g z c' y'
    using run
  proof (rule seismic_commit_cases)
    fix ptx i
    assume ptx: "plaintext_of M (sx_purpose_keys y) tx = Inr ptx"
      and inner: "(eth_execute_transaction_with_commit_condition L E ptx f (sx_inner y, c) ::
        (('inv, 'rest, 'dec, 'o) block_execution_error abort + _) \<times> _) = (Inr (Some g), (i, c'))"
      and z: "z = y\<lparr>sx_inner := i\<rparr>"
    from eth_commit_replays [OF assms(1) _ inner, of "sx_inner y'" d] same obtain i' where
      "(execute_transaction (eth_block_executor_dict L E) ptx (sx_inner y', d) ::
        (('inv, 'rest, 'dec, 'o) block_execution_error abort + _) \<times> _) = (Inr g, (i', d))"
      and "same_executor sim i i'"
      by (auto simp: same_seismic_executor_def)
    then show ?thesis
      using same ptx
      by (simp add: seismic_execute_transaction_eq on_inner_executor_with_Inr same_seismic_executor_def z)
  qed simp
  have skip: "same_seismic_executor sim z y'"
    if same: "same_seismic_executor sim y y'"
      and run: "(seismic_execute_transaction_with_commit_condition M L E tx f (y, c) ::
        (('inv, 'rest, 'dec, 'o) block_execution_error abort + _) \<times> _) = (r, (z, c'))"
      and r: "r = Inr None \<or> (\<exists>e. r = Inl (Error e))"
    for tx f y c r z c' y'
    using run
  proof (rule seismic_commit_cases)
    fix ptx i
    assume "(eth_execute_transaction_with_commit_condition L E ptx f (sx_inner y, c) ::
        (('inv, 'rest, 'dec, 'o) block_execution_error abort + _) \<times> _) = (r, (i, c'))"
      and z: "z = y\<lparr>sx_inner := i\<rparr>"
    then show ?thesis
      using eth_skip_replays [OF assms(1) _ _ r] same by (auto simp: same_seismic_executor_def)
  qed (use same in simp)
  show "same_seismic_executor sim z y'"
    if "same_seismic_executor sim y y'"
      and "(seismic_execute_transaction_with_commit_condition M L E tx f (y, c) ::
        (('inv, 'rest, 'dec, 'o) block_execution_error abort + _) \<times> _) = (Inr None, (z, c'))"
    for tx f y c z c' y'
    using skip [OF that] by simp
  show "same_seismic_executor sim z y'"
    if "same_seismic_executor sim y y'"
      and "(seismic_execute_transaction_with_commit_condition M L E tx f (y, c) ::
        (('inv, 'rest, 'dec, 'o) block_execution_error abort + _) \<times> _) = (Inl (Error e), (z, c'))"
    for tx f y c e z c' y'
    using skip [OF that] by simp
qed

context executor_evm
begin

lemma seismic_building_constants:
  assumes replays: "evm_replays sim (xl_sys L) E"
    and run: "building (seismic_block_executor_dict M L E ::
      (_, 'c, _, _, _, _, _, _, _, ('inv, 'rest, 'dec, 'o) block_execution_error) block_executor_dict) T x done y"
  shows "xe_spec (sx_inner y) = xe_spec (sx_inner x)"
    and "ev_block E (xe_evm (sx_inner y)) = ev_block E (xe_evm (sx_inner x))"
proof -
  let ?v = "\<lambda>x. (xe_spec (sx_inner x), ev_block E (xe_evm (sx_inner x)))"
  have offer: "keeps (\<lambda>p. ?v (fst p)) (seismic_execute_transaction_with_commit_condition M L E tx f ::
      (_ \<times> 'c, ('inv, 'rest, 'dec, 'o) block_execution_error abort, _) step)" for tx f
  proof (rule keepsI)
    fix s r t
    assume run: "(seismic_execute_transaction_with_commit_condition M L E tx f s ::
      (('inv, 'rest, 'dec, 'o) block_execution_error abort + _) \<times> _) = (r, t)"
    obtain x c x' and c' :: 'c where s: "s = (x, c)" and t: "t = (x', c')" by fastforce
    from run [unfolded s t] show "?v (fst t) = ?v (fst s)"
    proof (rule seismic_commit_cases)
      fix ptx i
      assume inner: "(eth_execute_transaction_with_commit_condition L E ptx f (sx_inner x, c) ::
          (('inv, 'rest, 'dec, 'o) block_execution_error abort + _) \<times> _) = (r, (i, c'))"
        and x': "x' = x\<lparr>sx_inner := i\<rparr>"
      have block: "ev_block E evm = ev_block E e" if "evm_transact E xt_to_tx_env ptx e = (r, evm)" for r e evm
        using evm_replaysD(2) [OF replays evm_replaysD(3) [OF replays that evm_replaysD(1) [OF replays]]] by simp
      from inner show ?thesis
        by (rule eth_tx_cases) (auto simp: s t x' block block_commit)
    qed (simp add: s t)
  qed
  have "?v y = ?v x"
    by (rule seismic_executor.building_keeps [OF _ run]) (simp add: offer)
  then show "xe_spec (sx_inner y) = xe_spec (sx_inner x)"
    "ev_block E (xe_evm (sx_inner y)) = ev_block E (xe_evm (sx_inner x))" by simp_all
qed

end

text \<open>C8: What a builder has made of a block of a Seismic chain beyond genesis, whoever executes the block
  makes of it too. A builder offers any transactions, some of which are rejected by the EVM, do not
  decrypt, do not fit the block or are discarded, and finishes. When the EVM keeps no trace of a
  transaction that was not committed, executing just the committed transactions from the same start,
  with the same state hook, neither fails nor panics: it gives the same receipts, requests and gas,
  and an EVM no later transaction can tell from the builder's.\<close>

theorem seismic_built_block_executes:
  assumes "hardforks_laws H" and "hash_iter (xl_iter L)"
    and "bsf_spec factory = seismic_executor_spec H chain"
    and "be_number (seismic_block evm) \<noteq> 0" and "revm_keeps_block R"
    and "evm_replays sim (xl_sys L) (seismic_evm_dict R)"
    and "builder_replays sim (bsf_receipt_builder factory)"
    and "\<And>db. so_increment_balances (xl_state L) Map.empty db = (Inr (), db)"
    and "(seismic_apply_pre_execution_changes L (seismic_evm_dict R)
          (seismic_set_state_hook hook (seismic_create_executor factory evm ctx)) ::
        (('inv, 'rest, 'dec, 'o) block_execution_error abort + unit) \<times> _) = (Inr (), x)"
    and "building (seismic_block_executor_dict M L (seismic_evm_dict R) ::
        (_, 'c, _, _, _, _, _, _, _, ('inv, 'rest, 'dec, 'o) block_execution_error) block_executor_dict) T x done y"
    and "(seismic_finish_block L (seismic_evm_dict R) y ::
        (('inv, 'rest, 'dec, 'o) block_execution_error abort + _) \<times> _) = (Inr (evm', res), z)"
  shows "\<exists>x'. (execute_block (seismic_block_executor_dict M L (seismic_evm_dict R)) (map fst done)
        (seismic_set_state_hook hook (seismic_create_executor factory evm ctx), c :: 'c) ::
        (('inv, 'rest, 'dec, 'o) block_execution_error abort + _) \<times> _) = (Inr res, (x', c))
      \<and> sim evm' (xe_evm (sx_inner x'))"
proof -
  let ?E = "seismic_evm_dict R"
  let ?B = "seismic_block_executor_dict M L ?E :: (_, 'c, _, _, _, _, _, _, _,
    ('inv, 'rest, 'dec, 'o) block_execution_error) block_executor_dict"
  let ?x = "seismic_set_state_hook hook (seismic_create_executor factory evm ctx)"
  obtain i where pre: "(eth_apply_pre_execution_changes L ?E (sx_inner ?x) ::
        (('inv, 'rest, 'dec, 'o) block_execution_error abort + unit) \<times> _) = (Inr (), i)"
    and x: "x = ?x\<lparr>sx_inner := i\<rparr>"
    using assms(9) by (auto simp: seismic_apply_pre_execution_changes_def on_inner_executor_Inr)
  have new: "xe_evm (sx_inner ?x) = evm" "xe_spec (sx_inner ?x) = seismic_executor_spec H chain"
    "xe_receipt_builder (sx_inner ?x) = bsf_receipt_builder factory"
    by (simp_all add: assms(3) seismic_set_state_hook_def eth_set_state_hook_def seismic_create_executor_def
        seismic_block_executor_new_def eth_block_executor_new_def)
  note i = keepsD [OF pre_execution_ignores pre, of xe_spec] keepsD [OF pre_execution_ignores pre, of xe_receipt_builder]
    keepsD [OF seismic_executor_evm.eth_pre_keeps_block [OF seismic_keeps_block(1) [OF assms(5)]] pre]
  have "builder_replays sim (xe_receipt_builder (sx_inner x))"
    using assms(7) by (simp add: x i new)
  from seismic_building_replays [OF assms(6) this assms(10), of c] obtain y' where
    txs: "(try_each (execute_transaction ?B) (map fst done) (x, c) ::
        (('inv, 'rest, 'dec, 'o) block_execution_error abort + _) \<times> _) = (Inr (map snd done), (y', c))"
    and same: "same_executor sim (sx_inner y) (sx_inner y')"
    unfolding same_seismic_executor_def by blast
  note y = seismic_executor_evm.seismic_building_constants [OF assms(6,10)]
  have chain_y: "xe_spec (sx_inner y) = seismic_executor_spec H chain"
    "be_number (ev_block ?E (xe_evm (sx_inner y))) \<noteq> 0"
    using assms(4) by (simp_all add: y x i new) (simp add: seismic_evm_dict_def)
  from same obtain e where y': "sx_inner y' = (sx_inner y)\<lparr>xe_evm := e\<rparr>" and sim: "sim (xe_evm (sx_inner y)) e"
    by (rule same_executorE)
  have chain_y': "xe_spec (sx_inner y') = seismic_executor_spec H chain"
    "be_number (ev_block ?E (xe_evm (sx_inner y'))) \<noteq> 0"
    using chain_y evm_replaysD(2) [OF assms(6) sim] by (simp_all add: y')
  note finish = seismic_executor_evm.seismic_chain_finish [where R = R, OF assms(1,2) _ _ assms(8),
      unfolded seismic_access.set_db_db]
  from assms(11) obtain zi where
    "(eth_finish_block L ?E (sx_inner y) :: (('inv, 'rest, 'dec, 'o) block_execution_error abort + _) \<times> _) =
      (Inr (evm', res), zi)"
    by (auto simp: seismic_finish_block_def on_inner_executor_Inr)
  moreover from finish [OF chain_y] obtain yi where
    "(eth_finish_block L ?E (sx_inner y) :: (('inv, 'rest, 'dec, 'o) block_execution_error abort + _) \<times> _) =
      (Inr (xe_evm yi, \<lparr>ber_receipts = xe_receipts (sx_inner y), ber_requests = sl_requests_default (xl_sys L),
            ber_gas_used = xe_gas_used (sx_inner y)\<rparr>), yi)" and "xe_evm yi = xe_evm (sx_inner y)"
    by blast
  ultimately have res: "evm' = xe_evm (sx_inner y)"
    "res = \<lparr>ber_receipts = xe_receipts (sx_inner y), ber_requests = sl_requests_default (xl_sys L),
            ber_gas_used = xe_gas_used (sx_inner y)\<rparr>"
    by simp_all
  from finish [OF chain_y'] obtain i' where
    fin: "(eth_finish_block L ?E (sx_inner y') ::
        (('inv, 'rest, 'dec, 'o) block_execution_error abort + _) \<times> _) = (Inr (xe_evm i', res), i')"
    and i': "xe_evm i' = e"
    by (auto simp: y' res)
  have "(seismic_finish_block L ?E y' :: (('inv, 'rest, 'dec, 'o) block_execution_error abort + _) \<times> _) =
      (Inr (e, res), y'\<lparr>sx_inner := i'\<rparr>)"
    using fin by (auto simp: seismic_finish_block_def on_inner_executor_Inr i')
  then show ?thesis
    using assms(9) txs sim
    by (auto simp: execute_block_def try_bind_def on_executor_def zoom_def
        bx_apply_post_execution_changes_def map_ok_def res i')
qed

text \<open>On a chain with the forks of Seismic: a transaction that does not decrypt, then one that does.\<close>

definition sample_chain_spec :: eth_executor_spec where
  "sample_chain_spec = seismic_executor_spec sample_hardforks_lib (seismic_chain_mainnet (\<lambda>_. 0))"

definition chain_executor ::
    "nat receipt_envelope list \<Rightarrow> u64 \<Rightarrow> nat \<Rightarrow>
      ((nat, nat, unit, unit, unit) evm_wrapper, state_change_source list, u64, unit,
        nat receipt_envelope, u64) seismic_block_executor" where
  "chain_executor rs g d =
     \<lparr>sx_inner = (sample_after rs g d)
        \<lparr>xe_spec := sample_chain_spec, xe_system_caller := system_caller_new sample_chain_spec\<rparr>,
      sx_purpose_keys = 100\<rparr>"

lemma sample_chain_laws: "hardforks_laws sample_hardforks_lib"
  by (simp add: hardforks_laws_def sample_hardforks_lib_def)

lemmas sample_chain_spec_eq = sample_chain_spec_def [unfolded seismic_executor_spec_eq [OF sample_chain_laws]]

lemma chain_executor_new:
  "seismic_set_state_hook None (seismic_create_executor sample_chain_factory sample_wrapper sample_ctx) =
    chain_executor [] 0 0"
  by (simp add: chain_executor_def sample_chain_factory_def sample_chain_spec_def seismic_set_state_hook_def
      eth_set_state_hook_def with_state_hook_def seismic_create_executor_def seismic_block_executor_new_def
      seismic_block_executor_factory_new_def sample_after_new [symmetric] sample_executor_def
      eth_create_executor_def eth_block_executor_new_def system_caller_new_def sample_factory_def
      eth_block_executor_factory_new_def)

lemma chain_executor_pre:
  "(seismic_apply_pre_execution_changes sample_executor_lib (seismic_evm_dict paying_seismic_revm)
      (chain_executor [] 0 0) :: ((unit, unit, unit, unit) block_execution_error abort + unit) \<times> _) =
    (Inr (), chain_executor [] 0 0)"
  by (simp add: chain_executor_def seismic_apply_pre_execution_changes_def on_inner_executor_def
      eth_apply_pre_execution_changes_def on_caller_def step_defs Let_def apply_call_defs system_call_defs
      sample_after_def sample_block_defs system_caller_new_def sample_chain_spec_eq eth_evm_defs
      seismic_evm_defs evm_defs sample_state_ops_def)

lemma chain_executor_tx:
  "(execute_transaction (eth_block_executor_dict sample_executor_lib (seismic_evm_dict paying_seismic_revm))
      one_plain_tx (sx_inner (chain_executor [] 0 0), c) ::
      ((unit, unit, unit, unit) block_execution_error abort + u64) \<times> _) =
    (Inr 300, (sx_inner (chain_executor [ReceiptLegacy 300] 300 1), c))"
  by (simp add: chain_executor_def execute_transaction_def eth_block_executor_dict_def default_result_closure_def
      map_ok_def eth_execute_transaction_with_commit_condition_def Let_def sample_after_def
      sample_block_defs evm_defs eth_evm_defs seismic_evm_defs evm_commit_def paying_revm_def
      paying_seismic_revm_def zoom_def seismic_transact_raw_def on_inner_def
      alloy_receipt_builder_def alloy_build_receipt_def sample_sys_lib_def system_caller_new_def on_state_def
      one_plain_tx_def gas_seismic_lib_def word_le_nat_alt word_less_nat_alt)

lemma chain_building:
  "building (seismic_block_executor_dict gas_seismic_lib sample_executor_lib (seismic_evm_dict paying_seismic_revm) ::
      (_, unit, _, _, _, _, _, _, _, (unit, unit, unit, unit) block_execution_error) block_executor_dict)
    {undecryptable_tx, one_encrypted_tx} (chain_executor [] 0 0) [(one_encrypted_tx, 300)]
    (chain_executor [ReceiptLegacy 300] 300 1)"
proof -
  let ?B = "seismic_block_executor_dict gas_seismic_lib sample_executor_lib (seismic_evm_dict paying_seismic_revm) ::
      (_, unit, _, _, _, _, _, _, _, (unit, unit, unit, unit) block_execution_error) block_executor_dict"
  have keys: "sx_purpose_keys (chain_executor rs g d) = 100" for rs g d
    by (simp add: chain_executor_def)
  have inner: "(chain_executor rs g d)\<lparr>sx_inner := sx_inner (chain_executor rs' g' d')\<rparr> = chain_executor rs' g' d'"
    for rs g d rs' g' d'
    by (simp add: chain_executor_def)
  have bad: "bx_execute_transaction_with_commit_condition ?B undecryptable_tx (\<lambda>_ c. (Yes, c))
      (chain_executor [] 0 0, ()) =
      (Inl (Error (Internal (FailedToDecryptSeismicTx ()))), (chain_executor [] 0 0, ()))"
    by (simp add: seismic_execute_transaction_with_commit_condition_def keys undecryptable_tx_def
        gas_seismic_lib_def sample_seismic_lib_def word_less_nat_alt)
  have one: "plaintext_of gas_seismic_lib 100 one_encrypted_tx = Inr one_plain_tx"
    using one_decrypts [of "[one_plain_tx]"] by simp
  have "execute_transaction ?B one_encrypted_tx (chain_executor [] 0 0, ()) =
      (Inr 300, (chain_executor [ReceiptLegacy 300] 300 1, ()))"
    by (simp add: seismic_execute_transaction_eq keys one on_inner_executor_with_Inr chain_executor_tx inner
        del: One_nat_def)
  then have good: "bx_execute_transaction_with_result_closure ?B one_encrypted_tx (\<lambda>_ c. c)
      (chain_executor [] 0 0, ()) = (Inr 300, (chain_executor [ReceiptLegacy 300] 300 1, ()))"
    by (simp only: execute_transaction_def)
  have "building ?B {undecryptable_tx, one_encrypted_tx} (chain_executor [] 0 0) [] (chain_executor [] 0 0)"
    by (rule building.rejected [OF building.start _ bad]) simp
  from building.observed [OF this _ good] show ?thesis by simp
qed

lemma chain_executor_finish:
  "(seismic_finish_block sample_executor_lib (seismic_evm_dict paying_seismic_revm)
      (chain_executor [ReceiptLegacy 300] 300 1) ::
      ((unit, unit, unit, unit) block_execution_error abort + _) \<times> _) =
    (Inr (xe_evm (sample_after [ReceiptLegacy 300] 300 1),
       \<lparr>ber_receipts = [ReceiptLegacy 300], ber_requests = [], ber_gas_used = 300\<rparr>),
     chain_executor [ReceiptLegacy 300] 300 1)"
  by (simp add: chain_executor_def seismic_finish_block_def on_inner_executor_def
      eth_finish_block_def eth_collect_requests_def eth_finish_balances_def eth_dao_fork_def
      step_defs on_caller_def on_executor_db_def on_db_def try_on_state_with_eq sample_after_def
      sample_block_defs evm_defs eth_evm_defs seismic_evm_defs sample_chain_spec_eq system_caller_new_def
      post_block_balance_increments_def insert_post_block_withdrawals_balance_increments_def
      base_block_reward_def saturating_to_u64_def sample_state_ops_def sample_sys_lib_def)

lemma seismic_built_block_executes_witness:
  "\<exists>x'. (execute_block (seismic_block_executor_dict gas_seismic_lib sample_executor_lib
        (seismic_evm_dict paying_seismic_revm)) [one_encrypted_tx]
        (seismic_set_state_hook None (seismic_create_executor sample_chain_factory sample_wrapper sample_ctx), ()) ::
        ((unit, unit, unit, unit) block_execution_error abort + _) \<times> _) =
      (Inr \<lparr>ber_receipts = [ReceiptLegacy 300], ber_requests = [], ber_gas_used = 300\<rparr>, (x', ()))"
proof -
  let ?E = "seismic_evm_dict paying_seismic_revm"
  have iter: "hash_iter (xl_iter sample_executor_lib)"
    by (simp add: sample_executor_lib_def hash_iter_ascending)
  have spec: "bsf_spec sample_chain_factory =
      seismic_executor_spec sample_hardforks_lib (seismic_chain_mainnet (\<lambda>_. 0))"
    by (simp add: sample_chain_factory_def seismic_block_executor_factory_new_def)
  have number: "be_number (seismic_block sample_wrapper) \<noteq> 0"
    by (simp add: sample_wrapper_def seismic_block_def)
  have keeps: "revm_keeps_block paying_seismic_revm"
    using paying_revm_keeps_block by (simp add: revm_keeps_block_def paying_seismic_revm_def)
  have replays: "evm_replays (\<lambda>e e'. we_inner e = we_inner e')
      (xl_sys sample_executor_lib) ?E"
    by (auto simp: evm_replays_def seismic_evm_defs seismic_transact_raw_def on_inner_def zoom_def evm_defs
        evm_commit_def paying_seismic_revm_def paying_revm_def intro!: equivpI reflpI sympI transpI)
  have builder: "builder_replays (\<lambda>e e'. we_inner e = we_inner e')
      (bsf_receipt_builder sample_chain_factory)"
    by (simp add: builder_replays_def sample_chain_factory_def seismic_block_executor_factory_new_def
        sample_factory_def eth_block_executor_factory_new_def alloy_receipt_builder_def alloy_build_receipt_def)
  have inc: "so_increment_balances (xl_state sample_executor_lib) Map.empty db = (Inr (), db)" for db
    by (simp add: sample_executor_lib_def sample_state_ops_def)
  have pre: "(seismic_apply_pre_execution_changes sample_executor_lib ?E
      (seismic_set_state_hook None (seismic_create_executor sample_chain_factory sample_wrapper sample_ctx)) ::
      ((unit, unit, unit, unit) block_execution_error abort + unit) \<times> _) = (Inr (), chain_executor [] 0 0)"
    by (simp only: chain_executor_new chain_executor_pre)
  from seismic_built_block_executes [where hook = None and c = "()", OF sample_chain_laws iter spec number keeps
      replays builder inc pre chain_building chain_executor_finish]
  show ?thesis by auto
qed

end
