(* ===== verification/OpEvm.thy ===== *)
theory OpEvm
  imports EthEvm
begin

text \<open>
  \<open>crates/op-evm/src/lib.rs\<close>: the OP EVM, a wrapper with the same two fields as the Ethereum one
  around the EVM of \<open>op_revm\<close>, and its factory.
\<close>

type_synonym ('db, 'spec, 'rest, 'insp, 'pre) op_evm =
  "('db, 'spec, 'rest, 'insp, 'pre) evm_wrapper"

definition op_ctx :: "('db, 'spec, 'rest, 'insp, 'pre) op_evm \<Rightarrow> ('db, 'spec, 'rest) evm_context" where
  "op_ctx e = in_ctx (we_inner e)"

definition op_evm_new ::
    "('db, 'spec, 'rest, 'insp, 'pre) inner_evm \<Rightarrow> bool \<Rightarrow> ('db, 'spec, 'rest, 'insp, 'pre) op_evm" where
  "op_evm_new evm inspect = \<lparr>we_inner = evm, we_inspect = inspect\<rparr>"

definition op_block :: "('db, 'spec, 'rest, 'insp, 'pre) op_evm \<Rightarrow> block_env" where
  "op_block e = cx_block (op_ctx e)"

definition op_chain_id :: "('db, 'spec, 'rest, 'insp, 'pre) op_evm \<Rightarrow> u64" where
  "op_chain_id e = cfg_chain_id (cx_cfg (op_ctx e))"

definition op_transact_raw ::
    "(('db, 'spec, 'rest, 'insp, 'pre) inner_evm, 'tx, 'halt, 'err) revm_ops \<Rightarrow> 'tx
      \<Rightarrow> (('db, 'spec, 'rest, 'insp, 'pre) op_evm, 'err, 'halt result_and_state) step" where
  "op_transact_raw R tx e =
     (if we_inspect e then on_inner (rv_inspect_tx R tx) e else on_inner (rv_transact R tx) e)"

definition op_transact_system_call ::
    "(('db, 'spec, 'rest, 'insp, 'pre) inner_evm, 'tx, 'halt, 'err) revm_ops
      \<Rightarrow> address \<Rightarrow> address \<Rightarrow> bytes
      \<Rightarrow> (('db, 'spec, 'rest, 'insp, 'pre) op_evm, 'err, 'halt result_and_state) step" where
  "op_transact_system_call R caller contract data =
     on_inner (rv_system_call_with_caller R caller contract data)"

definition op_finish :: "('db, 'spec, 'rest, 'insp, 'pre) op_evm \<Rightarrow> 'db \<times> 'spec evm_env" where
  "op_finish e =
     (let ctx = in_ctx (we_inner e)
      in (cx_database ctx, \<lparr>ee_cfg_env = cx_cfg ctx, ee_block_env = cx_block ctx\<rparr>))"

definition op_set_inspector_enabled ::
    "bool \<Rightarrow> ('db, 'spec, 'rest, 'insp, 'pre) op_evm \<Rightarrow> ('db, 'spec, 'rest, 'insp, 'pre) op_evm" where
  "op_set_inspector_enabled enabled e = e\<lparr>we_inspect := enabled\<rparr>"

definition op_components ::
    "('db, 'spec, 'rest, 'insp, 'pre) op_evm \<Rightarrow> 'db \<times> 'insp \<times> 'pre" where
  "op_components e =
     (cx_database (in_ctx (we_inner e)), in_inspector (we_inner e), in_precompiles (we_inner e))"

definition op_components_mut ::
    "'db \<times> 'insp \<times> 'pre \<Rightarrow> ('db, 'spec, 'rest, 'insp, 'pre) op_evm
      \<Rightarrow> ('db, 'spec, 'rest, 'insp, 'pre) op_evm" where
  "op_components_mut c e =
     (case c of (d, i, p) \<Rightarrow>
        e\<lparr>we_inner := (we_inner e)
           \<lparr>in_ctx := (in_ctx (we_inner e))\<lparr>cx_database := d\<rparr>,
            in_inspector := i, in_precompiles := p\<rparr>\<rparr>)"

definition op_evm_dict ::
    "(('db, 'spec, 'rest, 'insp, 'pre) inner_evm, 'tx, 'halt, 'err) revm_ops
      \<Rightarrow> (('db, 'spec, 'rest, 'insp, 'pre) op_evm, 'db, 'insp, 'pre, 'spec, 'tx, 'halt, 'err) evm_dict" where
  "op_evm_dict R =
     \<lparr>ev_block = op_block, ev_chain_id = op_chain_id,
      ev_transact_raw = op_transact_raw R,
      ev_transact_system_call = op_transact_system_call R,
      ev_finish = op_finish, ev_set_inspector_enabled = op_set_inspector_enabled,
      ev_components = op_components, ev_components_mut = op_components_mut\<rparr>"

lemmas op_evm_defs = op_evm_dict_def op_block_def op_chain_id_def op_ctx_def
  op_transact_raw_def op_transact_system_call_def op_finish_def
  op_set_inspector_enabled_def op_components_def op_components_mut_def on_inner_def

interpretation op_access: evm_access "op_evm_dict R"
  for R :: "(('db, 'spec, 'rest, 'insp, 'pre) inner_evm, 'tx, 'halt, 'err) revm_ops"
  by unfold_locales (auto simp: op_evm_defs chainid_def Let_def split: prod.splits)

section \<open>OpEvmFactory\<close>

text \<open>
  \<open>precompiles_for\<close> is the table \<open>OpPrecompiles::new_with_spec\<close> of \<open>op_revm\<close>, \<open>rest0\<close> the rest
  of the context that \<open>Context::op()\<close> starts with.
\<close>

definition op_create_evm ::
    "('spec \<Rightarrow> static_precompiles) \<Rightarrow> 'rest \<Rightarrow> 'db \<Rightarrow> 'spec evm_env
      \<Rightarrow> ('db, 'spec, 'rest, unit, 'j precompiles_map) op_evm" where
  "op_create_evm precompiles_for rest0 db input =
     (let spec_id = cfg_spec (ee_cfg_env input)
      in \<lparr>we_inner =
            \<lparr>in_ctx = \<lparr>cx_block = ee_block_env input, cx_cfg = ee_cfg_env input,
                       cx_database = db, cx_rest = rest0\<rparr>,
             in_inspector = (), in_precompiles = from_static (precompiles_for spec_id)\<rparr>,
          we_inspect = False\<rparr>)"

definition op_create_evm_with_inspector ::
    "('spec \<Rightarrow> static_precompiles) \<Rightarrow> 'rest \<Rightarrow> 'db \<Rightarrow> 'spec evm_env \<Rightarrow> 'insp
      \<Rightarrow> ('db, 'spec, 'rest, 'insp, 'j precompiles_map) op_evm" where
  "op_create_evm_with_inspector precompiles_for rest0 db input inspector =
     (let spec_id = cfg_spec (ee_cfg_env input)
      in \<lparr>we_inner =
            \<lparr>in_ctx = \<lparr>cx_block = ee_block_env input, cx_cfg = ee_cfg_env input,
                       cx_database = db, cx_rest = rest0\<rparr>,
             in_inspector = inspector, in_precompiles = from_static (precompiles_for spec_id)\<rparr>,
          we_inspect = True\<rparr>)"

lemma op_factory_roundtrip:
  "op_finish (op_create_evm pf r db env) = (db, env)"
  "op_finish (op_create_evm_with_inspector pf r db env i) = (db, env)"
  "op_components (op_create_evm pf r db env) = (db, (), from_static (pf (spec_id env)))"
  "op_components (op_create_evm_with_inspector pf r db env i) = (db, i, from_static (pf (spec_id env)))"
  by (simp_all add: op_create_evm_def op_create_evm_with_inspector_def op_finish_def
      op_components_def spec_id_def Let_def)

text \<open>The OP EVM behaves as the Ethereum wrapper over the inner EVM of \<open>op_revm\<close>.\<close>

lemma op_evm_dict_eth: "op_evm_dict R = eth_evm_dict R"
  by (simp add: op_evm_defs eth_evm_defs fun_eq_iff)

end
