(* ===== verification/OpExecutor.thy ===== *)
theory OpExecutor
  imports BlockExecutor SystemCalls StateChanges Receipts OpEvm
begin

text \<open>
  \<open>crates/op-evm/src/block/mod.rs\<close> and \<open>canyon.rs\<close>: the block executor of OP chains. Its state is
  the struct \<open>OpBlockExecutor\<close>; each method of the trait is a definition, and the dictionary of
  these methods is a block executor in the sense of the locale.
\<close>

section \<open>State and parameters\<close>

text \<open>The predicates of \<open>OpHardforks\<close> that the executor calls, on top of the Ethereum ones.\<close>

record op_executor_spec = hardforks +
  is_regolith_active_at_timestamp :: "u64 \<Rightarrow> bool"
  is_canyon_active_at_timestamp :: "u64 \<Rightarrow> bool"

record op_block_execution_ctx =
  oc_parent_hash :: b256
  oc_parent_beacon_block_root :: "b256 option"
  oc_extra_data :: bytes

record ('evm, 'hk, 'tx, 'halt, 'rcpt) op_block_executor =
  xo_spec :: op_executor_spec
  xo_receipt_builder :: "('tx, 'evm, 'halt, 'rcpt) op_receipt_builder"
  xo_ctx :: op_block_execution_ctx
  xo_evm :: 'evm
  xo_receipts :: "'rcpt list"
  xo_gas_used :: u64
  xo_is_regolith :: bool
  xo_system_caller :: "(unit op_executor_spec_ext, 'hk) system_caller"

text \<open>
  What the executor uses of other crates: type byte, gas limit and hash of a transaction, the type
  byte of deposits, the cumulative gas of a receipt, the default account info, the account made from
  an account info and its touched version, the iteration order of hash maps, the database, and the
  record for system calls. An error of the database is boxed by \<open>BlockExecutionError::other\<close>.
\<close>

record ('tx, 'rcpt, 'db, 'dberr, 'err, 'halt, 'hk, 'rq) op_executor_lib =
  ol_ty :: "'tx \<Rightarrow> u8"
  ol_gas_limit :: "'tx \<Rightarrow> u64"
  ol_trie_hash :: "'tx \<Rightarrow> b256"
  ol_deposit_transaction_type :: u8
  ol_receipt_cumulative_gas_used :: "'rcpt \<Rightarrow> u64"
  ol_default_account_info :: account_info
  ol_account_from_info :: "account_info \<Rightarrow> account"
  ol_mark_touch :: "account \<Rightarrow> account"
  ol_amount_wei :: "withdrawal \<Rightarrow> u256"
  ol_iter :: "(address \<rightharpoonup> u128) \<Rightarrow> (address \<times> u128) list"
  ol_state :: "('db, 'dberr) state_ops"
  ol_sys :: "('db, 'err, 'halt, 'hk, 'rq) sys_lib"

definition op_block_executor_new ::
    "('evm, 'db, 'insp, 'pre, 'spec, 'env, 'halt, 'err) evm_dict
      \<Rightarrow> 'evm \<Rightarrow> op_block_execution_ctx \<Rightarrow> op_executor_spec \<Rightarrow> ('tx, 'evm, 'halt, 'rcpt) op_receipt_builder
      \<Rightarrow> ('evm, 'hk, 'tx, 'halt, 'rcpt) op_block_executor" where
  "op_block_executor_new E evm ctx spec receipt_builder =
     \<lparr>xo_spec = spec, xo_receipt_builder = receipt_builder, xo_ctx = ctx, xo_evm = evm,
      xo_receipts = [], xo_gas_used = 0,
      xo_is_regolith =
        is_regolith_active_at_timestamp spec (saturating_to_u64 (be_timestamp (ev_block E evm))),
      xo_system_caller = system_caller_new spec\<rparr>"

definition op_on_caller ::
    "((unit op_executor_spec_ext, 'hk) system_caller \<times> 'evm, 'e, 'a) step
      \<Rightarrow> (('evm, 'hk, 'tx, 'halt, 'rcpt) op_block_executor, 'e abort, 'a) step" where
  "op_on_caller m =
     zoom (\<lambda>x. (xo_system_caller x, xo_evm x))
          (\<lambda>p x. x\<lparr>xo_system_caller := fst p, xo_evm := snd p\<rparr>) (map_err Error m)"

definition op_on_db ::
    "('evm, 'db, 'insp, 'pre, 'spec, 'env, 'halt, 'err) evm_dict \<Rightarrow> ('db, 'e, 'a) step
      \<Rightarrow> (('evm, 'hk, 'tx, 'halt, 'rcpt) op_block_executor, 'e, 'a) step" where
  "op_on_db E m =
     zoom xo_evm (\<lambda>evm x. x\<lparr>xo_evm := evm\<rparr>) (zoom (evm_db E) (evm_set_db E) m)"

section \<open>canyon.rs\<close>

definition CREATE_2_DEPLOYER_ADDR :: address where
  "CREATE_2_DEPLOYER_ADDR = 0x13b0D85CcB8bf860b6b79AF3029fCA081AE9beF2"

definition CREATE_2_DEPLOYER_CODEHASH :: b256 where
  "CREATE_2_DEPLOYER_CODEHASH = 0xb0550b5b431e30d38000efb7107aaa0ade03d48a7198a140edda9d27134468b2"

text \<open>The bytes that a string of hexadecimal digits stands for.\<close>

definition hex_digit :: "char \<Rightarrow> nat" where
  "hex_digit c = (let n = of_char c in if n < 58 then n - 48 else n - 87)"

fun hex_bytes :: "string \<Rightarrow> bytes" where
  "hex_bytes (a # b # cs) = of_nat (16 * hex_digit a + hex_digit b) # hex_bytes cs"
| "hex_bytes cs = []"

definition CREATE_2_DEPLOYER_BYTECODE :: bytes where
  "CREATE_2_DEPLOYER_BYTECODE = hex_bytes
    (''6080604052600436106100435760003560e01c8063076c37b21461004f578063481286e61461007157806356''
     @ ''299481146100ba57806366cfa057146100da57600080fd5b3661004a57005b600080fd5b34801561005b5760''
     @ ''0080fd5b5061006f61006a366004610327565b6100fa565b005b34801561007d57600080fd5b506100916100''
     @ ''8c366004610327565b61014a565b60405173ffffffffffffffffffffffffffffffffffffffff909116815260''
     @ ''200160405180910390f35b3480156100c657600080fd5b506100916100d5366004610349565b61015d565b34''
     @ ''80156100e657600080fd5b5061006f6100f53660046103ca565b610172565b61014582826040518060200161''
     @ ''010f9061031a565b7fffffffffffffffffffffffffffffffffffffffffffffffffffffffffffffffe0828203''
     @ ''81018352601f90910116604052610183565b505050565b600061015683836102e7565b9392505050565b6000''
     @ ''61016a8484846102f0565b949350505050565b61017d838383610183565b50505050565b6000834710156101''
     @ ''f4576040517f08c379a000000000000000000000000000000000000000000000000000000000815260206004''
     @ ''820152601d60248201527f437265617465323a20696e73756666696369656e742062616c616e636500000060''
     @ ''448201526064015b60405180910390fd5b815160000361025f576040517f08c379a000000000000000000000''
     @ ''000000000000000000000000000000000000815260206004820181905260248201527f437265617465323a20''
     @ ''62797465636f6465206c656e677468206973207a65726f60448201526064016101eb565b8282516020840186''
     @ ''f5905073ffffffffffffffffffffffffffffffffffffffff8116610156576040517f08c379a0000000000000''
     @ ''00000000000000000000000000000000000000000000815260206004820152601960248201527f4372656174''
     @ ''65323a204661696c6564206f6e206465706c6f790000000000000060448201526064016101eb565b60006101''
     @ ''568383305b6000604051836040820152846020820152828152600b8101905060ff8153605590209493505050''
     @ ''50565b61014e806104ad83390190565b6000806040838503121561033a57600080fd5b505080359260209091''
     @ ''01359150565b60008060006060848603121561035e57600080fd5b8335925060208401359150604084013573''
     @ ''ffffffffffffffffffffffffffffffffffffffff8116811461039057600080fd5b809150509250925092565b''
     @ ''7f4e487b71000000000000000000000000000000000000000000000000000000006000526041600452602460''
     @ ''00fd5b6000806000606084860312156103df57600080fd5b8335925060208401359150604084013567ffffff''
     @ ''ffffffffff8082111561040557600080fd5b818601915086601f83011261041957600080fd5b813581811115''
     @ ''61042b5761042b61039b565b604051601f82017fffffffffffffffffffffffffffffffffffffffffffffffff''
     @ ''ffffffffffffffe0908116603f011681019083821181831017156104715761047161039b565b816040528281''
     @ ''5289602084870101111561048a57600080fd5b82602086016020830137600060208483010152809550505050''
     @ ''5050925092509256fe608060405234801561001057600080fd5b5061012e806100206000396000f3fe608060''
     @ ''4052348015600f57600080fd5b506004361060285760003560e01c8063249cb3fa14602d575b600080fd5b60''
     @ ''3c603836600460b1565b604e565b60405190815260200160405180910390f35b600082815260208181526040''
     @ ''80832073ffffffffffffffffffffffffffffffffffffffff8516845290915281205460ff16608857600060aa''
     @ ''565b7fa2ef4600d742022d532d4747cb3547474667d6f13804902513b2ec01c848f4b45b9392505050565b60''
     @ ''00806040838503121560c357600080fd5b82359150602083013573ffffffffffffffffffffffffffffffffff''
     @ ''ffffff8116811460ed57600080fd5b80915050925092905056fea26469706673582212205ffd4e6cede7d06a''
     @ ''5daf93d48d0541fc68189eeb16608c1999a82063b666eb1164736f6c63430008130033a26469706673582212''
     @ ''20fdc4a0fe96e3b21c108ca155438d37c9143fb01278a3c1d274948bad89c564ba64736f6c63430008130033'')"

definition ensure_create2_deployer ::
    "('tx, 'rcpt, 'db, 'dberr, 'err, 'halt, 'hk, 'rq) op_executor_lib \<Rightarrow> op_executor_spec \<Rightarrow> u64
      \<Rightarrow> ('db, 'dberr, unit) step" where
  "ensure_create2_deployer L chain_spec timestamp =
     (if is_canyon_active_at_timestamp chain_spec timestamp
         \<and> \<not> is_canyon_active_at_timestamp chain_spec (saturating_sub timestamp 2) then
        try_bind (so_load_cache_account (ol_state L) CREATE_2_DEPLOYER_ADDR) (\<lambda>acc.
          let acc_info = (case acc of Some info \<Rightarrow> info | None \<Rightarrow> ol_default_account_info L);
              acc_info = acc_info\<lparr>ai_code_hash := CREATE_2_DEPLOYER_CODEHASH,
                                  ai_code := Some (Bytecode CREATE_2_DEPLOYER_BYTECODE)\<rparr>;
              revm_acc = ol_mark_touch L (ol_account_from_info L acc_info)
          in modify (sl_commit (ol_sys L) [CREATE_2_DEPLOYER_ADDR \<mapsto> revm_acc]))
      else ret ())"

section \<open>Before the transactions\<close>

definition op_apply_pre_execution_changes ::
    "('tx, 'rcpt, 'db, 'o, 'err, 'halt, 'hk, 'rq) op_executor_lib
      \<Rightarrow> ('evm, 'db, 'insp, 'pre, 'spec, 'env, 'halt, 'err) evm_dict
      \<Rightarrow> (('evm, 'hk, 'tx, 'halt, 'rcpt) op_block_executor,
          ('inv, 'rest, 'dec, 'o) block_execution_error abort, unit) step" where
  "op_apply_pre_execution_changes L E =
     try_bind (modify (\<lambda>x.
       let state_clear_flag = is_spurious_dragon_active_at_block (xo_spec x)
             (saturating_to_u64 (be_number (ev_block E (xo_evm x))))
       in x\<lparr>xo_evm := evm_set_db E
              (so_set_state_clear_flag (ol_state L) state_clear_flag (evm_db E (xo_evm x))) (xo_evm x)\<rparr>)) (\<lambda>_.
     try_bind (with_state (\<lambda>x.
       op_on_caller (apply_blockhashes_contract_call (ol_sys L) E (oc_parent_hash (xo_ctx x))))) (\<lambda>_.
     try_bind (with_state (\<lambda>x.
       op_on_caller (apply_beacon_root_contract_call (ol_sys L) E
         (oc_parent_beacon_block_root (xo_ctx x))))) (\<lambda>_.
     with_state (\<lambda>x. map_err (\<lambda>e. Error (bee_other e))
       (op_on_db E (ensure_create2_deployer L (xo_spec x)
          (saturating_to_u64 (be_timestamp (ev_block E (xo_evm x))))))))))"

section \<open>A transaction\<close>

text \<open>The gas check; a deposit passes it unseen before Regolith.\<close>

definition op_block_available_gas ::
    "('evm, 'db, 'insp, 'pre, 'spec, 'env, 'halt, 'err) evm_dict
      \<Rightarrow> ('evm, 'hk, 'tx, 'halt, 'rcpt) op_block_executor \<Rightarrow> u64" where
  "op_block_available_gas E x = be_gas_limit (ev_block E (xo_evm x)) - xo_gas_used x"

definition op_is_deposit ::
    "('tx, 'rcpt, 'db, 'dberr, 'err, 'halt, 'hk, 'rq) op_executor_lib \<Rightarrow> 'tx \<Rightarrow> bool" where
  "op_is_deposit L tx \<longleftrightarrow> ol_ty L tx = ol_deposit_transaction_type L"

text \<open>The account of the depositor, read before the transaction runs; errors are the database's.\<close>

definition op_depositor ::
    "('tx, 'rcpt, 'db, 'dberr, 'err, 'halt, 'hk, 'rq) op_executor_lib
      \<Rightarrow> ('evm, 'db, 'insp, 'pre, 'spec, 'env, 'halt, 'err) evm_dict \<Rightarrow> ('tx, 'env) executable_tx
      \<Rightarrow> (('evm, 'hk, 'tx, 'halt, 'rcpt) op_block_executor, 'dberr, account_info option) step" where
  "op_depositor L E tx x =
     (if xo_is_regolith x \<and> op_is_deposit L (xt_tx tx) then
        map_ok (\<lambda>acc. Some (case acc of Some info \<Rightarrow> info | None \<Rightarrow> ol_default_account_info L))
          (op_on_db E (so_load_cache_account (ol_state L) (xt_signer tx))) x
      else (Inr None, x))"

text \<open>The receipt, \<open>None\<close> where the builder panics.\<close>

definition op_receipt ::
    "('tx, 'rcpt, 'db, 'dberr, 'err, 'halt, 'hk, 'rq) op_executor_lib
      \<Rightarrow> ('evm, 'db, 'insp, 'pre, 'spec, 'env, 'halt, 'err) evm_dict \<Rightarrow> 'tx \<Rightarrow> account_info option
      \<Rightarrow> 'halt result_and_state \<Rightarrow> ('evm, 'hk, 'tx, 'halt, 'rcpt) op_block_executor \<Rightarrow> 'rcpt option" where
  "op_receipt L E tx depositor rs x =
     (case orb_build_receipt (xo_receipt_builder x)
             \<lparr>rc_tx = tx, rc_evm = xo_evm x, rc_result = rs_result rs, rc_state = rs_state rs,
              rc_cumulative_gas_used = xo_gas_used x\<rparr> of
        None \<Rightarrow> None
      | Some (Inr receipt) \<Rightarrow> Some receipt
      | Some (Inl ctx) \<Rightarrow>
          let receipt = \<lparr>rcp_status = er_is_success (rc_result ctx),
                         rcp_cumulative_gas_used = xo_gas_used x,
                         rcp_logs = er_logs (rc_result ctx)\<rparr>
          in Some (orb_build_deposit_receipt (xo_receipt_builder x)
               \<lparr>dr_inner = receipt, dr_deposit_nonce = map_option ai_nonce depositor,
                dr_deposit_receipt_version =
                  (if op_is_deposit L tx
                      \<and> is_canyon_active_at_timestamp (xo_spec x)
                          (saturating_to_u64 (be_timestamp (ev_block E (xo_evm x))))
                   then Some 1 else None)\<rparr>))"

definition op_execute_transaction_with_commit_condition ::
    "('tx, 'rcpt, 'db, 'o, ('inv, 'rest) evm_error, 'halt, 'hk, 'rq) op_executor_lib
      \<Rightarrow> ('evm, 'db, 'insp, 'pre, 'spec, 'env, 'halt, ('inv, 'rest) evm_error) evm_dict
      \<Rightarrow> ('tx, 'env) executable_tx \<Rightarrow> ('halt execution_result \<Rightarrow> 'c \<Rightarrow> commit_changes \<times> 'c)
      \<Rightarrow> (('evm, 'hk, 'tx, 'halt, 'rcpt) op_block_executor \<times> 'c,
          ('inv, 'rest, 'dec, 'o) block_execution_error abort, u64 option) step" where
  "op_execute_transaction_with_commit_condition L E tx f s =
     (case s of (x, c) \<Rightarrow>
      if ol_gas_limit L (xt_tx tx) > op_block_available_gas E x
         \<and> (xo_is_regolith x \<or> \<not> op_is_deposit L (xt_tx tx)) then
        (Inl (Error (Validation (TransactionGasLimitMoreThanAvailableBlockGas
           (ol_gas_limit L (xt_tx tx)) (op_block_available_gas E x)))), (x, c))
      else
        (case op_depositor L E tx x of
           (Inl e, x0) \<Rightarrow> (Inl (Error (bee_other e)), (x0, c))
         | (Inr depositor, x0) \<Rightarrow>
             (case evm_transact E xt_to_tx_env tx (xo_evm x0) of
                (Inl err, evm) \<Rightarrow>
                  (Inl (Error (bee_evm err (ol_trie_hash L (xt_tx tx)))), (x0\<lparr>xo_evm := evm\<rparr>, c))
              | (Inr rs, evm) \<Rightarrow>
                  (case f (rs_result rs) c of (decision, c') \<Rightarrow>
                     if \<not> should_commit decision then (Inr None, (x0\<lparr>xo_evm := evm\<rparr>, c'))
                     else
                       let caller = on_state (ol_sys L) (Transaction (of_nat (length (xo_receipts x0))))
                                      (rs_state rs) (xo_system_caller x0);
                           gas_used = er_gas_used (rs_result rs);
                           x1 = x0\<lparr>xo_evm := evm, xo_system_caller := caller,
                                   xo_gas_used := xo_gas_used x0 + gas_used\<rparr>
                       in (case op_receipt L E (xt_tx tx) depositor rs x1 of
                             None \<Rightarrow> (Inl Panic, (x1, c'))
                           | Some receipt \<Rightarrow>
                               (Inr (Some gas_used),
                                (x1\<lparr>xo_receipts := xo_receipts x1 @ [receipt],
                                    xo_evm := evm_commit (ol_sys L) E (rs_state rs) (xo_evm x1)\<rparr>, c')))))))"

section \<open>After the transactions\<close>

definition op_finish_block ::
    "('tx, 'rcpt, 'db, 'o, 'err, 'halt, 'hk, 'rq) op_executor_lib
      \<Rightarrow> ('evm, 'db, 'insp, 'pre, 'spec, 'env, 'halt, 'err) evm_dict
      \<Rightarrow> (('evm, 'hk, 'tx, 'halt, 'rcpt) op_block_executor,
          ('inv, 'rest, 'dec, 'o) block_execution_error abort,
          'evm \<times> ('rcpt, 'rq) block_execution_result) step" where
  "op_finish_block L E x =
     (case post_block_balance_increments (ol_amount_wei L) (xo_spec x) (ev_block E (xo_evm x)) [] None of
        None \<Rightarrow> (Inl Panic, x)
      | Some balance_increments \<Rightarrow>
          try_bind (map_err (\<lambda>_. Error (Validation IncrementBalanceFailed))
            (op_on_db E (so_increment_balances (ol_state L) balance_increments))) (\<lambda>_.
          try_bind (op_on_caller (try_on_state_with (ol_sys L)
            (map_ok (\<lambda>state. (PostBlock BalanceIncrements, state))
               (zoom (evm_db E) (evm_set_db E)
                  (balance_increment_state (ol_iter L) (ol_state L) balance_increments))))) (\<lambda>_ x.
          let gas_used = (if xo_receipts x = [] then 0
                          else ol_receipt_cumulative_gas_used L (last (xo_receipts x)))
          in (Inr (xo_evm x, \<lparr>ber_receipts = xo_receipts x,
                              ber_requests = sl_requests_default (ol_sys L),
                              ber_gas_used = gas_used\<rparr>), x))) x)"

definition op_set_state_hook ::
    "'hk option \<Rightarrow> ('evm, 'hk, 'tx, 'halt, 'rcpt) op_block_executor
      \<Rightarrow> ('evm, 'hk, 'tx, 'halt, 'rcpt) op_block_executor" where
  "op_set_state_hook hook x = x\<lparr>xo_system_caller := with_state_hook hook (xo_system_caller x)\<rparr>"

definition op_evm_mut ::
    "'evm \<Rightarrow> ('evm, 'hk, 'tx, 'halt, 'rcpt) op_block_executor
      \<Rightarrow> ('evm, 'hk, 'tx, 'halt, 'rcpt) op_block_executor" where
  "op_evm_mut evm x = x\<lparr>xo_evm := evm\<rparr>"

definition op_block_executor_dict ::
    "('tx, 'rcpt, 'db, 'o, ('inv, 'rest) evm_error, 'halt, 'hk, 'rq) op_executor_lib
      \<Rightarrow> ('evm, 'db, 'insp, 'pre, 'spec, 'env, 'halt, ('inv, 'rest) evm_error) evm_dict
      \<Rightarrow> (('evm, 'hk, 'tx, 'halt, 'rcpt) op_block_executor, 'c, 'tx, 'env, 'halt, 'hk, 'evm, 'rcpt,
          'rq, ('inv, 'rest, 'dec, 'o) block_execution_error) block_executor_dict" where
  "op_block_executor_dict L E =
     \<lparr>bx_apply_pre_execution_changes = op_apply_pre_execution_changes L E,
      bx_execute_transaction_with_commit_condition = op_execute_transaction_with_commit_condition L E,
      bx_execute_transaction_with_result_closure =
        default_result_closure (op_execute_transaction_with_commit_condition L E),
      bx_finish = op_finish_block L E,
      bx_set_state_hook = op_set_state_hook,
      bx_evm = xo_evm, bx_evm_mut = op_evm_mut\<rparr>"

section \<open>The factory\<close>

record ('rb, 'spec, 'ef) op_block_executor_factory =
  of_receipt_builder :: 'rb
  of_spec :: 'spec
  of_evm_factory :: 'ef

definition op_block_executor_factory_new ::
    "'rb \<Rightarrow> 'spec \<Rightarrow> 'ef \<Rightarrow> ('rb, 'spec, 'ef) op_block_executor_factory" where
  "op_block_executor_factory_new receipt_builder spec evm_factory =
     \<lparr>of_receipt_builder = receipt_builder, of_spec = spec, of_evm_factory = evm_factory\<rparr>"

definition op_create_executor ::
    "('evm, 'db, 'insp, 'pre, 'spec, 'env, 'halt, 'err) evm_dict
      \<Rightarrow> (('tx, 'evm, 'halt, 'rcpt) op_receipt_builder, op_executor_spec, 'ef) op_block_executor_factory
      \<Rightarrow> 'evm \<Rightarrow> op_block_execution_ctx \<Rightarrow> ('evm, 'hk, 'tx, 'halt, 'rcpt) op_block_executor" where
  "op_create_executor E factory evm ctx =
     op_block_executor_new E evm ctx (of_spec factory) (of_receipt_builder factory)"


section \<open>The executor meets its contract\<close>

lemma keeps_op_on_caller [frame]:
  "(\<And>x sc evm. v (x\<lparr>xo_system_caller := sc, xo_evm := evm\<rparr>) = v x) \<Longrightarrow> keeps v (op_on_caller m)"
  unfolding op_on_caller_def by (rule keeps_zoom)

lemma keeps_op_on_db [frame]:
  "(\<And>x evm. v (x\<lparr>xo_evm := evm\<rparr>) = v x) \<Longrightarrow> keeps v (op_on_db E m)"
  unfolding op_on_db_def by (rule keeps_zoom)

text \<open>What the methods around the transactions leave alone.\<close>

definition op_ignores_evm :: "(('evm, 'hk, 'tx, 'halt, 'rcpt) op_block_executor \<Rightarrow> 'v) \<Rightarrow> bool" where
  "op_ignores_evm v \<longleftrightarrow> (\<forall>x sc evm. v (x\<lparr>xo_system_caller := sc, xo_evm := evm\<rparr>) = v x)
     \<and> (\<forall>x evm. v (x\<lparr>xo_evm := evm\<rparr>) = v x)"

text \<open>The receipt \<open>r\<close> was made for the cumulative gas \<open>u\<close>, by either method of the builder.\<close>

definition op_built ::
    "('evm, 'hk, 'tx, 'halt, 'rcpt) op_block_executor \<Rightarrow> 'rcpt \<Rightarrow> u64 \<Rightarrow> bool" where
  "op_built x r u \<longleftrightarrow>
     (\<exists>ctx. orb_build_receipt (xo_receipt_builder x) ctx = Some (Inr r) \<and> rc_cumulative_gas_used ctx = u)
     \<or> (\<exists>d. orb_build_deposit_receipt (xo_receipt_builder x) d = r
          \<and> rcp_cumulative_gas_used (dr_inner d) = u)"

lemma op_ignores_evm_fields [simp]:
  "op_ignores_evm xo_receipts" "op_ignores_evm xo_gas_used" "op_ignores_evm xo_receipt_builder"
  "op_ignores_evm xo_spec" "op_ignores_evm xo_ctx" "op_ignores_evm op_built"
  "op_ignores_evm xo_is_regolith"
  by (auto simp: op_ignores_evm_def op_built_def fun_eq_iff)

lemma op_pre_execution_ignores: "op_ignores_evm v \<Longrightarrow> keeps v (op_apply_pre_execution_changes L E)"
  unfolding op_apply_pre_execution_changes_def
  by (intro frame; unfold op_ignores_evm_def Let_def; blast)

lemma op_finish_ignores: "op_ignores_evm v \<Longrightarrow> keeps v (op_finish_block L E)"
proof (rule keepsI)
  fix s r t
  assume v: "op_ignores_evm v" and run: "op_finish_block L E s = (r, t)"
  have "keeps v (try_bind (map_err g (op_on_db E m)) (\<lambda>_. try_bind (op_on_caller n) (\<lambda>_ x. (h x, x))))"
    for g m n h
    using v by (intro frame) (auto simp: op_ignores_evm_def keeps_def)
  from keepsD [OF this] show "v t = v s"
    using run by (auto simp: op_finish_block_def Let_def split: option.splits)
qed

lemma op_depositor_ignores: "op_ignores_evm v \<Longrightarrow> keeps v (op_depositor L E tx)"
proof (rule keepsI)
  fix s r t
  assume v: "op_ignores_evm v" and run: "op_depositor L E tx s = (r, t)"
  have "keeps v (map_ok f (op_on_db E m))" for f m
    using v by (intro frame) (auto simp: op_ignores_evm_def)
  from keepsD [OF this] show "v t = v s"
    using run by (auto simp: op_depositor_def split: if_splits)
qed

lemma op_finish_result:
  assumes "op_finish_block L E x = (Inr (evm, res), x')"
  shows "evm = xo_evm x'" and "ber_receipts res = xo_receipts x"
    and "ber_gas_used res =
      (if xo_receipts x = [] then 0 else ol_receipt_cumulative_gas_used L (last (xo_receipts x)))"
    and "ber_requests res = sl_requests_default (ol_sys L)"
proof -
  have *: "evm = xo_evm x' \<and> ber_receipts res = xo_receipts x' \<and> ber_gas_used res =
      (if xo_receipts x' = [] then 0 else ol_receipt_cumulative_gas_used L (last (xo_receipts x')))
      \<and> ber_requests res = sl_requests_default (ol_sys L)"
    using assms by (auto simp: op_finish_block_def try_bind_Inr Let_def split: option.splits)
  then show "evm = xo_evm x'" "ber_receipts res = xo_receipts x"
    "ber_gas_used res =
      (if xo_receipts x = [] then 0 else ol_receipt_cumulative_gas_used L (last (xo_receipts x)))"
    "ber_requests res = sl_requests_default (ol_sys L)"
    using keepsD [OF op_finish_ignores [of xo_receipts] assms] by simp_all
qed

text \<open>The receipt of a transaction is made for the new value of the gas counter.\<close>

lemma op_receipt_built:
  "op_receipt L E tx depositor rs x = Some r \<Longrightarrow> op_built x r (xo_gas_used x)"
  by (force simp: op_receipt_def op_built_def Let_def split: option.splits sum.splits)

text \<open>The branches of a transaction.\<close>

lemma op_tx_cases:
  assumes "op_execute_transaction_with_commit_condition L E tx f (x, c) = (r, (x', c'))"
  obtains (gas) "ol_gas_limit L (xt_tx tx) > op_block_available_gas E x"
      "xo_is_regolith x \<or> \<not> op_is_deposit L (xt_tx tx)"
      "r = Inl (Error (Validation (TransactionGasLimitMoreThanAvailableBlockGas
        (ol_gas_limit L (xt_tx tx)) (op_block_available_gas E x))))" "x' = x" "c' = c"
  | (depositor_error) e where
      "ol_gas_limit L (xt_tx tx) > op_block_available_gas E x \<Longrightarrow>
        \<not> xo_is_regolith x \<and> op_is_deposit L (xt_tx tx)"
      "op_depositor L E tx x = (Inl e, x')" "r = Inl (Error (bee_other e))" "c' = c"
  | (evm_error) dep x0 err evm where
      "ol_gas_limit L (xt_tx tx) > op_block_available_gas E x \<Longrightarrow>
        \<not> xo_is_regolith x \<and> op_is_deposit L (xt_tx tx)"
      "op_depositor L E tx x = (Inr dep, x0)"
      "evm_transact E xt_to_tx_env tx (xo_evm x0) = (Inl err, evm)"
      "r = Inl (Error (bee_evm err (ol_trie_hash L (xt_tx tx))))" "x' = x0\<lparr>xo_evm := evm\<rparr>" "c' = c"
  | (no_commit) dep x0 rs evm where
      "ol_gas_limit L (xt_tx tx) > op_block_available_gas E x \<Longrightarrow>
        \<not> xo_is_regolith x \<and> op_is_deposit L (xt_tx tx)"
      "op_depositor L E tx x = (Inr dep, x0)"
      "evm_transact E xt_to_tx_env tx (xo_evm x0) = (Inr rs, evm)"
      "f (rs_result rs) c = (No, c')" "r = Inr None" "x' = x0\<lparr>xo_evm := evm\<rparr>"
  | (panic) dep x0 rs evm where
      "op_depositor L E tx x = (Inr dep, x0)"
      "evm_transact E xt_to_tx_env tx (xo_evm x0) = (Inr rs, evm)"
      "f (rs_result rs) c = (Yes, c')" "r = Inl Panic"
      "x' = x0\<lparr>xo_evm := evm,
         xo_system_caller := on_state (ol_sys L) (Transaction (of_nat (length (xo_receipts x0))))
           (rs_state rs) (xo_system_caller x0),
         xo_gas_used := xo_gas_used x0 + er_gas_used (rs_result rs)\<rparr>"
  | (commit) dep x0 rs evm x1 receipt where
      "ol_gas_limit L (xt_tx tx) > op_block_available_gas E x \<Longrightarrow>
        \<not> xo_is_regolith x \<and> op_is_deposit L (xt_tx tx)"
      "op_depositor L E tx x = (Inr dep, x0)"
      "evm_transact E xt_to_tx_env tx (xo_evm x0) = (Inr rs, evm)"
      "f (rs_result rs) c = (Yes, c')" "r = Inr (Some (er_gas_used (rs_result rs)))"
      "x1 = x0\<lparr>xo_evm := evm,
         xo_system_caller := on_state (ol_sys L) (Transaction (of_nat (length (xo_receipts x0))))
           (rs_state rs) (xo_system_caller x0),
         xo_gas_used := xo_gas_used x0 + er_gas_used (rs_result rs)\<rparr>"
      "op_receipt L E (xt_tx tx) dep rs x1 = Some receipt"
      "x' = x1\<lparr>xo_receipts := xo_receipts x1 @ [receipt],
               xo_evm := evm_commit (ol_sys L) E (rs_state rs) (xo_evm x1)\<rparr>"
proof (cases "ol_gas_limit L (xt_tx tx) > op_block_available_gas E x
    \<and> (xo_is_regolith x \<or> \<not> op_is_deposit L (xt_tx tx))")
  case True
  then show thesis
    using assms by (intro gas) (auto simp: op_execute_transaction_with_commit_condition_def)
next
  case False
  note run = assms [unfolded op_execute_transaction_with_commit_condition_def prod.case if_not_P [OF False]]
  obtain d x0 where d: "op_depositor L E tx x = (d, x0)" by fastforce
  show thesis
  proof (cases d)
    case (Inl e)
    then show thesis
      using run d False by (intro depositor_error [of e]) auto
  next
    case (Inr dep)
    obtain t evm where t: "evm_transact E xt_to_tx_env tx (xo_evm x0) = (t, evm)" by fastforce
    show thesis
    proof (cases t)
      case (Inl err)
      then show thesis
        using run d Inr t False by (intro evm_error [of dep x0 err evm]) auto
    next
      case t': (Inr rs)
      obtain dec c1 where dec: "f (rs_result rs) c = (dec, c1)" by fastforce
      show thesis
      proof (cases dec)
        case No
        then show thesis
          using run d Inr t t' dec False by (intro no_commit [of dep x0 rs evm]) auto
      next
        case Yes
        let ?x1 = "x0\<lparr>xo_evm := evm,
         xo_system_caller := on_state (ol_sys L) (Transaction (of_nat (length (xo_receipts x0))))
           (rs_state rs) (xo_system_caller x0),
         xo_gas_used := xo_gas_used x0 + er_gas_used (rs_result rs)\<rparr>"
        show thesis
        proof (cases "op_receipt L E (xt_tx tx) dep rs ?x1")
          case None
          then show thesis
            using run d Inr t t' dec Yes by (intro panic [of dep x0 rs evm]) (auto simp: Let_def)
        next
          case (Some receipt)
          then show thesis
            using run d Inr t t' dec Yes False
            by (intro commit [of dep x0 rs evm ?x1 receipt]) (auto simp: Let_def)
        qed
      qed
    qed
  qed
qed


lemma op_built_cong: "xo_receipt_builder y = xo_receipt_builder x \<Longrightarrow> op_built y = op_built x"
  by (simp add: op_built_def fun_eq_iff)

lemmas op_depositor_keeps =
  keepsD [OF op_depositor_ignores [OF op_ignores_evm_fields(1)]]
  keepsD [OF op_depositor_ignores [OF op_ignores_evm_fields(2)]]
  keepsD [OF op_depositor_ignores [OF op_ignores_evm_fields(3)]]
  keepsD [OF op_depositor_ignores [OF op_ignores_evm_fields(4)]]
  keepsD [OF op_depositor_ignores [OF op_ignores_evm_fields(7)]]

lemma op_commit_built:
  "keeps (\<lambda>p. op_built (fst p)) (op_execute_transaction_with_commit_condition L E tx f)"
proof (rule keepsI)
  fix s r t
  assume run: "op_execute_transaction_with_commit_condition L E tx f s = (r, t)"
  obtain x c x' c' where s: "s = (x, c)" and t: "t = (x', c')" by fastforce
  from run [unfolded s t] show "op_built (fst t) = op_built (fst s)"
    by (rule op_tx_cases) (auto simp: s t dest: op_depositor_keeps intro!: op_built_cong)
qed

text \<open>What a transaction does to receipts and counter, in the words of the contract.\<close>

lemma op_tx_contract:
  assumes "op_execute_transaction_with_commit_condition L E tx f (x, c) = (r, (x', c'))"
  shows "r = Inr (Some g) \<Longrightarrow> (\<exists>rcpt. xo_receipts x' = xo_receipts x @ [rcpt] \<and> op_built x rcpt (xo_gas_used x + g))
      \<and> xo_gas_used x' = xo_gas_used x + g \<and> (\<exists>res. f res c = (Yes, c') \<and> er_gas_used res = g)"
    and "r = Inr None \<Longrightarrow> xo_receipts x' = xo_receipts x \<and> xo_gas_used x' = xo_gas_used x
      \<and> (\<exists>res. f res c = (No, c'))"
    and "r = Inl (Error e) \<Longrightarrow> xo_receipts x' = xo_receipts x \<and> xo_gas_used x' = xo_gas_used x \<and> c' = c"
proof -
  show "(\<exists>rcpt. xo_receipts x' = xo_receipts x @ [rcpt] \<and> op_built x rcpt (xo_gas_used x + g))
      \<and> xo_gas_used x' = xo_gas_used x + g \<and> (\<exists>res. f res c = (Yes, c') \<and> er_gas_used res = g)"
    if "r = Inr (Some g)"
    using assms
  proof (rule op_tx_cases)
    fix dp x0 rs evm x1 receipt
    assume 1: "op_depositor L E tx x = (Inr dp, x0)" "f (rs_result rs) c = (Yes, c')"
      and g: "r = Inr (Some (er_gas_used (rs_result rs)))"
      and x1: "x1 = x0\<lparr>xo_evm := evm,
         xo_system_caller := on_state (ol_sys L) (Transaction (of_nat (length (xo_receipts x0))))
           (rs_state rs) (xo_system_caller x0),
         xo_gas_used := xo_gas_used x0 + er_gas_used (rs_result rs)\<rparr>"
      and r: "op_receipt L E (xt_tx tx) dp rs x1 = Some receipt"
      and x': "x' = x1\<lparr>xo_receipts := xo_receipts x1 @ [receipt],
               xo_evm := evm_commit (ol_sys L) E (rs_state rs) (xo_evm x1)\<rparr>"
    have d: "xo_receipts x0 = xo_receipts x" "xo_gas_used x0 = xo_gas_used x"
      and "xo_receipt_builder x0 = xo_receipt_builder x"
      using op_depositor_keeps [OF 1(1)] by simp_all
    then have "op_built x1 = op_built x"
      by (intro op_built_cong) (simp add: x1)
    then have "op_built x receipt (xo_gas_used x + er_gas_used (rs_result rs))"
      using op_receipt_built [OF r] by (simp add: x1 d)
    then show ?thesis
      using that g 1(2) by (auto simp: x' x1 d)
  qed (use that in auto)
  show "xo_receipts x' = xo_receipts x \<and> xo_gas_used x' = xo_gas_used x \<and> (\<exists>res. f res c = (No, c'))"
    if "r = Inr None"
    using assms by (rule op_tx_cases) (use that in \<open>auto dest: op_depositor_keeps\<close>)
  show "xo_receipts x' = xo_receipts x \<and> xo_gas_used x' = xo_gas_used x \<and> c' = c"
    if "r = Inl (Error e)"
    using assms by (rule op_tx_cases) (use that in \<open>auto dest: op_depositor_keeps\<close>)
qed

interpretation op_executor: block_executor "op_block_executor_dict L E" xo_receipts xo_gas_used op_built
  for L :: "('tx, 'rcpt, 'db, 'o, ('inv, 'rest) evm_error, 'halt, 'hk, 'rq) op_executor_lib"
  and E :: "('evm, 'db, 'insp, 'pre, 'spec, 'env, 'halt, ('inv, 'rest) evm_error) evm_dict"
proof unfold_locales
  show "keeps xo_receipts (bx_apply_pre_execution_changes (op_block_executor_dict L E))"
    "keeps xo_gas_used (bx_apply_pre_execution_changes (op_block_executor_dict L E))"
    "keeps op_built (bx_apply_pre_execution_changes (op_block_executor_dict L E))"
    by (simp_all add: op_block_executor_dict_def op_pre_execution_ignores)
  show "keeps (\<lambda>p. op_built (fst p))
      (bx_execute_transaction_with_commit_condition (op_block_executor_dict L E) tx f)" for tx f
    by (simp add: op_block_executor_dict_def op_commit_built)
  show "(\<exists>r. xo_receipts x' = xo_receipts x @ [r] \<and> op_built x r (xo_gas_used x + g))
      \<and> xo_gas_used x' = xo_gas_used x + g \<and> (\<exists>res. f res c = (Yes, c') \<and> er_gas_used res = g)"
    if "bx_execute_transaction_with_commit_condition (op_block_executor_dict L E) tx f (x, c)
        = (Inr (Some g), (x', c'))" for tx f x c g x' c'
    using op_tx_contract(1) that by (fastforce simp: op_block_executor_dict_def)
  show "xo_receipts x' = xo_receipts x \<and> xo_gas_used x' = xo_gas_used x \<and> (\<exists>res. f res c = (No, c'))"
    if "bx_execute_transaction_with_commit_condition (op_block_executor_dict L E) tx f (x, c)
        = (Inr None, (x', c'))" for tx f x c x' c'
    using op_tx_contract(2) that by (fastforce simp: op_block_executor_dict_def)
  show "xo_receipts x' = xo_receipts x \<and> xo_gas_used x' = xo_gas_used x \<and> c' = c"
    if "bx_execute_transaction_with_commit_condition (op_block_executor_dict L E) tx f (x, c)
        = (Inl (Error e), (x', c'))" for tx f x c e x' c'
    using op_tx_contract(3) that by (fastforce simp: op_block_executor_dict_def)
  show "bx_execute_transaction_with_result_closure (op_block_executor_dict L E) =
      default_result_closure (bx_execute_transaction_with_commit_condition (op_block_executor_dict L E))"
    by (simp add: op_block_executor_dict_def)
  show "ber_receipts res = xo_receipts x \<and> evm = bx_evm (op_block_executor_dict L E) x'"
    if "bx_finish (op_block_executor_dict L E) x = (Inr (evm, res), x')" for x evm res x'
    using that op_finish_result by (auto simp: op_block_executor_dict_def)
qed

lemma op_dict_simps [simp]:
  "bx_apply_pre_execution_changes (op_block_executor_dict L E) = op_apply_pre_execution_changes L E"
  "bx_execute_transaction_with_commit_condition (op_block_executor_dict L E) =
     op_execute_transaction_with_commit_condition L E"
  "bx_finish (op_block_executor_dict L E) = op_finish_block L E"
  "bx_evm (op_block_executor_dict L E) = xo_evm"
  "bx_set_state_hook (op_block_executor_dict L E) = op_set_state_hook"
  by (simp_all add: op_block_executor_dict_def)

lemma op_create_simps [simp]:
  "xo_receipts (op_create_executor E factory evm ctx) = []"
  "xo_gas_used (op_create_executor E factory evm ctx) = 0"
  "xo_evm (op_create_executor E factory evm ctx) = evm"
  "xo_receipt_builder (op_create_executor E factory evm ctx) = of_receipt_builder factory"
  by (simp_all add: op_create_executor_def op_block_executor_new_def)


section \<open>What a block is charged\<close>

text \<open>
  The documented behaviour of a receipt builder: the receipt carries the cumulative gas it was
  built for. The builder of this repository has it when adding the bloom filter keeps the receipt.
\<close>

definition op_receipts_carry_gas ::
    "('rcpt \<Rightarrow> u64) \<Rightarrow> ('tx, 'evm, 'halt, 'rcpt) op_receipt_builder \<Rightarrow> bool" where
  "op_receipts_carry_gas cumulative rb \<longleftrightarrow>
     (\<forall>ctx r. orb_build_receipt rb ctx = Some (Inr r) \<longrightarrow> cumulative r = rc_cumulative_gas_used ctx)
     \<and> (\<forall>d. cumulative (orb_build_deposit_receipt rb d) = rcp_cumulative_gas_used (dr_inner d))"

lemma op_alloy_carries_gas:
  assumes "\<And>r. cum (wb r) = rcp_cumulative_gas_used r"
    and "\<And>d. dcum (dwb d) = rcp_cumulative_gas_used (dr_inner d)"
  shows "op_receipts_carry_gas (\<lambda>r. case op_receipt_inner r of Inl b \<Rightarrow> cum b | Inr b \<Rightarrow> dcum b)
    (op_alloy_receipt_builder wb dwb ty)"
  using assms
  by (auto simp: op_receipts_carry_gas_def op_alloy_receipt_builder_def op_build_receipt_def
      op_build_deposit_receipt_def Let_def split: op_tx_type.splits)

section \<open>The gas of a block\<close>

text \<open>What is left alone together with the block environment.\<close>

lemma op_quiet_db [frame]:
  assumes "evm_access E"
  shows "keeps (\<lambda>x. ev_block E (xo_evm x)) (op_on_db E m)"
  using evm_access.block_set_db [OF assms]
  by (simp add: keeps_def op_on_db_def zoom_def split: prod.splits)

lemma op_quiet_caller:
  assumes "keeps (\<lambda>p. ev_block E (snd p)) m"
  shows "keeps (\<lambda>x. ev_block E (xo_evm x)) (op_on_caller m)"
  using keepsD [OF keeps_map_err [OF assms, of Error]]
  by (auto simp: keeps_def op_on_caller_def zoom_def split: prod.splits)

context executor_evm
begin

lemma op_pre_keeps_block:
  assumes "\<And>c a d. keeps (ev_block E) (ev_transact_system_call E c a d)"
  shows "keeps (\<lambda>x. ev_block E (xo_evm x)) (op_apply_pre_execution_changes L E)"
  unfolding op_apply_pre_execution_changes_def
  by (intro keeps_try_bind keeps_modify keeps_with_state keeps_map_err op_quiet_caller op_quiet_db
      apply_calls_keep_block assms evm_access_axioms)
    (simp add: block_set_db Let_def)

lemma op_execute_transaction_within:
  assumes quiet: "\<And>env. keeps (ev_block E) (ev_transact_raw E env)"
    and gas: "gas_respecting E (ol_gas_limit L) txs" "tx \<in> set txs"
    and regolith: "xo_is_regolith x"
    and run: "(execute_transaction (op_block_executor_dict L E) tx (x, c) ::
      (('inv, 'rest, 'dec, 'o) block_execution_error abort + u64) \<times> _) = (Inr g, (x', c'))"
  shows "ev_block E (xo_evm x') = ev_block E (xo_evm x) \<and> xo_is_regolith x'
    \<and> g \<le> op_block_available_gas E x"
proof -
  from run obtain o' where
    cc: "(op_execute_transaction_with_commit_condition L E tx (\<lambda>res c. (Yes, c)) (x, c) ::
      (('inv, 'rest, 'dec, 'o) block_execution_error abort + u64 option) \<times> _) = (Inr o', (x', c'))"
    and g: "g = (case o' of Some gas \<Rightarrow> gas | None \<Rightarrow> 0)"
    unfolding execute_transaction_def op_executor.result_closure default_result_closure_Inr op_dict_simps
    by blast
  have db: "ev_block E (xo_evm x0) = ev_block E (xo_evm x)"
    if "op_depositor L E tx x = (r, x0)" for r x0
    using that keepsD [OF keeps_map_ok [OF op_quiet_db [OF evm_access_axioms]]]
    by (auto simp: op_depositor_def split: if_splits)
  from cc show ?thesis
  proof (rule op_tx_cases)
    fix dep x0 rs evm x1 receipt
    assume le: "ol_gas_limit L (xt_tx tx) > op_block_available_gas E x \<Longrightarrow>
        \<not> xo_is_regolith x \<and> op_is_deposit L (xt_tx tx)"
      and d: "op_depositor L E tx x = (Inr dep, x0)"
      and t: "evm_transact E xt_to_tx_env tx (xo_evm x0) = (Inr rs, evm)"
      and o': "Inr o' = Inr (Some (er_gas_used (rs_result rs)))"
      and x1: "x1 = x0\<lparr>xo_evm := evm,
         xo_system_caller := on_state (ol_sys L) (Transaction (of_nat (length (xo_receipts x0))))
           (rs_state rs) (xo_system_caller x0),
         xo_gas_used := xo_gas_used x0 + er_gas_used (rs_result rs)\<rparr>"
      and x': "x' = x1\<lparr>xo_receipts := xo_receipts x1 @ [receipt],
               xo_evm := evm_commit (ol_sys L) E (rs_state rs) (xo_evm x1)\<rparr>"
    have "ol_gas_limit L (xt_tx tx) \<le> op_block_available_gas E x"
      using le regolith by (meson not_le)
    then show ?thesis
      using transact_within [OF quiet gas t] o' op_depositor_keeps [OF d] db [OF d] regolith
      by (simp add: x' x1 g block_commit)
  qed auto
qed

end

interpretation op_executor_evm: executor_evm "op_evm_dict R"
  for R :: "(('db, 'spec, 'rest, 'insp, 'pre) inner_evm, 'tx, 'halt, ('inv, 'irest) evm_error) revm_ops"
  by unfold_locales

lemma op_keeps_block:
  assumes "revm_keeps_block R"
  shows "keeps (ev_block (op_evm_dict R)) (ev_transact_system_call (op_evm_dict R) c a d)"
    and "keeps (ev_block (op_evm_dict R)) (ev_transact_raw (op_evm_dict R) tx)"
  using eth_keeps_block [OF assms] by (simp_all add: op_evm_dict_eth)

section \<open>A block on a concrete chain\<close>

text \<open>
  For the witnesses: a transaction is a type byte and a gas limit, and the inner EVM charges exactly
  what it is asked for. Canyon starts with the block; \<open>r\<close> says whether Regolith is active.
\<close>

definition sample_op_lib ::
    "(u8 \<times> u64, (u64, op_deposit_receipt) op_receipt_envelope, nat, unit, (unit, unit) evm_error, unit,
      state_change_source list, (u8 \<times> bytes) list) op_executor_lib" where
  "sample_op_lib =
     \<lparr>ol_ty = fst, ol_gas_limit = snd, ol_trie_hash = (\<lambda>_. 0), ol_deposit_transaction_type = 126,
      ol_receipt_cumulative_gas_used = (\<lambda>r. case op_receipt_inner r of
         Inl b \<Rightarrow> b | Inr d \<Rightarrow> rcp_cumulative_gas_used (dr_inner d)),
      ol_default_account_info = \<lparr>ai_balance = 0, ai_nonce = 0, ai_code_hash = 0, ai_code = None\<rparr>,
      ol_account_from_info = (\<lambda>i. \<lparr>acc_info = i, acc_storage = Map.empty, acc_status = {},
         acc_transaction_id = 0\<rparr>),
      ol_mark_touch = (\<lambda>a. a\<lparr>acc_status := insert Touched (acc_status a)\<rparr>),
      ol_amount_wei = sample_amount_wei, ol_iter = ascending, ol_state = sample_state_ops,
      ol_sys = sample_sys_lib\<rparr>"

definition sample_op_spec :: "bool \<Rightarrow> op_executor_spec" where
  "sample_op_spec r =
     hardforks.extend cancun_spec
       \<lparr>is_regolith_active_at_timestamp = (\<lambda>_. r), is_canyon_active_at_timestamp = (\<lambda>t. 12 \<le> t)\<rparr>"

definition sample_op_ty :: "u8 \<times> u64 \<Rightarrow> op_tx_type" where
  "sample_op_ty tx = (if fst tx = 126 then OpTxDeposit else OpTxLegacy)"

definition sample_op_factory ::
    "bool \<Rightarrow> ((u8 \<times> u64, (nat, nat, unit, unit, unit) evm_wrapper, unit,
        (u64, op_deposit_receipt) op_receipt_envelope) op_receipt_builder,
      op_executor_spec, unit) op_block_executor_factory" where
  "sample_op_factory r =
     op_block_executor_factory_new
       (op_alloy_receipt_builder rcp_cumulative_gas_used (\<lambda>d. d) sample_op_ty) (sample_op_spec r) ()"

definition sample_op_executor ::
    "bool \<Rightarrow> ((nat, nat, unit, unit, unit) evm_wrapper, state_change_source list, u8 \<times> u64, unit,
      (u64, op_deposit_receipt) op_receipt_envelope) op_block_executor" where
  "sample_op_executor r =
     op_create_executor (op_evm_dict paying_revm) (sample_op_factory r) sample_wrapper
       \<lparr>oc_parent_hash = 0, oc_parent_beacon_block_root = None, oc_extra_data = []\<rparr>"

definition sample_op_tx :: "u8 \<Rightarrow> u64 \<Rightarrow> (u8 \<times> u64, u64) executable_tx" where
  "sample_op_tx ty gas = \<lparr>xt_tx = (ty, gas), xt_signer = 9, xt_to_tx_env = gas\<rparr>"

definition sample_op_deposit :: "bool \<Rightarrow> u64 \<Rightarrow> (u64, op_deposit_receipt) op_receipt_envelope" where
  "sample_op_deposit r u = OpReceiptDeposit
     \<lparr>dr_inner = \<lparr>rcp_status = True, rcp_cumulative_gas_used = u, rcp_logs = []\<rparr>,
      dr_deposit_nonce = (if r then Some 0 else None), dr_deposit_receipt_version = Some 1\<rparr>"

text \<open>The executor after some transactions of the block.\<close>

definition sample_op_after :: "bool \<Rightarrow> (u64, op_deposit_receipt) op_receipt_envelope list \<Rightarrow> u64 \<Rightarrow> nat \<Rightarrow>
    ((nat, nat, unit, unit, unit) evm_wrapper, state_change_source list, u8 \<times> u64, unit,
      (u64, op_deposit_receipt) op_receipt_envelope) op_block_executor" where
  "sample_op_after r rs g d = (sample_op_executor r)
     \<lparr>xo_receipts := rs, xo_gas_used := g, xo_evm := evm_set_db (op_evm_dict paying_revm) d sample_wrapper\<rparr>"

lemmas sample_op_defs = sample_op_executor_def sample_op_factory_def sample_op_lib_def
  sample_op_tx_def sample_wrapper_def op_create_executor_def op_block_executor_new_def
  op_block_executor_factory_new_def op_is_deposit_def sample_op_ty_def sample_op_deposit_def

lemma sample_op_pre:
  "(op_apply_pre_execution_changes sample_op_lib (op_evm_dict paying_revm) (sample_op_executor r) ::
     ((unit, unit, unit, unit) block_execution_error abort + unit) \<times> _) = (Inr (), sample_op_after r [] 0 1)"
  by (simp add: op_apply_pre_execution_changes_def op_on_caller_def op_on_db_def step_defs Let_def
      apply_call_defs system_call_defs sample_op_defs sample_op_after_def system_caller_new_def
      sample_op_spec_def hardforks.defs cancun_spec_def op_evm_defs evm_defs system_call_timestamp_def
      sample_sys_lib_def saturating_to_u64_def sample_state_ops_def ensure_create2_deployer_def
      saturating_sub_def)

lemma sample_op_commit:
  assumes "(t \<le> 1000 - g) \<or> (\<not> r \<and> ty = 126)" "g' = g + t" "d' = d + 1"
    and "rs' = rs @ [if ty = 126 then sample_op_deposit r g' else OpReceiptLegacy g']"
  shows "(op_execute_transaction_with_commit_condition sample_op_lib (op_evm_dict paying_revm)
     (sample_op_tx ty t) (\<lambda>_ c. (Yes, c)) (sample_op_after r rs g d, c) ::
     ((unit, unit, unit, unit) block_execution_error abort + u64 option) \<times> _) =
     (Inr (Some t), (sample_op_after r rs' g' d', c))"
  using assms
  by (auto simp: op_execute_transaction_with_commit_condition_def op_block_available_gas_def
      op_depositor_def op_on_db_def op_receipt_def Let_def sample_op_after_def map_ok_def
      sample_op_defs sample_op_spec_def hardforks.defs evm_defs op_evm_defs evm_commit_def
      paying_revm_def zoom_def op_alloy_receipt_builder_def op_build_receipt_def
      op_build_deposit_receipt_def er_is_success_def sample_state_ops_def saturating_to_u64_def
      sample_sys_lib_def system_caller_new_def leD word_le_def split: if_splits)

lemma sample_op_tx:
  assumes "(t \<le> 1000 - g) \<or> (\<not> r \<and> ty = 126)" "g' = g + t" "d' = d + 1"
    and "rs' = rs @ [if ty = 126 then sample_op_deposit r g' else OpReceiptLegacy g']"
  shows "(execute_transaction (op_block_executor_dict sample_op_lib (op_evm_dict paying_revm))
     (sample_op_tx ty t) (sample_op_after r rs g d, c) ::
     ((unit, unit, unit, unit) block_execution_error abort + u64) \<times> _) =
     (Inr t, (sample_op_after r rs' g' d', c))"
  by (simp add: execute_transaction_def op_block_executor_dict_def default_result_closure_def
      map_ok_def sample_op_commit [OF assms])

lemma sample_op_finish:
  "(op_finish_block sample_op_lib (op_evm_dict paying_revm) (sample_op_after r rs g d) ::
     ((unit, unit, unit, unit) block_execution_error abort + _) \<times> _) =
     (Inr (evm_set_db (op_evm_dict paying_revm) d sample_wrapper,
       \<lparr>ber_receipts = rs, ber_requests = [],
        ber_gas_used = (if rs = [] then 0 else ol_receipt_cumulative_gas_used sample_op_lib (last rs))\<rparr>),
      sample_op_after r rs g d)"
  by (simp add: op_finish_block_def
      step_defs op_on_caller_def op_on_db_def try_on_state_with_eq sample_op_after_def
      sample_op_defs evm_defs op_evm_defs sample_op_spec_def hardforks.defs cancun_spec_def system_caller_new_def
      post_block_balance_increments_def insert_post_block_withdrawals_balance_increments_def
      base_block_reward_def saturating_to_u64_def sample_state_ops_def sample_sys_lib_def)


lemma sample_op_new: "sample_op_executor r = sample_op_after r [] 0 0"
  by (simp add: sample_op_after_def sample_op_defs evm_defs op_evm_defs)

text \<open>A deposit and a transfer, under Regolith rules or not; the amounts fit the block.\<close>

lemma sample_op_block_run:
  "(execute_block (op_block_executor_dict sample_op_lib (op_evm_dict paying_revm))
      [sample_op_tx 126 300, sample_op_tx 2 500] (sample_op_executor r, c) ::
      ((unit, unit, unit, unit) block_execution_error abort + _) \<times> _) =
    (Inr \<lparr>ber_receipts = [sample_op_deposit r 300, OpReceiptLegacy 800], ber_requests = [], ber_gas_used = 800\<rparr>,
     (sample_op_after r [sample_op_deposit r 300, OpReceiptLegacy 800] 800 3, c))"
proof -
  have 1: "(execute_transaction (op_block_executor_dict sample_op_lib (op_evm_dict paying_revm))
     (sample_op_tx 126 300) (sample_op_after r [] 0 1, c) ::
     ((unit, unit, unit, unit) block_execution_error abort + u64) \<times> _) =
     (Inr 300, (sample_op_after r [sample_op_deposit r 300] 300 2, c))"
    by (rule sample_op_tx) (simp_all add: word_le_nat_alt)
  have 2: "(execute_transaction (op_block_executor_dict sample_op_lib (op_evm_dict paying_revm))
     (sample_op_tx 2 500) (sample_op_after r [sample_op_deposit r 300] 300 2, c) ::
     ((unit, unit, unit, unit) block_execution_error abort + u64) \<times> _) =
     (Inr 500, (sample_op_after r [sample_op_deposit r 300, OpReceiptLegacy 800] 800 3, c))"
    by (rule sample_op_tx) (simp_all add: word_le_nat_alt)
  show ?thesis
    by (simp add: execute_block_def bx_apply_post_execution_changes_def on_executor_def zoom_def
        try_bind_def map_ok_def sample_op_pre 1 2 sample_op_finish del: One_nat_def)
      (simp add: sample_op_lib_def)
qed

lemma sample_op_carries:
  "op_receipts_carry_gas (ol_receipt_cumulative_gas_used sample_op_lib)
     (of_receipt_builder (sample_op_factory r))"
  using op_alloy_carries_gas [of "\<lambda>g. g" rcp_cumulative_gas_used
      "\<lambda>d. rcp_cumulative_gas_used (dr_inner d)" "\<lambda>d. d" sample_op_ty]
  by (simp add: sample_op_factory_def sample_op_lib_def op_block_executor_factory_new_def)

section \<open>The gas limit of the block\<close>

text \<open>When the check rejects a transaction; a rejected one leaves everything as it was.\<close>

lemma op_gas_rejection_iff:
  assumes "(op_execute_transaction_with_commit_condition L E tx f (x, c) ::
      (('inv, 'rest, 'dec, 'o) block_execution_error abort + u64 option) \<times> _) = (r, s')"
  shows "(\<exists>a b. r = Inl (Error (Validation (TransactionGasLimitMoreThanAvailableBlockGas a b)))) \<longleftrightarrow>
      ol_gas_limit L (xt_tx tx) > op_block_available_gas E x
      \<and> (xo_is_regolith x \<or> \<not> op_is_deposit L (xt_tx tx))"
    and "r = Inl (Error (Validation (TransactionGasLimitMoreThanAvailableBlockGas a b))) \<Longrightarrow> s' = (x, c)"
proof -
  obtain x' c' where s': "s' = (x', c')" by fastforce
  show "(\<exists>a b. r = Inl (Error (Validation (TransactionGasLimitMoreThanAvailableBlockGas a b)))) \<longleftrightarrow>
      ol_gas_limit L (xt_tx tx) > op_block_available_gas E x
      \<and> (xo_is_regolith x \<or> \<not> op_is_deposit L (xt_tx tx))"
  proof (cases "ol_gas_limit L (xt_tx tx) > op_block_available_gas E x
      \<and> (xo_is_regolith x \<or> \<not> op_is_deposit L (xt_tx tx))")
    case True
    then show ?thesis
      using assms by (auto simp: op_execute_transaction_with_commit_condition_def)
  next
    case False
    from assms [unfolded s'] have "r \<noteq> Inl (Error (Validation (TransactionGasLimitMoreThanAvailableBlockGas a b)))"
      for a b
      by (rule op_tx_cases) (use False in \<open>auto simp: bee_evm_classifies bee_other_def split: option.splits\<close>)
    then show ?thesis using False by blast
  qed
  show "s' = (x, c)"
    if "r = Inl (Error (Validation (TransactionGasLimitMoreThanAvailableBlockGas a b)))"
    using assms [unfolded s']
    by (rule op_tx_cases)
      (use that s' in \<open>auto simp: bee_evm_classifies bee_other_def split: option.splits\<close>)
qed

text \<open>C18: Before Regolith a deposit passes the gas check unseen and can push the gas counter past the
  block's gas limit. From then on the available gas \<open>gas_limit - gas_used\<close> wraps to nearly \<open>2^64\<close>, and
  the check lets every transaction through whose gas limit is at most that, however small the block.\<close>

theorem op_available_gas_wraps:
  assumes "be_gas_limit (ev_block E (xo_evm x)) < xo_gas_used x"
    and "unat (ol_gas_limit L (xt_tx tx))
      \<le> 2 ^ 64 - (unat (xo_gas_used x) - unat (be_gas_limit (ev_block E (xo_evm x))))"
    and "(op_execute_transaction_with_commit_condition L E tx f (x, c) ::
      (('inv, 'rest, 'dec, 'o) block_execution_error abort + u64 option) \<times> _) = (r, s')"
  shows "unat (op_block_available_gas E x) =
      2 ^ 64 - (unat (xo_gas_used x) - unat (be_gas_limit (ev_block E (xo_evm x))))
    \<and> (\<forall>a b. r \<noteq> Inl (Error (Validation (TransactionGasLimitMoreThanAvailableBlockGas a b))))"
proof -
  have av: "unat (op_block_available_gas E x) =
      2 ^ 64 - (unat (xo_gas_used x) - unat (be_gas_limit (ev_block E (xo_evm x))))"
    using assms(1) by (simp add: op_block_available_gas_def u64_sub_wraps)
  then show ?thesis
    using op_gas_rejection_iff(1) [OF assms(3)] assms(2)
    by (simp add: word_less_nat_alt)
qed

lemma op_available_gas_wraps_witness:
  "(execute_transaction (op_block_executor_dict sample_op_lib (op_evm_dict paying_revm))
      (sample_op_tx 126 2000) (sample_op_after False [] 0 1, ()) ::
      ((unit, unit, unit, unit) block_execution_error abort + u64) \<times> _) =
     (Inr 2000, (sample_op_after False [sample_op_deposit False 2000] 2000 2, ()))
   \<and> unat (op_block_available_gas (op_evm_dict paying_revm)
       (sample_op_after False [sample_op_deposit False 2000] 2000 2)) = 2 ^ 64 - 1000"
proof -
  let ?x = "sample_op_after False [sample_op_deposit False 2000] 2000 2"
  have f: "be_gas_limit (ev_block (op_evm_dict paying_revm) (xo_evm ?x)) = 1000" "xo_gas_used ?x = 2000"
    by (simp_all add: sample_op_after_def sample_op_defs evm_defs op_evm_defs)
  have "(execute_transaction (op_block_executor_dict sample_op_lib (op_evm_dict paying_revm))
      (sample_op_tx 126 2000) (sample_op_after False [] 0 1, ()) ::
      ((unit, unit, unit, unit) block_execution_error abort + u64) \<times> _) =
     (Inr 2000, (?x, ()))"
    by (rule sample_op_tx) simp_all
  moreover obtain r s' where run: "(op_execute_transaction_with_commit_condition sample_op_lib
      (op_evm_dict paying_revm) (sample_op_tx 2 5000) (\<lambda>_ c. (Yes, c)) (?x, ()) ::
      ((unit, unit, unit, unit) block_execution_error abort + u64 option) \<times> _) = (r, s')"
    by (rule prod.exhaust)
  have "unat (op_block_available_gas (op_evm_dict paying_revm) ?x) = 2 ^ 64 - (unat (2000 :: u64) - unat (1000 :: u64))"
    using op_available_gas_wraps [OF _ _ run] by (simp add: f) (simp add: sample_op_defs)
  ultimately show ?thesis by simp
qed

lemma op_is_regolith_new:
  "xo_is_regolith (op_create_executor E factory evm ctx) =
     is_regolith_active_at_timestamp (of_spec factory) (saturating_to_u64 (be_timestamp (ev_block E evm)))"
  by (simp add: op_create_executor_def op_block_executor_new_def)

lemma sample_op_respects:
  "gas_respecting (op_evm_dict paying_revm) (ol_gas_limit sample_op_lib)
     [sample_op_tx 126 300, sample_op_tx 2 500]"
  by (auto simp: gas_respecting_def sample_op_tx_def sample_op_lib_def op_evm_defs zoom_def
      paying_revm_def split: if_splits)

section \<open>Deposit receipts\<close>

text \<open>C19: The receipt of a committed deposit transaction carries the status, logs and cumulative gas of
  its execution; from Regolith on the nonce its sender had before the transaction ran, as the
  database returned it, with the default account for a sender that does not exist, and no nonce
  before; and version 1 exactly when Canyon is active at the block's timestamp.\<close>

theorem op_deposit_receipt:
  assumes "xo_receipt_builder x = op_alloy_receipt_builder wb dwb ty"
    and "ty (xt_tx tx) = OpTxDeposit" and "op_is_deposit L (xt_tx tx)"
    and "(op_execute_transaction_with_commit_condition L E tx f (x, c) ::
      (('inv, 'rest, 'dec, 'o) block_execution_error abort + u64 option) \<times> _) = (Inr (Some g), (x', c'))"
  shows "\<exists>acc db rs evm.
      so_load_cache_account (ol_state L) (xt_signer tx) (evm_db E (xo_evm x)) = (acc, db)
    \<and> evm_transact E xt_to_tx_env tx
        (if xo_is_regolith x then evm_set_db E db (xo_evm x) else xo_evm x) = (Inr rs, evm)
    \<and> g = er_gas_used (rs_result rs)
    \<and> xo_receipts x' = xo_receipts x @
        [OpReceiptDeposit (dwb
          \<lparr>dr_inner = \<lparr>rcp_status = er_is_success (rs_result rs), rcp_cumulative_gas_used = xo_gas_used x + g,
                      rcp_logs = er_logs (rs_result rs)\<rparr>,
           dr_deposit_nonce =
             (if xo_is_regolith x then
                (case acc of
                   Inr (Some info) \<Rightarrow> Some (ai_nonce info)
                 | Inr None \<Rightarrow> Some (ai_nonce (ol_default_account_info L))
                 | Inl e \<Rightarrow> None)
              else None),
           dr_deposit_receipt_version =
             (if is_canyon_active_at_timestamp (xo_spec x)
                   (saturating_to_u64 (be_timestamp (ev_block E evm))) then Some 1 else None)\<rparr>)]"
proof -
  obtain acc db where load: "so_load_cache_account (ol_state L) (xt_signer tx) (evm_db E (xo_evm x)) = (acc, db)"
    by (rule prod.exhaust)
  from assms(4) show ?thesis
  proof (rule op_tx_cases)
    fix dep x0 rs evm x1 receipt
    assume d: "op_depositor L E tx x = (Inr dep, x0)"
      and t: "evm_transact E xt_to_tx_env tx (xo_evm x0) = (Inr rs, evm)"
      and g: "Inr (Some g) = Inr (Some (er_gas_used (rs_result rs)))"
      and x1: "x1 = x0\<lparr>xo_evm := evm,
         xo_system_caller := on_state (ol_sys L) (Transaction (of_nat (length (xo_receipts x0))))
           (rs_state rs) (xo_system_caller x0),
         xo_gas_used := xo_gas_used x0 + er_gas_used (rs_result rs)\<rparr>"
      and r: "op_receipt L E (xt_tx tx) dep rs x1 = Some receipt"
      and x': "x' = x1\<lparr>xo_receipts := xo_receipts x1 @ [receipt],
               xo_evm := evm_commit (ol_sys L) E (rs_state rs) (xo_evm x1)\<rparr>"
    have evm0: "xo_evm x0 = (if xo_is_regolith x then evm_set_db E db (xo_evm x) else xo_evm x)"
      and dep: "map_option ai_nonce dep =
          (if xo_is_regolith x then
             (case acc of
                Inr (Some info) \<Rightarrow> Some (ai_nonce info)
              | Inr None \<Rightarrow> Some (ai_nonce (ol_default_account_info L))
              | Inl e \<Rightarrow> None)
           else None)"
      using d load assms(3)
      by (auto simp: op_depositor_def op_on_db_def map_ok_def zoom_def split: if_splits sum.splits option.splits)
    show ?thesis
      using t g r op_depositor_keeps [OF d] assms(1-3)
      by (intro exI [of _ acc] exI [of _ db] exI [of _ rs] exI [of _ evm])
        (auto simp: load evm0 x' x1 dep op_receipt_def op_alloy_receipt_builder_def op_build_receipt_def
          op_build_deposit_receipt_def)
  qed auto
qed

text \<open>The nonce in the witness is the one of the sample database.\<close>

lemma op_deposit_receipt_witness:
  "xo_receipts (sample_op_after True [sample_op_deposit True 300] 300 2) = [OpReceiptDeposit
     \<lparr>dr_inner = \<lparr>rcp_status = True, rcp_cumulative_gas_used = 300, rcp_logs = []\<rparr>,
      dr_deposit_nonce = Some 0, dr_deposit_receipt_version = Some 1\<rparr>]"
proof -
  let ?x' = "sample_op_after True [sample_op_deposit True 300] 300 2"
  have run: "(op_execute_transaction_with_commit_condition sample_op_lib (op_evm_dict paying_revm)
      (sample_op_tx 126 300) (\<lambda>_ c. (Yes, c)) (sample_op_after True [] 0 1, ()) ::
      ((unit, unit, unit, unit) block_execution_error abort + u64 option) \<times> _) =
     (Inr (Some 300), (?x', ()))"
    by (rule sample_op_commit) (simp_all add: word_le_nat_alt)
  have b: "xo_receipt_builder (sample_op_after True [] 0 1) =
      op_alloy_receipt_builder rcp_cumulative_gas_used (\<lambda>d. d) sample_op_ty"
    "sample_op_ty (xt_tx (sample_op_tx 126 300)) = OpTxDeposit"
    "op_is_deposit sample_op_lib (xt_tx (sample_op_tx 126 300))"
    by (simp_all add: sample_op_after_def sample_op_defs)
  from op_deposit_receipt [OF b run] obtain acc db rs evm where
    "so_load_cache_account (ol_state sample_op_lib) (xt_signer (sample_op_tx 126 300))
       (evm_db (op_evm_dict paying_revm) (xo_evm (sample_op_after True [] 0 1))) = (acc, db)"
    and "evm_transact (op_evm_dict paying_revm) xt_to_tx_env (sample_op_tx 126 300)
        (if xo_is_regolith (sample_op_after True [] 0 1)
         then evm_set_db (op_evm_dict paying_revm) db (xo_evm (sample_op_after True [] 0 1))
         else xo_evm (sample_op_after True [] 0 1)) = (Inr rs, evm)"
    and r: "xo_receipts ?x' = xo_receipts (sample_op_after True [] 0 1) @
        [OpReceiptDeposit
          \<lparr>dr_inner = \<lparr>rcp_status = er_is_success (rs_result rs),
             rcp_cumulative_gas_used = xo_gas_used (sample_op_after True [] 0 1) + 300,
             rcp_logs = er_logs (rs_result rs)\<rparr>,
           dr_deposit_nonce =
             (if xo_is_regolith (sample_op_after True [] 0 1) then
                (case acc of
                   Inr (Some info) \<Rightarrow> Some (ai_nonce info)
                 | Inr None \<Rightarrow> Some (ai_nonce (ol_default_account_info sample_op_lib))
                 | Inl e \<Rightarrow> None)
              else None),
           dr_deposit_receipt_version =
             (if is_canyon_active_at_timestamp (xo_spec (sample_op_after True [] 0 1))
                   (saturating_to_u64 (be_timestamp (ev_block (op_evm_dict paying_revm) evm)))
              then Some 1 else None)\<rparr>]"
    by auto
  then show ?thesis
    unfolding r
    by (auto simp: sample_op_after_def sample_op_defs sample_op_spec_def hardforks.defs
        evm_defs op_evm_defs sample_state_ops_def paying_revm_def zoom_def saturating_to_u64_def
        er_is_success_def)
qed

section \<open>The create2 deployer\<close>

text \<open>
  The specification: force-deploying the contract commits one touched account at its address, with
  the balance and nonce it had and the deployer's code.
\<close>

definition deploy_create2 ::
    "('tx, 'rcpt, 'db, 'dberr, 'err, 'halt, 'hk, 'rq) op_executor_lib \<Rightarrow> ('db, 'dberr, unit) step" where
  "deploy_create2 L =
     try_bind (so_load_cache_account (ol_state L) CREATE_2_DEPLOYER_ADDR) (\<lambda>acc.
       let old = (case acc of Some info \<Rightarrow> info | None \<Rightarrow> ol_default_account_info L)
       in modify (sl_commit (ol_sys L) [CREATE_2_DEPLOYER_ADDR \<mapsto>
         \<lparr>acc_info = \<lparr>ai_balance = ai_balance old, ai_nonce = ai_nonce old,
                      ai_code_hash = CREATE_2_DEPLOYER_CODEHASH,
                      ai_code = Some (Bytecode CREATE_2_DEPLOYER_BYTECODE)\<rparr>,
          acc_storage = Map.empty, acc_status = {Touched}, acc_transaction_id = 0\<rparr>]))"

text \<open>
  The documented behaviour of revm: an account made from its info has no storage and no status flag;
  \<open>mark_touch\<close> sets the flag.
\<close>

definition account_laws ::
    "('tx, 'rcpt, 'db, 'dberr, 'err, 'halt, 'hk, 'rq) op_executor_lib \<Rightarrow> bool" where
  "account_laws L \<longleftrightarrow>
     (\<forall>i. ol_account_from_info L i =
        \<lparr>acc_info = i, acc_storage = Map.empty, acc_status = {}, acc_transaction_id = 0\<rparr>)
     \<and> (\<forall>a. ol_mark_touch L a = a\<lparr>acc_status := insert Touched (acc_status a)\<rparr>)"

lemma ensure_create2_deployer_eq:
  assumes "account_laws L"
  shows "ensure_create2_deployer L spec t =
    (if is_canyon_active_at_timestamp spec t \<and> \<not> is_canyon_active_at_timestamp spec (saturating_sub t 2)
     then deploy_create2 L else ret ())"
proof -
  have upd: "i\<lparr>ai_code_hash := h, ai_code := c\<rparr> =
      \<lparr>ai_balance = ai_balance i, ai_nonce = ai_nonce i, ai_code_hash = h, ai_code = c\<rparr>" for i :: account_info and h c
    by (cases i) simp
  show ?thesis
    using assms by (simp add: ensure_create2_deployer_def deploy_create2_def account_laws_def Let_def upd)
qed

lemma saturating_sub_2:
  fixes t u :: u64
  assumes "unat u = unat t + 2"
  shows "saturating_sub u 2 = t"
proof -
  have "2 \<le> u" using assms by (simp add: word_le_nat_alt)
  moreover from this have "unat (u - 2) = unat t"
    using assms by (simp add: unat_sub)
  ultimately show ?thesis
    by (simp add: saturating_sub_def word_unat_eq_iff)
qed

text \<open>C20: On a chain that produces a block every two seconds and whose Canyon time lies after its first
  block, exactly one block force-deploys the create2 deployer: it commits a single touched account at
  the deployer's address with the deployer's code and code hash and the balance and nonce it had.
  Every other block leaves the database alone.\<close>

theorem canyon_deploys_once:
  assumes "account_laws L"
    and "\<And>t. is_canyon_active_at_timestamp spec t \<longleftrightarrow> canyon \<le> t"
    and "\<And>i. i < n \<Longrightarrow> unat (ts (Suc i)) = unat (ts i) + 2"
    and "ts 0 < canyon" and "canyon \<le> ts n"
  shows "\<exists>k \<le> n. ensure_create2_deployer L spec (ts k) = deploy_create2 L
    \<and> (\<forall>i \<le> n. i \<noteq> k \<longrightarrow> ensure_create2_deployer L spec (ts i) = ret ())"
proof -
  have step: "ensure_create2_deployer L spec (ts (Suc i)) =
      (if canyon \<le> ts (Suc i) \<and> \<not> canyon \<le> ts i then deploy_create2 L else ret ())" if "i < n" for i
    using saturating_sub_2 [OF assms(3) [OF that]]
    by (simp add: ensure_create2_deployer_eq [OF assms(1)] assms(2))
  have first: "ensure_create2_deployer L spec (ts 0) = ret ()"
    using assms(4) by (auto simp: ensure_create2_deployer_eq [OF assms(1)] assms(2) dest: leD)
  have mono: "ts i \<le> ts j" if "i \<le> j" "j \<le> n" for i j
    using that
  proof (induction j)
    case (Suc j)
    then have "ts j \<le> ts (Suc j)"
      using assms(3) [of j] by (simp add: word_le_nat_alt)
    with Suc show ?case by (cases "i = Suc j") auto
  qed simp
  obtain k where k: "k < n" "\<not> canyon \<le> ts k" "canyon \<le> ts (Suc k)"
    using assms(4,5) by (metis inc_induct [of 0 n "\<lambda>i. canyon \<le> ts i"] not_le le0)
  show ?thesis
  proof (intro exI [of _ "Suc k"] conjI allI impI)
    show "ensure_create2_deployer L spec (ts (Suc k)) = deploy_create2 L"
      using step [OF k(1)] k(2,3) by simp
    show "ensure_create2_deployer L spec (ts i) = ret ()" if "i \<le> n" "i \<noteq> Suc k" for i
    proof (cases i)
      case 0
      then show ?thesis by (simp add: first)
    next
      case (Suc j)
      then have "Suc j \<le> k \<or> Suc k \<le> j" and "j < n"
        using that by auto
      then have "\<not> canyon \<le> ts (Suc j) \<or> canyon \<le> ts j"
        using mono [of "Suc j" k] mono [of "Suc k" j] k by (auto dest: order_trans)
      then show ?thesis using step [OF \<open>j < n\<close>] by (auto simp: Suc)
    qed
  qed (use k in simp)
qed

lemma canyon_deploys_once_witness:
  "\<exists>k \<le> 3. ensure_create2_deployer sample_op_lib (sample_op_spec True) (of_nat (2 * k + 7)) =
      deploy_create2 sample_op_lib
    \<and> (\<forall>i \<le> 3. i \<noteq> k \<longrightarrow>
        ensure_create2_deployer sample_op_lib (sample_op_spec True) (of_nat (2 * i + 7)) = ret ())"
proof (rule canyon_deploys_once [where canyon = 12])
  show "account_laws sample_op_lib"
    by (simp add: account_laws_def sample_op_lib_def)
  show "is_canyon_active_at_timestamp (sample_op_spec True) t = (12 \<le> t)" for t
    by (simp add: sample_op_spec_def hardforks.defs)
  show "unat (of_nat (2 * Suc i + 7) :: u64) = unat (of_nat (2 * i + 7) :: u64) + 2" if "i < 3" for i
  proof -
    from that have "i = 0 \<or> i = 1 \<or> i = 2" by auto
    then show ?thesis by auto
  qed
qed simp_all

end
