(* ===== verification/OpTransactions.thy ===== *)
theory OpTransactions
  imports OpExecutor EthTransactions
begin

text \<open>
  The transactions of an OP block, specified without an executor, as \<open>EthTransactions\<close> does it for
  Ethereum: the account of a depositor is read on the way, and the gas of a block is read off its
  last receipt. The loop of \<open>crates/op-evm/src/block/mod.rs\<close> refines the specification.
\<close>

section \<open>The specification\<close>

text \<open>The account of a depositor as the database returns it, from Regolith on, and the EVM afterwards.\<close>

definition load_depositor ::
    "('tx, 'rcpt, 'db, 'dberr, 'err, 'halt, 'hk, 'rq) op_executor_lib
      \<Rightarrow> ('evm, 'db, 'insp, 'pre, 'spec, 'env, 'halt, 'err) evm_dict \<Rightarrow> bool
      \<Rightarrow> ('tx, 'env) executable_tx \<Rightarrow> 'evm \<Rightarrow> (account_info option \<times> 'evm) option" where
  "load_depositor L E regolith tx evm =
     (if regolith \<and> ol_ty L (xt_tx tx) = ol_deposit_transaction_type L then
        (case so_load_cache_account (ol_state L) (xt_signer tx) (evm_db E evm) of
           (Inl e, db) \<Rightarrow> None
         | (Inr None, db) \<Rightarrow> Some (Some (ol_default_account_info L), evm_set_db E db evm)
         | (Inr (Some info), db) \<Rightarrow> Some (Some info, evm_set_db E db evm))
      else Some (None, evm))"

text \<open>
  Running and committing one transaction after the other: for each the account of its depositor, its
  outcome, and the EVM it left before the commit. \<open>None\<close> where the database or the EVM fails.
\<close>

fun op_transact_all ::
    "('tx, 'rcpt, 'db, 'dberr, 'err, 'halt, 'hk, 'rq) op_executor_lib
      \<Rightarrow> ('evm, 'db, 'insp, 'pre, 'spec, 'env, 'halt, 'err) evm_dict \<Rightarrow> bool
      \<Rightarrow> ('tx, 'env) executable_tx list \<Rightarrow> 'evm
      \<Rightarrow> ((account_info option \<times> 'halt result_and_state \<times> 'evm) list \<times> 'evm) option" where
  "op_transact_all L E regolith [] evm = Some ([], evm)"
| "op_transact_all L E regolith (tx # txs) evm =
     (case load_depositor L E regolith tx evm of
        None \<Rightarrow> None
      | Some (depositor, evm0) \<Rightarrow>
          (case evm_transact E xt_to_tx_env tx evm0 of
             (Inl err, evm1) \<Rightarrow> None
           | (Inr rs, evm1) \<Rightarrow>
               (case op_transact_all L E regolith txs (evm_commit (ol_sys L) E (rs_state rs) evm1) of
                  None \<Rightarrow> None
                | Some (runs, evm') \<Rightarrow> Some ((depositor, rs, evm1) # runs, evm'))))"

text \<open>
  The receipt of a run for the gas used up to and including it: the builder's, or, for a deposit that
  the builder hands back, the deposit receipt.
\<close>

definition op_run_receipt ::
    "('tx, 'rcpt, 'db, 'dberr, 'err, 'halt, 'hk, 'rq) op_executor_lib
      \<Rightarrow> ('evm, 'db, 'insp, 'pre, 'spec, 'env, 'halt, 'err) evm_dict
      \<Rightarrow> ('tx, 'evm, 'halt, 'rcpt) op_receipt_builder \<Rightarrow> op_executor_spec \<Rightarrow> 'tx
      \<Rightarrow> account_info option \<times> 'halt result_and_state \<times> 'evm \<Rightarrow> u64 \<Rightarrow> 'rcpt option" where
  "op_run_receipt L E rb spec tx run used =
     (case run of (depositor, rs, evm) \<Rightarrow>
      map_option (\<lambda>built. case built of
           Inr receipt \<Rightarrow> receipt
         | Inl ctx \<Rightarrow> orb_build_deposit_receipt rb
             \<lparr>dr_inner = \<lparr>rcp_status = er_is_success (rc_result ctx), rcp_cumulative_gas_used = used,
                          rcp_logs = er_logs (rc_result ctx)\<rparr>,
              dr_deposit_nonce = map_option ai_nonce depositor,
              dr_deposit_receipt_version =
                (if ol_ty L tx = ol_deposit_transaction_type L
                    \<and> is_canyon_active_at_timestamp spec (saturating_to_u64 (be_timestamp (ev_block E evm)))
                 then Some 1 else None)\<rparr>)
        (orb_build_receipt rb
           \<lparr>rc_tx = tx, rc_evm = evm, rc_result = rs_result rs, rc_state = rs_state rs,
            rc_cumulative_gas_used = used\<rparr>))"

fun op_run_receipts ::
    "('tx, 'rcpt, 'db, 'dberr, 'err, 'halt, 'hk, 'rq) op_executor_lib
      \<Rightarrow> ('evm, 'db, 'insp, 'pre, 'spec, 'env, 'halt, 'err) evm_dict
      \<Rightarrow> ('tx, 'evm, 'halt, 'rcpt) op_receipt_builder \<Rightarrow> op_executor_spec
      \<Rightarrow> ('tx, 'env) executable_tx list \<Rightarrow> (account_info option \<times> 'halt result_and_state \<times> 'evm) list
      \<Rightarrow> u64 \<Rightarrow> 'rcpt option list" where
  "op_run_receipts L E rb spec (tx # txs) (run # runs) used =
     op_run_receipt L E rb spec (xt_tx tx) run (used + run_gas (snd run))
       # op_run_receipts L E rb spec txs runs (used + run_gas (snd run))"
| "op_run_receipts L E rb spec _ _ used = []"

section \<open>The loop of the executor\<close>

lemma op_depositor_load:
  assumes "op_depositor L E tx x = (Inr dep, x0)"
  shows "load_depositor L E (xo_is_regolith x) tx (xo_evm x) = Some (dep, xo_evm x0)"
    and "x0 = x\<lparr>xo_evm := xo_evm x0\<rparr>"
  using assms
  by (auto simp: op_depositor_def load_depositor_def op_is_deposit_def op_on_db_def map_ok_def zoom_def
      split: if_splits prod.splits sum.splits option.splits)

lemma op_receipt_run:
  assumes "op_receipt L E tx dep rs x = Some receipt"
  shows "op_run_receipt L E (xo_receipt_builder x) (xo_spec x) tx (dep, rs, xo_evm x) (xo_gas_used x) = Some receipt"
  using assms
  by (auto simp: op_receipt_def op_run_receipt_def op_is_deposit_def Let_def split: option.splits sum.splits)

text \<open>A receipt of a run carries the gas it was built for.\<close>

lemma op_run_receipt_carries:
  assumes "op_receipts_carry_gas cum rb" "op_run_receipt L E rb spec tx run used = Some receipt"
  shows "cum receipt = used"
proof -
  obtain dep rs evm where run: "run = (dep, rs, evm)" by (cases run)
  from assms(2) obtain built where
    "orb_build_receipt rb \<lparr>rc_tx = tx, rc_evm = evm, rc_result = rs_result rs, rc_state = rs_state rs,
       rc_cumulative_gas_used = used\<rparr> = Some built"
    by (auto simp: op_run_receipt_def run)
  with assms show ?thesis
    by (cases built) (auto simp: op_receipts_carry_gas_def op_run_receipt_def run)
qed

lemma op_run_receipts_carry:
  assumes "op_receipts_carry_gas cum rb" "length runs = length txs"
    "map Some receipts = op_run_receipts L E rb spec txs runs used"
  shows "map cum receipts = running used (map (run_gas \<circ> snd) runs)"
  using assms(2,3)
proof (induction txs runs arbitrary: used receipts rule: list_induct2')
  case (4 tx txs run runs)
  then obtain receipt rest where receipts: "receipts = receipt # rest"
    and one: "op_run_receipt L E rb spec (xt_tx tx) run (used + run_gas (snd run)) = Some receipt"
    and rest: "map Some rest = op_run_receipts L E rb spec txs runs (used + run_gas (snd run))"
    by (cases receipts) auto
  have "cum receipt = used + run_gas (snd run)"
    by (rule op_run_receipt_carries [OF assms(1) one])
  with 4 rest show ?case
    by (simp add: receipts)
qed auto

lemma op_execute_transaction_run:
  assumes "(execute_transaction (op_block_executor_dict L E) tx (x, c) ::
      (('inv, 'rest, 'dec, 'o) block_execution_error abort + u64) \<times> _) = (Inr g, (x', c'))"
  obtains dep evm0 rs evm receipt where
    "load_depositor L E (xo_is_regolith x) tx (xo_evm x) = Some (dep, evm0)"
    "evm_transact E xt_to_tx_env tx evm0 = (Inr rs, evm)"
    "g = er_gas_used (rs_result rs)" "c' = c"
    "op_run_receipt L E (xo_receipt_builder x) (xo_spec x) (xt_tx tx) (dep, rs, evm)
       (xo_gas_used x + er_gas_used (rs_result rs)) = Some receipt"
    "x' = x\<lparr>xo_evm := evm_commit (ol_sys L) E (rs_state rs) evm,
         xo_system_caller := on_state (ol_sys L) (Transaction (of_nat (length (xo_receipts x))))
           (rs_state rs) (xo_system_caller x),
         xo_receipts := xo_receipts x @ [receipt],
         xo_gas_used := xo_gas_used x + er_gas_used (rs_result rs)\<rparr>"
proof -
  from assms obtain o' where
    cc: "(op_execute_transaction_with_commit_condition L E tx (\<lambda>res c. (Yes, c)) (x, c) ::
      (('inv, 'rest, 'dec, 'o) block_execution_error abort + u64 option) \<times> _) = (Inr o', (x', c'))"
    and g: "g = (case o' of Some gas \<Rightarrow> gas | None \<Rightarrow> 0)"
    unfolding execute_transaction_def op_executor.result_closure default_result_closure_Inr op_dict_simps
    by blast
  from cc show thesis
  proof (rule op_tx_cases)
    fix dep x0 rs evm x1 receipt
    assume d: "op_depositor L E tx x = (Inr dep, x0)"
      and t: "evm_transact E xt_to_tx_env tx (xo_evm x0) = (Inr rs, evm)"
      and res: "(\<lambda>res c. (Yes, c)) (rs_result rs) c = (Yes, c')" "Inr o' = Inr (Some (er_gas_used (rs_result rs)))"
      and x1: "x1 = x0\<lparr>xo_evm := evm,
         xo_system_caller := on_state (ol_sys L) (Transaction (of_nat (length (xo_receipts x0))))
           (rs_state rs) (xo_system_caller x0),
         xo_gas_used := xo_gas_used x0 + er_gas_used (rs_result rs)\<rparr>"
      and r: "op_receipt L E (xt_tx tx) dep rs x1 = Some receipt"
      and x': "x' = x1\<lparr>xo_receipts := xo_receipts x1 @ [receipt],
               xo_evm := evm_commit (ol_sys L) E (rs_state rs) (xo_evm x1)\<rparr>"
    obtain e where x0: "x0 = x\<lparr>xo_evm := e\<rparr>"
      using op_depositor_load(2) [OF d] by blast
    show thesis
    proof (rule that)
      show "load_depositor L E (xo_is_regolith x) tx (xo_evm x) = Some (dep, e)"
        using op_depositor_load(1) [OF d] by (simp add: x0)
      show "op_run_receipt L E (xo_receipt_builder x) (xo_spec x) (xt_tx tx) (dep, rs, evm)
          (xo_gas_used x + er_gas_used (rs_result rs)) = Some receipt"
        using op_receipt_run [OF r] by (simp add: x1 x0)
    qed (use t res g in \<open>simp_all add: x' x1 x0\<close>)
  qed (use g in auto)
qed

text \<open>What the executor told, charged and built over a whole list of transactions.\<close>

lemma op_transactions_run:
  assumes "(try_each (execute_transaction (op_block_executor_dict L E)) txs (x, c) ::
      (('inv, 'rest, 'dec, 'o) block_execution_error abort + _) \<times> _) = (Inr gs, (x', c'))"
  shows "\<exists>runs receipts. op_transact_all L E (xo_is_regolith x) txs (xo_evm x) = Some (runs, xo_evm x')
    \<and> length runs = length txs \<and> gs = map (run_gas \<circ> snd) runs \<and> c' = c
    \<and> map Some receipts = op_run_receipts L E (xo_receipt_builder x) (xo_spec x) txs runs (xo_gas_used x)
    \<and> x' = x\<lparr>xo_evm := xo_evm x',
             xo_system_caller := tell_hook (ol_sys L) (length (xo_receipts x)) (map snd runs) (xo_system_caller x),
             xo_receipts := xo_receipts x @ receipts,
             xo_gas_used := xo_gas_used x + sum_list gs\<rparr>"
  using assms
proof (induction txs arbitrary: x c gs)
  case Nil
  then show ?case by simp
next
  case (Cons tx txs)
  from Cons.prems obtain g p hs where
    one: "(execute_transaction (op_block_executor_dict L E) tx (x, c) ::
      (('inv, 'rest, 'dec, 'o) block_execution_error abort + u64) \<times> _) = (Inr g, p)"
    and rest: "(try_each (execute_transaction (op_block_executor_dict L E)) txs p ::
      (('inv, 'rest, 'dec, 'o) block_execution_error abort + _) \<times> _) = (Inr hs, (x', c'))"
    and gs: "gs = g # hs"
    unfolding try_each_Cons_Inr by blast
  obtain x1 c1 where p: "p = (x1, c1)" by (cases p)
  from one [unfolded p] obtain dep evm0 rs evm receipt where
    t: "load_depositor L E (xo_is_regolith x) tx (xo_evm x) = Some (dep, evm0)"
      "evm_transact E xt_to_tx_env tx evm0 = (Inr rs, evm)" "g = er_gas_used (rs_result rs)" "c1 = c"
    and r: "op_run_receipt L E (xo_receipt_builder x) (xo_spec x) (xt_tx tx) (dep, rs, evm)
       (xo_gas_used x + er_gas_used (rs_result rs)) = Some receipt"
    and x1: "x1 = x\<lparr>xo_evm := evm_commit (ol_sys L) E (rs_state rs) evm,
         xo_system_caller := on_state (ol_sys L) (Transaction (of_nat (length (xo_receipts x))))
           (rs_state rs) (xo_system_caller x),
         xo_receipts := xo_receipts x @ [receipt],
         xo_gas_used := xo_gas_used x + er_gas_used (rs_result rs)\<rparr>"
    by (rule op_execute_transaction_run)
  from Cons.IH [OF rest [unfolded p]] obtain runs receipts where IH:
    "op_transact_all L E (xo_is_regolith x1) txs (xo_evm x1) = Some (runs, xo_evm x')" "length runs = length txs"
    "hs = map (run_gas \<circ> snd) runs" "c' = c1"
    "map Some receipts = op_run_receipts L E (xo_receipt_builder x1) (xo_spec x1) txs runs (xo_gas_used x1)"
    "x' = x1\<lparr>xo_evm := xo_evm x',
             xo_system_caller := tell_hook (ol_sys L) (length (xo_receipts x1)) (map snd runs) (xo_system_caller x1),
             xo_receipts := xo_receipts x1 @ receipts,
             xo_gas_used := xo_gas_used x1 + sum_list hs\<rparr>"
    by blast
  have "x' = x\<lparr>xo_evm := xo_evm x',
             xo_system_caller := tell_hook (ol_sys L) (length (xo_receipts x)) (map snd ((dep, rs, evm) # runs))
               (xo_system_caller x),
             xo_receipts := xo_receipts x @ receipt # receipts,
             xo_gas_used := xo_gas_used x + sum_list gs\<rparr>"
    by (subst IH(6)) (simp add: x1 gs t(3) add.assoc)
  then show ?case
    using IH(1-5) t r
    by (intro exI [of _ "(dep, rs, evm) # runs"] exI [of _ "receipt # receipts"])
      (simp add: x1 gs run_gas_def)
qed

section \<open>A whole block\<close>

text \<open>
  What a block that a fresh executor executes has done: the changes before the transactions, then the
  specified runs; the gas that \<open>finish\<close> reads off the last receipt is the executor's counter.
\<close>

lemma op_block_run:
  assumes carry: "op_receipts_carry_gas (ol_receipt_cumulative_gas_used L) (xo_receipt_builder x)"
    and empty: "xo_receipts x = []" "xo_gas_used x = 0"
    and run: "(execute_block (op_block_executor_dict L E) txs (x, c) ::
      (('inv, 'rest, 'dec, 'o) block_execution_error abort + _) \<times> _) = (Inr res, (x', c'))"
  obtains x1 gs x2 runs where
    "(op_apply_pre_execution_changes L E x ::
        (('inv, 'rest, 'dec, 'o) block_execution_error abort + unit) \<times> _) = (Inr (), x1)"
    "(try_each (execute_transaction (op_block_executor_dict L E)) txs (x1, c) ::
      (('inv, 'rest, 'dec, 'o) block_execution_error abort + _) \<times> _) = (Inr gs, (x2, c))"
    "op_transact_all L E (xo_is_regolith x) txs (xo_evm x1) = Some (runs, xo_evm x2)"
    "length runs = length txs" "gs = map (run_gas \<circ> snd) runs"
    "map Some (ber_receipts res) = op_run_receipts L E (xo_receipt_builder x) (xo_spec x) txs runs 0"
    "map (ol_receipt_cumulative_gas_used L) (ber_receipts res) = running 0 (map (run_gas \<circ> snd) runs)"
    "ber_gas_used res = sum_list (map (run_gas \<circ> snd) runs)" "ber_gas_used res = xo_gas_used x2"
    "ber_requests res = sl_requests_default (ol_sys L)"
proof -
  from op_executor.execute_block_ok [OF run] obtain x1 gs x2 where
    pre: "(op_apply_pre_execution_changes L E x ::
        (('inv, 'rest, 'dec, 'o) block_execution_error abort + unit) \<times> _) = (Inr (), x1)"
    and txs: "(try_each (execute_transaction (op_block_executor_dict L E)) txs (x1, c) ::
      (('inv, 'rest, 'dec, 'o) block_execution_error abort + _) \<times> _) = (Inr gs, (x2, c))"
    and fin: "(op_finish_block L E x2 ::
      (('inv, 'rest, 'dec, 'o) block_execution_error abort + _) \<times> _) = (Inr (xo_evm x', res), x')"
    unfolding op_dict_simps by blast
  have x1: "xo_receipts x1 = []" "xo_gas_used x1 = 0" "xo_receipt_builder x1 = xo_receipt_builder x"
    "xo_spec x1 = xo_spec x" "xo_is_regolith x1 = xo_is_regolith x"
    using keepsD [OF op_pre_execution_ignores pre, of xo_receipts] keepsD [OF op_pre_execution_ignores pre, of xo_gas_used]
      keepsD [OF op_pre_execution_ignores pre, of xo_receipt_builder]
      keepsD [OF op_pre_execution_ignores pre, of xo_spec] keepsD [OF op_pre_execution_ignores pre, of xo_is_regolith]
    by (simp_all add: empty)
  from op_transactions_run [OF txs] obtain runs receipts where
    runs: "op_transact_all L E (xo_is_regolith x) txs (xo_evm x1) = Some (runs, xo_evm x2)" "length runs = length txs"
    "gs = map (run_gas \<circ> snd) runs"
    "map Some receipts = op_run_receipts L E (xo_receipt_builder x) (xo_spec x) txs runs 0"
    and x2: "x2 = x1\<lparr>xo_evm := xo_evm x2,
             xo_system_caller := tell_hook (ol_sys L) (length (xo_receipts x1)) (map snd runs) (xo_system_caller x1),
             xo_receipts := xo_receipts x1 @ receipts,
             xo_gas_used := xo_gas_used x1 + sum_list gs\<rparr>"
    unfolding x1 by blast
  have left: "xo_receipts x2 = receipts" "xo_gas_used x2 = sum_list gs"
    by (subst x2, simp add: x1)+
  note cums = op_run_receipts_carry [OF carry runs(2,4)]
  have "ber_gas_used res = sum_list gs"
  proof (cases "receipts = []")
    case False
    with cums runs(3) have "gs \<noteq> []" by (metis list.map_disc_iff running_Nil)
    with cums runs(3) running_last [of gs 0] False show ?thesis
      using op_finish_result(3) [OF fin] by (simp add: left) (metis last_map)
  qed (use cums running_Nil [of 0 gs] runs(3) op_finish_result(3) [OF fin] left in auto)
  with that [OF pre txs runs(1-3)] runs(3,4) cums show thesis
    using op_finish_result(2,4) [OF fin] by (simp add: left)
qed

text \<open>C15: A block executed by a fresh OP executor has charged what its transactions used: after the changes
  before the block, the transactions ran one after the other, each on the committed changes of its
  predecessors and, for a deposit from Regolith on, after its sender's account was read; the receipts
  are the ones built from each transaction, its outcome and the gas used up to and including it, in
  order; the gas used that \<open>finish\<close> reads off the last receipt is the sum of what the EVM reported for
  each; and the block has no requests.\<close>

theorem op_block_accounting:
  assumes "op_receipts_carry_gas (ol_receipt_cumulative_gas_used L) (of_receipt_builder factory)"
    and "(execute_block (op_block_executor_dict L E) txs (op_create_executor E factory evm ctx, c) ::
      (('inv, 'rest, 'dec, 'o) block_execution_error abort + _) \<times> _) = (Inr res, s')"
  shows "\<exists>x1 runs evm'.
      (op_apply_pre_execution_changes L E (op_create_executor E factory evm ctx) ::
        (('inv, 'rest, 'dec, 'o) block_execution_error abort + unit) \<times> _) = (Inr (), x1)
    \<and> op_transact_all L E
        (is_regolith_active_at_timestamp (of_spec factory) (saturating_to_u64 (be_timestamp (ev_block E evm))))
        txs (xo_evm x1) = Some (runs, evm')
    \<and> length runs = length txs
    \<and> map Some (ber_receipts res) =
        op_run_receipts L E (of_receipt_builder factory) (of_spec factory) txs runs 0
    \<and> map (ol_receipt_cumulative_gas_used L) (ber_receipts res) = running 0 (map (run_gas \<circ> snd) runs)
    \<and> ber_gas_used res = sum_list (map (run_gas \<circ> snd) runs)
    \<and> ber_requests res = sl_requests_default (ol_sys L)"
proof -
  obtain x' c' where s': "s' = (x', c')" by fastforce
  let ?x = "op_create_executor E factory evm ctx"
  have spec: "xo_spec ?x = of_spec factory"
    by (simp add: op_create_executor_def op_block_executor_new_def)
  show ?thesis
  proof (rule op_block_run [OF _ _ _ assms(2) [unfolded s']])
    fix x1 gs x2 runs
    assume "(op_apply_pre_execution_changes L E ?x ::
        (('inv, 'rest, 'dec, 'o) block_execution_error abort + unit) \<times> _) = (Inr (), x1)"
      "op_transact_all L E (xo_is_regolith ?x) txs (xo_evm x1) = Some (runs, xo_evm x2)"
      "length runs = length txs"
      "map Some (ber_receipts res) = op_run_receipts L E (xo_receipt_builder ?x) (xo_spec ?x) txs runs 0"
      "map (ol_receipt_cumulative_gas_used L) (ber_receipts res) = running 0 (map (run_gas \<circ> snd) runs)"
      "ber_gas_used res = sum_list (map (run_gas \<circ> snd) runs)"
      "ber_requests res = sl_requests_default (ol_sys L)"
    then show ?thesis
      by (intro exI [of _ x1] exI [of _ runs] exI [of _ "xo_evm x2"]) (simp add: spec op_is_regolith_new)
  qed (simp_all add: assms(1))
qed

lemma op_block_accounting_witness:
  "\<exists>runs evm'. op_transact_all sample_op_lib (op_evm_dict paying_revm) True
        [sample_op_tx 126 300, sample_op_tx 2 500] (xo_evm (sample_op_after True [] 0 1)) = Some (runs, evm')
    \<and> map Some [sample_op_deposit True 300, OpReceiptLegacy 800] =
        op_run_receipts sample_op_lib (op_evm_dict paying_revm) (of_receipt_builder (sample_op_factory True))
          (of_spec (sample_op_factory True)) [sample_op_tx 126 300, sample_op_tx 2 500] runs 0
    \<and> 800 = sum_list (map (run_gas \<circ> snd) runs)"
proof -
  have regolith: "is_regolith_active_at_timestamp (of_spec (sample_op_factory True)) t" for t
    by (simp add: sample_op_factory_def op_block_executor_factory_new_def sample_op_spec_def hardforks.defs)
  show ?thesis
    using op_block_accounting [OF sample_op_carries
        sample_op_block_run [where c = "()" and r = True, unfolded sample_op_executor_def]]
      sample_op_pre [of True, unfolded sample_op_executor_def] regolith
    by auto
qed

section \<open>Gas stays within the block\<close>

context executor_evm
begin

lemma op_block_within:
  assumes quiet: "\<And>env. keeps (ev_block E) (ev_transact_raw E env)"
    and quiet_sys: "\<And>c a d. keeps (ev_block E) (ev_transact_system_call E c a d)"
    and gas: "gas_respecting E (ol_gas_limit L) txs" and regolith: "xo_is_regolith x"
    and carry: "op_receipts_carry_gas (ol_receipt_cumulative_gas_used L) (xo_receipt_builder x)"
    and empty: "xo_receipts x = []" "xo_gas_used x = 0"
    and run: "(execute_block (op_block_executor_dict L E) txs (x, c) ::
      (('inv, 'rest, 'dec, 'o) block_execution_error abort + _) \<times> _) = (Inr res, (x', c'))"
  shows "ber_gas_used res \<le> be_gas_limit (ev_block E (xo_evm x))
    \<and> (\<exists>x1 runs evm'. (op_apply_pre_execution_changes L E x ::
          (('inv, 'rest, 'dec, 'o) block_execution_error abort + unit) \<times> _) = (Inr (), x1)
        \<and> op_transact_all L E True txs (xo_evm x1) = Some (runs, evm')
        \<and> unat (ber_gas_used res) = sum_list (map (unat \<circ> run_gas \<circ> snd) runs))"
  using carry empty run
proof (rule op_block_run)
  fix x1 gs x2 runs
  assume pre: "(op_apply_pre_execution_changes L E x ::
        (('inv, 'rest, 'dec, 'o) block_execution_error abort + unit) \<times> _) = (Inr (), x1)"
    and txs: "(try_each (execute_transaction (op_block_executor_dict L E)) txs (x1, c) ::
      (('inv, 'rest, 'dec, 'o) block_execution_error abort + _) \<times> _) = (Inr gs, (x2, c))"
    and runs: "op_transact_all L E (xo_is_regolith x) txs (xo_evm x1) = Some (runs, xo_evm x2)"
      "gs = map (run_gas \<circ> snd) runs"
    and used: "ber_gas_used res = xo_gas_used x2"
  let ?block = "ev_block E (xo_evm x)"
  let ?P = "\<lambda>y. ev_block E (xo_evm y) = ?block \<and> xo_is_regolith y"
  have x1: "?P x1" "xo_gas_used x1 = 0"
    using keepsD [OF op_pre_keeps_block [OF quiet_sys] pre] keepsD [OF op_pre_execution_ignores pre, of xo_gas_used]
      keepsD [OF op_pre_execution_ignores pre, of xo_is_regolith] by (simp_all add: empty regolith)
  have "?P x2 \<and> be_gas_limit ?block = be_gas_limit ?block \<and> xo_gas_used x2 \<le> be_gas_limit ?block
      \<and> unat (xo_gas_used x2) = unat (xo_gas_used x1) + sum_list (map unat gs)"
  proof (rule op_executor.execute_transactions_within
      [where P = ?P and limit = "\<lambda>_. be_gas_limit ?block", OF _ x1(1) _ txs])
    show "?P y' \<and> be_gas_limit ?block = be_gas_limit ?block \<and> g \<le> be_gas_limit ?block - xo_gas_used y"
      if "tx \<in> set txs" "?P y" "xo_gas_used y \<le> be_gas_limit ?block"
        "(execute_transaction (op_block_executor_dict L E) tx (y, d) ::
          (('inv, 'rest, 'dec, 'o) block_execution_error abort + u64) \<times> _) = (Inr g, (y', d'))"
      for tx y d g y' d'
      using op_execute_transaction_within [OF quiet gas that(1) _ that(4)] that(2)
      by (simp add: op_block_available_gas_def)
  qed (simp add: x1)
  then show ?thesis
    using pre runs used regolith by (auto simp: x1 o_def)
qed

end

text \<open>C17: From Regolith on, when the EVM leaves the block environment alone and never uses more than a
  transaction's gas limit, an OP block stays within its gas limit, deposits included, and its gas is,
  in unbounded arithmetic, the sum of what the EVM reported for its transactions, run one after the
  other: neither the running total nor the available gas ever wraps.\<close>

theorem op_gas_within_limit:
  assumes "revm_keeps_block R"
    and "gas_respecting (op_evm_dict R) (ol_gas_limit L) txs"
    and "is_regolith_active_at_timestamp (of_spec factory) (saturating_to_u64 (be_timestamp (op_block evm)))"
    and "op_receipts_carry_gas (ol_receipt_cumulative_gas_used L) (of_receipt_builder factory)"
    and "(execute_block (op_block_executor_dict L (op_evm_dict R)) txs
           (op_create_executor (op_evm_dict R) factory evm ctx, c) ::
      (('inv, 'rest, 'dec, 'o) block_execution_error abort + _) \<times> _) = (Inr res, (x', c'))"
  shows "ber_gas_used res \<le> be_gas_limit (op_block evm)
    \<and> (\<exists>x1 runs evm'.
        (op_apply_pre_execution_changes L (op_evm_dict R) (op_create_executor (op_evm_dict R) factory evm ctx) ::
          (('inv, 'rest, 'dec, 'o) block_execution_error abort + unit) \<times> _) = (Inr (), x1)
        \<and> op_transact_all L (op_evm_dict R) True txs (xo_evm x1) = Some (runs, evm')
        \<and> unat (ber_gas_used res) = sum_list (map (unat \<circ> run_gas \<circ> snd) runs))"
  using op_executor_evm.op_block_within [OF op_keeps_block(2) [OF assms(1)]
      op_keeps_block(1) [OF assms(1)] assms(2) _ _ _ _ assms(5)] assms(3,4)
  by (simp add: op_is_regolith_new op_evm_dict_def)

lemma op_gas_within_limit_witness:
  "(800::u64) \<le> be_gas_limit (op_block sample_wrapper)
   \<and> (\<exists>runs evm'. op_transact_all sample_op_lib (op_evm_dict paying_revm) True
          [sample_op_tx 126 300, sample_op_tx 2 500] (xo_evm (sample_op_after True [] 0 1)) = Some (runs, evm')
        \<and> 800 = sum_list (map (unat \<circ> run_gas \<circ> snd) runs))"
proof -
  have regolith: "is_regolith_active_at_timestamp (of_spec (sample_op_factory True)) t" for t
    by (simp add: sample_op_factory_def op_block_executor_factory_new_def sample_op_spec_def hardforks.defs)
  show ?thesis
    using op_gas_within_limit [OF paying_revm_keeps_block sample_op_respects regolith sample_op_carries
        sample_op_block_run [where c = "()" and r = True, unfolded sample_op_executor_def]]
      sample_op_pre [of True, unfolded sample_op_executor_def]
    by auto
qed

end
