(* ===== verification/OpReplay.thy ===== *)
theory OpReplay
  imports BlockReplay OpTransactions
begin

text \<open>
  Building a block on OP and executing it: the comparison of \<open>BlockReplay\<close> for the executor of
  \<open>crates/op-evm/src/block/mod.rs\<close>, which reads the account of a depositor before it runs a deposit and
  checks the gas of a deposit from Regolith on only.
\<close>

section \<open>What the EVM leaves behind\<close>

text \<open>
  The EVM of \<open>op_revm\<close> does keep a trace of a transaction that was not committed: the first
  transaction that pays for its data on L1 reads the L1 block info from the database into the
  context, where it stays for the block. The relation \<open>sim\<close> is therefore a partial one: it relates
  EVMs that no transaction of \<open>T\<close> can tell apart, and \<open>sim e e\<close> says that \<open>e\<close> is in a state where
  its caches are harmless. With the cached info that is the case when the cache is empty or holds
  what the database says, and it stays so while no transaction of \<open>T\<close> changes the L1 block info
  itself. A block's first transaction, the deposit with the L1 attributes, does so; a builder starts
  after it and offers no other. Nothing is assumed of transactions outside \<open>T\<close>, of EVMs in other
  states, or of commits other than those of an outcome in the EVM that produced it.
\<close>

definition offers_replay ::
    "('evm \<Rightarrow> 'evm \<Rightarrow> bool) \<Rightarrow> ('db, 'err, 'halt, 'hk, 'rq) sys_lib
      \<Rightarrow> ('evm, 'db, 'insp, 'pre, 'spec, 'env, 'halt, 'err) evm_dict
      \<Rightarrow> ('tx, 'env) executable_tx set \<Rightarrow> bool" where
  "offers_replay sim S E T \<longleftrightarrow> symp sim \<and> transp sim
     \<and> (\<forall>e e'. sim e e' \<longrightarrow> ev_block E e = ev_block E e')
     \<and> (\<forall>tx \<in> T. \<forall>e r f. sim e e \<longrightarrow> evm_transact E xt_to_tx_env tx e = (r, f) \<longrightarrow> sim e f)
     \<and> (\<forall>tx \<in> T. \<forall>e e'. sim e e' \<longrightarrow>
          fst (evm_transact E xt_to_tx_env tx e) = fst (evm_transact E xt_to_tx_env tx e'))
     \<and> (\<forall>tx \<in> T. \<forall>e e' rs f f'. sim e e' \<longrightarrow>
          evm_transact E xt_to_tx_env tx e = (Inr rs, f) \<longrightarrow> evm_transact E xt_to_tx_env tx e' = (Inr rs, f') \<longrightarrow>
          sim (evm_commit S E (rs_state rs) f) (evm_commit S E (rs_state rs) f'))"

lemma offers_replayD:
  assumes "offers_replay sim S E T"
  shows "sim e e' \<Longrightarrow> sim e' e" and "sim e e' \<Longrightarrow> sim e' e'' \<Longrightarrow> sim e e''"
    and "sim e e' \<Longrightarrow> ev_block E e' = ev_block E e"
    and "tx \<in> T \<Longrightarrow> evm_transact E xt_to_tx_env tx e = (r, f) \<Longrightarrow> sim e e' \<Longrightarrow> sim f e'"
    and "tx \<in> T \<Longrightarrow> evm_transact E xt_to_tx_env tx e = (r, f) \<Longrightarrow> sim e e' \<Longrightarrow>
      \<exists>f'. evm_transact E xt_to_tx_env tx e' = (r, f') \<and> sim f f'"
    and "tx \<in> T \<Longrightarrow> evm_transact E xt_to_tx_env tx e = (Inr rs, f) \<Longrightarrow>
      evm_transact E xt_to_tx_env tx e' = (Inr rs, f') \<Longrightarrow> sim e e' \<Longrightarrow>
      sim (evm_commit S E (rs_state rs) f) (evm_commit S E (rs_state rs) f')"
proof -
  have sym: "symp sim" and trans: "transp sim"
    and leaves: "\<And>e r f. tx \<in> T \<Longrightarrow> sim e e \<Longrightarrow> evm_transact E xt_to_tx_env tx e = (r, f) \<Longrightarrow> sim e f"
    and same: "\<And>e e'. tx \<in> T \<Longrightarrow> sim e e' \<Longrightarrow>
      fst (evm_transact E xt_to_tx_env tx e) = fst (evm_transact E xt_to_tx_env tx e')"
    using assms unfolding offers_replay_def by blast+
  show s: "sim e' e" if "sim e e'" for e e' using sympD [OF sym that] .
  show t: "sim e e''" if "sim e e'" "sim e' e''" for e e' e'' using transpD [OF trans that] .
  show "ev_block E e' = ev_block E e" if "sim e e'"
    using assms that by (simp add: offers_replay_def)
  show left: "sim f e'" if "tx \<in> T" "evm_transact E xt_to_tx_env tx e = (r, f)" "sim e e'" for e r f e'
    using leaves [OF that(1) t [OF that(3) s [OF that(3)]] that(2)] that(3) s t by blast
  show "\<exists>f'. evm_transact E xt_to_tx_env tx e' = (r, f') \<and> sim f f'"
    if tx: "tx \<in> T" and run: "evm_transact E xt_to_tx_env tx e = (r, f)" and sim: "sim e e'"
  proof -
    obtain f' where run': "evm_transact E xt_to_tx_env tx e' = (r, f')"
      using same [OF tx sim] run by (metis fst_conv prod.collapse)
    have "sim e' e'" using s t sim by blast
    then have "sim f' e'" by (rule left [OF tx run'])
    with run' left [OF tx run sim] s t show ?thesis by blast
  qed
  show "sim (evm_commit S E (rs_state rs) f) (evm_commit S E (rs_state rs) f')"
    if "tx \<in> T" "evm_transact E xt_to_tx_env tx e = (Inr rs, f)"
      "evm_transact E xt_to_tx_env tx e' = (Inr rs, f')" "sim e e'"
    using assms that unfolding offers_replay_def by blast
qed

text \<open>Reading an account through the database may fill a cache, which \<open>sim\<close> does not see.\<close>

definition loads_replay ::
    "('evm \<Rightarrow> 'evm \<Rightarrow> bool) \<Rightarrow> ('db, 'dberr) state_ops
      \<Rightarrow> ('evm, 'db, 'insp, 'pre, 'spec, 'env, 'halt, 'err) evm_dict \<Rightarrow> bool" where
  "loads_replay sim D E \<longleftrightarrow>
     (\<forall>a e e'. sim e e' \<longrightarrow>
        fst (so_load_cache_account D a (evm_db E e)) = fst (so_load_cache_account D a (evm_db E e')))
     \<and> (\<forall>a e. sim e e \<longrightarrow> sim e (evm_set_db E (snd (so_load_cache_account D a (evm_db E e))) e))"

text \<open>The builder of OP hands a deposit back with the outcome to build from.\<close>

definition op_builder_replays ::
    "('evm \<Rightarrow> 'evm \<Rightarrow> bool) \<Rightarrow> ('tx, 'evm, 'halt, 'rcpt) op_receipt_builder \<Rightarrow> bool" where
  "op_builder_replays sim rb \<longleftrightarrow>
     (\<forall>ctx e. sim (rc_evm ctx) e \<longrightarrow>
        map_option (map_sum rc_result id) (orb_build_receipt rb (ctx\<lparr>rc_evm := e\<rparr>)) =
        map_option (map_sum rc_result id) (orb_build_receipt rb ctx))"

definition same_op_executor ::
    "('evm \<Rightarrow> 'evm \<Rightarrow> bool) \<Rightarrow> ('evm, 'hk, 'tx, 'halt, 'rcpt) op_block_executor
      \<Rightarrow> ('evm, 'hk, 'tx, 'halt, 'rcpt) op_block_executor \<Rightarrow> bool" where
  "same_op_executor sim x x' \<longleftrightarrow> sim (xo_evm x) (xo_evm x') \<and> x' = x\<lparr>xo_evm := xo_evm x'\<rparr>
     \<and> op_builder_replays sim (xo_receipt_builder x)"

lemma same_op_executorE:
  assumes "same_op_executor sim x x'"
  obtains e where "x' = x\<lparr>xo_evm := e\<rparr>" "sim (xo_evm x) e" "op_builder_replays sim (xo_receipt_builder x)"
  using assms unfolding same_op_executor_def by blast

section \<open>One transaction\<close>

lemma op_depositor_eq:
  "op_depositor L E tx x =
     (if xo_is_regolith x \<and> op_is_deposit L (xt_tx tx) then
        (map_sum id (\<lambda>acc. Some (case acc of Some info \<Rightarrow> info | None \<Rightarrow> ol_default_account_info L))
           (fst (so_load_cache_account (ol_state L) (xt_signer tx) (evm_db E (xo_evm x)))),
         x\<lparr>xo_evm := evm_set_db E
            (snd (so_load_cache_account (ol_state L) (xt_signer tx) (evm_db E (xo_evm x)))) (xo_evm x)\<rparr>)
      else (Inr None, x))"
  by (auto simp: op_depositor_def op_on_db_def zoom_def map_ok_def split: prod.splits sum.splits)

lemma op_depositor_replays:
  assumes replays: "offers_replay sim S E T" and loads: "loads_replay sim (ol_state L) E"
    and same: "same_op_executor sim y y'" and run: "op_depositor L E tx y = (r, y0)"
  shows "same_op_executor sim y0 y'"
    and "\<exists>y0'. op_depositor L E tx y' = (r, y0') \<and> same_op_executor sim y0 y0'"
proof -
  note sym = offers_replayD(1) [OF replays] and trans = offers_replayD(2) [OF replays]
  from same obtain e where y': "y' = y\<lparr>xo_evm := e\<rparr>" and sim: "sim (xo_evm y) e"
    and builder: "op_builder_replays sim (xo_receipt_builder y)"
    by (rule same_op_executorE)
  let ?load = "\<lambda>e. so_load_cache_account (ol_state L) (xt_signer tx) (evm_db E e)"
  have load: "fst (?load e) = fst (?load (xo_evm y))"
    and left: "\<And>e. sim e e \<Longrightarrow> sim e (evm_set_db E (snd (?load e)) e)"
    using loads sim unfolding loads_replay_def by metis+
  have refl: "sim (xo_evm y) (xo_evm y)" "sim e e"
    using sim sym trans by blast+
  have 1: "sim (evm_set_db E (snd (?load (xo_evm y))) (xo_evm y)) e"
    using trans [OF sym [OF left [OF refl(1)]] sim] .
  have 2: "sim (evm_set_db E (snd (?load (xo_evm y))) (xo_evm y)) (evm_set_db E (snd (?load e)) e)"
    using trans [OF 1 left [OF refl(2)]] .
  show "same_op_executor sim y0 y'"
    using run 1 sim builder by (auto simp: op_depositor_eq same_op_executor_def y' split: if_splits)
  show "\<exists>y0'. op_depositor L E tx y' = (r, y0') \<and> same_op_executor sim y0 y0'"
    using run 2 sim builder load
    by (auto simp: op_depositor_eq same_op_executor_def y' split: if_splits)
qed

lemma op_receipt_replays:
  assumes replays: "offers_replay sim S E T" and same: "same_op_executor sim x x'"
  shows "op_receipt L E tx depositor rs x' = op_receipt L E tx depositor rs x"
proof -
  from same obtain e where x': "x' = x\<lparr>xo_evm := e\<rparr>" and sim: "sim (xo_evm x) e"
    and builder: "op_builder_replays sim (xo_receipt_builder x)"
    by (rule same_op_executorE)
  let ?ctx = "\<lparr>rc_tx = tx, rc_evm = xo_evm x, rc_result = rs_result rs, rc_state = rs_state rs,
              rc_cumulative_gas_used = xo_gas_used x\<rparr>"
  have "map_option (map_sum rc_result id) (orb_build_receipt (xo_receipt_builder x) (?ctx\<lparr>rc_evm := e\<rparr>)) =
      map_option (map_sum rc_result id) (orb_build_receipt (xo_receipt_builder x) ?ctx)"
    by (rule builder [unfolded op_builder_replays_def, rule_format]) (simp add: sim)
  then show ?thesis
    using offers_replayD(3) [OF replays sim]
    by (auto simp: op_receipt_def x' Let_def split: option.splits sum.splits)
qed

lemma op_execute_transaction_success:
  assumes "ol_gas_limit L (xt_tx tx) > op_block_available_gas E x \<Longrightarrow>
      \<not> xo_is_regolith x \<and> op_is_deposit L (xt_tx tx)"
    and "op_depositor L E tx x = (Inr depositor, x0)"
    and "evm_transact E xt_to_tx_env tx (xo_evm x0) = (Inr rs, evm)"
    and "x1 = x0\<lparr>xo_evm := evm,
         xo_system_caller := on_state (ol_sys L) (Transaction (of_nat (length (xo_receipts x0))))
           (rs_state rs) (xo_system_caller x0),
         xo_gas_used := xo_gas_used x0 + er_gas_used (rs_result rs)\<rparr>"
    and "op_receipt L E (xt_tx tx) depositor rs x1 = Some receipt"
  shows "execute_transaction (op_block_executor_dict L E) tx (x, c) =
    (Inr (er_gas_used (rs_result rs)),
     (x1\<lparr>xo_receipts := xo_receipts x1 @ [receipt],
         xo_evm := evm_commit (ol_sys L) E (rs_state rs) (xo_evm x1)\<rparr>, c))"
  using assms
  by (auto simp: execute_transaction_def op_block_executor_dict_def default_result_closure_def map_ok_def
      op_execute_transaction_with_commit_condition_def Let_def)

lemma op_commit_replays:
  assumes replays: "offers_replay sim (ol_sys L) E T" and loads: "loads_replay sim (ol_state L) E"
    and tx: "tx \<in> T"
    and same: "same_op_executor sim y y'"
    and run: "(op_execute_transaction_with_commit_condition L E tx f (y, c) ::
      (('inv, 'rest, 'dec, 'o) block_execution_error abort + _) \<times> _) = (Inr (Some g), (z, c'))"
  shows "\<exists>z'. (execute_transaction (op_block_executor_dict L E) tx (y', d) ::
      (('inv, 'rest, 'dec, 'o) block_execution_error abort + _) \<times> _) = (Inr g, (z', d)) \<and> same_op_executor sim z z'"
  using run
proof (rule op_tx_cases)
  fix dep x0 rs evm x1 receipt
  assume room: "ol_gas_limit L (xt_tx tx) > op_block_available_gas E y \<Longrightarrow>
      \<not> xo_is_regolith y \<and> op_is_deposit L (xt_tx tx)"
    and dep: "op_depositor L E tx y = (Inr dep, x0)"
    and t: "evm_transact E xt_to_tx_env tx (xo_evm x0) = (Inr rs, evm)"
    and g: "(Inr (Some g) :: ('inv, 'rest, 'dec, 'o) block_execution_error abort + _) =
      Inr (Some (er_gas_used (rs_result rs)))"
    and x1: "x1 = x0\<lparr>xo_evm := evm,
         xo_system_caller := on_state (ol_sys L) (Transaction (of_nat (length (xo_receipts x0))))
           (rs_state rs) (xo_system_caller x0),
         xo_gas_used := xo_gas_used x0 + er_gas_used (rs_result rs)\<rparr>"
    and receipt: "op_receipt L E (xt_tx tx) dep rs x1 = Some receipt"
    and z: "z = x1\<lparr>xo_receipts := xo_receipts x1 @ [receipt],
               xo_evm := evm_commit (ol_sys L) E (rs_state rs) (xo_evm x1)\<rparr>"
  note laws = offers_replayD [OF replays]
  from op_depositor_replays(2) [OF replays loads same dep] obtain x0' where
    dep': "op_depositor L E tx y' = (Inr dep, x0')" and same0: "same_op_executor sim x0 x0'" by blast
  from same0 obtain e0 where x0': "x0' = x0\<lparr>xo_evm := e0\<rparr>" and sim0: "sim (xo_evm x0) e0"
    and builder: "op_builder_replays sim (xo_receipt_builder x0)"
    by (rule same_op_executorE)
  from laws(5) [OF tx t sim0] obtain evm' where
    t': "evm_transact E xt_to_tx_env tx (xo_evm x0') = (Inr rs, evm')" and evm': "sim evm evm'"
    by (auto simp: x0')
  define x1' where "x1' = x0'\<lparr>xo_evm := evm',
         xo_system_caller := on_state (ol_sys L) (Transaction (of_nat (length (xo_receipts x0'))))
           (rs_state rs) (xo_system_caller x0'),
         xo_gas_used := xo_gas_used x0' + er_gas_used (rs_result rs)\<rparr>"
  have same1: "same_op_executor sim x1 x1'"
    using evm' builder by (simp add: same_op_executor_def x1 x1'_def x0')
  have receipt': "op_receipt L E (xt_tx tx) dep rs x1' = Some receipt"
    by (rule trans [OF op_receipt_replays [OF replays same1] receipt])
  have room': "\<not> xo_is_regolith y' \<and> op_is_deposit L (xt_tx tx)"
    if "ol_gas_limit L (xt_tx tx) > op_block_available_gas E y'"
    using same room that laws(3) by (auto simp: op_block_available_gas_def elim!: same_op_executorE)
  have "same_op_executor sim z (x1'\<lparr>xo_receipts := xo_receipts x1' @ [receipt],
         xo_evm := evm_commit (ol_sys L) E (rs_state rs) (xo_evm x1')\<rparr>)"
    using laws(6) [OF tx t t' [unfolded x0'] _] sim0 builder by (simp add: same_op_executor_def z x1 x1'_def x0')
  then show ?thesis
    using op_execute_transaction_success [OF room' dep' t' x1'_def receipt', of d] g by auto
qed auto

lemma op_skip_replays:
  assumes replays: "offers_replay sim (ol_sys L) E T" and loads: "loads_replay sim (ol_state L) E"
    and tx: "tx \<in> T"
    and same: "same_op_executor sim y y'"
    and run: "(op_execute_transaction_with_commit_condition L E tx f (y, c) ::
      (('inv, 'rest, 'dec, 'o) block_execution_error abort + _) \<times> _) = (r, (z, c'))"
    and r: "r = Inr None \<or> (\<exists>e. r = Inl (Error e))"
  shows "same_op_executor sim z y'"
proof -
  note depositor = op_depositor_replays(1) [OF replays loads same]
  have left: "same_op_executor sim (x0\<lparr>xo_evm := evm\<rparr>) y'"
    if "op_depositor L E tx y = (d, x0)" and "evm_transact E xt_to_tx_env tx (xo_evm x0) = (t, evm)" for d x0 t evm
    using depositor [OF that(1)] offers_replayD(4) [OF replays tx that(2)]
    by (auto simp: same_op_executor_def)
  from run show ?thesis
    by (rule op_tx_cases) (use left depositor same r in auto)
qed

section \<open>A block\<close>

text \<open>C16: What a builder commits on OP can be executed: from the executor a builder started from, executing just
  the transactions it committed goes through, with the same gas for each, and ends with the same
  receipts, gas counter and reports to the hook and with an EVM that the offered transactions cannot
  tell from the builder's; and the counter has grown by the gas of these transactions. The builder may
  have offered deposits, transactions that were rejected and ones it discarded; executing these and
  reading the account of a depositor may fill caches. This holds under a side condition on the EVM,
  whose context keeps the L1 block info of the block: the builder starts in a state where that cache
  is empty or agrees with the database, and no transaction it offers changes the info, so it starts
  after the deposit with the L1 attributes.\<close>

theorem op_built_block_executes:
  fixes c :: 'c
  assumes "offers_replay sim (ol_sys L) (op_evm_dict R) T"
    and "loads_replay sim (ol_state L) (op_evm_dict R)"
    and "op_builder_replays sim (xo_receipt_builder x)" and "sim (xo_evm x) (xo_evm x)"
    and "building (op_block_executor_dict L (op_evm_dict R) ::
        (_, 'c, _, _, _, _, _, _, _, ('inv, 'rest, 'dec, 'o) block_execution_error) block_executor_dict) T x done y"
  shows "\<exists>e. (try_each (execute_transaction (op_block_executor_dict L (op_evm_dict R))) (map fst done) (x, c) ::
        (('inv, 'rest, 'dec, 'o) block_execution_error abort + _) \<times> _) =
        (Inr (map snd done), (y\<lparr>xo_evm := e\<rparr>, c))
      \<and> sim (xo_evm y) e
      \<and> xo_gas_used y = xo_gas_used x + sum_list (map snd done)
      \<and> length (xo_receipts y) = length (xo_receipts x) + length done"
proof -
  let ?E = "op_evm_dict R"
  have "\<exists>y'. (try_each (execute_transaction (op_block_executor_dict L ?E)) (map fst done) (x, c) ::
      (('inv, 'rest, 'dec, 'o) block_execution_error abort + _) \<times> _) = (Inr (map snd done), (y', c))
    \<and> same_op_executor sim y y'"
  proof (rule block_executor.building_replays [where sim = "same_op_executor sim",
        OF op_executor.block_executor_axioms _ _ _ _ assms(5)], unfold op_dict_simps)
    show "same_op_executor sim x x"
      using assms(3,4) by (simp add: same_op_executor_def)
    show "\<exists>z'. (execute_transaction (op_block_executor_dict L ?E) tx (y', c) ::
        (('inv, 'rest, 'dec, 'o) block_execution_error abort + _) \<times> _) = (Inr g, (z', c)) \<and> same_op_executor sim z z'"
      if "tx \<in> T" and "same_op_executor sim y y'"
        and "(op_execute_transaction_with_commit_condition L ?E tx f (y, c1) ::
          (('inv, 'rest, 'dec, 'o) block_execution_error abort + _) \<times> _) = (Inr (Some g), (z, c2))"
      for tx f y c1 g z c2 y'
      by (rule op_commit_replays [OF assms(1,2) that])
    show "same_op_executor sim z y'"
      if "tx \<in> T" and "same_op_executor sim y y'"
        and "(op_execute_transaction_with_commit_condition L ?E tx f (y, c1) ::
          (('inv, 'rest, 'dec, 'o) block_execution_error abort + _) \<times> _) = (Inr None, (z, c2))"
      for tx f y c1 z c2 y'
      by (rule op_skip_replays [OF assms(1,2) that]) simp
    show "same_op_executor sim z y'"
      if "tx \<in> T" and "same_op_executor sim y y'"
        and "(op_execute_transaction_with_commit_condition L ?E tx f (y, c1) ::
          (('inv, 'rest, 'dec, 'o) block_execution_error abort + _) \<times> _) = (Inl (Error e), (z, c2))"
      for tx f y c1 e z c2 y'
      by (rule op_skip_replays [OF assms(1,2) that]) simp
  qed
  then obtain y' where run: "(try_each (execute_transaction (op_block_executor_dict L ?E)) (map fst done) (x, c) ::
      (('inv, 'rest, 'dec, 'o) block_execution_error abort + _) \<times> _) = (Inr (map snd done), (y', c))"
    and same: "same_op_executor sim y y'" by blast
  from same obtain e where "y' = y\<lparr>xo_evm := e\<rparr>" "sim (xo_evm y) e"
    by (rule same_op_executorE)
  moreover have "xo_gas_used y = xo_gas_used x + sum_list (map snd done)
      \<and> (\<exists>rs. xo_receipts y = xo_receipts x @ rs \<and> length rs = length done)"
    using block_executor.building_accounts [OF op_executor.block_executor_axioms assms(5)]
    by (auto dest!: list_all2_lengthD)
  ultimately show ?thesis
    using run by auto
qed

section \<open>An EVM that caches the L1 block info\<close>

text \<open>
  For the witness: the database counts the commits of the block, the L1 block info changes with the
  first one, and the first transaction reads it into the context, where it stays; a transaction
  returns the info it saw.
\<close>

definition l1_info :: "nat \<Rightarrow> nat" where
  "l1_info d = min d 1"

definition caching_revm ::
    "((nat, nat, nat option, unit, unit) inner_evm, u64, unit, (unit, unit) evm_error) revm_ops" where
  "caching_revm =
     \<lparr>rv_transact = (\<lambda>g i.
        let info = (case cx_rest (in_ctx i) of Some n \<Rightarrow> n | None \<Rightarrow> l1_info (cx_database (in_ctx i)))
        in (Inr \<lparr>rs_result = Success g [] [of_nat info], rs_state = [5 \<mapsto>
         \<lparr>acc_info = \<lparr>ai_balance = 0, ai_nonce = 1, ai_code_hash = 0, ai_code = None\<rparr>,
          acc_storage = Map.empty, acc_status = {Touched}, acc_transaction_id = 0\<rparr>]\<rparr>,
           i\<lparr>in_ctx := (in_ctx i)\<lparr>cx_rest := Some info\<rparr>\<rparr>)),
      rv_inspect_tx = (\<lambda>g i. (Inl (OtherEvmError ()), i)),
      rv_system_call_with_caller = (\<lambda>c1 c2 d i. (Inl (OtherEvmError ()), i))\<rparr>"

definition l1_wrapper :: "nat \<Rightarrow> nat option \<Rightarrow> (nat, nat, nat option, unit, unit) evm_wrapper" where
  "l1_wrapper d cache =
     \<lparr>we_inner = \<lparr>in_ctx = \<lparr>cx_block = \<lparr>be_number = 5, be_beneficiary = 1, be_timestamp = 12,
          be_gas_limit = 1000, be_basefee = 9, be_difficulty = 0, be_prevrandao = None\<rparr>,
        cx_cfg = \<lparr>cfg_chain_id = 1, cfg_spec = 0, cfg_disable_nonce_check = False\<rparr>,
        cx_database = d, cx_rest = cache\<rparr>, in_inspector = (), in_precompiles = ()\<rparr>,
      we_inspect = False\<rparr>"

text \<open>Past the first commit, with a cache that is empty or right.\<close>

definition l1_settled :: "(nat, nat, nat option, unit, unit) evm_wrapper \<Rightarrow> bool" where
  "l1_settled e \<longleftrightarrow> (\<exists>d cache. e = l1_wrapper d cache \<and> 0 < d \<and> cache \<in> {None, Some 1})"

definition same_l1 ::
    "(nat, nat, nat option, unit, unit) evm_wrapper \<Rightarrow> (nat, nat, nat option, unit, unit) evm_wrapper \<Rightarrow> bool" where
  "same_l1 e e' \<longleftrightarrow> l1_settled e \<and> l1_settled e'
     \<and> cx_database (in_ctx (we_inner e)) = cx_database (in_ctx (we_inner e'))"

lemmas l1_defs = l1_wrapper_def l1_info_def caching_revm_def

lemma same_l1_iff:
  "same_l1 e e' \<longleftrightarrow> (\<exists>d cache cache'. e = l1_wrapper d cache \<and> e' = l1_wrapper d cache' \<and> 0 < d
     \<and> cache \<in> {None, Some 1} \<and> cache' \<in> {None, Some 1})"
  unfolding same_l1_def l1_settled_def by (force simp: l1_wrapper_def)

lemma l1_wrapper_eq [simp]: "l1_wrapper d cache = l1_wrapper d' cache' \<longleftrightarrow> d = d' \<and> cache = cache'"
  by (simp add: l1_wrapper_def)

lemma l1_transact:
  assumes "0 < d" "cache \<in> {None, Some 1}"
  shows "evm_transact (op_evm_dict caching_revm) xt_to_tx_env tx (l1_wrapper d cache) =
    (Inr \<lparr>rs_result = Success (xt_to_tx_env tx) [] [1], rs_state = [5 \<mapsto>
         \<lparr>acc_info = \<lparr>ai_balance = 0, ai_nonce = 1, ai_code_hash = 0, ai_code = None\<rparr>,
          acc_storage = Map.empty, acc_status = {Touched}, acc_transaction_id = 0\<rparr>]\<rparr>,
     l1_wrapper d (Some 1))"
proof -
  have "min d 1 = 1" using assms(1) by simp
  then show ?thesis
    using assms(2) by (auto simp: l1_defs evm_transact_def op_evm_defs zoom_def)
qed

lemma l1_commit:
  "evm_commit sample_sys_lib (op_evm_dict caching_revm) [5 \<mapsto> a] (l1_wrapper d cache) = l1_wrapper (Suc d) cache"
  by (simp add: l1_wrapper_def evm_commit_def evm_defs op_evm_defs sample_sys_lib_def)

lemma caching_offers_replay: "offers_replay same_l1 (ol_sys sample_op_lib) (op_evm_dict caching_revm) T"
proof -
  have sys: "ol_sys sample_op_lib = sample_sys_lib" by (simp add: sample_op_lib_def)
  have block: "ev_block (op_evm_dict caching_revm) (l1_wrapper d cache) =
      ev_block (op_evm_dict caching_revm) (l1_wrapper d' cache')" for d cache d' cache'
    by (simp add: l1_wrapper_def op_evm_defs)
  show ?thesis
    unfolding offers_replay_def sys
  proof (intro conjI ballI allI impI)
    show "symp same_l1" "transp same_l1"
      by (auto simp: same_l1_def intro: sympI transpI)
    show "ev_block (op_evm_dict caching_revm) e = ev_block (op_evm_dict caching_revm) e'"
      if "same_l1 e e'" for e e'
      using that by (auto simp: same_l1_iff intro: block)
    show "same_l1 e f" if "same_l1 e e" "evm_transact (op_evm_dict caching_revm) xt_to_tx_env tx e = (r, f)"
      for tx :: "('a, u64) executable_tx" and e r f
      using that unfolding same_l1_iff by (auto simp: l1_transact)
    show "fst (evm_transact (op_evm_dict caching_revm) xt_to_tx_env tx e) =
        fst (evm_transact (op_evm_dict caching_revm) xt_to_tx_env tx e')"
      if "same_l1 e e'" for tx :: "('a, u64) executable_tx" and e e'
      using that unfolding same_l1_iff by (auto simp: l1_transact)
    show "same_l1 (evm_commit sample_sys_lib (op_evm_dict caching_revm) (rs_state rs) f)
        (evm_commit sample_sys_lib (op_evm_dict caching_revm) (rs_state rs) f')"
      if "same_l1 e e'" "evm_transact (op_evm_dict caching_revm) xt_to_tx_env tx e = (Inr rs, f)"
        "evm_transact (op_evm_dict caching_revm) xt_to_tx_env tx e' = (Inr rs, f')"
      for tx :: "('a, u64) executable_tx" and e e' rs f f'
      using that unfolding same_l1_iff by (auto simp: l1_transact l1_commit)
  qed
qed

text \<open>
  A builder after the first commit: a transaction that does not fit, one that it discards, which
  fills the cache, a deposit and a transfer.
\<close>

definition l1_executor ::
    "(u64, op_deposit_receipt) op_receipt_envelope list \<Rightarrow> u64 \<Rightarrow> nat \<Rightarrow> nat option \<Rightarrow>
      ((nat, nat, nat option, unit, unit) evm_wrapper, state_change_source list, u8 \<times> u64, unit,
        (u64, op_deposit_receipt) op_receipt_envelope) op_block_executor" where
  "l1_executor rs g d cache =
     (op_block_executor_new (op_evm_dict caching_revm) (l1_wrapper d cache)
       \<lparr>oc_parent_hash = 0, oc_parent_beacon_block_root = None, oc_extra_data = []\<rparr> (sample_op_spec True)
       (op_alloy_receipt_builder rcp_cumulative_gas_used (\<lambda>d. d) sample_op_ty))
     \<lparr>xo_receipts := rs, xo_gas_used := g\<rparr>"

lemma l1_step:
  assumes "t \<le> 1000 - g" "0 < d" "cache \<in> {None, Some 1}" "n = Suc d"
  shows "(op_execute_transaction_with_commit_condition sample_op_lib (op_evm_dict caching_revm)
     (sample_op_tx ty t) (\<lambda>_ c. (decision, c)) (l1_executor rs g d cache, c) ::
     ((unit, unit, unit, unit) block_execution_error abort + u64 option) \<times> _) =
     (if decision = Yes
      then (Inr (Some t), (l1_executor (rs @ [if ty = 126 then sample_op_deposit True (g + t)
              else OpReceiptLegacy (g + t)]) (g + t) n (Some 1), c))
      else (Inr None, (l1_executor rs g d (Some 1), c)))"
proof -
  have run: "evm_transact (op_evm_dict caching_revm) xt_to_tx_env tx (l1_wrapper d cache) =
    (Inr \<lparr>rs_result = Success (xt_to_tx_env tx) [] [1], rs_state = [5 \<mapsto>
         \<lparr>acc_info = \<lparr>ai_balance = 0, ai_nonce = 1, ai_code_hash = 0, ai_code = None\<rparr>,
          acc_storage = Map.empty, acc_status = {Touched}, acc_transaction_id = 0\<rparr>]\<rparr>,
     l1_wrapper d (Some 1))" for tx :: "(u8 \<times> u64, u64) executable_tx"
    by (rule l1_transact [OF assms(2,3)])
  have db: "evm_set_db (op_evm_dict caching_revm) (evm_db (op_evm_dict caching_revm) e) e = e" for e
    by (rule op_access.set_db_db)
  have block: "ev_block (op_evm_dict caching_revm) (l1_wrapper n k) =
      \<lparr>be_number = 5, be_beneficiary = 1, be_timestamp = 12, be_gas_limit = 1000, be_basefee = 9,
       be_difficulty = 0, be_prevrandao = None\<rparr>" for n k
    by (simp add: l1_wrapper_def op_evm_defs)
  show ?thesis
    using assms(1,4)
    by (cases decision)
      (auto simp: op_execute_transaction_with_commit_condition_def op_block_available_gas_def
      op_depositor_def op_on_db_def op_receipt_def Let_def l1_executor_def map_ok_def run db block l1_commit
      op_is_deposit_def sample_op_lib_def sample_op_tx_def op_block_executor_new_def sample_op_ty_def
      sample_op_deposit_def sample_op_spec_def hardforks.defs zoom_def op_alloy_receipt_builder_def
      op_build_receipt_def op_build_deposit_receipt_def er_is_success_def sample_state_ops_def
      saturating_to_u64_def system_caller_new_def on_state_def leD word_le_def split: if_splits)
qed

lemma l1_building:
  "building (op_block_executor_dict sample_op_lib (op_evm_dict caching_revm) ::
      (_, unit, _, _, _, _, _, _, _, (unit, unit, unit, unit) block_execution_error) block_executor_dict)
    {sample_op_tx 2 2000, sample_op_tx 126 300, sample_op_tx 2 500} (l1_executor [] 0 1 None)
    [(sample_op_tx 126 300, 300), (sample_op_tx 2 500, 500)]
    (l1_executor [sample_op_deposit True 300, OpReceiptLegacy 800] 800 3 (Some 1))"
proof -
  let ?B = "op_block_executor_dict sample_op_lib (op_evm_dict caching_revm) ::
      (_, unit, _, _, _, _, _, _, _, (unit, unit, unit, unit) block_execution_error) block_executor_dict"
  let ?T = "{sample_op_tx 2 2000, sample_op_tx 126 300, sample_op_tx 2 500}"
  have large: "bx_execute_transaction_with_commit_condition ?B (sample_op_tx 2 2000) (\<lambda>_ c. (Yes, c))
      (l1_executor [] 0 1 None, ()) =
      (Inl (Error (Validation (TransactionGasLimitMoreThanAvailableBlockGas 2000 1000))), (l1_executor [] 0 1 None, ()))"
    by (simp add: op_execute_transaction_with_commit_condition_def op_block_available_gas_def l1_executor_def
        l1_wrapper_def sample_op_defs sample_op_spec_def hardforks.defs evm_defs op_evm_defs word_less_nat_alt
        saturating_to_u64_def)
  have discard: "bx_execute_transaction_with_commit_condition ?B (sample_op_tx 2 500) (\<lambda>_ c. (No, c))
      (l1_executor [] 0 1 None, ()) = (Inr None, (l1_executor [] 0 1 (Some 1), ()))"
    unfolding op_dict_simps by (subst l1_step [where n = 2]) (simp_all add: word_le_nat_alt)
  have deposit: "bx_execute_transaction_with_commit_condition ?B (sample_op_tx 126 300) (\<lambda>_ c. (Yes, c))
      (l1_executor [] 0 1 (Some 1), ()) =
      (Inr (Some 300), (l1_executor [sample_op_deposit True 300] 300 2 (Some 1), ()))"
    unfolding op_dict_simps by (subst l1_step [where n = 2]) (simp_all add: word_le_nat_alt)
  have transfer: "bx_execute_transaction_with_commit_condition ?B (sample_op_tx 2 500) (\<lambda>_ c. (Yes, c))
      (l1_executor [sample_op_deposit True 300] 300 2 (Some 1), ()) =
      (Inr (Some 500), (l1_executor [sample_op_deposit True 300, OpReceiptLegacy 800] 800 3 (Some 1), ()))"
    unfolding op_dict_simps by (subst l1_step [where n = 3]) (simp_all add: word_le_nat_alt)
  have "building ?B ?T (l1_executor [] 0 1 None) [] (l1_executor [] 0 1 None)"
    by (rule building.rejected [OF building.start _ large]) simp
  then have "building ?B ?T (l1_executor [] 0 1 None) [] (l1_executor [] 0 1 (Some 1))"
    by (rule building.discarded [OF _ _ discard]) simp
  then have "building ?B ?T (l1_executor [] 0 1 None) [(sample_op_tx 126 300, 300)]
      (l1_executor [sample_op_deposit True 300] 300 2 (Some 1))"
    using building.committed [OF _ _ deposit] by fastforce
  then show ?thesis
    using building.committed [OF _ _ transfer] by fastforce
qed

lemma op_built_block_executes_witness:
  "\<exists>e. (try_each (execute_transaction (op_block_executor_dict sample_op_lib (op_evm_dict caching_revm)))
        [sample_op_tx 126 300, sample_op_tx 2 500] (l1_executor [] 0 1 None, ()) ::
        ((unit, unit, unit, unit) block_execution_error abort + _) \<times> _) =
      (Inr [300, 500],
       ((l1_executor [sample_op_deposit True 300, OpReceiptLegacy 800] 800 3 (Some 1))\<lparr>xo_evm := e\<rparr>, ()))"
proof -
  have loads: "loads_replay same_l1 (ol_state sample_op_lib) (op_evm_dict caching_revm)"
    by (simp add: loads_replay_def sample_op_lib_def sample_state_ops_def op_access.set_db_db)
  have start: "same_l1 (xo_evm (l1_executor [] 0 1 None)) (xo_evm (l1_executor [] 0 1 None))"
    by (simp add: l1_executor_def op_block_executor_new_def same_l1_iff)
  have builder: "op_builder_replays same_l1 (xo_receipt_builder (l1_executor [] 0 1 None))"
    by (auto simp: op_builder_replays_def l1_executor_def op_block_executor_new_def
        op_alloy_receipt_builder_def op_build_receipt_def Let_def split: op_tx_type.splits)
  from op_built_block_executes [OF caching_offers_replay loads builder start l1_building, of "()"]
  show ?thesis by (simp only: list.map fst_conv snd_conv) blast
qed

end
