(* ===== verification/Overrides.thy ===== *)
theory Overrides
  imports EvmTypes
begin

text \<open>
  \<open>crates/evm/src/overrides.rs\<close>: block and state overrides of RPC calls. The types of the requests
  are those of \<open>alloy_rpc_types_eth\<close>, with the fields that the source reads.
\<close>

unbundle bit_operations_syntax

section \<open>Block overrides\<close>

record block_overrides =
  bo_number :: "u256 option"
  bo_difficulty :: "u256 option"
  bo_time :: "u64 option"
  bo_gas_limit :: "u64 option"
  bo_coinbase :: "address option"
  bo_random :: "b256 option"
  bo_base_fee :: "u256 option"
  bo_block_hash :: "(u64 \<rightharpoonup> b256) option"

text \<open>
  \<open>OverrideBlockHashes\<close> for the two databases, on their map of block hashes. A \<open>BTreeMap\<close> is walked
  in ascending order of its keys; \<open>extend\<close> inserts one entry after the other.
\<close>

definition cache_db_override_block_hashes ::
    "(u64 \<rightharpoonup> b256) \<Rightarrow> (u256 \<rightharpoonup> b256) \<Rightarrow> (u256 \<rightharpoonup> b256)" where
  "cache_db_override_block_hashes hashes m =
     fold (\<lambda>(num, hash) m. m(ucast num \<mapsto> hash)) (ascending hashes) m"

definition state_override_block_hashes ::
    "(u64 \<rightharpoonup> b256) \<Rightarrow> (u64 \<rightharpoonup> b256) \<Rightarrow> (u64 \<rightharpoonup> b256)" where
  "state_override_block_hashes hashes m = fold (\<lambda>(num, hash) m. m(num \<mapsto> hash)) (ascending hashes) m"

text \<open>\<open>if let Some(x) = x { field = x }\<close>\<close>

definition if_let_some :: "'a option \<Rightarrow> ('a \<Rightarrow> 's \<Rightarrow> 's) \<Rightarrow> 's \<Rightarrow> 's" where
  "if_let_some x f s = (case x of Some v \<Rightarrow> f v s | None \<Rightarrow> s)"

text \<open>\<open>db.override_block_hashes\<close> is the argument \<open>override_block_hashes\<close>.\<close>

definition apply_block_overrides ::
    "((u64 \<rightharpoonup> b256) \<Rightarrow> 'db \<Rightarrow> 'db) \<Rightarrow> block_overrides \<Rightarrow> 'db \<times> block_env \<Rightarrow> 'db \<times> block_env" where
  "apply_block_overrides override_block_hashes o' s =
     (let (db, env) = s;
          db = if_let_some (bo_block_hash o') override_block_hashes db;
          env = if_let_some (bo_number o') (\<lambda>number env. env\<lparr>be_number := number\<rparr>) env;
          env = if_let_some (bo_difficulty o') (\<lambda>difficulty env. env\<lparr>be_difficulty := difficulty\<rparr>) env;
          env = if_let_some (bo_time o') (\<lambda>time env. env\<lparr>be_timestamp := ucast time\<rparr>) env;
          env = if_let_some (bo_gas_limit o') (\<lambda>gas_limit env. env\<lparr>be_gas_limit := gas_limit\<rparr>) env;
          env = if_let_some (bo_coinbase o') (\<lambda>coinbase env. env\<lparr>be_beneficiary := coinbase\<rparr>) env;
          env = if_let_some (bo_random o') (\<lambda>random env. env\<lparr>be_prevrandao := Some random\<rparr>) env;
          env = if_let_some (bo_base_fee o') (\<lambda>base_fee env. env\<lparr>be_basefee := saturating_to_u64 base_fee\<rparr>) env
      in (db, env))"

section \<open>State overrides\<close>

record account_override =
  ao_balance :: "u256 option"
  ao_nonce :: "u64 option"
  ao_code :: "bytes option"
  ao_state :: "(b256 \<rightharpoonup> b256) option"
  ao_state_diff :: "(b256 \<rightharpoonup> b256) option"

datatype ('bce, 'dberr) state_override_error =
    InvalidBytecode 'bce | BothStateAndStateDiff address | Database 'dberr

text \<open>
  What is used of other crates: \<open>basic\<close> and \<open>commit\<close> of the database, the default account info,
  \<open>keccak256\<close>, the check of raw bytecode, the conversion of a storage value, and the iteration orders
  of the two hash maps.
\<close>

record ('db, 'dberr, 'bce) override_lib =
  vl_basic :: "address \<Rightarrow> ('db, 'dberr, account_info option) step"
  vl_commit :: "evm_state \<Rightarrow> 'db \<Rightarrow> 'db"
  vl_default_info :: account_info
  vl_keccak256 :: "bytes \<Rightarrow> b256"
  vl_new_raw_checked :: "bytes \<Rightarrow> 'bce + bytecode"
  vl_to_storage_value :: "b256 \<Rightarrow> flagged_storage"
  vl_iter_slots :: "(b256 \<rightharpoonup> b256) \<Rightarrow> (b256 \<times> b256) list"
  vl_iter_accounts :: "(address \<rightharpoonup> account_override) \<Rightarrow> (address \<times> account_override) list"

text \<open>The account info with nonce, code and balance overridden; the error of the bytecode check.\<close>

definition override_info ::
    "('db, 'dberr, 'bce) override_lib \<Rightarrow> account_override \<Rightarrow> account_info \<Rightarrow> 'bce + account_info" where
  "override_info L ov info0 =
     (let info = if_let_some (ao_nonce ov) (\<lambda>nonce i. i\<lparr>ai_nonce := nonce\<rparr>) info0
      in (case (case ao_code ov of
                  None \<Rightarrow> Inr info
                | Some code \<Rightarrow>
                    (case vl_new_raw_checked L code of
                       Inl e \<Rightarrow> Inl e
                     | Inr bc \<Rightarrow>
                         Inr (info\<lparr>ai_code_hash := vl_keccak256 L code, ai_code := Some bc\<rparr>))) of
            Inl e \<Rightarrow> Inl e
          | Inr info \<Rightarrow>
              Inr (if_let_some (ao_balance ov) (\<lambda>balance i. i\<lparr>ai_balance := balance\<rparr>) info)))"

text \<open>The loop over the storage override.\<close>

definition insert_slots ::
    "('db, 'dberr, 'bce) override_lib \<Rightarrow> (b256 \<rightharpoonup> b256) \<Rightarrow> account \<Rightarrow> account" where
  "insert_slots L diff acc =
     fold (\<lambda>(slot, v) acc. acc\<lparr>acc_storage := (acc_storage acc)(slot \<mapsto>
         \<lparr>ss_original_value = vl_to_storage_value L (NOT v), ss_present_value = vl_to_storage_value L v,
          ss_is_cold = False, ss_transaction_id = 0\<rparr>)\<rparr>)
       (vl_iter_slots L diff) acc"

definition apply_account_override ::
    "('db, 'dberr, 'bce) override_lib \<Rightarrow> address \<Rightarrow> account_override
      \<Rightarrow> ('db, ('bce, 'dberr) state_override_error, unit) step" where
  "apply_account_override L account ov =
     try_bind (map_err Database (vl_basic L account)) (\<lambda>found.
       (case override_info L ov (case found of Some info \<Rightarrow> info | None \<Rightarrow> vl_default_info L) of
          Inl e \<Rightarrow> fail (InvalidBytecode e)
        | Inr info \<Rightarrow>
            let acc = \<lparr>acc_info = info, acc_storage = Map.empty, acc_status = {Touched},
                       acc_transaction_id = 0\<rparr>
            in (case (ao_state ov, ao_state_diff ov) of
                  (Some _, Some _) \<Rightarrow> fail (BothStateAndStateDiff account)
                | (None, None) \<Rightarrow> modify (vl_commit L [account \<mapsto> acc])
                | (Some state, None) \<Rightarrow>
                    try_bind (modify (vl_commit L [account \<mapsto>
                        \<lparr>acc_info = vl_default_info L, acc_storage = Map.empty,
                         acc_status = {SelfDestructed, Touched}, acc_transaction_id = 0\<rparr>])) (\<lambda>_.
                      let acc = acc\<lparr>acc_status := insert Created (acc_status acc)\<rparr>
                      in modify (vl_commit L [account \<mapsto> insert_slots L state acc]))
                | (None, Some state) \<Rightarrow>
                    modify (vl_commit L [account \<mapsto> insert_slots L state acc]))))"

definition apply_state_overrides ::
    "('db, 'dberr, 'bce) override_lib \<Rightarrow> (address \<rightharpoonup> account_override)
      \<Rightarrow> ('db, ('bce, 'dberr) state_override_error, unit) step" where
  "apply_state_overrides L overrides =
     map_ok (\<lambda>_. ())
       (try_each (\<lambda>(account, account_overrides). apply_account_override L account account_overrides)
          (vl_iter_accounts L overrides))"

section \<open>Block overrides: properties\<close>

lemma if_let_some_simps [simp]: "if_let_some None f s = s" "if_let_some (Some v) f s = f v s"
  by (simp_all add: if_let_some_def)

text \<open>Both databases end up with the overridden hash at every overridden number and their own elsewhere.\<close>

lemma state_override_block_hashes_eq:
  assumes "finite (dom hashes)"
  shows "state_override_block_hashes hashes m = m ++ hashes"
proof -
  have it: "iterates ascending hashes" by (rule ascending_iterates [OF assms])
  then have d: "distinct (map fst (ascending hashes))" and m: "map_of (ascending hashes) = hashes"
    by (simp_all add: iterates_def)
  show ?thesis
    using fold_map_upd [OF d, of "\<lambda>_ v. v" m]
    by (auto simp: state_override_block_hashes_def m map_add_def fun_eq_iff split: option.splits)
qed

lemma ucast_u64_back [simp]: "ucast (ucast n :: u256) = (n :: u64)"
  by (simp add: ucast_up_ucast_id is_up)

lemma inj_ucast_u64: "inj (ucast :: u64 \<Rightarrow> u256)"
  by (rule injI) (metis ucast_u64_back)

lemma cache_db_override_block_hashes_eq:
  assumes "finite (dom hashes)"
  shows "cache_db_override_block_hashes hashes m k =
    (if \<exists>n \<in> dom hashes. ucast n = k then hashes (ucast k) else m k)"
proof -
  have it: "iterates ascending hashes" by (rule ascending_iterates [OF assms])
  then have d: "distinct (map fst (ascending hashes))" and h: "map_of (ascending hashes) = hashes"
    by (simp_all add: iterates_def)
  let ?ys = "map (\<lambda>(n, x). (ucast n :: u256, x)) (ascending hashes)"
  have keys: "map fst ?ys = map ucast (map fst (ascending hashes))"
    by (simp add: case_prod_beta o_def)
  have d': "distinct (map fst ?ys)"
    unfolding keys using d inj_ucast_u64 by (metis distinct_map inj_on_subset subset_UNIV)
  have "cache_db_override_block_hashes hashes m = fold (\<lambda>(n, x) m. m(n \<mapsto> x)) ?ys m"
    by (simp add: cache_db_override_block_hashes_def fold_map o_def case_prod_unfold)
  then have *: "cache_db_override_block_hashes hashes m k = (case map_of ?ys k of Some v \<Rightarrow> Some v | None \<Rightarrow> m k)"
    using fold_map_upd [OF d', of "\<lambda>_ v. v" m] by (simp add: fun_eq_iff)
  show ?thesis
  proof (cases "\<exists>n \<in> dom hashes. ucast n = k")
    case True
    then obtain n v where n: "hashes n = Some v" "ucast n = k" by auto
    then have "(k, v) \<in> set ?ys"
      using iterates_set [OF it, of n v] by force
    then have "map_of ?ys k = Some v"
      using map_of_is_SomeI [OF d'] by blast
    moreover have "ucast k = n"
      using n(2) by auto
    ultimately show ?thesis
      using True n by (simp add: *)
  next
    case False
    have "k \<notin> fst ` set ?ys"
    proof
      assume "k \<in> fst ` set ?ys"
      then obtain n x where "(n, x) \<in> set (ascending hashes)" "ucast n = k" by force
      with False show False using iterates_set [OF it] by blast
    qed
    then have "map_of ?ys k = None"
      by (simp add: map_of_eq_None_iff)
    with False show ?thesis by (simp add: *)
  qed
qed


text \<open>C30: Block overrides change exactly the fields that are given: a given value becomes the field, with
  the base fee cut to 64 bits, every other field stays; applying the overrides to the result again
  leaves the environment as it is; and with the block-hash map of either database, finite as a
  \<open>BTreeMap\<close> is, an overridden number has the given hash and every other number the old one.\<close>

theorem apply_block_overrides_spec:
  assumes "\<forall>hs. bo_block_hash o' = Some hs \<longrightarrow> finite (dom hs)"
  shows "snd (apply_block_overrides f o' (db, env)) =
      \<lparr>be_number = (case bo_number o' of Some x \<Rightarrow> x | None \<Rightarrow> be_number env),
       be_beneficiary = (case bo_coinbase o' of Some x \<Rightarrow> x | None \<Rightarrow> be_beneficiary env),
       be_timestamp = (case bo_time o' of Some x \<Rightarrow> ucast x | None \<Rightarrow> be_timestamp env),
       be_gas_limit = (case bo_gas_limit o' of Some x \<Rightarrow> x | None \<Rightarrow> be_gas_limit env),
       be_basefee = (case bo_base_fee o' of Some x \<Rightarrow> saturating_to_u64 x | None \<Rightarrow> be_basefee env),
       be_difficulty = (case bo_difficulty o' of Some x \<Rightarrow> x | None \<Rightarrow> be_difficulty env),
       be_prevrandao = (case bo_random o' of Some x \<Rightarrow> Some x | None \<Rightarrow> be_prevrandao env)\<rparr>
    \<and> snd (apply_block_overrides f o' (apply_block_overrides f o' (db, env))) =
        snd (apply_block_overrides f o' (db, env))
    \<and> fst (apply_block_overrides state_override_block_hashes o' (m, env)) =
        (case bo_block_hash o' of Some hs \<Rightarrow> m ++ hs | None \<Rightarrow> m)
    \<and> fst (apply_block_overrides cache_db_override_block_hashes o' (cm, env)) k =
        (case bo_block_hash o' of
           Some hs \<Rightarrow> if \<exists>n \<in> dom hs. ucast n = k then hs (ucast k) else cm k
         | None \<Rightarrow> cm k)"
proof -
  have env: "snd (apply_block_overrides f o' (d, e)) =
      \<lparr>be_number = (case bo_number o' of Some x \<Rightarrow> x | None \<Rightarrow> be_number e),
       be_beneficiary = (case bo_coinbase o' of Some x \<Rightarrow> x | None \<Rightarrow> be_beneficiary e),
       be_timestamp = (case bo_time o' of Some x \<Rightarrow> ucast x | None \<Rightarrow> be_timestamp e),
       be_gas_limit = (case bo_gas_limit o' of Some x \<Rightarrow> x | None \<Rightarrow> be_gas_limit e),
       be_basefee = (case bo_base_fee o' of Some x \<Rightarrow> saturating_to_u64 x | None \<Rightarrow> be_basefee e),
       be_difficulty = (case bo_difficulty o' of Some x \<Rightarrow> x | None \<Rightarrow> be_difficulty e),
       be_prevrandao = (case bo_random o' of Some x \<Rightarrow> Some x | None \<Rightarrow> be_prevrandao e)\<rparr>" for d e
    by (cases e) (simp add: apply_block_overrides_def Let_def if_let_some_def split: option.splits)
  have twice: "snd (apply_block_overrides f o' p) = snd (apply_block_overrides f o' (fst p, snd p))" for p
    by simp
  show ?thesis
    using assms
    by (simp add: env twice [of "apply_block_overrides f o' (db, env)"] split: option.splits)
      (auto simp: apply_block_overrides_def Let_def state_override_block_hashes_eq
        cache_db_override_block_hashes_eq split: option.splits)
qed

definition sample_block_overrides :: block_overrides where
  "sample_block_overrides =
     \<lparr>bo_number = Some 9, bo_difficulty = None, bo_time = Some 77, bo_gas_limit = None, bo_coinbase = None,
      bo_random = Some 5, bo_base_fee = Some (2 ^ 70), bo_block_hash = Some [3 \<mapsto> 8]\<rparr>"

lemma apply_block_overrides_spec_witness:
  "be_basefee (snd (apply_block_overrides state_override_block_hashes sample_block_overrides (Map.empty,
      \<lparr>be_number = 5, be_beneficiary = 1, be_timestamp = 12, be_gas_limit = 1000, be_basefee = 9,
       be_difficulty = 0, be_prevrandao = None\<rparr>))) = - 1"
  using apply_block_overrides_spec [of sample_block_overrides state_override_block_hashes]
  by (simp add: sample_block_overrides_def saturating_to_u64_def)

section \<open>State overrides: properties\<close>

lemma insert_slots_eq:
  assumes "iterates (vl_iter_slots L) diff"
  shows "insert_slots L diff acc = acc\<lparr>acc_storage := (\<lambda>k.
     case diff k of
       Some v \<Rightarrow> Some \<lparr>ss_original_value = vl_to_storage_value L (NOT v),
          ss_present_value = vl_to_storage_value L v, ss_is_cold = False, ss_transaction_id = 0\<rparr>
     | None \<Rightarrow> acc_storage acc k)\<rparr>"
proof -
  let ?slot = "\<lambda>v. \<lparr>ss_original_value = vl_to_storage_value L (NOT v),
      ss_present_value = vl_to_storage_value L v, ss_is_cold = False, ss_transaction_id = 0\<rparr>"
  have "fold (\<lambda>(slot, v) acc. acc\<lparr>acc_storage := (acc_storage acc)(slot \<mapsto> ?slot v)\<rparr>) xs acc =
      acc\<lparr>acc_storage := fold (\<lambda>(slot, v) m. m(slot \<mapsto> ?slot v)) xs (acc_storage acc)\<rparr>" for xs
    by (induction xs arbitrary: acc) auto
  moreover have "distinct (map fst (vl_iter_slots L diff))" "map_of (vl_iter_slots L diff) = diff"
    using assms by (simp_all add: iterates_def)
  ultimately show ?thesis
    by (simp add: insert_slots_def fold_map_upd)
qed


lemma insert_slots_empty:
  assumes "iterates (vl_iter_slots L) diff" and "acc_storage acc = Map.empty"
  shows "insert_slots L diff acc = acc\<lparr>acc_storage := (\<lambda>k. map_option (\<lambda>v.
      \<lparr>ss_original_value = vl_to_storage_value L (NOT v), ss_present_value = vl_to_storage_value L v,
       ss_is_cold = False, ss_transaction_id = 0\<rparr>) (diff k))\<rparr>"
proof -
  have "(case d of Some v \<Rightarrow> Some (f v) | None \<Rightarrow> None) = map_option f d" for d :: "b256 option" and f :: "b256 \<Rightarrow> evm_storage_slot"
    by (cases d) simp_all
  then show ?thesis
    unfolding insert_slots_eq [OF assms(1)] assms(2) by simp
qed

text \<open>The storage override of an account: the whole state or a diff.\<close>

definition override_slots :: "account_override \<Rightarrow> (b256 \<rightharpoonup> b256)" where
  "override_slots ov =
     (case ao_state ov of Some m \<Rightarrow> m
      | None \<Rightarrow> (case ao_state_diff ov of Some m \<Rightarrow> m | None \<Rightarrow> Map.empty))"

text \<open>The info \<open>new\<close> is \<open>old\<close> with nonce, balance and code as the override gives them.\<close>

definition info_overridden ::
    "('db, 'dberr, 'bce) override_lib \<Rightarrow> account_override \<Rightarrow> account_info \<Rightarrow> account_info \<Rightarrow> bool" where
  "info_overridden L ov old new \<longleftrightarrow>
     ai_nonce new = (case ao_nonce ov of Some n \<Rightarrow> n | None \<Rightarrow> ai_nonce old)
     \<and> ai_balance new = (case ao_balance ov of Some b \<Rightarrow> b | None \<Rightarrow> ai_balance old)
     \<and> (case ao_code ov of
          Some code \<Rightarrow> ai_code_hash new = vl_keccak256 L code
            \<and> (\<exists>bc. vl_new_raw_checked L code = Inr bc \<and> ai_code new = Some bc)
        | None \<Rightarrow> ai_code_hash new = ai_code_hash old \<and> ai_code new = ai_code old)"

lemma override_info_Inr: "override_info L ov old = Inr info \<Longrightarrow> info_overridden L ov old info"
  by (auto simp: override_info_def info_overridden_def if_let_some_def Let_def
      split: option.splits sum.splits)

lemma override_info_Inl:
  "override_info L ov old = Inl e \<longleftrightarrow> (\<exists>code. ao_code ov = Some code \<and> vl_new_raw_checked L code = Inl e)"
  by (auto simp: override_info_def Let_def split: option.splits sum.splits)

text \<open>C27: An account override that succeeds commits one touched account at its address, on top of what
  the database knew of it: nonce, balance and code as given, otherwise as they were; the code with its
  hash; a storage slot for every overridden one and no other, whatever order the hash map is walked
  in, holding the given value and as original value the one of the complement, so that it counts as
  changed. A full state override first commits the account as destroyed and marks the new one as
  created; a diff does neither.\<close>

theorem apply_account_override_success:
  assumes "\<forall>m. ao_state ov = Some m \<or> ao_state_diff ov = Some m \<longrightarrow> iterates (vl_iter_slots L) m"
    and "(apply_account_override L a ov db :: (('bce, 'dberr) state_override_error + unit) \<times> _) = (Inr (), db')"
  shows "\<exists>found db1 old new. vl_basic L a db = (Inr found, db1)
    \<and> old = (case found of Some info \<Rightarrow> info | None \<Rightarrow> vl_default_info L)
    \<and> (ao_state ov = None \<or> ao_state_diff ov = None)
    \<and> db' = vl_commit L [a \<mapsto> new]
        (if ao_state ov \<noteq> None then
           vl_commit L [a \<mapsto> \<lparr>acc_info = vl_default_info L, acc_storage = Map.empty,
             acc_status = {SelfDestructed, Touched}, acc_transaction_id = 0\<rparr>] db1
         else db1)
    \<and> info_overridden L ov old (acc_info new)
    \<and> acc_status new = (if ao_state ov \<noteq> None then {Created, Touched} else {Touched})
    \<and> acc_storage new = (\<lambda>k. map_option (\<lambda>v.
        \<lparr>ss_original_value = vl_to_storage_value L (NOT v), ss_present_value = vl_to_storage_value L v,
         ss_is_cold = False, ss_transaction_id = 0\<rparr>) (override_slots ov k))"
proof -
  obtain r db1 where r: "vl_basic L a db = (r, db1)"
    by (rule prod.exhaust)
  obtain found where basic: "vl_basic L a db = (Inr found, db1)"
    using assms(2) r by (cases r) (simp_all add: apply_account_override_def step_defs)
  obtain info where info:
      "override_info L ov (case found of Some info \<Rightarrow> info | None \<Rightarrow> vl_default_info L) = Inr info"
    using assms(2)
    by (cases "override_info L ov (case found of Some info \<Rightarrow> info | None \<Rightarrow> vl_default_info L)")
      (simp_all add: apply_account_override_def step_defs basic)
  note fields = override_info_Inr [OF info]
  let ?acc = "\<lparr>acc_info = info, acc_storage = Map.empty, acc_status = {Touched}, acc_transaction_id = 0\<rparr>"
  show ?thesis
  proof (cases "ao_state ov"; cases "ao_state_diff ov")
    assume n: "ao_state ov = None" "ao_state_diff ov = None"
    then have "db' = vl_commit L [a \<mapsto> ?acc] db1"
      using assms(2) by (simp add: apply_account_override_def step_defs basic info)
    then show ?thesis
      using basic fields n
      by (intro exI [of _ found] exI [of _ db1] exI [of _ "case found of Some info \<Rightarrow> info | None \<Rightarrow> vl_default_info L"]
          exI [of _ ?acc]) (simp add: override_slots_def)
  next
    fix m assume n: "ao_state ov = None" "ao_state_diff ov = Some m"
    then have "db' = vl_commit L [a \<mapsto> insert_slots L m ?acc] db1" and "iterates (vl_iter_slots L) m"
      using assms by (simp_all add: apply_account_override_def step_defs basic info)
    then show ?thesis
      using basic fields n
      by (intro exI [of _ found] exI [of _ db1] exI [of _ "case found of Some info \<Rightarrow> info | None \<Rightarrow> vl_default_info L"]
          exI [of _ "insert_slots L m ?acc"])
        (simp add: override_slots_def insert_slots_empty)
  next
    fix m assume n: "ao_state ov = Some m" "ao_state_diff ov = None"
    then have "db' = vl_commit L [a \<mapsto> insert_slots L m (?acc\<lparr>acc_status := {Created, Touched}\<rparr>)]
        (vl_commit L [a \<mapsto> \<lparr>acc_info = vl_default_info L, acc_storage = Map.empty,
             acc_status = {SelfDestructed, Touched}, acc_transaction_id = 0\<rparr>] db1)"
      and "iterates (vl_iter_slots L) m"
      using assms by (simp_all add: apply_account_override_def step_defs basic info)
    then show ?thesis
      using basic fields n
      by (intro exI [of _ found] exI [of _ db1] exI [of _ "case found of Some info \<Rightarrow> info | None \<Rightarrow> vl_default_info L"]
          exI [of _ "insert_slots L m (?acc\<lparr>acc_status := {Created, Touched}\<rparr>)"])
        (simp add: override_slots_def insert_slots_empty)
  next
    fix m m' assume "ao_state ov = Some m" "ao_state_diff ov = Some m'"
    then show ?thesis
      using assms(2) by (simp add: apply_account_override_def step_defs basic info)
  qed
qed


text \<open>For the witnesses: a database that records every commit, in which no account exists.\<close>

definition sample_override_lib :: "(evm_state list, unit, unit) override_lib" where
  "sample_override_lib =
     \<lparr>vl_basic = (\<lambda>a db. (Inr None, db)), vl_commit = (\<lambda>st db. db @ [st]),
      vl_default_info = \<lparr>ai_balance = 0, ai_nonce = 0, ai_code_hash = 0, ai_code = None\<rparr>,
      vl_keccak256 = (\<lambda>c. of_nat (length c)),
      vl_new_raw_checked = (\<lambda>c. if c = [] then Inl () else Inr (Bytecode c)),
      vl_to_storage_value = (\<lambda>v. \<lparr>fs_value = v, fs_is_private = False\<rparr>),
      vl_iter_slots = ascending, vl_iter_accounts = ascending\<rparr>"

definition sample_override :: "(b256 \<rightharpoonup> b256) option \<Rightarrow> (b256 \<rightharpoonup> b256) option \<Rightarrow> account_override" where
  "sample_override st diff =
     \<lparr>ao_balance = Some 7, ao_nonce = None, ao_code = Some [96], ao_state = st, ao_state_diff = diff\<rparr>"

lemma apply_account_override_success_witness:
  "\<exists>db'. apply_account_override sample_override_lib 5 (sample_override (Some [1 \<mapsto> 100]) None) [] =
      (Inr () :: (unit, unit) state_override_error + unit, db')
    \<and> length db' = 2 \<and> map_option (\<lambda>acc. ai_balance (acc_info acc)) (last db' 5) = Some 7"
proof -
  obtain r db' where r: "apply_account_override sample_override_lib 5 (sample_override (Some [1 \<mapsto> 100]) None) []
      = (r :: (unit, unit) state_override_error + unit, db')"
    by (rule prod.exhaust)
  have "fst (apply_account_override sample_override_lib 5 (sample_override (Some [1 \<mapsto> 100]) None) []) =
      (Inr () :: (unit, unit) state_override_error + unit)"
    by (simp add: apply_account_override_def step_defs sample_override_lib_def sample_override_def
        override_info_def Let_def)
  then have run: "apply_account_override sample_override_lib 5 (sample_override (Some [1 \<mapsto> 100]) None) []
      = (Inr () :: (unit, unit) state_override_error + unit, db')"
    by (simp add: r)
  have it: "\<forall>m. ao_state (sample_override (Some [1 \<mapsto> 100]) None) = Some m
        \<or> ao_state_diff (sample_override (Some [1 \<mapsto> 100]) None) = Some m \<longrightarrow>
      iterates (vl_iter_slots sample_override_lib) m"
    by (simp add: sample_override_def sample_override_lib_def ascending_iterates)
  from apply_account_override_success [OF it run] obtain found db1 old new where
    f: "vl_basic sample_override_lib 5 [] = (Inr found, db1)"
    and n: "info_overridden sample_override_lib (sample_override (Some [1 \<mapsto> 100]) None) old (acc_info new)"
    and db': "db' = vl_commit sample_override_lib [5 \<mapsto> new]
      (if ao_state (sample_override (Some [1 \<mapsto> 100]) None) \<noteq> None then
         vl_commit sample_override_lib [5 \<mapsto> \<lparr>acc_info = vl_default_info sample_override_lib,
           acc_storage = Map.empty, acc_status = {SelfDestructed, Touched}, acc_transaction_id = 0\<rparr>] db1
       else db1)"
    by blast
  have "db1 = []" "ai_balance (acc_info new) = 7"
    using f n by (simp_all add: sample_override_lib_def info_overridden_def sample_override_def)
  then have "length db' = 2 \<and> map_option (\<lambda>acc. ai_balance (acc_info acc)) (last db' 5) = Some 7"
    by (simp add: db' sample_override_lib_def sample_override_def)
  with run show ?thesis by blast
qed

text \<open>C28: An account override that fails commits nothing: the database is as reading the account left it.
  It fails with a database error when that read fails; with an invalid-bytecode error when the given
  code is rejected; and, the code being fine, when a full state and a diff are both given.\<close>

theorem apply_account_override_error:
  assumes "(apply_account_override L a ov db :: (('bce, 'dberr) state_override_error + unit) \<times> _) = (r, db')"
    and "vl_basic L a db = (b, db1)"
  shows "(r \<noteq> Inr () \<longrightarrow> db' = db1)
    \<and> ((\<exists>e. r = Inl (Database e)) \<longleftrightarrow> (\<exists>e. b = Inl e))
    \<and> ((\<exists>e. r = Inl (InvalidBytecode e)) \<longleftrightarrow>
        (\<exists>found code e. b = Inr found \<and> ao_code ov = Some code \<and> vl_new_raw_checked L code = Inl e))
    \<and> ((\<exists>a'. r = Inl (BothStateAndStateDiff a')) \<longleftrightarrow>
        (\<exists>found. b = Inr found) \<and> ao_state ov \<noteq> None \<and> ao_state_diff ov \<noteq> None
        \<and> (\<forall>code e. ao_code ov = Some code \<longrightarrow> vl_new_raw_checked L code \<noteq> Inl e))"
proof (cases b)
  case (Inl e)
  then show ?thesis
    using assms by (auto simp: apply_account_override_def step_defs)
next
  case (Inr found)
  define old where "old = (case found of Some info \<Rightarrow> info | None \<Rightarrow> vl_default_info L)"
  have basic: "vl_basic L a db = (Inr found, db1)"
    using assms(2) Inr by simp
  show ?thesis
  proof (cases "override_info L ov old")
    case e: (Inl e)
    then have "r = Inl (InvalidBytecode e)" "db' = db1"
      using assms(1) by (auto simp: apply_account_override_def step_defs basic old_def)
    then show ?thesis
      using e Inr by (auto simp: override_info_Inl)
  next
    case i: (Inr info)
    have ok: "\<forall>code e. ao_code ov = Some code \<longrightarrow> vl_new_raw_checked L code \<noteq> Inl e"
      using override_info_Inl [of L ov old] i by auto
    have "(r = Inr () \<and> (ao_state ov = None \<or> ao_state_diff ov = None))
        \<or> (r = Inl (BothStateAndStateDiff a) \<and> db' = db1 \<and> ao_state ov \<noteq> None \<and> ao_state_diff ov \<noteq> None)"
      using assms(1) i
      by (cases "ao_state ov"; cases "ao_state_diff ov")
        (auto simp: apply_account_override_def step_defs basic old_def Let_def)
    then show ?thesis
      using ok Inr by auto
  qed
qed

lemma apply_account_override_error_witness:
  "snd (apply_account_override sample_override_lib 5 (sample_override (Some [1 \<mapsto> 100]) (Some Map.empty)) [] ::
      ((unit, unit) state_override_error + unit) \<times> _) = []"
proof -
  obtain r db' where r: "(apply_account_override sample_override_lib 5
      (sample_override (Some [1 \<mapsto> 100]) (Some Map.empty)) [] ::
      ((unit, unit) state_override_error + unit) \<times> _) = (r, db')"
    by (rule prod.exhaust)
  have b: "vl_basic sample_override_lib 5 [] = (Inr None, [])"
    by (simp add: sample_override_lib_def)
  have "\<exists>a'. r = Inl (BothStateAndStateDiff a')"
    using apply_account_override_error [OF r b]
    by (simp add: sample_override_def) (simp add: sample_override_lib_def)
  then show ?thesis
    using apply_account_override_error [OF r b] r by auto
qed

text \<open>C29: State overrides are applied account by account and stop at the first one that fails: the error
  is that account's, the overrides of the accounts before it, in the order the map is walked, have
  been committed, and those after it are not looked at.\<close>

theorem apply_state_overrides_prefix:
  assumes "(apply_state_overrides L overrides db :: (('bce, 'dberr) state_override_error + unit) \<times> _) = (Inl e, db')"
  shows "\<exists>before a ov after db1. vl_iter_accounts L overrides = before @ (a, ov) # after
    \<and> db1 = fold (\<lambda>(a, ov) d. snd (apply_account_override L a ov d ::
          (('bce, 'dberr) state_override_error + unit) \<times> _)) before db
    \<and> (\<forall>(a', ov') \<in> set before. \<exists>d d'. (apply_account_override L a' ov' d ::
          (('bce, 'dberr) state_override_error + unit) \<times> _) = (Inr (), d'))
    \<and> apply_account_override L a ov db1 = (Inl e, db')"
proof -
  let ?body = "\<lambda>(a, ov). apply_account_override L a ov ::
    _ \<Rightarrow> (('bce, 'dberr) state_override_error + unit) \<times> _"
  have "try_each ?body (vl_iter_accounts L overrides) db = (Inl e, db')"
    using assms by (simp add: apply_state_overrides_def)
  from try_each_Inl [OF this] obtain before p after rs db1 where
    split: "vl_iter_accounts L overrides = before @ p # after"
    and ok: "try_each ?body before db = (Inr rs, db1)" and bad: "?body p db1 = (Inl e, db')"
    by blast
  have each: "\<exists>d d'. ?body q d = (Inr (), d')" if "q \<in> set before" for q
  proof -
    from list_all2_left [OF try_each_all [OF ok] that] obtain y d d' where "?body q d = (Inr y, d')"
      by blast
    then show ?thesis by (cases y) blast
  qed
  have "db1 = fold (\<lambda>(a, ov) d. snd (apply_account_override L a ov d ::
      (('bce, 'dberr) state_override_error + unit) \<times> _)) before db"
    using try_each_fold [OF ok] by (simp add: case_prod_unfold)
  moreover obtain a ov where p: "p = (a, ov)" by (cases p)
  moreover have "\<forall>(a', ov') \<in> set before. \<exists>d d'. (apply_account_override L a' ov' d ::
      (('bce, 'dberr) state_override_error + unit) \<times> _) = (Inr (), d')"
    using each by auto
  ultimately show ?thesis
    using split bad by (intro exI [of _ before] exI [of _ a] exI [of _ ov] exI [of _ after] exI [of _ db1] conjI)
      (simp_all only: p case_prod_conv)
qed

text \<open>Two accounts: the first is fine, the second asks for both a state and a diff.\<close>

definition sample_overrides :: "address \<rightharpoonup> account_override" where
  "sample_overrides = [1 \<mapsto> sample_override None None, 2 \<mapsto> sample_override (Some Map.empty) (Some Map.empty)]"

lemma sample_overrides_iter:
  "vl_iter_accounts sample_override_lib sample_overrides =
     [(1, sample_override None None), (2, sample_override (Some Map.empty) (Some Map.empty))]"
proof -
  have "dom sample_overrides = {1, 2}"
    by (auto simp: sample_overrides_def)
  moreover have "sorted_list_of_set {1, 2 :: address} = [1, 2]"
    by (rule sorted_distinct_set_unique) (auto simp: word_le_nat_alt)
  ultimately have "ascending sample_overrides = map (\<lambda>k. (k, the (sample_overrides k))) [1, 2]"
    by (simp only: ascending_def)
  then show ?thesis
    by (simp only: sample_override_lib_def override_lib.simps) (simp add: sample_overrides_def)
qed

lemma sample_override_outcomes:
  "(apply_account_override sample_override_lib a (sample_override None None) db ::
      ((unit, unit) state_override_error + unit) \<times> _) = (Inr (), db @ [[a \<mapsto>
       \<lparr>acc_info = \<lparr>ai_balance = 7, ai_nonce = 0, ai_code_hash = 1, ai_code = Some (Bytecode [96])\<rparr>,
        acc_storage = Map.empty, acc_status = {Touched}, acc_transaction_id = 0\<rparr>]])"
  "(apply_account_override sample_override_lib a (sample_override (Some Map.empty) (Some Map.empty)) db ::
      ((unit, unit) state_override_error + unit) \<times> _) = (Inl (BothStateAndStateDiff a), db)"
  by (simp_all add: apply_account_override_def step_defs sample_override_def override_info_def Let_def
      sample_override_lib_def)

lemma apply_state_overrides_prefix_witness:
  "\<exists>db1. length db1 = 1 \<and> (apply_account_override sample_override_lib 2
      (sample_override (Some Map.empty) (Some Map.empty)) db1 ::
      ((unit, unit) state_override_error + unit) \<times> _) = (Inl (BothStateAndStateDiff 2), db1)"
proof -
  obtain r db' where r: "(apply_state_overrides sample_override_lib sample_overrides [] ::
      ((unit, unit) state_override_error + unit) \<times> _) = (r, db')"
    by (rule prod.exhaust)
  then have run: "(apply_state_overrides sample_override_lib sample_overrides [] ::
      ((unit, unit) state_override_error + unit) \<times> _) = (Inl (BothStateAndStateDiff 2), db')"
    and len: "length db' = 1"
    by (auto simp: apply_state_overrides_def map_ok_def sample_overrides_iter sample_override_outcomes)
  from apply_state_overrides_prefix [OF run] obtain bef a ov aft db1 where
    split: "[(1, sample_override None None), (2, sample_override (Some Map.empty) (Some Map.empty))] = bef @ (a, ov) # aft"
    and bad: "(apply_account_override sample_override_lib a ov db1 ::
      ((unit, unit) state_override_error + unit) \<times> _) = (Inl (BothStateAndStateDiff 2), db')"
    unfolding sample_overrides_iter by blast
  from split have "(a, ov) \<in> set [(1, sample_override None None), (2, sample_override (Some Map.empty) (Some Map.empty))]"
    by (metis in_set_conv_decomp)
  then have "a = 2 \<and> ov = sample_override (Some Map.empty) (Some Map.empty) \<and> db' = db1"
    using bad by (auto simp: sample_override_outcomes)
  then show ?thesis
    using bad len by blast
qed

end
