(* ===== verification/CallUtil.thy ===== *)
theory CallUtil
  imports EvmTypes
begin

text \<open>
  \<open>crates/evm/src/call.rs\<close>: how much gas the caller of an RPC call can pay for. The accessors of the
  revm transaction are those of \<open>TxEnv\<close>.
\<close>

record insufficient_funds_error =
  if_cost :: u256
  if_balance :: u256

datatype 'dberr call_error = CallDatabase 'dberr | InsufficientFunds insufficient_funds_error

text \<open>\<open>checked_sub\<close> and \<open>checked_div\<close> on \<open>U256\<close>, and \<open>saturating_to::<u64>()\<close>.\<close>

definition u256_checked_sub :: "u256 \<Rightarrow> u256 \<Rightarrow> u256 option" where
  "u256_checked_sub a b = (if b \<le> a then Some (a - b) else None)"

definition u256_checked_div :: "u256 \<Rightarrow> u256 \<Rightarrow> u256 option" where
  "u256_checked_div a b = (if b = 0 then None else Some (a div b))"

definition caller_gas_allowance ::
    "(address \<Rightarrow> ('db, 'dberr, account_info option) step) \<Rightarrow> tx_env \<Rightarrow> ('db, 'dberr call_error, u64) step" where
  "caller_gas_allowance basic env =
     try_bind (map_err CallDatabase (basic (te_caller env))) (\<lambda>caller.
       let balance = (case caller of Some acc \<Rightarrow> ai_balance acc | None \<Rightarrow> 0);
           val = te_value env
       in (case u256_checked_sub balance (te_value env) of
             None \<Rightarrow> fail (InsufficientFunds \<lparr>if_cost = val, if_balance = balance\<rparr>)
           | Some balance \<Rightarrow>
               ret (saturating_to_u64
                 (case u256_checked_div balance (ucast (te_gas_price env)) of
                    Some gas \<Rightarrow> gas
                  | None \<Rightarrow> 0))))"

lemma unat_ucast_u128_u256: "unat (ucast (x :: u128) :: u256) = unat x"
proof -
  have "unat x < 2 ^ 128"
    using unsigned_less [of x] by simp
  also have "(2 :: nat) ^ 128 \<le> 2 ^ 256"
    by (rule power_increasing) simp_all
  finally have "take_bit 256 (unat x) = unat x"
    by (rule take_bit_nat_eq_self)
  moreover have "unat (ucast x :: u256) = take_bit 256 (unat x)"
    by (rule trans [OF unsigned_ucast_eq]) (simp only: len_num1 len_bit0 len_bit1 len_num0 mult_1_right; simp)
  ultimately show ?thesis by (rule trans [rotated])
qed

lemma uint_less_unat: "uint (x :: u256) < 2 ^ 64 \<longleftrightarrow> unat x < 2 ^ 64"
proof -
  have "uint x = int (unat x)" by simp
  then show ?thesis by (metis of_nat_less_numeral_power_cancel_iff)
qed

lemma unat_saturating: "unat (saturating_to_u64 x) = min (unat x) (2 ^ 64 - 1)"
proof (cases "uint x < 2 ^ 64")
  case True
  have "unat (saturating_to_u64 x) = unat x"
    unfolding unat_eq_nat_uint saturating_to_u64_fits [OF True] ..
  then show ?thesis
    using True unfolding uint_less_unat by simp
next
  case False
  have "unat (saturating_to_u64 x) = 2 ^ 64 - 1"
    unfolding saturating_to_u64_max [OF False] by (simp add: unsigned_minus_1_eq_mask mask_eq_exp_minus_1)
  then show ?thesis
    using False unfolding uint_less_unat by simp
qed

text \<open>C31: The gas allowance of a caller is what is left of its balance after the value, divided by the gas
  price: with a price above zero it is the largest amount of gas, up to \<open>2^64 - 1\<close>, whose cost together
  with the value does not exceed the balance, computed without overflow; with price zero it is zero.
  A missing account has no balance. Once the account is read, the call fails exactly when the value
  exceeds the balance, and then reports both amounts.\<close>

theorem caller_gas_allowance_spec:
  assumes "basic (te_caller env) db = (Inr caller, db1)"
    and "balance = (case caller of Some acc \<Rightarrow> ai_balance acc | None \<Rightarrow> 0)"
  shows "snd (caller_gas_allowance basic env db) = db1
    \<and> (balance < te_value env \<longrightarrow> fst (caller_gas_allowance basic env db) =
        Inl (InsufficientFunds \<lparr>if_cost = te_value env, if_balance = balance\<rparr>))
    \<and> (te_value env \<le> balance \<longrightarrow>
        (\<exists>gas. fst (caller_gas_allowance basic env db) = Inr gas
          \<and> (te_gas_price env = 0 \<longrightarrow> gas = 0)
          \<and> (te_gas_price env \<noteq> 0 \<longrightarrow> (\<forall>g :: u64. g \<le> gas \<longleftrightarrow>
               unat (te_value env) + unat g * unat (te_gas_price env) \<le> unat balance))))"
proof -
  let ?p = "ucast (te_gas_price env) :: u256"
  have run: "caller_gas_allowance basic env db =
      (if balance < te_value env
       then (Inl (InsufficientFunds \<lparr>if_cost = te_value env, if_balance = balance\<rparr>), db1)
       else (Inr (if ?p = 0 then 0 else saturating_to_u64 ((balance - te_value env) div ?p)), db1))"
    using assms by (simp add: caller_gas_allowance_def step_defs u256_checked_sub_def u256_checked_div_def
        not_le [symmetric])
  have p0: "?p = 0 \<longleftrightarrow> te_gas_price env = 0"
    using unat_ucast_u128_u256 [of "te_gas_price env"] by (metis unat_eq_zero)
  have max: "g \<le> saturating_to_u64 ((balance - te_value env) div ?p) \<longleftrightarrow>
      unat (te_value env) + unat g * unat (te_gas_price env) \<le> unat balance"
    if "te_value env \<le> balance" "te_gas_price env \<noteq> 0" for g :: u64
  proof -
    have pos: "0 < unat (te_gas_price env)"
      using that(2) by (simp add: unat_gt_0)
    have g: "unat g < 2 ^ 64" using unsigned_less [of g] by simp
    have "g \<le> saturating_to_u64 ((balance - te_value env) div ?p) \<longleftrightarrow>
        unat g \<le> unat (balance - te_value env) div unat (te_gas_price env)"
      using g by (simp add: word_le_nat_alt unat_saturating unat_div unat_ucast_u128_u256)
    also have "\<dots> \<longleftrightarrow> unat g * unat (te_gas_price env) \<le> unat balance - unat (te_value env)"
      using pos that(1) by (simp add: less_eq_div_iff_mult_less_eq unat_sub)
    also have "\<dots> \<longleftrightarrow> unat (te_value env) + unat g * unat (te_gas_price env) \<le> unat balance"
      using that(1) by (auto simp: word_le_nat_alt)
    finally show ?thesis .
  qed
  show ?thesis
    using max by (auto simp: run p0 not_le not_less)
qed

definition sample_call :: tx_env where
  "sample_call =
     \<lparr>te_tx_type = 0, te_caller = 1, te_gas_limit = 0, te_gas_price = 7, te_kind = Create, te_value = 30,
      te_data = [], te_nonce = 0, te_chain_id = None, te_access_list = [], te_gas_priority_fee = None,
      te_blob_hashes = [], te_max_fee_per_blob_gas = 0, te_authorization_list = []\<rparr>"

lemma caller_gas_allowance_spec_witness:
  "\<exists>gas. fst (caller_gas_allowance (\<lambda>a db. (Inr (Some \<lparr>ai_balance = 100, ai_nonce = 0, ai_code_hash = 0,
      ai_code = None\<rparr>), db)) sample_call ()) = (Inr gas :: unit call_error + u64) \<and> 10 \<le> gas \<and> \<not> 11 \<le> gas"
proof -
  let ?basic = "\<lambda>(a :: address) db. (Inr (Some \<lparr>ai_balance = 100, ai_nonce = 0, ai_code_hash = 0, ai_code = None\<rparr>)
    :: unit + account_info option, db :: unit)"
  have v: "te_value sample_call = 30" "te_gas_price sample_call = 7"
    by (simp_all add: sample_call_def)
  have le: "(30 :: u256) \<le> 100" by (simp add: word_le_nat_alt)
  from caller_gas_allowance_spec [of ?basic sample_call "()", OF refl refl] obtain gas where
    "fst (caller_gas_allowance ?basic sample_call ()) = Inr gas"
    and g: "\<And>g :: u64. g \<le> gas \<longleftrightarrow> 30 + unat g * 7 \<le> 100"
    by (auto simp: v le)
  then show ?thesis
    using g [of 10] g [of 11] by auto
qed

end
