(* ===== verification/Tracing.thy ===== *)
theory Tracing
  imports SystemCalls
begin

text \<open>
  \<open>crates/evm/src/tracing.rs\<close>: executing transactions with an inspector that is reset between them,
  and the iterator that traces a sequence of transactions. \<open>commit\<close> is \<open>DatabaseCommit::commit\<close>.
\<close>

section \<open>TxTracer\<close>

record ('evm, 'insp) tx_tracer =
  tt_evm :: 'evm
  tt_fused_inspector :: 'insp

record ('t, 'halt, 'insp, 'db) tracing_ctx =
  tc_tx :: 't
  tc_result :: "'halt execution_result"
  tc_state :: evm_state
  tc_inspector :: 'insp
  tc_db :: 'db
  tc_fused_inspector :: 'insp
  tc_was_fused :: bool

definition take_inspector ::
    "('t, 'halt, 'insp, 'db) tracing_ctx \<Rightarrow> 'insp \<times> ('t, 'halt, 'insp, 'db) tracing_ctx" where
  "take_inspector ctx =
     (tc_inspector ctx, ctx\<lparr>tc_was_fused := True, tc_inspector := tc_fused_inspector ctx\<rparr>)"

definition tracer_new ::
    "('evm, 'db, 'insp, 'pre, 'spec, 'tx, 'halt, 'err) evm_dict \<Rightarrow> 'evm \<Rightarrow> ('evm, 'insp) tx_tracer" where
  "tracer_new E evm = \<lparr>tt_evm = evm, tt_fused_inspector = evm_inspector E evm\<rparr>"

definition fuse_inspector ::
    "('evm, 'db, 'insp, 'pre, 'spec, 'tx, 'halt, 'err) evm_dict \<Rightarrow> ('evm, 'insp) tx_tracer
      \<Rightarrow> 'insp \<times> ('evm, 'insp) tx_tracer" where
  "fuse_inspector E t =
     (evm_inspector E (tt_evm t),
      t\<lparr>tt_evm := evm_set_inspector E (tt_fused_inspector t) (tt_evm t)\<rparr>)"

record ('halt, 'insp) trace_output =
  to_result :: "'halt execution_result"
  to_inspector :: 'insp

definition tracer_trace ::
    "('evm, 'db, 'insp, 'pre, 'spec, 'tx, 'halt, 'err) evm_dict \<Rightarrow> (evm_state \<Rightarrow> 'db \<Rightarrow> 'db)
      \<Rightarrow> ('t \<Rightarrow> 'tx) \<Rightarrow> 't \<Rightarrow> (('evm, 'insp) tx_tracer, 'err, ('halt, 'insp) trace_output) step" where
  "tracer_trace E commit into_tx_env tx t =
     (case evm_transact_commit E commit into_tx_env tx (tt_evm t) of
        (result, evm) \<Rightarrow>
          (case fuse_inspector E (t\<lparr>tt_evm := evm\<rparr>) of
             (inspector, t') \<Rightarrow>
               (case result of
                  Inl e \<Rightarrow> (Inl e, t')
                | Inr r \<Rightarrow> (Inr \<lparr>to_result = r, to_inspector = inspector\<rparr>, t'))))"

section \<open>TracerIter\<close>

text \<open>
  The iterator's state. A hook is called with the context and its captured state \<open>'c\<close>; through the
  mutable references of the context it may change inspector, database and the fused flag.
\<close>

record ('evm, 'insp, 't, 'c) tracer_iter =
  ti_inner :: "('evm, 'insp) tx_tracer"
  ti_txs :: "'t list"
  ti_hook :: 'c
  ti_skip_last_commit :: bool
  ti_fuse :: bool

type_synonym ('t, 'halt, 'insp, 'db, 'c, 'e, 'o) trace_hook =
  "('t, 'halt, 'insp, 'db) tracing_ctx \<Rightarrow> 'c \<Rightarrow> ('e + 'o) \<times> ('t, 'halt, 'insp, 'db) tracing_ctx \<times> 'c"

definition try_trace_many ::
    "('evm, 'insp) tx_tracer \<Rightarrow> 't list \<Rightarrow> 'c \<Rightarrow> ('evm, 'insp, 't, 'c) tracer_iter" where
  "try_trace_many t txs hook =
     \<lparr>ti_inner = t, ti_txs = txs, ti_hook = hook, ti_skip_last_commit = True, ti_fuse = True\<rparr>"

text \<open>\<open>trace_many\<close> wraps the closure: its outputs are \<open>Ok\<close>.\<close>

definition trace_many_hook ::
    "(('t, 'halt, 'insp, 'db) tracing_ctx \<Rightarrow> 'c \<Rightarrow> 'o \<times> ('t, 'halt, 'insp, 'db) tracing_ctx \<times> 'c)
      \<Rightarrow> ('t, 'halt, 'insp, 'db, 'c, 'e, 'o) trace_hook" where
  "trace_many_hook f ctx c = (case f ctx c of (out, ctx', c') \<Rightarrow> (Inr out, ctx', c'))"

definition commit_last_tx :: "('evm, 'insp, 't, 'c) tracer_iter \<Rightarrow> ('evm, 'insp, 't, 'c) tracer_iter" where
  "commit_last_tx it = it\<lparr>ti_skip_last_commit := False\<rparr>"

definition no_fuse :: "('evm, 'insp, 't, 'c) tracer_iter \<Rightarrow> ('evm, 'insp, 't, 'c) tracer_iter" where
  "no_fuse it = it\<lparr>ti_fuse := False\<rparr>"

definition tracer_next ::
    "('evm, 'db, 'insp, 'pre, 'spec, 'tx, 'halt, 'err) evm_dict \<Rightarrow> (evm_state \<Rightarrow> 'db \<Rightarrow> 'db)
      \<Rightarrow> ('t \<Rightarrow> 'tx) \<Rightarrow> ('t, 'halt, 'insp, 'db, 'c, 'e, 'o) trace_hook
      \<Rightarrow> ('evm, 'insp, 't, 'c) tracer_iter \<Rightarrow> ('e + 'o) option \<times> ('evm, 'insp, 't, 'c) tracer_iter" where
  "tracer_next E commit into_tx_env hook it =
     (case ti_txs it of
        [] \<Rightarrow> (None, it)
      | tx # rest \<Rightarrow>
          let it = it\<lparr>ti_txs := rest\<rparr>; inner = ti_inner it
          in (case evm_transact E into_tx_env tx (tt_evm inner) of
                (Inl e, evm) \<Rightarrow> (None, it\<lparr>ti_inner := inner\<lparr>tt_evm := evm\<rparr>\<rparr>)
              | (Inr rs, evm) \<Rightarrow>
                  (case hook
                         \<lparr>tc_tx = tx, tc_result = rs_result rs, tc_state = rs_state rs,
                          tc_inspector = evm_inspector E evm, tc_db = evm_db E evm,
                          tc_fused_inspector = tt_fused_inspector inner, tc_was_fused = False\<rparr>
                         (ti_hook it) of
                     (output, ctx, c) \<Rightarrow>
                       let evm = ev_components_mut E
                             (tc_db ctx, tc_inspector ctx, evm_precompiles E evm) evm;
                           evm = (if \<not> ti_skip_last_commit it \<or> rest \<noteq> []
                             then evm_set_db E (commit (rs_state rs) (evm_db E evm)) evm else evm);
                           inner = inner\<lparr>tt_evm := evm\<rparr>;
                           inner = (if ti_fuse it \<and> \<not> tc_was_fused ctx
                             then snd (fuse_inspector E inner) else inner)
                       in (Some output, it\<lparr>ti_inner := inner, ti_hook := c\<rparr>))))"

text \<open>\<open>EvmFactoryExt::create_tracer\<close>, over the factory's \<open>create_evm_with_inspector\<close>.\<close>

definition create_tracer ::
    "('evm, 'db, 'insp, 'pre, 'spec, 'tx, 'halt, 'err) evm_dict
      \<Rightarrow> ('db \<Rightarrow> 'spec evm_env \<Rightarrow> 'insp \<Rightarrow> 'evm) \<Rightarrow> 'db \<Rightarrow> 'spec evm_env \<Rightarrow> 'insp
      \<Rightarrow> ('evm, 'insp) tx_tracer" where
  "create_tracer E create_evm_with_inspector db input fused_inspector =
     tracer_new E (create_evm_with_inspector db input fused_inspector)"

section \<open>Running the iterator\<close>

lemma tracer_next_shrinks:
  "tracer_next E commit into hook it = (Some out, it') \<Longrightarrow> length (ti_txs it') < length (ti_txs it)"
  by (auto simp: tracer_next_def Let_def split: list.splits prod.splits sum.splits)

text \<open>Collecting the outputs until \<open>next\<close> returns \<open>None\<close>; every call uses up a transaction.\<close>

function tracer_drain ::
    "('evm, 'db, 'insp, 'pre, 'spec, 'tx, 'halt, 'err) evm_dict \<Rightarrow> (evm_state \<Rightarrow> 'db \<Rightarrow> 'db)
      \<Rightarrow> ('t \<Rightarrow> 'tx) \<Rightarrow> ('t, 'halt, 'insp, 'db, 'c, 'e, 'o) trace_hook
      \<Rightarrow> ('evm, 'insp, 't, 'c) tracer_iter \<Rightarrow> ('e + 'o) list \<times> ('evm, 'insp, 't, 'c) tracer_iter" where
  "tracer_drain E commit into hook it =
     (case tracer_next E commit into hook it of
        (None, it') \<Rightarrow> ([], it')
      | (Some out, it') \<Rightarrow> (case tracer_drain E commit into hook it' of (outs, it'') \<Rightarrow> (out # outs, it'')))"
  by pat_completeness auto
termination
  by (relation "measure (\<lambda>(E, commit, into, hook, it). length (ti_txs it))")
    (auto dest: tracer_next_shrinks [OF sym])

declare tracer_drain.simps [simp del]

text \<open>
  The specification of tracing with a closure that only looks: the views it gets, one for each
  transaction up to the first that the EVM rejects, and the EVM in the end. Every transaction starts
  with the fused inspector; its changes are committed before the next one starts, and for the last
  one only if \<open>commit_last\<close> says so.
\<close>

fun trace_spec ::
    "('evm, 'db, 'insp, 'pre, 'spec, 'tx, 'halt, 'err) evm_dict \<Rightarrow> (evm_state \<Rightarrow> 'db \<Rightarrow> 'db)
      \<Rightarrow> ('t \<Rightarrow> 'tx) \<Rightarrow> bool \<Rightarrow> 'insp \<Rightarrow> 't list \<Rightarrow> 'evm
      \<Rightarrow> ('t \<times> 'halt result_and_state \<times> 'insp \<times> 'db) list \<times> 'evm" where
  "trace_spec E commit into commit_last fused [] evm = ([], evm)"
| "trace_spec E commit into commit_last fused (tx # rest) evm =
     (case evm_transact E into tx evm of
        (Inl e, evm') \<Rightarrow> ([], evm')
      | (Inr rs, evm') \<Rightarrow>
          (case trace_spec E commit into commit_last fused rest
                  (evm_set_inspector E fused
                    (if commit_last \<or> rest \<noteq> [] then evm_set_db E (commit (rs_state rs) (evm_db E evm')) evm'
                     else evm')) of
             (views, evm'') \<Rightarrow> ((tx, rs, evm_inspector E evm', evm_db E evm') # views, evm'')))"

text \<open>A closure that only looks.\<close>

definition observing ::
    "('t \<times> 'halt result_and_state \<times> 'insp \<times> 'db \<Rightarrow> 'o) \<Rightarrow> ('t, 'halt, 'insp, 'db) tracing_ctx \<Rightarrow> 'c
      \<Rightarrow> 'o \<times> ('t, 'halt, 'insp, 'db) tracing_ctx \<times> 'c" where
  "observing g ctx c =
     (g (tc_tx ctx, \<lparr>rs_result = tc_result ctx, rs_state = tc_state ctx\<rparr>, tc_inspector ctx, tc_db ctx), ctx, c)"

context evm_access
begin

lemma drain_observing:
  fixes g :: "'t \<times> 'halt result_and_state \<times> 'insp \<times> 'db \<Rightarrow> 'o"
  shows "ti_fuse it \<Longrightarrow>
   (case tracer_drain E commit into (trace_many_hook (observing g)) it of
      (outs, it') \<Rightarrow> (outs :: ('e + 'o) list, tt_evm (ti_inner it'))) =
   (case trace_spec E commit into (\<not> ti_skip_last_commit it) (tt_fused_inspector (ti_inner it))
           (ti_txs it) (tt_evm (ti_inner it)) of
      (views, evm) \<Rightarrow> (map (Inr \<circ> g) views, evm))"
proof (induction "ti_txs it" arbitrary: it)
  case Nil
  then have "ti_txs it = []" by simp
  then show ?case
    by (simp add: tracer_drain.simps tracer_next_def)
next
  case (Cons tx rest)
  note txs = Cons.hyps(2) [symmetric]
  obtain r evm where t: "evm_transact E into tx (tt_evm (ti_inner it)) = (r, evm)"
    by (rule prod.exhaust)
  show ?case
  proof (cases r)
    case (Inl e)
    then show ?thesis
      by (simp add: tracer_drain.simps tracer_next_def txs t Let_def)
  next
    case (Inr rs)
    have same: "ev_components_mut E (evm_db E evm, evm_inspector E evm, evm_precompiles E evm) evm = evm"
      using components_mut_same [of evm] by (simp add: evm_db_def evm_inspector_def evm_precompiles_def)
    define evm' where "evm' = evm_set_inspector E (tt_fused_inspector (ti_inner it))
      (if \<not> ti_skip_last_commit it \<or> rest \<noteq> [] then evm_set_db E (commit (rs_state rs) (evm_db E evm)) evm else evm)"
    define it' where "it' = it\<lparr>ti_txs := rest, ti_inner := (ti_inner it)\<lparr>tt_evm := evm'\<rparr>\<rparr>"
    have eta: "\<lparr>rs_result = rs_result rs, rs_state = rs_state rs\<rparr> = rs" by simp
    have step: "tracer_next E commit into (trace_many_hook (observing g)) it =
        (Some (Inr (g (tx, rs, evm_inspector E evm, evm_db E evm))), it')"
      using Cons.prems
      by (simp add: eta tracer_next_def txs t Inr Let_def trace_many_hook_def observing_def same
          fuse_inspector_def it'_def evm'_def)
    have IH: "(case tracer_drain E commit into (trace_many_hook (observing g)) it' of
        (outs, it'') \<Rightarrow> (outs :: ('e + 'o) list, tt_evm (ti_inner it''))) =
       (case trace_spec E commit into (\<not> ti_skip_last_commit it) (tt_fused_inspector (ti_inner it))
               rest evm' of (views, evm) \<Rightarrow> (map (Inr \<circ> g) views, evm))"
      using Cons.hyps(1) [of it'] Cons.prems by (simp add: it'_def)
    have spec: "trace_spec E commit into (\<not> ti_skip_last_commit it) (tt_fused_inspector (ti_inner it))
        (ti_txs it) (tt_evm (ti_inner it)) =
      (case trace_spec E commit into (\<not> ti_skip_last_commit it) (tt_fused_inspector (ti_inner it)) rest evm' of
         (views, evm'') \<Rightarrow> ((tx, rs, evm_inspector E evm, evm_db E evm) # views, evm''))"
      by (simp add: txs t Inr evm'_def)
    show ?thesis
      using IH unfolding spec tracer_drain.simps [of _ _ _ _ it] step
      by (simp split: prod.splits)
  qed
qed

end


section \<open>Properties\<close>

text \<open>C25: Tracing transactions over the Ethereum EVM with a closure that only looks refines its
  specification: the closure sees every transaction up to the first rejected one exactly once and in
  order, with the result, the changes, the inspector of a run that started from the fused one, and the
  database before the commit; every transaction's changes are committed before the next one starts;
  the last one's are committed only after \<open>commit_last_tx\<close>; and the EVM in the end is the specified one.\<close>

theorem trace_many_refines:
  "(case tracer_drain (eth_evm_dict R) commit into (trace_many_hook (observing g))
           (try_trace_many (tracer_new (eth_evm_dict R) evm) txs c) of
      (outs, it') \<Rightarrow> (outs, tt_evm (ti_inner it'))) =
   (case trace_spec (eth_evm_dict R) commit into False (evm_inspector (eth_evm_dict R) evm) txs evm of
      (views, evm') \<Rightarrow> (map (Inr \<circ> g) views, evm'))
   \<and> (case tracer_drain (eth_evm_dict R) commit into (trace_many_hook (observing g))
           (commit_last_tx (try_trace_many (tracer_new (eth_evm_dict R) evm) txs c)) of
      (outs, it') \<Rightarrow> (outs, tt_evm (ti_inner it'))) =
   (case trace_spec (eth_evm_dict R) commit into True (evm_inspector (eth_evm_dict R) evm) txs evm of
      (views, evm') \<Rightarrow> (map (Inr \<circ> g) views, evm'))"
  by (intro conjI; subst eth_access.drain_observing;
      simp add: try_trace_many_def commit_last_tx_def tracer_new_def)

text \<open>C33: When the EVM rejects a transaction the iterator ends as if there were no more: \<open>next\<close> returns
  \<open>None\<close> and the error is lost, nothing is committed, the closure does not run, the inspector is not
  reset, and the transactions after the rejected one stay in the iterator.\<close>

theorem tracer_next_error:
  assumes "ti_txs it = tx # rest"
    and "evm_transact E into tx (tt_evm (ti_inner it)) = (Inl e, evm)"
  shows "tracer_next E commit into hook it =
      (None, it\<lparr>ti_txs := rest, ti_inner := (ti_inner it)\<lparr>tt_evm := evm\<rparr>\<rparr>)
    \<and> fst (tracer_drain E commit into hook it) = []"
  using assms by (simp add: tracer_next_def tracer_drain.simps Let_def)

lemma tracer_next_error_witness:
  "fst (tracer_drain (eth_evm_dict accepting_revm) (\<lambda>st d. d + 1) (\<lambda>t. t) (trace_many_hook (observing (\<lambda>_. ())))
      (try_trace_many (tracer_new (eth_evm_dict accepting_revm)
         (eth_set_inspector_enabled True sample_wrapper))
        [seismic_system_tx 1 2 [], seismic_system_tx 1 2 []] ())) =
   ([] :: (unit + unit) list)"
proof -
  let ?it = "try_trace_many (tracer_new (eth_evm_dict accepting_revm)
      (eth_set_inspector_enabled True sample_wrapper)) [seismic_system_tx 1 2 [], seismic_system_tx 1 2 []] ()"
  have 1: "ti_txs ?it = [seismic_system_tx 1 2 [], seismic_system_tx 1 2 []]"
    by (simp add: try_trace_many_def)
  have 2: "evm_transact (eth_evm_dict accepting_revm) (\<lambda>t. t) (seismic_system_tx 1 2 []) (tt_evm (ti_inner ?it)) =
      (Inl (), tt_evm (ti_inner ?it))"
    by (simp add: try_trace_many_def tracer_new_def evm_defs eth_evm_defs zoom_def accepting_revm_def sample_wrapper_def)
  show ?thesis
    using tracer_next_error [OF 1 2] by blast
qed

lemma tracer_next_cases:
  assumes "tracer_next E commit into hook it = (out, it')"
  obtains (none) "ti_txs it = []" "out = None" "it' = it"
  | (rejected) tx e where "ti_txs it = tx # ti_txs it'" "out = None"
      "evm_transact E into tx (tt_evm (ti_inner it)) = (Inl e, tt_evm (ti_inner it'))"
  | (traced) tx rs evm o' where "ti_txs it = tx # ti_txs it'" "out = Some o'"
      "evm_transact E into tx (tt_evm (ti_inner it)) = (Inr rs, evm)"
  using assms
  by (auto simp: tracer_next_def Let_def split: list.splits prod.splits sum.splits)

text \<open>C26: Whatever the closure does with inspector, database and its own state, collecting the outputs of
  the iterator ends: each call of \<open>next\<close> uses up one transaction, and it stops either when every
  transaction has given one output, or at the first one that the EVM rejects, having given one output
  for each transaction before it and leaving the later ones untouched.\<close>

theorem tracer_drain_ends:
  "case tracer_drain E commit into hook it of
     (outs, it') \<Rightarrow>
       (length outs = length (ti_txs it) \<and> ti_txs it' = []) \<or>
       (\<exists>before tx e evm. ti_txs it = before @ tx # ti_txs it' \<and> length outs = length before
          \<and> evm_transact E into tx evm = (Inl e, tt_evm (ti_inner it')))"
proof (induction "ti_txs it" arbitrary: it)
  case Nil
  then show ?case by (simp add: tracer_drain.simps tracer_next_def)
next
  case (Cons tx rest)
  obtain out it1 where n: "tracer_next E commit into hook it = (out, it1)" by (rule prod.exhaust)
  from n show ?case
  proof (cases rule: tracer_next_cases)
    case none
    then show ?thesis using Cons.hyps(2) by simp
  next
    case (rejected tx' e)
    then have "ti_txs it = [] @ tx' # ti_txs it1" by simp
    then show ?thesis
      using rejected(2,3) by (simp add: tracer_drain.simps [of _ _ _ _ it] n) blast
  next
    case (traced tx' rs evm o')
    obtain outs it2 where d: "tracer_drain E commit into hook it1 = (outs, it2)" by (rule prod.exhaust)
    have all: "tracer_drain E commit into hook it = (o' # outs, it2)"
      by (simp add: tracer_drain.simps [of _ _ _ _ it] n traced(2) d)
    have "rest = ti_txs it1" using traced(1) Cons.hyps(2) by simp
    from Cons.hyps(1) [OF this] consider
        "length outs = length (ti_txs it1)" "ti_txs it2 = []"
      | before tx2 e2 evm2 where "ti_txs it1 = before @ tx2 # ti_txs it2"
        "length outs = length before" "evm_transact E into tx2 evm2 = (Inl e2, tt_evm (ti_inner it2))"
      unfolding d prod.case by blast
    then show ?thesis
    proof cases
      case 1
      then show ?thesis using traced(1) by (simp add: all)
    next
      case 2
      then show ?thesis unfolding all prod.case using traced(1)
        by (intro disjI2 exI [of _ "tx' # before"] exI [of _ tx2] exI [of _ e2] exI [of _ evm2]) simp
    qed
  qed
qed

text \<open>Tracing a single transaction returns what the EVM returned together with the inspector of that
  run, commits the changes exactly when the EVM accepted, and leaves the fused inspector in place and
  the block environment as the EVM left it, whether the EVM accepted or not.\<close>

theorem tracer_trace_spec:
  "\<exists>r evm. evm_transact (eth_evm_dict R) into tx (tt_evm t) = (r, evm)
    \<and> fst (tracer_trace (eth_evm_dict R) commit into tx t) =
        map_sum id (\<lambda>rs. \<lparr>to_result = rs_result rs, to_inspector = evm_inspector (eth_evm_dict R) evm\<rparr>) r
    \<and> (case snd (tracer_trace (eth_evm_dict R) commit into tx t) of t' \<Rightarrow>
         evm_inspector (eth_evm_dict R) (tt_evm t') = tt_fused_inspector t
         \<and> tt_fused_inspector t' = tt_fused_inspector t
         \<and> ev_block (eth_evm_dict R) (tt_evm t') = ev_block (eth_evm_dict R) evm
         \<and> evm_db (eth_evm_dict R) (tt_evm t') =
             (case r of Inr rs \<Rightarrow> commit (rs_state rs) (evm_db (eth_evm_dict R) evm)
              | Inl _ \<Rightarrow> evm_db (eth_evm_dict R) evm))"
proof -
  obtain r evm where t: "evm_transact (eth_evm_dict R) into tx (tt_evm t) = (r, evm)"
    by (rule prod.exhaust)
  show ?thesis
    by (cases r) (simp_all add: t tracer_trace_def fuse_inspector_def evm_transact_commit_def step_defs
        eth_access.inspector_set_inspector eth_access.inspector_set_db eth_access.db_set_inspector
        eth_access.db_set_db eth_access.block_set_inspector eth_access.block_set_db)
qed

end
