(* ===== verification/Internals.thy ===== *)
theory Internals
  imports EvmTypes
begin

text \<open>
  \<open>crates/evm/src/traits.rs\<close>: the view of the EVM that a dynamic precompile gets. It wraps the journal of
  the running EVM, whose operations are a parameter, and erases the type of its errors.
\<close>

section \<open>Errors\<close>

text \<open>\<open>Box<dyn Error>\<close> around an error of the database.\<close>

datatype 'e erased_error = ErasedError 'e

definition erased_error_new :: "'e \<Rightarrow> 'e erased_error" where
  "erased_error_new error = ErasedError error"

datatype 'e evm_internals_error = InternalsDatabase "'e erased_error"

definition internals_error_database :: "'e \<Rightarrow> 'e evm_internals_error" where
  "internals_error_database err = InternalsDatabase (erased_error_new err)"

section \<open>The journal\<close>

text \<open>
  The operations of \<open>JournalTr\<close> and of the database behind \<open>db_mut()\<close>. \<open>'acc\<close> stands for
  \<open>StateLoad<&mut Account>\<close>, \<open>'sv\<close> and \<open>'ss\<close> for what \<open>sload\<close> and \<open>sstore\<close> return.
\<close>

record ('j, 'e, 'acc, 'sv, 'ss) journal_ops =
  jo_basic :: "address \<Rightarrow> ('j, 'e, account_info option) step"
  jo_code_by_hash :: "b256 \<Rightarrow> ('j, 'e, bytecode) step"
  jo_storage :: "address \<Rightarrow> u256 \<Rightarrow> ('j, 'e, flagged_storage) step"
  jo_block_hash :: "u64 \<Rightarrow> ('j, 'e, b256) step"
  jo_load_account :: "address \<Rightarrow> ('j, 'e, 'acc) step"
  jo_load_account_code :: "address \<Rightarrow> ('j, 'e, 'acc) step"
  jo_sload :: "address \<Rightarrow> u256 \<Rightarrow> ('j, 'e, 'sv) step"
  jo_touch_account :: "address \<Rightarrow> 'j \<Rightarrow> 'j"
  jo_set_code :: "address \<Rightarrow> bytecode \<Rightarrow> 'j \<Rightarrow> 'j"
  jo_sstore :: "address \<Rightarrow> u256 \<Rightarrow> u256 \<Rightarrow> ('j, 'e, 'ss) step"
  jo_log :: "log \<Rightarrow> 'j \<Rightarrow> 'j"

text \<open>The object-safe trait \<open>EvmInternalsTr\<close>: the same operations with erased errors.\<close>

record ('j, 'e, 'acc, 'sv, 'ss) evm_internals_tr =
  it_basic :: "address \<Rightarrow> ('j, 'e erased_error, account_info option) step"
  it_code_by_hash :: "b256 \<Rightarrow> ('j, 'e erased_error, bytecode) step"
  it_storage :: "address \<Rightarrow> u256 \<Rightarrow> ('j, 'e erased_error, flagged_storage) step"
  it_block_hash :: "u64 \<Rightarrow> ('j, 'e erased_error, b256) step"
  it_load_account :: "address \<Rightarrow> ('j, 'e evm_internals_error, 'acc) step"
  it_load_account_code :: "address \<Rightarrow> ('j, 'e evm_internals_error, 'acc) step"
  it_sload :: "address \<Rightarrow> u256 \<Rightarrow> ('j, 'e evm_internals_error, 'sv) step"
  it_touch_account :: "address \<Rightarrow> 'j \<Rightarrow> 'j"
  it_set_code :: "address \<Rightarrow> bytecode \<Rightarrow> 'j \<Rightarrow> 'j"
  it_sstore :: "address \<Rightarrow> u256 \<Rightarrow> u256 \<Rightarrow> ('j, 'e evm_internals_error, 'ss) step"
  it_log :: "log \<Rightarrow> 'j \<Rightarrow> 'j"

definition evm_internals_impl ::
    "('j, 'e, 'acc, 'sv, 'ss) journal_ops \<Rightarrow> ('j, 'e, 'acc, 'sv, 'ss) evm_internals_tr" where
  "evm_internals_impl J =
     \<lparr>it_basic = (\<lambda>a. map_err erased_error_new (jo_basic J a)),
      it_code_by_hash = (\<lambda>h. map_err erased_error_new (jo_code_by_hash J h)),
      it_storage = (\<lambda>a i. map_err erased_error_new (jo_storage J a i)),
      it_block_hash = (\<lambda>n. map_err erased_error_new (jo_block_hash J n)),
      it_load_account = (\<lambda>a. map_err internals_error_database (jo_load_account J a)),
      it_load_account_code = (\<lambda>a. map_err internals_error_database (jo_load_account_code J a)),
      it_sload = (\<lambda>a k. map_err internals_error_database (jo_sload J a k)),
      it_touch_account = jo_touch_account J,
      it_set_code = jo_set_code J,
      it_sstore = (\<lambda>a k v. map_err internals_error_database (jo_sstore J a k v)),
      it_log = jo_log J\<rparr>"

section \<open>EvmInternals\<close>

text \<open>The boxed journal, as its dictionary and its state, and the block environment.\<close>

record ('j, 'e, 'acc, 'sv, 'ss) evm_internals =
  ei_internals :: "('j, 'e, 'acc, 'sv, 'ss) evm_internals_tr"
  ei_journal :: 'j
  ei_block_env :: block_env

definition evm_internals_new ::
    "('j, 'e, 'acc, 'sv, 'ss) journal_ops \<Rightarrow> 'j \<Rightarrow> block_env \<Rightarrow> ('j, 'e, 'acc, 'sv, 'ss) evm_internals" where
  "evm_internals_new J journal block_env =
     \<lparr>ei_internals = evm_internals_impl J, ei_journal = journal, ei_block_env = block_env\<rparr>"

definition internals_block_number :: "('j, 'e, 'acc, 'sv, 'ss) evm_internals \<Rightarrow> u256" where
  "internals_block_number i = be_number (ei_block_env i)"

definition internals_block_timestamp :: "('j, 'e, 'acc, 'sv, 'ss) evm_internals \<Rightarrow> u256" where
  "internals_block_timestamp i = be_timestamp (ei_block_env i)"

text \<open>Calling a method of the boxed trait object on its state.\<close>

definition via_internals ::
    "(('j, 'e, 'acc, 'sv, 'ss) evm_internals_tr \<Rightarrow> ('j, 'f, 'a) step)
      \<Rightarrow> (('j, 'e, 'acc, 'sv, 'ss) evm_internals, 'f, 'a) step" where
  "via_internals m i = zoom ei_journal (\<lambda>j i. i\<lparr>ei_journal := j\<rparr>) (m (ei_internals i)) i"

text \<open>\<open>db_mut()\<close> gives the methods of \<open>Database\<close> on the boxed object.\<close>

definition internals_db_basic ::
    "address \<Rightarrow> (('j, 'e, 'acc, 'sv, 'ss) evm_internals, 'e erased_error, account_info option) step" where
  "internals_db_basic a = via_internals (\<lambda>t. it_basic t a)"

definition internals_db_code_by_hash ::
    "b256 \<Rightarrow> (('j, 'e, 'acc, 'sv, 'ss) evm_internals, 'e erased_error, bytecode) step" where
  "internals_db_code_by_hash h = via_internals (\<lambda>t. it_code_by_hash t h)"

definition internals_db_storage ::
    "address \<Rightarrow> u256 \<Rightarrow> (('j, 'e, 'acc, 'sv, 'ss) evm_internals, 'e erased_error, flagged_storage) step" where
  "internals_db_storage a index = via_internals (\<lambda>t. it_storage t a index)"

definition internals_db_block_hash ::
    "u64 \<Rightarrow> (('j, 'e, 'acc, 'sv, 'ss) evm_internals, 'e erased_error, b256) step" where
  "internals_db_block_hash n = via_internals (\<lambda>t. it_block_hash t n)"

definition internals_load_account ::
    "address \<Rightarrow> (('j, 'e, 'acc, 'sv, 'ss) evm_internals, 'e evm_internals_error, 'acc) step" where
  "internals_load_account a = via_internals (\<lambda>t. it_load_account t a)"

definition internals_load_account_code ::
    "address \<Rightarrow> (('j, 'e, 'acc, 'sv, 'ss) evm_internals, 'e evm_internals_error, 'acc) step" where
  "internals_load_account_code a = via_internals (\<lambda>t. it_load_account_code t a)"

definition internals_sload ::
    "address \<Rightarrow> u256 \<Rightarrow> (('j, 'e, 'acc, 'sv, 'ss) evm_internals, 'e evm_internals_error, 'sv) step" where
  "internals_sload a k = via_internals (\<lambda>t. it_sload t a k)"

definition internals_sstore ::
    "address \<Rightarrow> u256 \<Rightarrow> u256 \<Rightarrow> (('j, 'e, 'acc, 'sv, 'ss) evm_internals, 'e evm_internals_error, 'ss) step" where
  "internals_sstore a k v = via_internals (\<lambda>t. it_sstore t a k v)"

definition internals_touch_account ::
    "address \<Rightarrow> ('j, 'e, 'acc, 'sv, 'ss) evm_internals \<Rightarrow> ('j, 'e, 'acc, 'sv, 'ss) evm_internals" where
  "internals_touch_account a i = i\<lparr>ei_journal := it_touch_account (ei_internals i) a (ei_journal i)\<rparr>"

definition internals_set_code ::
    "address \<Rightarrow> bytecode \<Rightarrow> ('j, 'e, 'acc, 'sv, 'ss) evm_internals \<Rightarrow> ('j, 'e, 'acc, 'sv, 'ss) evm_internals" where
  "internals_set_code a code i = i\<lparr>ei_journal := it_set_code (ei_internals i) a code (ei_journal i)\<rparr>"

definition internals_log ::
    "log \<Rightarrow> ('j, 'e, 'acc, 'sv, 'ss) evm_internals \<Rightarrow> ('j, 'e, 'acc, 'sv, 'ss) evm_internals" where
  "internals_log l i = i\<lparr>ei_journal := it_log (ei_internals i) l (ei_journal i)\<rparr>"

section \<open>A precompile works on the journal\<close>

text \<open>
  A run of a precompile over its internals: the calls it makes, in order, up to the first that
  fails. The same run directly on the journal is the specification.
\<close>

datatype internals_call =
    LoadAccount address | LoadAccountCode address | Sload address u256 | Sstore address u256 u256
  | TouchAccount address | SetCode address bytecode | Log log

text \<open>What a call returns: nothing, an account, a loaded or a stored value.\<close>

datatype ('acc, 'sv, 'ss) call_value = Nothing | LoadedAccount 'acc | LoadedValue 'sv | StoredValue 'ss

fun run_internals_call ::
    "internals_call \<Rightarrow> (('j, 'e, 'acc, 'sv, 'ss) evm_internals, 'e evm_internals_error,
       ('acc, 'sv, 'ss) call_value) step" where
  "run_internals_call (LoadAccount a) = map_ok LoadedAccount (internals_load_account a)"
| "run_internals_call (LoadAccountCode a) = map_ok LoadedAccount (internals_load_account_code a)"
| "run_internals_call (Sload a k) = map_ok LoadedValue (internals_sload a k)"
| "run_internals_call (Sstore a k v) = map_ok StoredValue (internals_sstore a k v)"
| "run_internals_call (TouchAccount a) = map_ok (\<lambda>_. Nothing) (modify (internals_touch_account a))"
| "run_internals_call (SetCode a c) = map_ok (\<lambda>_. Nothing) (modify (internals_set_code a c))"
| "run_internals_call (Log l) = map_ok (\<lambda>_. Nothing) (modify (internals_log l))"

fun journal_call ::
    "('j, 'e, 'acc, 'sv, 'ss) journal_ops \<Rightarrow> internals_call \<Rightarrow> ('j, 'e, ('acc, 'sv, 'ss) call_value) step" where
  "journal_call J (LoadAccount a) = map_ok LoadedAccount (jo_load_account J a)"
| "journal_call J (LoadAccountCode a) = map_ok LoadedAccount (jo_load_account_code J a)"
| "journal_call J (Sload a k) = map_ok LoadedValue (jo_sload J a k)"
| "journal_call J (Sstore a k v) = map_ok StoredValue (jo_sstore J a k v)"
| "journal_call J (TouchAccount a) = map_ok (\<lambda>_. Nothing) (modify (jo_touch_account J a))"
| "journal_call J (SetCode a c) = map_ok (\<lambda>_. Nothing) (modify (jo_set_code J a c))"
| "journal_call J (Log l) = map_ok (\<lambda>_. Nothing) (modify (jo_log J l))"

lemma internals_call_journal:
  "run_internals_call c (evm_internals_new J j b) =
     (case journal_call J c j of
        (Inl e, j') \<Rightarrow> (Inl (internals_error_database e), evm_internals_new J j' b)
      | (Inr v, j') \<Rightarrow> (Inr v, evm_internals_new J j' b))"
  by (cases c)
    (simp_all add: internals_load_account_def internals_load_account_code_def internals_sload_def
      internals_sstore_def internals_touch_account_def internals_set_code_def internals_log_def
      via_internals_def evm_internals_new_def evm_internals_impl_def step_defs
      split: prod.splits sum.splits)

text \<open>Reads of the database behind \<open>db_mut()\<close>: likewise, with the erased error itself.\<close>

lemma internals_db_reads:
  "internals_db_basic a (evm_internals_new J j b) =
     map_prod (map_sum ErasedError id) (\<lambda>j'. evm_internals_new J j' b) (jo_basic J a j)"
  "internals_db_code_by_hash h (evm_internals_new J j b) =
     map_prod (map_sum ErasedError id) (\<lambda>j'. evm_internals_new J j' b) (jo_code_by_hash J h j)"
  "internals_db_storage a i (evm_internals_new J j b) =
     map_prod (map_sum ErasedError id) (\<lambda>j'. evm_internals_new J j' b) (jo_storage J a i j)"
  "internals_db_block_hash n (evm_internals_new J j b) =
     map_prod (map_sum ErasedError id) (\<lambda>j'. evm_internals_new J j' b) (jo_block_hash J n j)"
  by (simp_all add: internals_db_basic_def internals_db_code_by_hash_def internals_db_storage_def
      internals_db_block_hash_def via_internals_def evm_internals_new_def evm_internals_impl_def
      erased_error_new_def step_defs split: prod.splits sum.splits)

text \<open>C32: A precompile that makes any sequence of calls through its internals changes the journal exactly
  as the same calls on the journal would, stops at the same call, and gets the same values; an error
  of the database reaches it wrapped, and the wrapping loses nothing. Block number and timestamp stay
  those of the block.\<close>

theorem internals_refine_journal:
  "try_each run_internals_call cs (evm_internals_new J j b) =
     (case try_each (journal_call J) cs j of
        (Inl e, j') \<Rightarrow> (Inl (internals_error_database e), evm_internals_new J j' b)
      | (Inr vs, j') \<Rightarrow> (Inr vs, evm_internals_new J j' b))
   \<and> (internals_error_database e = internals_error_database e' \<longleftrightarrow> e = e')
   \<and> internals_block_number (snd (try_each run_internals_call cs (evm_internals_new J j b))) = be_number b
   \<and> internals_block_timestamp (snd (try_each run_internals_call cs (evm_internals_new J j b))) = be_timestamp b"
proof -
  have *: "try_each run_internals_call cs (evm_internals_new J j b) =
     (case try_each (journal_call J) cs j of
        (Inl e, j') \<Rightarrow> (Inl (internals_error_database e), evm_internals_new J j' b)
      | (Inr vs, j') \<Rightarrow> (Inr vs, evm_internals_new J j' b))"
    by (induction cs arbitrary: j) (auto simp: internals_call_journal split: prod.splits sum.splits)
  then show ?thesis
    by (auto simp: internals_error_database_def erased_error_new_def internals_block_number_def
        internals_block_timestamp_def evm_internals_new_def split: prod.splits sum.splits)
qed

end
