(* ===== verification/Spec2Isabelle.thy ===== *)
theory Spec2Isabelle
  imports EthTransactions OpReplay TxConv Overrides CallUtil Tracing Internals
begin

text \<open>
  A verification library for seismic-evm, the crates \<open>alloy-evm\<close>, \<open>alloy-op-evm\<close> and
  \<open>alloy-seismic-evm\<close> (directories \<open>crates/evm\<close>, \<open>crates/op-evm\<close>, \<open>crates/seismic-evm\<close>).

  \<^bold>\<open>The program.\<close> An \<open>Evm\<close> is a wrapper around an EVM of revm that runs transactions and system calls
  on a database. There are three, for Ethereum, OP and Seismic. A \<open>BlockExecutor\<close> runs a block on an
  \<open>Evm\<close>: changes before the transactions (system calls of the active forks, the state-clear flag, a
  contract deployment on OP), the transactions one after the other (gas check, execution, receipt,
  commit), and changes after them (deposit, withdrawal and consolidation requests, rewards and
  withdrawals, the DAO fork). The Seismic executor wraps the Ethereum one: it decrypts the input of
  a transaction with a key of the enclave and passes the plaintext on. A \<open>SystemCaller\<close> makes the
  system calls and reports every change of the state to an optional hook. Around this core there are
  the map of precompiled contracts, the conversion of consensus transactions into the environment
  the EVM reads, receipt builders, overrides and a gas allowance for RPC calls, and a tracer.

  \<^bold>\<open>Which theory models what.\<close> The definitions have the names of the source, with a prefix or suffix
  where a name occurs more than once.

  \<^item> \<open>Prelude\<close>: words for the machine integers, \<open>Result\<close> with the question-mark operator over an
    explicit state (\<open>step\<close>, \<open>try_bind\<close>, \<open>try_each\<close>, \<open>zoom\<close>), frame rules (\<open>keeps\<close>), hash maps.
  \<^item> \<open>EvmTypes\<close>: \<open>env.rs\<close> and the data that the components exchange. \<open>ErrorModel\<close>: \<open>error.rs\<close>,
    \<open>block/error.rs\<close>.
  \<^item> \<open>Evm\<close>: the trait of \<open>evm.rs\<close> as a record of its methods with the provided methods over it, the
    locale \<open>evm_access\<close> of what an implementation promises, and \<open>either.rs\<close>.
  \<^item> \<open>Precompiles\<close>: \<open>precompiles.rs\<close>. \<open>Internals\<close>: \<open>traits.rs\<close>, what a precompile sees of the EVM.
  \<^item> \<open>EthEvm\<close>: \<open>eth/mod.rs\<close>. \<open>OpEvm\<close>: \<open>op-evm/src/lib.rs\<close>. \<open>SeismicEvm\<close>: \<open>seismic-evm/src/lib.rs\<close>.
    Each interprets \<open>evm_access\<close>; \<open>Either\<close> of two of them does so by the locale \<open>evm_pair\<close>.
  \<^item> \<open>Calc\<close>: \<open>block/calc.rs\<close> and the fork predicates. \<open>StateChanges\<close>: \<open>block/state_changes.rs\<close>.
    \<open>SystemCalls\<close>: \<open>block/system_calls\<close>, \<open>block/state_hook.rs\<close>. \<open>Deposits\<close>: \<open>eth/eip6110.rs\<close>,
    \<open>eth/spec.rs\<close>. \<open>DaoFork\<close>: \<open>eth/dao_fork.rs\<close>. \<open>Receipts\<close>: the three receipt builders.
  \<^item> \<open>BlockExecutor\<close>: the trait of \<open>block/mod.rs\<close>, and the locale \<open>block_executor\<close> with the contract of an
    executor, its receipts and its gas counter, and what follows for a whole block. \<open>EthExecutor\<close>
    (\<open>eth/block.rs\<close>), \<open>OpExecutor\<close> (\<open>op-evm/src/block\<close>) and \<open>SeismicExecutor\<close>
    (\<open>seismic-evm/src/block/mod.rs\<close>) hold the state and every method of an executor, its factory, and
    the interpretation of the locale on it. \<open>EthTransactions\<close> and \<open>OpTransactions\<close>: what the loop
    over the transactions computes, specified without an executor (\<open>transact_all\<close>,
    \<open>op_transact_all\<close>), that the executors refine it, and what a whole block therefore charges.
    \<open>BlockBuilding\<close>: the runs of a caller that offers transactions in any order. \<open>SeismicChain\<close>: \<open>seismic-evm/src/hardfork.rs\<close>. \<open>BlockReplay\<close>
    and \<open>OpReplay\<close>: the runs of such a caller compared with the execution of the block that it made.
  \<^item> \<open>TxConv\<close>: \<open>tx.rs\<close>. \<open>Overrides\<close>: \<open>overrides.rs\<close>. \<open>CallUtil\<close>: \<open>call.rs\<close>. \<open>Tracing\<close>: \<open>tracing.rs\<close>.

  \<^bold>\<open>How code becomes definitions.\<close> A struct is a record, an enum a datatype. A method with \<open>&mut self\<close>
  is a function from the state to its result and the state it leaves; an error leaves the state as
  the code has it at that point, so partial effects of a failed call can be seen. A panic is the error
  \<open>Panic\<close>, or \<open>None\<close> in a pure function. A trait is a record of its required methods; provided
  methods are definitions over the record, and where an implementation overrides one there is a lemma
  that it does the same. Integers are words of their width: the workspace sets no overflow checks,
  so release arithmetic wraps, and lemmas say where it does not. A closure takes and returns the
  state it captures. Iteration over a hash map takes the order as a parameter that visits each entry
  once (\<open>hash_iter\<close>).

  Code of other crates is a parameter, in a record for each group of components: the EVM of revm
  (\<open>revm_ops\<close>), its database (\<open>state_ops\<close>), the constants of \<open>alloy_eips\<close> (\<open>sys_lib\<close>), accessors
  and encodings of transactions (\<open>tx_lib\<close>), decryption (\<open>seismic_lib\<close>), fork conditions
  (\<open>hardforks_lib\<close>), the journal (\<open>journal_ops\<close>). What a property needs of them it names:
  \<open>revm_keeps_block\<close> (the EVM does not write the block environment), \<open>gas_respecting\<close> (a transaction
  uses at most its gas limit), \<open>evm_replays\<close> (it keeps no trace of what is not committed) and, for the EVM of OP, which caches the
  L1 block info, the weaker \<open>offers_replay\<close> (from states with a harmless cache, the transactions
  that a builder offers keep it harmless), \<open>hardforks_laws\<close>, \<open>accessor_laws\<close>, \<open>account_laws\<close> and so
  on; each has a witness with a concrete instance.

  Recursion is structural on lists, and the only other loop, collecting the outputs of the tracing
  iterator, ends because each call of \<open>next\<close> uses up a transaction. There is no fuel.

  \<^bold>\<open>What is shown.\<close>

  \<^item> System calls: the Seismic one restores what it changes on every outcome (\<open>SeismicEvm\<close>); the calls
    before and after a block are the ones that the active forks require, in order, committed and
    reported (\<open>SystemCalls\<close>).
  \<^item> Blocks: the transaction loop refines running and committing the transactions one after the other,
    and hook, receipts and gas are functions of that run. So the receipts of a block are built from
    the transactions, their outcomes and the cumulative gas, and its gas is the sum of what the EVM
    reported, without wrapping and within the limit, for the Ethereum and Seismic executors
    (\<open>EthTransactions\<close>, \<open>SeismicExecutor\<close>) and for OP from Regolith on (\<open>OpTransactions\<close>); before it
    the counter can pass the limit and the check wraps (\<open>OpExecutor\<close>).
  \<^item> Seismic: a block is the Ethereum block of its plaintexts, stops at a transaction that does not
    decrypt, and executes when its transactions fit and the EVM accepts each where its predecessors left
    it; a builder that mixes rejected,
    discarded and committed transactions keeps receipts, gas and limit right, and its block gives
    whoever executes it the same receipts, requests and gas (\<open>SeismicExecutor\<close>, \<open>SeismicChain\<close>,
    \<open>BlockBuilding\<close>, \<open>BlockReplay\<close>). There the EVM is known up to a relation \<open>sim\<close> that identifies
    states no later transaction can tell apart. The transactions of a builder on OP replay likewise,
    when it starts after the deposit with the L1 attributes and no transaction it offers changes them
    (\<open>OpReplay\<close>).
  \<^item> Balances: who receives what at the end of a block, and what the hook is told (\<open>StateChanges\<close>).
  \<^item> Precompiles: making the map dynamic changes the ids of builtin precompiles and nothing else a caller
    sees, no change of the map panics, when a call does, and what it returns otherwise. Receipts:
    which envelope the Seismic builder chooses, and that it panics on blob transactions.
  \<^item> Conversions: an Ethereum environment determines its transaction and fits its type byte; what the
    Seismic conversion drops (\<open>TxConv\<close>). Overrides: their effect, their errors, and what a failure leaves behind. The gas
    allowance is the largest that can be paid for. Tracing refines its specification and ends.

  \<^bold>\<open>Not modelled.\<close> What other crates do: the interpreter, the database, signature recovery, decryption,
  ABI decoding, hashing. Formatting for logs and error texts (the message of an error is whatever
  \<open>to_string\<close> gives). Associated types, marker traits, re-exports and build files, which leave
  nothing to compute. Getters that return a field are the selectors of the records. The tests.
\<close>

end
